(* ===== verification/Powerd_Prelude.thy ===== *)
theory Powerd_Prelude
  imports Complex_Main "HOL-Library.Word"
begin

text \<open>
  Shared vocabulary of the powerd development: the enumerations of
  \<^verbatim>\<open>src/power_manager/common/power_constants.h\<close>, the representation of time,
  one-shot timers and preferences, and the
  generic facts on lists and event machines that the component theories use.

  Time. \<^verbatim>\<open>base::TimeDelta\<close>, \<^verbatim>\<open>base::TimeTicks\<close> and \<^verbatim>\<open>base::Time\<close> are counts of
  microseconds and are represented by \<open>int\<close>; a default-constructed (null) value is \<open>0\<close>.
  A one-shot timer (\<^verbatim>\<open>base::OneShotTimer\<close>) is \<open>None\<close> when it is stopped and
  \<open>Some d\<close> when it was started with delay \<open>d\<close>; when it fires it is stopped before its
  task runs.
\<close>

section \<open>Enumerations\<close>

datatype PowerSource = AC | BATTERY

datatype LidState = LID_OPEN | LID_CLOSED | LID_NOT_PRESENT

datatype TabletMode = TABLET_ON | TABLET_OFF | TABLET_UNSUPPORTED

datatype SessionState = SESSION_STOPPED | SESSION_STARTED

datatype UpdaterState = UPDATER_IDLE | UPDATER_UPDATING | UPDATER_UPDATED

datatype DisplayMode = DISPLAY_NORMAL | DISPLAY_PRESENTATION

datatype ButtonState = BUTTON_UP | BUTTON_DOWN | BUTTON_REPEAT

section \<open>Time and timers\<close>

type_synonym TimeDelta = int
type_synonym TimeTicks = int

type_synonym OneShotTimer = "TimeDelta option"

definition FromMilliseconds :: "int \<Rightarrow> TimeDelta" where
  "FromMilliseconds ms = ms * 1000"

definition FromSeconds :: "int \<Rightarrow> TimeDelta" where
  "FromSeconds s = s * 1000000"

definition InMilliseconds :: "TimeDelta \<Rightarrow> int" where
  "InMilliseconds d = sgn d * (\<bar>d\<bar> div 1000)"

definition IsRunning :: "OneShotTimer \<Rightarrow> bool" where
  "IsRunning t = (t \<noteq> None)"

lemma IsRunning_simps [simp]: "IsRunning (Some d)" "\<not> IsRunning None"
  by (simp_all add: IsRunning_def)

section \<open>Preferences as the components read them\<close>

text \<open>
  \<^verbatim>\<open>PrefsInterface\<close> as its readers see it: \<open>None\<close> is a getter that returns false
  and leaves its out parameter alone.
\<close>

record prefs =
  pref_string :: "string \<Rightarrow> string option"
  pref_int64 :: "string \<Rightarrow> int option"
  pref_bool :: "string \<Rightarrow> bool option"

text \<open>\<^verbatim>\<open>base::StartsWith()\<close>, case-sensitive.\<close>

definition starts_with :: "string \<Rightarrow> string \<Rightarrow> bool" where
  "starts_with p s \<longleftrightarrow> take (length p) s = p"

definition get_or :: "'a option \<Rightarrow> 'a \<Rightarrow> 'a" where
  "get_or r old = (case r of None \<Rightarrow> old | Some v \<Rightarrow> v)"

lemma get_or_simps [simp]: "get_or None x = x" "get_or (Some v) x = v"
  by (simp_all add: get_or_def)

section \<open>Ordered maps\<close>

text \<open>
  \<^verbatim>\<open>std::map\<close> is an association list sorted by key: \<^verbatim>\<open>insert\<close> leaves an existing
  entry alone, \<^verbatim>\<open>m[k]\<close> adds a missing one, \<^verbatim>\<open>m[k] = v\<close> overwrites.
\<close>

definition map_count :: "'k \<Rightarrow> ('k \<times> 'v) list \<Rightarrow> bool" where
  "map_count k m \<longleftrightarrow> k \<in> set (map fst m)"

definition map_insert :: "'k::linorder \<Rightarrow> 'v \<Rightarrow> ('k \<times> 'v) list \<Rightarrow> ('k \<times> 'v) list" where
  "map_insert k v m = (if map_count k m then m else insort_key fst (k, v) m)"

definition map_erase :: "'k \<Rightarrow> ('k \<times> 'v) list \<Rightarrow> ('k \<times> 'v) list" where
  "map_erase k m = filter (\<lambda>e. fst e \<noteq> k) m"

definition map_touch :: "'v \<Rightarrow> 'k::linorder \<Rightarrow> ('k \<times> 'v) list \<Rightarrow> ('k \<times> 'v) list" where
  "map_touch dflt k m = map_insert k dflt m"

definition map_assign :: "'k::linorder \<Rightarrow> 'v \<Rightarrow> ('k \<times> 'v) list \<Rightarrow> ('k \<times> 'v) list" where
  "map_assign k v m = map_insert k v (map_erase k m)"

lemma map_count_iff [simp]: "map_count k m \<longleftrightarrow> k \<in> fst ` set m"
  by (simp add: map_count_def)

lemma map_of_filter_key: "map_of (filter (\<lambda>e. P (fst e)) m) k = (if P k then map_of m k else None)"
  by (induction m) auto

lemma map_erase_facts:
  "map_of (map_erase k m) = (map_of m)(k := None)"
  "fst ` set (map_erase k m) = fst ` set m - {k}"
  "sorted (map fst m) \<Longrightarrow> sorted (map fst (map_erase k m))"
  "distinct (map fst m) \<Longrightarrow> distinct (map fst (map_erase k m))"
  by (auto simp: map_erase_def map_of_filter_key [where P = "\<lambda>x. x \<noteq> k"] sorted_filter distinct_map_filter fun_eq_iff)

lemma map_of_insort_key:
  "k \<notin> fst ` set m \<Longrightarrow> map_of (insort_key fst (k, v) m) = (map_of m)(k \<mapsto> v)"
  by (induction m) (auto simp: fun_eq_iff)

lemma distinct_insort_key_fst:
  "k \<notin> fst ` set m \<Longrightarrow> distinct (map fst m) \<Longrightarrow> distinct (map fst (insort_key fst (k, v) m))"
  by (induction m) (auto simp: set_insort_key)

lemma filter_keys [simp]: "fst ` set (filter (\<lambda>e. fst e \<notin> L) m) = fst ` set m - L"
  by auto

lemma map_insert_facts:
  "k \<notin> fst ` set m \<Longrightarrow> map_of (map_insert k v m) = (map_of m)(k \<mapsto> v)"
  "fst ` set (map_insert k v m) = insert k (fst ` set m)"
  "sorted (map fst m) \<Longrightarrow> sorted (map fst (map_insert k v m))"
  "distinct (map fst m) \<Longrightarrow> distinct (map fst (map_insert k v m))"
  by (auto simp: map_insert_def map_of_insort_key set_insort_key sorted_insort_key
    distinct_insort_key_fst)

lemma map_assign_facts:
  "map_of (map_assign k v m) = (map_of m)(k \<mapsto> v)"
  "fst ` set (map_assign k v m) = insert k (fst ` set m)"
  "sorted (map fst m) \<Longrightarrow> sorted (map fst (map_assign k v m))"
  "distinct (map fst m) \<Longrightarrow> distinct (map fst (map_assign k v m))"
  by (auto simp: map_assign_def map_insert_facts map_erase_facts)

section \<open>Event machines\<close>

text \<open>
  A component is a state, an initial state and a handler per event. A handler that runs
  into a failed \<^verbatim>\<open>CHECK\<close> ends the process: it returns \<open>None\<close>.
\<close>

fun run_events :: "('s \<Rightarrow> 'e \<Rightarrow> 's option) \<Rightarrow> 's \<Rightarrow> 'e list \<Rightarrow> 's option" where
  "run_events step s [] = Some s"
| "run_events step s (e # es) =
     (case step s e of None \<Rightarrow> None | Some t \<Rightarrow> run_events step t es)"

lemma run_events_append:
  "run_events step s (xs @ ys) =
     (case run_events step s xs of None \<Rightarrow> None | Some t \<Rightarrow> run_events step t ys)"
  by (induction xs arbitrary: s) (auto split: option.splits)

text \<open>
  The contract every component meets with its invariant: a handler that returns keeps the
  invariant. The client's lemma is the lifting to whole runs of the event loop.
\<close>

locale event_machine =
  fixes step :: "'s \<Rightarrow> 'e \<Rightarrow> 's option"
    and inv :: "'s \<Rightarrow> bool"
  assumes step_inv: "inv s \<Longrightarrow> step s e = Some t \<Longrightarrow> inv t"
begin

lemma run_inv: "inv s \<Longrightarrow> run_events step s es = Some t \<Longrightarrow> inv t"
proof (induction es arbitrary: s)
  case Nil
  then show ?case by simp
next
  case (Cons e es)
  from Cons.prems(2) obtain u where u: "step s e = Some u" "run_events step u es = Some t"
    by (auto split: option.splits)
  from step_inv [OF Cons.prems(1) u(1)] u(2) show ?case by (rule Cons.IH)
qed

lemma run_split_inv:
  "inv s \<Longrightarrow> run_events step s (xs @ ys) = Some t \<Longrightarrow>
     \<exists>u. run_events step s xs = Some u \<and> inv u \<and> run_events step u ys = Some t"
  by (auto simp: run_events_append split: option.splits dest: run_inv)

end

text \<open>A machine whose handlers always return, from any state that satisfies the invariant.\<close>

locale total_event_machine = event_machine +
  assumes step_total: "inv s \<Longrightarrow> \<exists>t. step s e = Some t"
begin

lemma run_total: "inv s \<Longrightarrow> \<exists>t. run_events step s es = Some t \<and> inv t"
proof (induction es arbitrary: s)
  case Nil
  then show ?case by simp
next
  case (Cons e es)
  from step_total [OF Cons.prems] obtain u where u: "step s e = Some u" by blast
  with Cons.IH [OF step_inv [OF Cons.prems u]] show ?case by simp
qed

end

text \<open>A machine whose handlers return for the events its environment can send.\<close>

locale guarded_machine =
  fixes step :: "'s \<Rightarrow> 'e \<Rightarrow> 's option"
    and inv :: "'s \<Rightarrow> bool"
    and legal :: "'e \<Rightarrow> bool"
  assumes legal_step: "inv s \<Longrightarrow> legal e \<Longrightarrow> \<exists>t. step s e = Some t \<and> inv t"
begin

lemma legal_run: "inv s \<Longrightarrow> list_all legal es \<Longrightarrow> \<exists>t. run_events step s es = Some t \<and> inv t"
proof (induction es arbitrary: s)
  case Nil
  then show ?case by simp
next
  case (Cons e es)
  from legal_step [OF Cons.prems(1), of e] Cons.prems(2) obtain u where
    u: "step s e = Some u" "inv u" by auto
  with Cons.IH [OF u(2)] Cons.prems(2) show ?case by simp
qed

end

sublocale total_event_machine \<subseteq> guarded: guarded_machine step inv "\<lambda>_. True"
  using step_total step_inv by unfold_locales blast

text \<open>
  A machine that implements an abstract one: \<open>abs\<close> is what a client sees of the state and
  \<open>spec\<close> the update of it that each event is specified as.
\<close>

locale refining_machine = guarded_machine +
  fixes abs :: "'a \<Rightarrow> 'c"
    and spec :: "'b \<Rightarrow> 'c \<Rightarrow> 'c"
  assumes step_abs: "inv s \<Longrightarrow> legal e \<Longrightarrow> step s e = Some t \<Longrightarrow> abs t = spec e (abs s)"
begin

lemma run_abs:
  "inv s \<Longrightarrow> list_all legal es \<Longrightarrow>
     \<exists>t. run_events step s es = Some t \<and> inv t \<and> abs t = fold spec es (abs s)"
proof (induction es arbitrary: s)
  case Nil
  then show ?case by simp
next
  case (Cons e es)
  from legal_step [OF Cons.prems(1), of e] Cons.prems(2) obtain u where
    u: "step s e = Some u" "inv u" by auto
  with Cons.IH [OF u(2)] step_abs [OF Cons.prems(1) _ u(1)] Cons.prems(2) show ?case by simp
qed

end

section \<open>Alternating call pairs\<close>

text \<open>
  Several pairs of calls (dim and undim, screen off and on) must alternate. \<open>switch_state\<close>
  replays a call trace: starting from \<open>b\<close>, an \<open>on\<close> call is legal only in state \<open>False\<close>
  and an \<open>off\<close> call only in state \<open>True\<close>; other calls are ignored. \<open>None\<close> means the
  trace broke the alternation.
\<close>

fun switch_state :: "('c \<Rightarrow> bool) \<Rightarrow> ('c \<Rightarrow> bool) \<Rightarrow> bool \<Rightarrow> 'c list \<Rightarrow> bool option" where
  "switch_state on off b [] = Some b"
| "switch_state on off b (c # cs) =
     (if on c then (if b then None else switch_state on off True cs)
      else if off c then (if b then switch_state on off False cs else None)
      else switch_state on off b cs)"

lemma switch_state_append:
  "switch_state on off b (xs @ ys) =
     (case switch_state on off b xs of None \<Rightarrow> None | Some b' \<Rightarrow> switch_state on off b' ys)"
  by (induction xs arbitrary: b) (auto split: option.splits)

lemma switch_state_append_Some [simp]:
  "switch_state on off b xs = Some b' \<Longrightarrow>
     switch_state on off b (xs @ ys) = switch_state on off b' ys"
  by (simp add: switch_state_append)

end
