(* ===== verification/State_Policy.thy ===== *)
theory State_Policy
  imports Powerd_Prelude
begin

text \<open>
  The inactivity delays of \<^verbatim>\<open>StateController\<close>
  (\<^verbatim>\<open>src/power_manager/powerd/policy/state_controller.cc\<close>): the \<^verbatim>\<open>Delays\<close>
  struct, the delays and actions of a \<^verbatim>\<open>PowerManagementPolicy\<close> message, and the
  static functions that scale, sanitise and merge delays and pick the next timeout.

  The protocol buffer is generated code: a field is an \<open>option\<close>, \<open>None\<close> where
  \<^verbatim>\<open>has_field()\<close> is false. The factors are doubles that the code only compares with
  1.0 and hands to \<^verbatim>\<open>base::TimeDelta\<close>'s multiplication; they are \<open>rat\<close>, and the
  multiplication, which is libchrome's, is the parameter \<open>mul\<close>.
\<close>

section \<open>Data\<close>

record delays =
  d_idle :: TimeDelta
  d_idle_warning :: TimeDelta
  d_screen_off :: TimeDelta
  d_screen_dim :: TimeDelta
  d_screen_lock :: TimeDelta

definition empty_delays :: delays where
  "empty_delays = \<lparr>d_idle = 0, d_idle_warning = 0, d_screen_off = 0,
     d_screen_dim = 0, d_screen_lock = 0\<rparr>"

datatype Action = SUSPEND | STOP_SESSION | SHUT_DOWN | DO_NOTHING

datatype ProtoAction = PROTO_SUSPEND | PROTO_STOP_SESSION | PROTO_SHUT_DOWN
  | PROTO_DO_NOTHING | PROTO_OTHER int

record policy_delays =
  pd_screen_dim_ms :: "int option"
  pd_screen_off_ms :: "int option"
  pd_screen_lock_ms :: "int option"
  pd_idle_warning_ms :: "int option"
  pd_idle_ms :: "int option"

record policy =
  pol_ac_delays :: "policy_delays option"
  pol_battery_delays :: "policy_delays option"
  pol_ac_idle_action :: "ProtoAction option"
  pol_battery_idle_action :: "ProtoAction option"
  pol_lid_closed_action :: "ProtoAction option"
  pol_use_audio_activity :: "bool option"
  pol_use_video_activity :: "bool option"
  pol_presentation_screen_dim_delay_factor :: "rat option"
  pol_user_activity_screen_dim_delay_factor :: "rat option"
  pol_wait_for_initial_user_activity :: "bool option"

definition empty_policy :: policy where
  "empty_policy = \<lparr>pol_ac_delays = None, pol_battery_delays = None,
     pol_ac_idle_action = None, pol_battery_idle_action = None,
     pol_lid_closed_action = None, pol_use_audio_activity = None,
     pol_use_video_activity = None, pol_presentation_screen_dim_delay_factor = None,
     pol_user_activity_screen_dim_delay_factor = None,
     pol_wait_for_initial_user_activity = None\<rparr>"

section \<open>Operations\<close>

definition GetMinPositiveTimeDelta :: "TimeDelta \<Rightarrow> TimeDelta \<Rightarrow> TimeDelta" where
  "GetMinPositiveTimeDelta a b =
     (if a > 0 then (if b > 0 then (if a < b then a else b) else a) else b)"

definition UpdateActionTimeout ::
  "TimeTicks \<Rightarrow> TimeTicks \<Rightarrow> TimeDelta \<Rightarrow> TimeDelta \<Rightarrow> TimeDelta" where
  "UpdateActionTimeout now last_activity_time action_delay timeout =
     (if action_delay \<le> 0 then timeout
      else let action_time = last_activity_time + action_delay in
        if action_time > now then GetMinPositiveTimeDelta timeout (action_time - now)
        else timeout)"

fun ProtoActionToAction :: "ProtoAction \<Rightarrow> Action" where
  "ProtoActionToAction PROTO_SUSPEND = SUSPEND"
| "ProtoActionToAction PROTO_STOP_SESSION = STOP_SESSION"
| "ProtoActionToAction PROTO_SHUT_DOWN = SHUT_DOWN"
| "ProtoActionToAction PROTO_DO_NOTHING = DO_NOTHING"
| "ProtoActionToAction (PROTO_OTHER _) = DO_NOTHING"

definition add_if_positive :: "TimeDelta \<Rightarrow> TimeDelta \<Rightarrow> TimeDelta" where
  "add_if_positive diff d = (if d > 0 then d + diff else d)"

definition ScaleDelays :: "(TimeDelta \<Rightarrow> rat \<Rightarrow> TimeDelta) \<Rightarrow> rat \<Rightarrow> delays \<Rightarrow> delays" where
  "ScaleDelays mul screen_dim_scale_factor d =
     (if screen_dim_scale_factor \<le> 1 \<or> d_screen_dim d \<le> 0 then d
      else let orig_screen_dim = d_screen_dim d;
               screen_dim = mul (d_screen_dim d) screen_dim_scale_factor;
               diff = screen_dim - orig_screen_dim
           in d\<lparr>d_screen_dim := screen_dim,
                d_screen_off := add_if_positive diff (d_screen_off d),
                d_screen_lock := add_if_positive diff (d_screen_lock d),
                d_idle_warning := add_if_positive diff (d_idle_warning d),
                d_idle := add_if_positive diff (d_idle d)\<rparr>)"

definition SanitizeDelays :: "delays \<Rightarrow> delays" where
  "SanitizeDelays d =
     (let screen_off = (if d_screen_off d > 0 then min (d_screen_off d) (d_idle d) else 0);
          screen_dim = (if d_screen_dim d > 0
            then min (d_screen_dim d) (GetMinPositiveTimeDelta (d_idle d) screen_off) else 0);
          idle_warning = (if d_idle_warning d > 0
            then min (d_idle_warning d) (d_idle d) else 0);
          screen_lock = (if d_screen_lock d \<ge> d_idle d \<or> d_screen_lock d < 0
            then 0 else d_screen_lock d)
      in d\<lparr>d_screen_off := screen_off, d_screen_dim := screen_dim,
           d_idle_warning := idle_warning, d_screen_lock := screen_lock\<rparr>)"

definition merge_ms :: "int option \<Rightarrow> TimeDelta \<Rightarrow> TimeDelta" where
  "merge_ms ms old =
     (case ms of Some v \<Rightarrow> if v \<ge> 0 then FromMilliseconds v else old | None \<Rightarrow> old)"

definition MergeDelaysFromPolicy :: "policy_delays \<Rightarrow> delays \<Rightarrow> delays" where
  "MergeDelaysFromPolicy pd d =
     d\<lparr>d_idle := merge_ms (pd_idle_ms pd) (d_idle d),
       d_idle_warning := merge_ms (pd_idle_warning_ms pd) (d_idle_warning d),
       d_screen_dim := merge_ms (pd_screen_dim_ms pd) (d_screen_dim d),
       d_screen_off := merge_ms (pd_screen_off_ms pd) (d_screen_off d),
       d_screen_lock := merge_ms (pd_screen_lock_ms pd) (d_screen_lock d)\<rparr>"

section \<open>Sanitised delays\<close>

text \<open>
  What the rest of the controller relies on: no delay is negative, the screen is dimmed no
  later than it is turned off, nothing is scheduled after the idle action, and the lock
  delay, when set, precedes it.
\<close>

definition delays_sane :: "delays \<Rightarrow> bool" where
  "delays_sane d \<longleftrightarrow>
     0 \<le> d_screen_off d \<and> 0 \<le> d_screen_dim d \<and> 0 \<le> d_idle_warning d \<and> 0 \<le> d_screen_lock d \<and>
     (0 < d_screen_off d \<longrightarrow> d_screen_off d \<le> d_idle d) \<and>
     (0 < d_screen_dim d \<longrightarrow> d_screen_dim d \<le> d_idle d) \<and>
     (0 < d_screen_dim d \<longrightarrow> 0 < d_screen_off d \<longrightarrow> d_screen_dim d \<le> d_screen_off d) \<and>
     (0 < d_idle_warning d \<longrightarrow> d_idle_warning d \<le> d_idle d) \<and>
     (0 < d_screen_lock d \<longrightarrow> d_screen_lock d < d_idle d)"

lemma d_idle_SanitizeDelays [simp]: "d_idle (SanitizeDelays d) = d_idle d"
  by (simp add: SanitizeDelays_def Let_def)

lemma SanitizeDelays_sane: "0 \<le> d_idle d \<Longrightarrow> delays_sane (SanitizeDelays d)"
  by (auto simp: delays_sane_def SanitizeDelays_def GetMinPositiveTimeDelta_def Let_def)

lemma SanitizeDelays_fixes_sane: "delays_sane d \<Longrightarrow> SanitizeDelays d = d"
  by (cases d) (auto simp: delays_sane_def SanitizeDelays_def GetMinPositiveTimeDelta_def Let_def
    intro!: min_absorb1)

lemma SanitizeDelays_fixpoint_iff:
  "0 \<le> d_idle d \<Longrightarrow> SanitizeDelays d = d \<longleftrightarrow> delays_sane d"
  using SanitizeDelays_sane SanitizeDelays_fixes_sane by metis

lemma SanitizeDelays_each:
  assumes "0 \<le> d_idle d"
  shows "d_screen_off (SanitizeDelays d) = max 0 (min (d_screen_off d) (d_idle d))"
    and "d_idle_warning (SanitizeDelays d) = max 0 (min (d_idle_warning d) (d_idle d))"
    and "let off = d_screen_off (SanitizeDelays d) in d_screen_dim (SanitizeDelays d) =
      max 0 (min (d_screen_dim d) (if 0 < off then min off (d_idle d) else d_idle d))"
    and "d_screen_lock (SanitizeDelays d) =
      (if 0 \<le> d_screen_lock d \<and> d_screen_lock d < d_idle d then d_screen_lock d else 0)"
  using assms by (auto simp: SanitizeDelays_def GetMinPositiveTimeDelta_def Let_def)

text \<open>
  C8. Sanitising delays with a non-negative idle delay yields sane delays, keeps the idle
  delay and changes nothing exactly when the delays were sane. Each delay is judged on its
  own, however invalid the others are: a screen-off or warning delay that is set is capped at
  the idle delay, a dim delay that is set at the idle delay and at the resulting screen-off
  delay, so those within their bounds are kept; a lock delay is kept when it precedes the idle
  action and dropped otherwise; negative delays are dropped.
\<close>

theorem SanitizeDelays_correct:
  assumes "0 \<le> d_idle d"
  shows "delays_sane (SanitizeDelays d) \<and>
    d_idle (SanitizeDelays d) = d_idle d \<and>
    (SanitizeDelays d = d \<longleftrightarrow> delays_sane d) \<and>
    d_screen_off (SanitizeDelays d) = max 0 (min (d_screen_off d) (d_idle d)) \<and>
    d_idle_warning (SanitizeDelays d) = max 0 (min (d_idle_warning d) (d_idle d)) \<and>
    (let off = d_screen_off (SanitizeDelays d) in d_screen_dim (SanitizeDelays d) =
       max 0 (min (d_screen_dim d) (if 0 < off then min off (d_idle d) else d_idle d))) \<and>
    d_screen_lock (SanitizeDelays d) =
      (if 0 \<le> d_screen_lock d \<and> d_screen_lock d < d_idle d then d_screen_lock d else 0)"
  using assms SanitizeDelays_each [OF assms]
  by (simp add: SanitizeDelays_sane SanitizeDelays_fixpoint_iff)

definition example_delays :: delays where
  "example_delays = \<lparr>d_idle = 60, d_idle_warning = 90, d_screen_off = 50,
     d_screen_dim = 70, d_screen_lock = 60\<rparr>"

theorem SanitizeDelays_correct_witness:
  "delays_sane (SanitizeDelays example_delays) \<and>
   d_screen_off (SanitizeDelays example_delays) = 50 \<and>
   SanitizeDelays example_delays = \<lparr>d_idle = 60, d_idle_warning = 60, d_screen_off = 50,
     d_screen_dim = 50, d_screen_lock = 0\<rparr>"
  using SanitizeDelays_correct [of example_delays]
  by (simp add: example_delays_def SanitizeDelays_def GetMinPositiveTimeDelta_def)

section \<open>Scaled delays\<close>

text \<open>
  C9. When the screen-dim delay is set and the factor exceeds one, scaling applies libchrome's
  product to the screen-dim delay and keeps every other set delay at its distance from it;
  unset delays stay unset and sane delays stay sane. The one fact used of the product is
  that a factor above one does not shorten the delay.
\<close>

theorem ScaleDelays_keeps_distances:
  assumes "1 < f" and "0 < d_screen_dim d" and "delays_sane d"
    and mul_grows: "d_screen_dim d \<le> mul (d_screen_dim d) f"
  shows "let d' = ScaleDelays mul f d in
    d_screen_dim d' = mul (d_screen_dim d) f \<and>
    d_idle d' - d_screen_dim d' = d_idle d - d_screen_dim d \<and>
    (d_screen_off d = 0 \<and> d_screen_off d' = 0 \<or>
     d_screen_off d' - d_screen_dim d' = d_screen_off d - d_screen_dim d) \<and>
    (d_screen_lock d = 0 \<and> d_screen_lock d' = 0 \<or>
     d_screen_lock d' - d_screen_dim d' = d_screen_lock d - d_screen_dim d) \<and>
    (d_idle_warning d = 0 \<and> d_idle_warning d' = 0 \<or>
     d_idle_warning d' - d_screen_dim d' = d_idle_warning d - d_screen_dim d) \<and>
    delays_sane d'"
  using assms by (auto simp: ScaleDelays_def Let_def add_if_positive_def delays_sane_def)

theorem ScaleDelays_keeps_distances_witness:
  "let d = \<lparr>d_idle = 600, d_idle_warning = 0, d_screen_off = 360, d_screen_dim = 300,
            d_screen_lock = 370\<rparr>;
       d' = ScaleDelays (\<lambda>x f. floor (of_int x * f)) 2 d
   in delays_sane d' \<and> d' = \<lparr>d_idle = 900, d_idle_warning = 0, d_screen_off = 660,
        d_screen_dim = 600, d_screen_lock = 670\<rparr>"
  using ScaleDelays_keeps_distances
    [of 2 "\<lparr>d_idle = 600, d_idle_warning = 0, d_screen_off = 360, d_screen_dim = 300,
            d_screen_lock = 370\<rparr>" "\<lambda>x f. floor (of_int x * f)"]
  by (simp add: delays_sane_def ScaleDelays_def add_if_positive_def Let_def)

section \<open>The next timeout\<close>

text \<open>
  A timeout of zero stands for "none". \<open>remaining\<close> is the set of waiting times of one
  delay: empty when the delay is unset or already reached.
\<close>

definition remaining :: "TimeTicks \<Rightarrow> TimeTicks \<Rightarrow> TimeDelta \<Rightarrow> TimeDelta set" where
  "remaining now last_activity_time action_delay =
     (if action_delay > 0 \<and> last_activity_time + action_delay > now
      then {last_activity_time + action_delay - now} else {})"

definition timeout_of :: "TimeDelta set \<Rightarrow> TimeDelta \<Rightarrow> bool" where
  "timeout_of R t \<longleftrightarrow> finite R \<and> (\<forall>r\<in>R. 0 < r) \<and> t = (if R = {} then 0 else Min R)"

lemma timeout_of_empty [simp]: "timeout_of {} 0"
  by (simp add: timeout_of_def)

lemma timeout_of_nonneg: "timeout_of R t \<Longrightarrow> 0 \<le> t"
  by (auto simp: timeout_of_def less_imp_le)

lemma timeout_of_insert:
  assumes "timeout_of R t" and "0 < r"
  shows "timeout_of (insert r R) (GetMinPositiveTimeDelta t r)"
proof (cases "R = {}")
  case True
  with assms show ?thesis by (simp add: timeout_of_def GetMinPositiveTimeDelta_def)
next
  case False
  with assms have t: "t = Min R" "0 < t" "finite R" by (auto simp: timeout_of_def)
  with assms(2) have "GetMinPositiveTimeDelta t r = min r t"
    by (simp add: GetMinPositiveTimeDelta_def min_def)
  also have "\<dots> = Min (insert r R)"
    using Min_insert [OF t(3) False, of r] t(1) by simp
  finally show ?thesis using assms t(3) by (simp only: timeout_of_def) auto
qed

lemma UpdateActionTimeout_timeout_of:
  assumes "timeout_of R t"
  shows "timeout_of (R \<union> remaining now last_activity_time delay)
    (UpdateActionTimeout now last_activity_time delay t)"
  using assms timeout_of_insert [OF assms, of "last_activity_time + delay - now"]
  by (simp add: UpdateActionTimeout_def remaining_def Let_def)

lemma timeout_of_cases:
  assumes "timeout_of R t"
  shows "if R = {} then t = 0 else t \<in> R \<and> 0 < t \<and> (\<forall>r\<in>R. t \<le> r)"
  using assms by (auto simp: timeout_of_def)

end
