(* ===== verification/State_Controller.thy ===== *)
theory State_Controller
  imports State_Policy "HOL-Library.Monad_Syntax"
begin

text \<open>
  \<^verbatim>\<open>StateController\<close> (\<^verbatim>\<open>src/power_manager/powerd/policy/state_controller.{h,cc}\<close>):
  dims, turns off and locks the screen and suspends, shuts down or logs out when the user is
  inactive or closes the lid. The record \<open>state_controller\<close> has the class's fields;
  \<open>sc_calls\<close> is the trace of the calls made to \<^verbatim>\<open>delegate_\<close>, oldest first.

  What the code reads from outside is the record \<open>sc_env\<close>: the delegate's answers during
  the handler, the preferences, libchrome's multiplication of a \<^verbatim>\<open>TimeDelta\<close>, and the
  clock. Successive calls of \<^verbatim>\<open>clock_->GetCurrentTime()\<close> may return different times:
  the \<open>n\<close>-th reading is \<open>e_clock env n\<close> and \<open>sc_clock_reads\<close> counts the readings made.
  A failed \<^verbatim>\<open>CHECK\<close> makes a handler return \<open>None\<close>.
\<close>

section \<open>State\<close>

datatype sc_call = CallDimScreen | CallUndimScreen | CallTurnScreenOff | CallTurnScreenOn
  | CallLockScreen | CallSuspend | CallStopSession | CallShutDown
  | CallUpdatePanelForDockedMode bool | CallEmitIdleActionImminent TimeDelta
  | CallEmitIdleActionDeferred | CallReportUserActivityMetrics

record sc_env =
  e_clock :: "nat \<Rightarrow> TimeTicks"
  e_IsUsbInputDeviceConnected :: bool
  e_IsOobeCompleted :: bool
  e_IsHdmiAudioActive :: bool
  e_IsHeadphoneJackPlugged :: bool
  e_QueryLidState :: LidState
  e_prefs :: prefs
  e_mul :: "TimeDelta \<Rightarrow> rat \<Rightarrow> TimeDelta"

record activity_info =
  ai_active :: bool
  ai_last_active_time :: TimeTicks

record state_controller =
  sc_calls :: "sc_call list"
  sc_clock_reads :: nat
  sc_initialized :: bool
  sc_got_initial_display_mode :: bool
  sc_got_initial_policy :: bool
  sc_action_timer :: OneShotTimer
  sc_initial_state_timer :: OneShotTimer
  sc_action_timer_time_for_testing :: TimeTicks
  sc_power_source :: PowerSource
  sc_lid_state :: LidState
  sc_session_state :: SessionState
  sc_updater_state :: UpdaterState
  sc_display_mode :: DisplayMode
  sc_screen_dimmed :: bool
  sc_screen_turned_off :: bool
  sc_requested_screen_lock :: bool
  sc_sent_idle_warning :: bool
  sc_idle_action_performed :: bool
  sc_lid_closed_action_performed :: bool
  sc_turned_panel_off_for_docked_mode :: bool
  sc_resend_idle_warning :: bool
  sc_screen_turned_off_time :: TimeTicks
  sc_saw_user_activity_soon_after_screen_dim_or_off :: bool
  sc_saw_user_activity_during_current_session :: bool
  sc_require_usb_input_device_to_suspend :: bool
  sc_avoid_suspend_when_headphone_jack_plugged :: bool
  sc_disable_idle_suspend :: bool
  sc_allow_docked_mode :: bool
  sc_ignore_external_policy :: bool
  sc_tpm_dictionary_attack_count :: int
  sc_tpm_dictionary_attack_suspend_threshold :: int
  sc_last_user_activity_time :: TimeTicks
  sc_last_video_activity_time :: TimeTicks
  sc_audio_activity :: activity_info
  sc_policy :: policy
  sc_idle_action :: Action
  sc_lid_closed_action :: Action
  sc_delays :: delays
  sc_use_audio_activity :: bool
  sc_use_video_activity :: bool
  sc_wait_for_initial_user_activity :: bool
  sc_pref_ac_delays :: delays
  sc_pref_battery_delays :: delays
  sc_reason_for_ignoring_idle_action :: string

definition StateController :: state_controller where
  "StateController = \<lparr>
     sc_calls = [], sc_clock_reads = 0,
     sc_initialized = False,
     sc_got_initial_display_mode = False,
     sc_got_initial_policy = False,
     sc_action_timer = None,
     sc_initial_state_timer = None,
     sc_action_timer_time_for_testing = 0,
     sc_power_source = AC,
     sc_lid_state = LID_NOT_PRESENT,
     sc_session_state = SESSION_STOPPED,
     sc_updater_state = UPDATER_IDLE,
     sc_display_mode = DISPLAY_NORMAL,
     sc_screen_dimmed = False,
     sc_screen_turned_off = False,
     sc_requested_screen_lock = False,
     sc_sent_idle_warning = False,
     sc_idle_action_performed = False,
     sc_lid_closed_action_performed = False,
     sc_turned_panel_off_for_docked_mode = False,
     sc_resend_idle_warning = False,
     sc_screen_turned_off_time = 0,
     sc_saw_user_activity_soon_after_screen_dim_or_off = False,
     sc_saw_user_activity_during_current_session = False,
     sc_require_usb_input_device_to_suspend = False,
     sc_avoid_suspend_when_headphone_jack_plugged = False,
     sc_disable_idle_suspend = False,
     sc_allow_docked_mode = False,
     sc_ignore_external_policy = False,
     sc_tpm_dictionary_attack_count = 0,
     sc_tpm_dictionary_attack_suspend_threshold = 0,
     sc_last_user_activity_time = 0,
     sc_last_video_activity_time = 0,
     sc_audio_activity = \<lparr>ai_active = False, ai_last_active_time = 0\<rparr>,
     sc_policy = empty_policy,
     sc_idle_action = DO_NOTHING,
     sc_lid_closed_action = DO_NOTHING,
     sc_delays = empty_delays,
     sc_use_audio_activity = True,
     sc_use_video_activity = True,
     sc_wait_for_initial_user_activity = False,
     sc_pref_ac_delays = empty_delays,
     sc_pref_battery_delays = empty_delays,
     sc_reason_for_ignoring_idle_action = []\<rparr>"

section \<open>Small helpers\<close>

definition sc_call :: "sc_call \<Rightarrow> state_controller \<Rightarrow> state_controller" where
  "sc_call c s = s\<lparr>sc_calls := sc_calls s @ [c]\<rparr>"

definition sc_now :: "sc_env \<Rightarrow> state_controller \<Rightarrow> TimeTicks" where
  "sc_now env s = e_clock env (sc_clock_reads s)"

definition sc_tick :: "state_controller \<Rightarrow> state_controller" where
  "sc_tick s = s\<lparr>sc_clock_reads := Suc (sc_clock_reads s)\<rparr>"

definition ai_GetLastActiveTime :: "activity_info \<Rightarrow> TimeTicks \<Rightarrow> TimeTicks" where
  "ai_GetLastActiveTime a now = (if ai_active a then now else ai_last_active_time a)"

definition ai_SetActive :: "bool \<Rightarrow> TimeTicks \<Rightarrow> activity_info \<Rightarrow> activity_info" where
  "ai_SetActive active now a =
     (if active = ai_active a then a
      else a\<lparr>ai_active := active, ai_last_active_time := (if active then 0 else now)\<rparr>)"

definition in_docked_mode :: "state_controller \<Rightarrow> bool" where
  "in_docked_mode s \<longleftrightarrow> sc_allow_docked_mode s \<and>
     sc_display_mode s = DISPLAY_PRESENTATION \<and> sc_lid_state s = LID_CLOSED"

definition waiting_for_initial_state :: "state_controller \<Rightarrow> bool" where
  "waiting_for_initial_state s \<longleftrightarrow> IsRunning (sc_initial_state_timer s)"

definition waiting_for_initial_user_activity :: "state_controller \<Rightarrow> bool" where
  "waiting_for_initial_user_activity s \<longleftrightarrow> sc_wait_for_initial_user_activity s \<and>
     sc_session_state s = SESSION_STARTED \<and>
     \<not> sc_saw_user_activity_during_current_session s"

definition MaybeStopInitialStateTimer :: "state_controller \<Rightarrow> state_controller" where
  "MaybeStopInitialStateTimer s =
     (if sc_got_initial_display_mode s \<and> sc_got_initial_policy s
      then s\<lparr>sc_initial_state_timer := None\<rparr> else s)"

definition IsIdleBlocked :: "state_controller \<Rightarrow> bool" where
  "IsIdleBlocked s \<longleftrightarrow> sc_use_audio_activity s \<and> ai_active (sc_audio_activity s)"

definition IsScreenDimBlocked :: "state_controller \<Rightarrow> bool" where
  "IsScreenDimBlocked s \<longleftrightarrow> False"

definition IsScreenOffBlocked :: "sc_env \<Rightarrow> state_controller \<Rightarrow> bool" where
  "IsScreenOffBlocked env s \<longleftrightarrow> IsScreenDimBlocked s \<or>
     (e_IsHdmiAudioActive env \<and> ai_active (sc_audio_activity s))"

definition IsScreenLockBlocked :: "state_controller \<Rightarrow> bool" where
  "IsScreenLockBlocked s \<longleftrightarrow> IsScreenDimBlocked s"

definition base_activity_time :: "TimeTicks \<Rightarrow> state_controller \<Rightarrow> TimeTicks" where
  "base_activity_time now s =
     (if waiting_for_initial_user_activity s then now else sc_last_user_activity_time s)"

definition GetLastActivityTimeForIdle :: "TimeTicks \<Rightarrow> state_controller \<Rightarrow> TimeTicks" where
  "GetLastActivityTimeForIdle now s =
     (let t0 = base_activity_time now s;
          t1 = (if sc_use_audio_activity s
                then max t0 (ai_GetLastActiveTime (sc_audio_activity s) now) else t0)
      in if sc_use_video_activity s then max t1 (sc_last_video_activity_time s) else t1)"

definition GetLastActivityTimeForScreenDim :: "TimeTicks \<Rightarrow> state_controller \<Rightarrow> TimeTicks" where
  "GetLastActivityTimeForScreenDim now s =
     (let t0 = base_activity_time now s
      in if sc_use_video_activity s then max t0 (sc_last_video_activity_time s) else t0)"

definition GetLastActivityTimeForScreenOff ::
  "sc_env \<Rightarrow> TimeTicks \<Rightarrow> state_controller \<Rightarrow> TimeTicks" where
  "GetLastActivityTimeForScreenOff env now s =
     (let t0 = GetLastActivityTimeForScreenDim now s
      in if e_IsHdmiAudioActive env
         then max t0 (ai_GetLastActiveTime (sc_audio_activity s) now) else t0)"

definition GetLastActivityTimeForScreenLock :: "TimeTicks \<Rightarrow> state_controller \<Rightarrow> TimeTicks" where
  "GetLastActivityTimeForScreenLock now s = GetLastActivityTimeForScreenDim now s"

definition UpdateLastUserActivityTime :: "sc_env \<Rightarrow> state_controller \<Rightarrow> state_controller" where
  "UpdateLastUserActivityTime env s =
     sc_call CallReportUserActivityMetrics
       (sc_tick (s\<lparr>sc_last_user_activity_time := sc_now env s\<rparr>))"

section \<open>Preferences\<close>

definition GetMillisecondPref :: "prefs \<Rightarrow> string \<Rightarrow> TimeDelta option" where
  "GetMillisecondPref p name = map_option FromMilliseconds (pref_int64 p name)"

definition to_int32 :: "int \<Rightarrow> int" where
  "to_int32 v = sint (word_of_int v :: 32 word)"

definition load_flag_prefs :: "prefs \<Rightarrow> state_controller \<Rightarrow> state_controller" where
  "load_flag_prefs p s = s\<lparr>
     sc_require_usb_input_device_to_suspend :=
       get_or (pref_bool p ''require_usb_input_device_to_suspend'')
         (sc_require_usb_input_device_to_suspend s),
     sc_avoid_suspend_when_headphone_jack_plugged :=
       get_or (pref_bool p ''avoid_suspend_when_headphone_jack_plugged'')
         (sc_avoid_suspend_when_headphone_jack_plugged s),
     sc_disable_idle_suspend :=
       get_or (pref_bool p ''disable_idle_suspend'') (sc_disable_idle_suspend s),
     sc_ignore_external_policy :=
       get_or (pref_bool p ''ignore_external_policy'') (sc_ignore_external_policy s),
     sc_allow_docked_mode :=
       get_or (pref_bool p ''allow_docked_mode'') (sc_allow_docked_mode s),
     sc_tpm_dictionary_attack_suspend_threshold :=
       to_int32 (get_or (pref_int64 p ''tpm_counter_suspend_threshold'') 0)\<rparr>"

definition load_delay_prefs :: "prefs \<Rightarrow> state_controller \<Rightarrow> state_controller option" where
  "load_delay_prefs p s = do {
     ac_idle \<leftarrow> GetMillisecondPref p ''plugged_suspend_ms'';
     ac_off \<leftarrow> GetMillisecondPref p ''plugged_off_ms'';
     ac_dim \<leftarrow> GetMillisecondPref p ''plugged_dim_ms'';
     battery_idle \<leftarrow> GetMillisecondPref p ''unplugged_suspend_ms'';
     battery_off \<leftarrow> GetMillisecondPref p ''unplugged_off_ms'';
     battery_dim \<leftarrow> GetMillisecondPref p ''unplugged_dim_ms'';
     Some (s\<lparr>
       sc_pref_ac_delays := SanitizeDelays ((sc_pref_ac_delays s)\<lparr>d_idle := ac_idle,
         d_screen_off := ac_off, d_screen_dim := ac_dim\<rparr>),
       sc_pref_battery_delays := SanitizeDelays ((sc_pref_battery_delays s)\<lparr>
         d_idle := battery_idle, d_screen_off := battery_off, d_screen_dim := battery_dim\<rparr>)\<rparr>)
   }"

definition LoadPrefs :: "sc_env \<Rightarrow> state_controller \<Rightarrow> state_controller option" where
  "LoadPrefs env s = do {
     s \<leftarrow> load_delay_prefs (e_prefs env) (load_flag_prefs (e_prefs env) s);
     Some (if sc_ignore_external_policy s
           then MaybeStopInitialStateTimer (s\<lparr>sc_got_initial_policy := True\<rparr>) else s)
   }"

section \<open>UpdateState\<close>

text \<open>\<^verbatim>\<open>HandleDelay\<close> returns the new value of the flag it updates and the calls it makes.\<close>

definition HandleDelay ::
  "TimeDelta \<Rightarrow> TimeDelta \<Rightarrow> sc_call \<Rightarrow> sc_call option \<Rightarrow> bool \<Rightarrow> bool \<times> sc_call list" where
  "HandleDelay delay inactivity_duration callback undo_callback action_already_performed =
     (if delay > 0 \<and> inactivity_duration \<ge> delay then
        (if \<not> action_already_performed then (True, [callback])
         else (action_already_performed, []))
      else if action_already_performed then
        (False, (case undo_callback of None \<Rightarrow> [] | Some c \<Rightarrow> [c]))
      else (action_already_performed, []))"

definition us_dim :: "TimeDelta \<Rightarrow> state_controller \<Rightarrow> state_controller" where
  "us_dim screen_dim_duration s =
     (let (f, cs) = HandleDelay (d_screen_dim (sc_delays s)) screen_dim_duration
        CallDimScreen (Some CallUndimScreen) (sc_screen_dimmed s)
      in s\<lparr>sc_screen_dimmed := f, sc_calls := sc_calls s @ cs\<rparr>)"

definition us_off :: "TimeTicks \<Rightarrow> TimeDelta \<Rightarrow> state_controller \<Rightarrow> state_controller" where
  "us_off now screen_off_duration s =
     (let screen_was_turned_off = sc_screen_turned_off s;
          (f, cs) = HandleDelay (d_screen_off (sc_delays s)) screen_off_duration
            CallTurnScreenOff (Some CallTurnScreenOn) (sc_screen_turned_off s)
      in s\<lparr>sc_screen_turned_off := f, sc_calls := sc_calls s @ cs,
           sc_screen_turned_off_time :=
             (if f \<and> \<not> screen_was_turned_off then now
              else if \<not> f then 0 else sc_screen_turned_off_time s)\<rparr>)"

definition us_lock :: "TimeDelta \<Rightarrow> state_controller \<Rightarrow> state_controller" where
  "us_lock screen_lock_duration s =
     (let (f, cs) = HandleDelay (d_screen_lock (sc_delays s)) screen_lock_duration
        CallLockScreen None (sc_requested_screen_lock s)
      in s\<lparr>sc_requested_screen_lock := f, sc_calls := sc_calls s @ cs\<rparr>)"

definition us_idle_warning :: "TimeDelta \<Rightarrow> state_controller \<Rightarrow> state_controller" where
  "us_idle_warning idle_duration s =
     (let s' =
       (if d_idle_warning (sc_delays s) > 0 \<and> idle_duration \<ge> d_idle_warning (sc_delays s) \<and>
           sc_idle_action s \<noteq> DO_NOTHING then
          (if \<not> sc_sent_idle_warning s \<or> sc_resend_idle_warning s then
             (sc_call (CallEmitIdleActionImminent (d_idle (sc_delays s) - idle_duration)) s)
               \<lparr>sc_sent_idle_warning := True\<rparr>
           else s)
        else if sc_sent_idle_warning s then
          (let s1 = s\<lparr>sc_sent_idle_warning := False\<rparr> in
           if \<not> sc_idle_action_performed s1 \<or> sc_idle_action s1 = DO_NOTHING
           then sc_call CallEmitIdleActionDeferred s1 else s1)
        else s)
      in s'\<lparr>sc_resend_idle_warning := False\<rparr>)"

definition us_docked :: "state_controller \<Rightarrow> state_controller" where
  "us_docked s =
     (let docked = in_docked_mode s in
      if docked \<noteq> sc_turned_panel_off_for_docked_mode s
      then (sc_call (CallUpdatePanelForDockedMode docked) s)
             \<lparr>sc_turned_panel_off_for_docked_mode := docked\<rparr>
      else s)"

definition us_idle_action_to_perform :: "sc_env \<Rightarrow> state_controller \<Rightarrow> Action" where
  "us_idle_action_to_perform env s =
     (let a0 = sc_idle_action s;
          a1 = (if \<not> e_IsOobeCompleted env then DO_NOTHING else a0);
          a2 = (if a1 = SUSPEND \<and> sc_require_usb_input_device_to_suspend s \<and>
                   \<not> e_IsUsbInputDeviceConnected env then DO_NOTHING else a1)
      in if a2 = SUSPEND \<and> sc_avoid_suspend_when_headphone_jack_plugged s \<and>
            e_IsHeadphoneJackPlugged env then DO_NOTHING else a2)"

definition us_idle :: "sc_env \<Rightarrow> TimeDelta \<Rightarrow> state_controller \<Rightarrow> Action \<times> state_controller" where
  "us_idle env idle_duration s =
     (if idle_duration \<ge> d_idle (sc_delays s) then
        (if \<not> sc_idle_action_performed s
         then (us_idle_action_to_perform env s, s\<lparr>sc_idle_action_performed := True\<rparr>)
         else (DO_NOTHING, s))
      else (DO_NOTHING, s\<lparr>sc_idle_action_performed := False\<rparr>))"

definition us_lid :: "state_controller \<Rightarrow> Action \<times> state_controller" where
  "us_lid s =
     (if sc_lid_state s = LID_CLOSED \<and> \<not> waiting_for_initial_state s then
        (if \<not> sc_lid_closed_action_performed s
         then (sc_lid_closed_action s, s\<lparr>sc_lid_closed_action_performed := True\<rparr>)
         else (DO_NOTHING, s))
      else (DO_NOTHING, s\<lparr>sc_lid_closed_action_performed := False\<rparr>))"

fun PerformAction :: "Action \<Rightarrow> state_controller \<Rightarrow> state_controller" where
  "PerformAction SUSPEND s = sc_call CallSuspend s"
| "PerformAction STOP_SESSION s = sc_call CallStopSession s"
| "PerformAction SHUT_DOWN s = sc_call CallShutDown s"
| "PerformAction DO_NOTHING s = s"

definition us_perform :: "Action \<Rightarrow> Action \<Rightarrow> state_controller \<Rightarrow> state_controller" where
  "us_perform idle_action_to_perform lid_closed_action_to_perform s =
     (if idle_action_to_perform = SHUT_DOWN \<or> lid_closed_action_to_perform = SHUT_DOWN
      then PerformAction SHUT_DOWN s
      else if idle_action_to_perform = lid_closed_action_to_perform
      then PerformAction idle_action_to_perform s
      else PerformAction lid_closed_action_to_perform
             (PerformAction idle_action_to_perform s))"

definition next_timeout :: "sc_env \<Rightarrow> TimeTicks \<Rightarrow> state_controller \<Rightarrow> TimeDelta" where
  "next_timeout env now s =
     (let d = sc_delays s;
          t0 = 0;
          t1 = (if \<not> IsScreenDimBlocked s then UpdateActionTimeout now
                  (GetLastActivityTimeForScreenDim now s) (d_screen_dim d) t0 else t0);
          t2 = (if \<not> IsScreenOffBlocked env s then UpdateActionTimeout now
                  (GetLastActivityTimeForScreenOff env now s) (d_screen_off d) t1 else t1);
          t3 = (if \<not> IsScreenLockBlocked s then UpdateActionTimeout now
                  (GetLastActivityTimeForScreenLock now s) (d_screen_lock d) t2 else t2)
      in if \<not> IsIdleBlocked s then
           UpdateActionTimeout now (GetLastActivityTimeForIdle now s) (d_idle d)
             (UpdateActionTimeout now (GetLastActivityTimeForIdle now s) (d_idle_warning d) t3)
         else t3)"

definition ScheduleActionTimeout ::
  "sc_env \<Rightarrow> TimeTicks \<Rightarrow> state_controller \<Rightarrow> state_controller" where
  "ScheduleActionTimeout env now s =
     (let timeout_delay = next_timeout env now s in
      if timeout_delay > 0
      then s\<lparr>sc_action_timer := Some timeout_delay,
             sc_action_timer_time_for_testing := now + timeout_delay\<rparr>
      else s\<lparr>sc_action_timer := None, sc_action_timer_time_for_testing := 0\<rparr>)"

definition UpdateState :: "sc_env \<Rightarrow> state_controller \<Rightarrow> state_controller" where
  "UpdateState env s0 =
     (let now = sc_now env s0;
          s = sc_tick s0;
          idle_duration = now - GetLastActivityTimeForIdle now s;
          screen_dim_duration = now - GetLastActivityTimeForScreenDim now s;
          screen_off_duration = now - GetLastActivityTimeForScreenOff env now s;
          screen_lock_duration = now - GetLastActivityTimeForScreenLock now s;
          s = us_dim screen_dim_duration s;
          s = us_off now screen_off_duration s;
          s = us_lock screen_lock_duration s;
          s = us_idle_warning idle_duration s;
          s = us_docked s;
          (idle_action_to_perform, s) = us_idle env idle_duration s;
          (lid_closed_action_to_perform, s) = us_lid s;
          s = us_perform idle_action_to_perform lid_closed_action_to_perform s
      in ScheduleActionTimeout env now s)"

section \<open>UpdateSettingsAndState\<close>

definition set_default_settings :: "state_controller \<Rightarrow> state_controller" where
  "set_default_settings s = s\<lparr>
     sc_idle_action := SUSPEND,
     sc_lid_closed_action := SUSPEND,
     sc_delays := (if sc_power_source s = AC then sc_pref_ac_delays s
                   else sc_pref_battery_delays s),
     sc_use_audio_activity := True,
     sc_use_video_activity := True,
     sc_wait_for_initial_user_activity := False,
     sc_reason_for_ignoring_idle_action := []\<rparr>"

definition policy_action :: "ProtoAction option \<Rightarrow> Action \<Rightarrow> Action" where
  "policy_action pa a = get_or (map_option ProtoActionToAction pa) a"

definition policy_merge_delays :: "policy_delays option \<Rightarrow> delays \<Rightarrow> delays" where
  "policy_merge_delays pd d = (case pd of None \<Rightarrow> d | Some x \<Rightarrow> MergeDelaysFromPolicy x d)"

definition apply_external_policy :: "state_controller \<Rightarrow> state_controller" where
  "apply_external_policy s =
     (if sc_ignore_external_policy s then s
      else let p = sc_policy s; on_ac = (sc_power_source s = AC) in s\<lparr>
        sc_idle_action := policy_action
          (if on_ac then pol_ac_idle_action p else pol_battery_idle_action p)
          (sc_idle_action s),
        sc_lid_closed_action :=
          policy_action (pol_lid_closed_action p) (sc_lid_closed_action s),
        sc_delays := policy_merge_delays
          (if on_ac then pol_ac_delays p else pol_battery_delays p) (sc_delays s),
        sc_use_audio_activity := get_or (pol_use_audio_activity p) (sc_use_audio_activity s),
        sc_use_video_activity := get_or (pol_use_video_activity p) (sc_use_video_activity s),
        sc_wait_for_initial_user_activity :=
          get_or (pol_wait_for_initial_user_activity p)
            (sc_wait_for_initial_user_activity s)\<rparr>)"

definition presentation_factor :: "state_controller \<Rightarrow> rat" where
  "presentation_factor s =
     (if sc_ignore_external_policy s then 1
      else get_or (pol_presentation_screen_dim_delay_factor (sc_policy s)) 1)"

definition user_activity_factor :: "state_controller \<Rightarrow> rat" where
  "user_activity_factor s =
     (if sc_ignore_external_policy s then 1
      else get_or (pol_user_activity_screen_dim_delay_factor (sc_policy s)) 1)"

definition scale_settings :: "sc_env \<Rightarrow> state_controller \<Rightarrow> state_controller" where
  "scale_settings env s =
     (if sc_display_mode s = DISPLAY_PRESENTATION
      then s\<lparr>sc_delays := ScaleDelays (e_mul env) (presentation_factor s) (sc_delays s)\<rparr>
      else if sc_saw_user_activity_soon_after_screen_dim_or_off s
      then s\<lparr>sc_delays := ScaleDelays (e_mul env) (user_activity_factor s) (sc_delays s)\<rparr>
      else s)"

definition override_disable_idle_suspend :: "state_controller \<Rightarrow> state_controller" where
  "override_disable_idle_suspend s =
     (if sc_disable_idle_suspend s \<and> (sc_idle_action s = SUSPEND \<or> sc_idle_action s = SHUT_DOWN)
      then s\<lparr>sc_idle_action := DO_NOTHING, sc_reason_for_ignoring_idle_action :=
        ''disable_idle_suspend powerd pref is set (done automatically in dev)''\<rparr>
      else s)"

definition override_updating :: "state_controller \<Rightarrow> state_controller" where
  "override_updating s =
     (if sc_updater_state s = UPDATER_UPDATING \<and> sc_power_source s = AC \<and>
         (sc_idle_action s = SUSPEND \<or> sc_idle_action s = SHUT_DOWN)
      then s\<lparr>sc_idle_action := DO_NOTHING, sc_reason_for_ignoring_idle_action :=
        ''applying update on AC power''\<rparr>
      else s)"

definition override_docked :: "state_controller \<Rightarrow> state_controller" where
  "override_docked s =
     (if sc_allow_docked_mode s \<and> sc_display_mode s = DISPLAY_PRESENTATION
      then s\<lparr>sc_lid_closed_action := DO_NOTHING\<rparr> else s)"

definition override_tpm :: "state_controller \<Rightarrow> state_controller" where
  "override_tpm s =
     (if sc_tpm_dictionary_attack_suspend_threshold s > 0 \<and>
         sc_tpm_dictionary_attack_count s \<ge> sc_tpm_dictionary_attack_suspend_threshold s
      then s\<lparr>sc_idle_action :=
               (if sc_idle_action s = SHUT_DOWN then SUSPEND else sc_idle_action s),
             sc_lid_closed_action :=
               (if sc_lid_closed_action s = SHUT_DOWN then SUSPEND
                else sc_lid_closed_action s)\<rparr>
      else s)"

definition reset_performed :: "Action \<Rightarrow> Action \<Rightarrow> state_controller \<Rightarrow> state_controller" where
  "reset_performed old_idle_action old_lid_closed_action s = s\<lparr>
     sc_idle_action_performed :=
       (if sc_idle_action s \<noteq> old_idle_action then False else sc_idle_action_performed s),
     sc_lid_closed_action_performed :=
       (if sc_lid_closed_action s \<noteq> old_lid_closed_action then False
        else sc_lid_closed_action_performed s)\<rparr>"

definition finish_settings :: "TimeDelta \<Rightarrow> state_controller \<Rightarrow> state_controller" where
  "finish_settings old_idle_delay s =
     (let d = SanitizeDelays (sc_delays s) in
      s\<lparr>sc_delays := d,
        sc_resend_idle_warning := (sc_sent_idle_warning s \<and> d_idle_warning d \<noteq> 0 \<and>
          d_idle d \<noteq> old_idle_delay)\<rparr>)"

definition UpdateSettings :: "sc_env \<Rightarrow> state_controller \<Rightarrow> state_controller" where
  "UpdateSettings env s0 =
     (let s = set_default_settings s0;
          s = apply_external_policy s;
          s = scale_settings env s;
          s = override_disable_idle_suspend s;
          s = override_updating s;
          s = override_docked s;
          s = override_tpm s;
          s = reset_performed (sc_idle_action s0) (sc_lid_closed_action s0) s
      in finish_settings (d_idle (sc_delays s0)) s)"

definition UpdateSettingsAndState :: "sc_env \<Rightarrow> state_controller \<Rightarrow> state_controller" where
  "UpdateSettingsAndState env s = UpdateState env (UpdateSettings env s)"

section \<open>Handlers\<close>

definition kInitialStateTimeoutMs :: int where
  "kInitialStateTimeoutMs = 10000"

definition kUserActivityAfterScreenOffIncreaseDelaysMs :: int where
  "kUserActivityAfterScreenOffIncreaseDelaysMs = 60000"

definition sc_Init ::
  "sc_env \<Rightarrow> PowerSource \<Rightarrow> LidState \<Rightarrow> state_controller \<Rightarrow> state_controller option" where
  "sc_Init env power_source lid_state s = do {
     s \<leftarrow> LoadPrefs env s;
     let s = sc_tick (s\<lparr>sc_last_user_activity_time := sc_now env s\<rparr>);
     let s = s\<lparr>sc_power_source := power_source, sc_lid_state := lid_state,
       sc_initial_state_timer := Some (FromMilliseconds kInitialStateTimeoutMs)\<rparr>;
     let s = UpdateSettingsAndState env s;
     Some (s\<lparr>sc_initialized := True\<rparr>)
   }"

definition checked :: "state_controller \<Rightarrow> state_controller \<Rightarrow> state_controller option" where
  "checked s t = (if sc_initialized s then Some t else None)"

definition HandlePowerSourceChange ::
  "sc_env \<Rightarrow> PowerSource \<Rightarrow> state_controller \<Rightarrow> state_controller option" where
  "HandlePowerSourceChange env source s = checked s
     (if source = sc_power_source s then s
      else UpdateSettingsAndState env
             (UpdateLastUserActivityTime env (s\<lparr>sc_power_source := source\<rparr>)))"

definition HandleLidStateChange ::
  "sc_env \<Rightarrow> LidState \<Rightarrow> state_controller \<Rightarrow> state_controller option" where
  "HandleLidStateChange env state s = checked s
     (if state = sc_lid_state s then s
      else let s1 = s\<lparr>sc_lid_state := state\<rparr> in
        UpdateState env
          (if state = LID_OPEN then UpdateLastUserActivityTime env s1 else s1))"

definition HandleSessionStateChange ::
  "sc_env \<Rightarrow> SessionState \<Rightarrow> state_controller \<Rightarrow> state_controller option" where
  "HandleSessionStateChange env state s = checked s
     (if state = sc_session_state s then s
      else UpdateSettingsAndState env (UpdateLastUserActivityTime env
        (s\<lparr>sc_session_state := state,
           sc_saw_user_activity_soon_after_screen_dim_or_off := False,
           sc_saw_user_activity_during_current_session := False\<rparr>)))"

definition HandleUpdaterStateChange ::
  "sc_env \<Rightarrow> UpdaterState \<Rightarrow> state_controller \<Rightarrow> state_controller option" where
  "HandleUpdaterStateChange env state s = checked s
     (if state = sc_updater_state s then s
      else UpdateSettingsAndState env (s\<lparr>sc_updater_state := state\<rparr>))"

definition HandleDisplayModeChange ::
  "sc_env \<Rightarrow> DisplayMode \<Rightarrow> state_controller \<Rightarrow> state_controller option" where
  "HandleDisplayModeChange env mode s = checked s
     (if mode = sc_display_mode s \<and> sc_got_initial_display_mode s then s
      else let s1 = s\<lparr>sc_display_mode := mode\<rparr>;
               s2 = (if \<not> sc_got_initial_display_mode s1
                     then MaybeStopInitialStateTimer
                            (s1\<lparr>sc_got_initial_display_mode := True\<rparr>)
                     else UpdateLastUserActivityTime env s1)
           in UpdateSettingsAndState env s2)"

definition HandleResume :: "sc_env \<Rightarrow> state_controller \<Rightarrow> state_controller option" where
  "HandleResume env s = checked s
     (UpdateState env
       (case e_QueryLidState env of
          LID_CLOSED \<Rightarrow>
            (if sc_lid_state s = LID_CLOSED \<and> sc_lid_closed_action s = SUSPEND \<and>
                sc_lid_closed_action_performed s
             then s\<lparr>sc_lid_closed_action_performed := False\<rparr> else s)
        | _ \<Rightarrow> UpdateLastUserActivityTime env s))"

definition HandlePolicyChange ::
  "sc_env \<Rightarrow> policy \<Rightarrow> state_controller \<Rightarrow> state_controller option" where
  "HandlePolicyChange env p s = checked s
     (let s1 = s\<lparr>sc_policy := p\<rparr>;
          s2 = (if \<not> sc_got_initial_policy s1
                then MaybeStopInitialStateTimer (s1\<lparr>sc_got_initial_policy := True\<rparr>) else s1)
      in UpdateSettingsAndState env s2)"

definition note_activity_after_dim :: "sc_env \<Rightarrow> state_controller \<Rightarrow> state_controller" where
  "note_activity_after_dim env s =
     (let reads_clock = (d_screen_off (sc_delays s) > 0 \<and> sc_screen_turned_off s);
          screen_turned_off_recently = (reads_clock \<and>
            InMilliseconds (sc_now env s - sc_screen_turned_off_time s)
              \<le> kUserActivityAfterScreenOffIncreaseDelaysMs);
          s1 = (if reads_clock then sc_tick s else s)
      in if \<not> sc_saw_user_activity_soon_after_screen_dim_or_off s1 \<and>
            ((sc_screen_dimmed s1 \<and> \<not> sc_screen_turned_off s1) \<or> screen_turned_off_recently)
         then s1\<lparr>sc_saw_user_activity_soon_after_screen_dim_or_off := True\<rparr> else s1)"

definition sc_HandleUserActivity :: "sc_env \<Rightarrow> state_controller \<Rightarrow> state_controller option" where
  "sc_HandleUserActivity env s = checked s
     (if sc_lid_state s = LID_CLOSED \<and> \<not> in_docked_mode s then s
      else let old_saw_user_activity = sc_saw_user_activity_soon_after_screen_dim_or_off s;
               s1 = note_activity_after_dim env s;
               s2 = (if sc_session_state s1 = SESSION_STARTED
                     then s1\<lparr>sc_saw_user_activity_during_current_session := True\<rparr> else s1);
               s3 = UpdateLastUserActivityTime env s2
           in if old_saw_user_activity \<noteq> sc_saw_user_activity_soon_after_screen_dim_or_off s3
              then UpdateSettingsAndState env s3 else UpdateState env s3)"

definition HandleVideoActivity :: "sc_env \<Rightarrow> state_controller \<Rightarrow> state_controller option" where
  "HandleVideoActivity env s = checked s
     (if sc_screen_dimmed s \<or> sc_screen_turned_off s then s
      else UpdateState env
             (sc_tick (s\<lparr>sc_last_video_activity_time := sc_now env s\<rparr>)))"

definition HandleAudioStateChange ::
  "sc_env \<Rightarrow> bool \<Rightarrow> state_controller \<Rightarrow> state_controller option" where
  "HandleAudioStateChange env active s = checked s
     (UpdateState env (sc_tick
       (s\<lparr>sc_audio_activity := ai_SetActive active (sc_now env s) (sc_audio_activity s)\<rparr>)))"

definition HandleTpmStatus ::
  "sc_env \<Rightarrow> int \<Rightarrow> state_controller \<Rightarrow> state_controller" where
  "HandleTpmStatus env dictionary_attack_count s =
     (if sc_tpm_dictionary_attack_count s = dictionary_attack_count then s
      else UpdateSettingsAndState env
             (s\<lparr>sc_tpm_dictionary_attack_count := dictionary_attack_count\<rparr>))"

definition sc_OnPrefChanged ::
  "sc_env \<Rightarrow> string \<Rightarrow> state_controller \<Rightarrow> state_controller option" where
  "sc_OnPrefChanged env pref_name s =
     (if \<not> sc_initialized s then None
      else if pref_name = ''disable_idle_suspend'' \<or> pref_name = ''ignore_external_policy''
      then map_option (UpdateSettingsAndState env) (LoadPrefs env s)
      else Some s)"

definition HandleActionTimeout :: "sc_env \<Rightarrow> state_controller \<Rightarrow> state_controller" where
  "HandleActionTimeout env s = UpdateState env (s\<lparr>sc_action_timer_time_for_testing := 0\<rparr>)"

definition HandleInitialStateTimeout :: "sc_env \<Rightarrow> state_controller \<Rightarrow> state_controller" where
  "HandleInitialStateTimeout env s = UpdateState env s"

text \<open>The timers as the message loop fires them: stopped first, then the task.\<close>

definition TriggerActionTimeout :: "sc_env \<Rightarrow> state_controller \<Rightarrow> state_controller" where
  "TriggerActionTimeout env s =
     (if IsRunning (sc_action_timer s)
      then HandleActionTimeout env (s\<lparr>sc_action_timer := None\<rparr>) else s)"

definition TriggerInitialStateTimeout :: "sc_env \<Rightarrow> state_controller \<Rightarrow> state_controller" where
  "TriggerInitialStateTimeout env s =
     (if IsRunning (sc_initial_state_timer s)
      then HandleInitialStateTimeout env (s\<lparr>sc_initial_state_timer := None\<rparr>) else s)"

section \<open>The event loop\<close>

datatype sc_event = EvPowerSource PowerSource | EvLidState LidState | EvSessionState SessionState
  | EvUpdaterState UpdaterState | EvDisplayMode DisplayMode | EvResume | EvPolicy policy
  | EvUserActivity | EvVideoActivity | EvAudioState bool | EvTpmStatus int
  | EvPrefChanged string | EvActionTimeout | EvInitialStateTimeout

fun sc_step :: "state_controller \<Rightarrow> sc_env \<times> sc_event \<Rightarrow> state_controller option" where
  "sc_step s (env, EvPowerSource x) = HandlePowerSourceChange env x s"
| "sc_step s (env, EvLidState x) = HandleLidStateChange env x s"
| "sc_step s (env, EvSessionState x) = HandleSessionStateChange env x s"
| "sc_step s (env, EvUpdaterState x) = HandleUpdaterStateChange env x s"
| "sc_step s (env, EvDisplayMode x) = HandleDisplayModeChange env x s"
| "sc_step s (env, EvResume) = HandleResume env s"
| "sc_step s (env, EvPolicy p) = HandlePolicyChange env p s"
| "sc_step s (env, EvUserActivity) = sc_HandleUserActivity env s"
| "sc_step s (env, EvVideoActivity) = HandleVideoActivity env s"
| "sc_step s (env, EvAudioState b) = HandleAudioStateChange env b s"
| "sc_step s (env, EvTpmStatus n) = Some (HandleTpmStatus env n s)"
| "sc_step s (env, EvPrefChanged n) = sc_OnPrefChanged env n s"
| "sc_step s (env, EvActionTimeout) = Some (TriggerActionTimeout env s)"
| "sc_step s (env, EvInitialStateTimeout) = Some (TriggerInitialStateTimeout env s)"

end
