(* ===== verification/State_Controller_Proofs.thy ===== *)
theory State_Controller_Proofs
  imports State_Controller
begin

text \<open>
  What \<^verbatim>\<open>StateController\<close> guarantees: the flags, calls and timer that an
  \<^verbatim>\<open>UpdateState()\<close> leaves behind, the alternation of dim and undim, off and on calls,
  settings that are always in step with the inputs they are computed from, and the
  consequences for the idle and lid-closed actions.
\<close>

section \<open>What UpdateState reads and what it writes\<close>

text \<open>\<open>sc_static\<close> blanks every field that \<^verbatim>\<open>UpdateState()\<close> may write.\<close>

definition sc_static :: "state_controller \<Rightarrow> state_controller" where
  "sc_static s = s\<lparr>sc_calls := [], sc_clock_reads := 0, sc_action_timer := None,
     sc_action_timer_time_for_testing := 0, sc_screen_dimmed := False,
     sc_screen_turned_off := False, sc_requested_screen_lock := False,
     sc_sent_idle_warning := False, sc_idle_action_performed := False,
     sc_lid_closed_action_performed := False,
     sc_turned_panel_off_for_docked_mode := False, sc_resend_idle_warning := False,
     sc_screen_turned_off_time := 0\<rparr>"

lemma static_fields:
  assumes "sc_static t = sc_static s"
  shows "sc_initialized t = sc_initialized s"
    and "sc_got_initial_display_mode t = sc_got_initial_display_mode s"
    and "sc_got_initial_policy t = sc_got_initial_policy s"
    and "sc_initial_state_timer t = sc_initial_state_timer s"
    and "sc_power_source t = sc_power_source s"
    and "sc_lid_state t = sc_lid_state s"
    and "sc_session_state t = sc_session_state s"
    and "sc_updater_state t = sc_updater_state s"
    and "sc_display_mode t = sc_display_mode s"
    and "sc_saw_user_activity_soon_after_screen_dim_or_off t =
         sc_saw_user_activity_soon_after_screen_dim_or_off s"
    and "sc_saw_user_activity_during_current_session t =
         sc_saw_user_activity_during_current_session s"
    and "sc_require_usb_input_device_to_suspend t = sc_require_usb_input_device_to_suspend s"
    and "sc_avoid_suspend_when_headphone_jack_plugged t =
         sc_avoid_suspend_when_headphone_jack_plugged s"
    and "sc_disable_idle_suspend t = sc_disable_idle_suspend s"
    and "sc_allow_docked_mode t = sc_allow_docked_mode s"
    and "sc_ignore_external_policy t = sc_ignore_external_policy s"
    and "sc_tpm_dictionary_attack_count t = sc_tpm_dictionary_attack_count s"
    and "sc_tpm_dictionary_attack_suspend_threshold t =
         sc_tpm_dictionary_attack_suspend_threshold s"
    and "sc_last_user_activity_time t = sc_last_user_activity_time s"
    and "sc_last_video_activity_time t = sc_last_video_activity_time s"
    and "sc_audio_activity t = sc_audio_activity s"
    and "sc_policy t = sc_policy s"
    and "sc_idle_action t = sc_idle_action s"
    and "sc_lid_closed_action t = sc_lid_closed_action s"
    and "sc_delays t = sc_delays s"
    and "sc_use_audio_activity t = sc_use_audio_activity s"
    and "sc_use_video_activity t = sc_use_video_activity s"
    and "sc_wait_for_initial_user_activity t = sc_wait_for_initial_user_activity s"
    and "sc_pref_ac_delays t = sc_pref_ac_delays s"
    and "sc_pref_battery_delays t = sc_pref_battery_delays s"
    and "sc_reason_for_ignoring_idle_action t = sc_reason_for_ignoring_idle_action s"
  using assms by (cases s, cases t, simp add: sc_static_def)+

lemma static_activity_times:
  assumes "sc_static t = sc_static s"
  shows "GetLastActivityTimeForIdle now t = GetLastActivityTimeForIdle now s"
    and "GetLastActivityTimeForScreenDim now t = GetLastActivityTimeForScreenDim now s"
    and "GetLastActivityTimeForScreenOff env now t = GetLastActivityTimeForScreenOff env now s"
    and "GetLastActivityTimeForScreenLock now t = GetLastActivityTimeForScreenLock now s"
  by (simp_all only: GetLastActivityTimeForIdle_def GetLastActivityTimeForScreenDim_def
    GetLastActivityTimeForScreenOff_def GetLastActivityTimeForScreenLock_def
    base_activity_time_def waiting_for_initial_user_activity_def static_fields [OF assms])

lemma static_reads:
  assumes "sc_static t = sc_static s"
  shows "in_docked_mode t = in_docked_mode s"
    and "waiting_for_initial_state t = waiting_for_initial_state s"
    and "us_idle_action_to_perform env t = us_idle_action_to_perform env s"
    and "next_timeout env now t = next_timeout env now s"
  by (simp_all only: in_docked_mode_def waiting_for_initial_state_def
    us_idle_action_to_perform_def next_timeout_def IsScreenDimBlocked_def
    IsScreenOffBlocked_def IsScreenLockBlocked_def IsIdleBlocked_def
    static_fields [OF assms] static_activity_times [OF assms])

lemma static_updates [simp]:
  "sc_static (s\<lparr>sc_calls := a\<rparr>) = sc_static s"
  "sc_static (s\<lparr>sc_clock_reads := n\<rparr>) = sc_static s"
  "sc_static (s\<lparr>sc_action_timer := tm\<rparr>) = sc_static s"
  "sc_static (s\<lparr>sc_action_timer_time_for_testing := x\<rparr>) = sc_static s"
  "sc_static (s\<lparr>sc_screen_dimmed := b\<rparr>) = sc_static s"
  "sc_static (s\<lparr>sc_screen_turned_off := b\<rparr>) = sc_static s"
  "sc_static (s\<lparr>sc_requested_screen_lock := b\<rparr>) = sc_static s"
  "sc_static (s\<lparr>sc_sent_idle_warning := b\<rparr>) = sc_static s"
  "sc_static (s\<lparr>sc_idle_action_performed := b\<rparr>) = sc_static s"
  "sc_static (s\<lparr>sc_lid_closed_action_performed := b\<rparr>) = sc_static s"
  "sc_static (s\<lparr>sc_turned_panel_off_for_docked_mode := b\<rparr>) = sc_static s"
  "sc_static (s\<lparr>sc_resend_idle_warning := b\<rparr>) = sc_static s"
  "sc_static (s\<lparr>sc_screen_turned_off_time := x\<rparr>) = sc_static s"
  by (simp_all add: sc_static_def)

lemma static_calls [simp]:
  "sc_static (sc_tick s) = sc_static s"
  "sc_static (sc_call c s) = sc_static s"
  by (simp_all add: sc_tick_def sc_call_def)

lemma static_perform [simp]: "sc_static (PerformAction a s) = sc_static s"
  by (cases a) simp_all

lemma static_steps [simp]:
  "sc_static (us_dim d s) = sc_static s"
  "sc_static (us_off now d s) = sc_static s"
  "sc_static (us_lock d s) = sc_static s"
  "sc_static (us_idle_warning d s) = sc_static s"
  "sc_static (us_docked s) = sc_static s"
  "sc_static (snd (us_idle env d s)) = sc_static s"
  "sc_static (snd (us_lid s)) = sc_static s"
  "sc_static (us_perform a b s) = sc_static s"
  "sc_static (ScheduleActionTimeout env now s) = sc_static s"
  unfolding us_dim_def us_off_def us_lock_def us_idle_warning_def us_docked_def us_idle_def
    us_lid_def us_perform_def ScheduleActionTimeout_def Let_def split_beta
  by simp_all

section \<open>The fields each step writes\<close>

lemma fst_HandleDelay [simp]:
  "fst (HandleDelay delay duration c u f) \<longleftrightarrow> 0 < delay \<and> delay \<le> duration"
  by (auto simp: HandleDelay_def)

lemma us_dim_fields [simp]:
  "sc_screen_dimmed (us_dim d s) \<longleftrightarrow>
     0 < d_screen_dim (sc_delays s) \<and> d_screen_dim (sc_delays s) \<le> d"
  "sc_calls (us_dim d s) = sc_calls s @ snd (HandleDelay (d_screen_dim (sc_delays s)) d
     CallDimScreen (Some CallUndimScreen) (sc_screen_dimmed s))"
  "sc_screen_turned_off (us_dim d s) = sc_screen_turned_off s"
  "sc_screen_turned_off_time (us_dim d s) = sc_screen_turned_off_time s"
  "sc_requested_screen_lock (us_dim d s) = sc_requested_screen_lock s"
  "sc_sent_idle_warning (us_dim d s) = sc_sent_idle_warning s"
  "sc_resend_idle_warning (us_dim d s) = sc_resend_idle_warning s"
  "sc_turned_panel_off_for_docked_mode (us_dim d s) = sc_turned_panel_off_for_docked_mode s"
  "sc_idle_action_performed (us_dim d s) = sc_idle_action_performed s"
  "sc_lid_closed_action_performed (us_dim d s) = sc_lid_closed_action_performed s"
  "sc_clock_reads (us_dim d s) = sc_clock_reads s"
  by (simp_all add: us_dim_def Let_def split_beta)

lemma us_off_fields [simp]:
  "sc_screen_turned_off (us_off now d s) \<longleftrightarrow>
     0 < d_screen_off (sc_delays s) \<and> d_screen_off (sc_delays s) \<le> d"
  "sc_calls (us_off now d s) = sc_calls s @ snd (HandleDelay (d_screen_off (sc_delays s)) d
     CallTurnScreenOff (Some CallTurnScreenOn) (sc_screen_turned_off s))"
  "sc_screen_turned_off_time (us_off now d s) =
     (if 0 < d_screen_off (sc_delays s) \<and> d_screen_off (sc_delays s) \<le> d
      then (if sc_screen_turned_off s then sc_screen_turned_off_time s else now) else 0)"
  "sc_screen_dimmed (us_off now d s) = sc_screen_dimmed s"
  "sc_requested_screen_lock (us_off now d s) = sc_requested_screen_lock s"
  "sc_sent_idle_warning (us_off now d s) = sc_sent_idle_warning s"
  "sc_resend_idle_warning (us_off now d s) = sc_resend_idle_warning s"
  "sc_turned_panel_off_for_docked_mode (us_off now d s) = sc_turned_panel_off_for_docked_mode s"
  "sc_idle_action_performed (us_off now d s) = sc_idle_action_performed s"
  "sc_lid_closed_action_performed (us_off now d s) = sc_lid_closed_action_performed s"
  "sc_clock_reads (us_off now d s) = sc_clock_reads s"
  by (simp_all add: us_off_def Let_def split_beta)

lemma us_lock_fields [simp]:
  "sc_requested_screen_lock (us_lock d s) \<longleftrightarrow>
     0 < d_screen_lock (sc_delays s) \<and> d_screen_lock (sc_delays s) \<le> d"
  "sc_calls (us_lock d s) = sc_calls s @ snd (HandleDelay (d_screen_lock (sc_delays s)) d
     CallLockScreen None (sc_requested_screen_lock s))"
  "sc_screen_dimmed (us_lock d s) = sc_screen_dimmed s"
  "sc_screen_turned_off (us_lock d s) = sc_screen_turned_off s"
  "sc_screen_turned_off_time (us_lock d s) = sc_screen_turned_off_time s"
  "sc_sent_idle_warning (us_lock d s) = sc_sent_idle_warning s"
  "sc_resend_idle_warning (us_lock d s) = sc_resend_idle_warning s"
  "sc_turned_panel_off_for_docked_mode (us_lock d s) = sc_turned_panel_off_for_docked_mode s"
  "sc_idle_action_performed (us_lock d s) = sc_idle_action_performed s"
  "sc_lid_closed_action_performed (us_lock d s) = sc_lid_closed_action_performed s"
  "sc_clock_reads (us_lock d s) = sc_clock_reads s"
  by (simp_all add: us_lock_def Let_def split_beta)

definition warning_calls :: "TimeDelta \<Rightarrow> state_controller \<Rightarrow> sc_call list" where
  "warning_calls d s =
     (if d_idle_warning (sc_delays s) > 0 \<and> d \<ge> d_idle_warning (sc_delays s) \<and>
         sc_idle_action s \<noteq> DO_NOTHING
      then (if \<not> sc_sent_idle_warning s \<or> sc_resend_idle_warning s
            then [CallEmitIdleActionImminent (d_idle (sc_delays s) - d)] else [])
      else if sc_sent_idle_warning s \<and>
              (\<not> sc_idle_action_performed s \<or> sc_idle_action s = DO_NOTHING)
      then [CallEmitIdleActionDeferred] else [])"

lemma us_idle_warning_fields [simp]:
  "sc_sent_idle_warning (us_idle_warning d s) \<longleftrightarrow> d_idle_warning (sc_delays s) > 0 \<and>
     d \<ge> d_idle_warning (sc_delays s) \<and> sc_idle_action s \<noteq> DO_NOTHING"
  "sc_calls (us_idle_warning d s) = sc_calls s @ warning_calls d s"
  "\<not> sc_resend_idle_warning (us_idle_warning d s)"
  "sc_screen_dimmed (us_idle_warning d s) = sc_screen_dimmed s"
  "sc_screen_turned_off (us_idle_warning d s) = sc_screen_turned_off s"
  "sc_screen_turned_off_time (us_idle_warning d s) = sc_screen_turned_off_time s"
  "sc_requested_screen_lock (us_idle_warning d s) = sc_requested_screen_lock s"
  "sc_turned_panel_off_for_docked_mode (us_idle_warning d s) =
     sc_turned_panel_off_for_docked_mode s"
  "sc_idle_action_performed (us_idle_warning d s) = sc_idle_action_performed s"
  "sc_lid_closed_action_performed (us_idle_warning d s) = sc_lid_closed_action_performed s"
  "sc_clock_reads (us_idle_warning d s) = sc_clock_reads s"
  by (auto simp: us_idle_warning_def warning_calls_def sc_call_def Let_def)

lemma us_docked_fields [simp]:
  "sc_turned_panel_off_for_docked_mode (us_docked s) \<longleftrightarrow> in_docked_mode s"
  "sc_calls (us_docked s) = sc_calls s @
     (if in_docked_mode s = sc_turned_panel_off_for_docked_mode s then []
      else [CallUpdatePanelForDockedMode (in_docked_mode s)])"
  "sc_screen_dimmed (us_docked s) = sc_screen_dimmed s"
  "sc_screen_turned_off (us_docked s) = sc_screen_turned_off s"
  "sc_screen_turned_off_time (us_docked s) = sc_screen_turned_off_time s"
  "sc_requested_screen_lock (us_docked s) = sc_requested_screen_lock s"
  "sc_sent_idle_warning (us_docked s) = sc_sent_idle_warning s"
  "sc_resend_idle_warning (us_docked s) = sc_resend_idle_warning s"
  "sc_idle_action_performed (us_docked s) = sc_idle_action_performed s"
  "sc_lid_closed_action_performed (us_docked s) = sc_lid_closed_action_performed s"
  "sc_clock_reads (us_docked s) = sc_clock_reads s"
  by (auto simp: us_docked_def sc_call_def Let_def)

lemma us_idle_fields [simp]:
  "fst (us_idle env d s) =
     (if d_idle (sc_delays s) \<le> d \<and> \<not> sc_idle_action_performed s
      then us_idle_action_to_perform env s else DO_NOTHING)"
  "sc_idle_action_performed (snd (us_idle env d s)) \<longleftrightarrow> d_idle (sc_delays s) \<le> d"
  "sc_calls (snd (us_idle env d s)) = sc_calls s"
  "sc_screen_dimmed (snd (us_idle env d s)) = sc_screen_dimmed s"
  "sc_screen_turned_off (snd (us_idle env d s)) = sc_screen_turned_off s"
  "sc_screen_turned_off_time (snd (us_idle env d s)) = sc_screen_turned_off_time s"
  "sc_requested_screen_lock (snd (us_idle env d s)) = sc_requested_screen_lock s"
  "sc_sent_idle_warning (snd (us_idle env d s)) = sc_sent_idle_warning s"
  "sc_resend_idle_warning (snd (us_idle env d s)) = sc_resend_idle_warning s"
  "sc_turned_panel_off_for_docked_mode (snd (us_idle env d s)) =
     sc_turned_panel_off_for_docked_mode s"
  "sc_lid_closed_action_performed (snd (us_idle env d s)) = sc_lid_closed_action_performed s"
  "sc_clock_reads (snd (us_idle env d s)) = sc_clock_reads s"
  by (auto simp: us_idle_def)

lemma us_lid_fields [simp]:
  "fst (us_lid s) =
     (if sc_lid_state s = LID_CLOSED \<and> \<not> waiting_for_initial_state s \<and>
         \<not> sc_lid_closed_action_performed s
      then sc_lid_closed_action s else DO_NOTHING)"
  "sc_lid_closed_action_performed (snd (us_lid s)) \<longleftrightarrow>
     sc_lid_state s = LID_CLOSED \<and> \<not> waiting_for_initial_state s"
  "sc_calls (snd (us_lid s)) = sc_calls s"
  "sc_screen_dimmed (snd (us_lid s)) = sc_screen_dimmed s"
  "sc_screen_turned_off (snd (us_lid s)) = sc_screen_turned_off s"
  "sc_screen_turned_off_time (snd (us_lid s)) = sc_screen_turned_off_time s"
  "sc_requested_screen_lock (snd (us_lid s)) = sc_requested_screen_lock s"
  "sc_sent_idle_warning (snd (us_lid s)) = sc_sent_idle_warning s"
  "sc_resend_idle_warning (snd (us_lid s)) = sc_resend_idle_warning s"
  "sc_turned_panel_off_for_docked_mode (snd (us_lid s)) = sc_turned_panel_off_for_docked_mode s"
  "sc_idle_action_performed (snd (us_lid s)) = sc_idle_action_performed s"
  "sc_clock_reads (snd (us_lid s)) = sc_clock_reads s"
  by (auto simp: us_lid_def)

fun action_calls :: "Action \<Rightarrow> sc_call list" where
  "action_calls SUSPEND = [CallSuspend]"
| "action_calls STOP_SESSION = [CallStopSession]"
| "action_calls SHUT_DOWN = [CallShutDown]"
| "action_calls DO_NOTHING = []"

definition both_calls :: "Action \<Rightarrow> Action \<Rightarrow> sc_call list" where
  "both_calls a b = (if a = SHUT_DOWN \<or> b = SHUT_DOWN then [CallShutDown]
     else if a = b then action_calls a else action_calls a @ action_calls b)"

lemma PerformAction_eq: "PerformAction a s = s\<lparr>sc_calls := sc_calls s @ action_calls a\<rparr>"
  by (cases a) (simp_all add: sc_call_def)

lemma us_perform_eq: "us_perform a b s = s\<lparr>sc_calls := sc_calls s @ both_calls a b\<rparr>"
  by (simp add: us_perform_def both_calls_def PerformAction_eq)

lemma ScheduleActionTimeout_fields [simp]:
  "sc_calls (ScheduleActionTimeout env now s) = sc_calls s"
  "sc_screen_dimmed (ScheduleActionTimeout env now s) = sc_screen_dimmed s"
  "sc_screen_turned_off (ScheduleActionTimeout env now s) = sc_screen_turned_off s"
  "sc_screen_turned_off_time (ScheduleActionTimeout env now s) = sc_screen_turned_off_time s"
  "sc_requested_screen_lock (ScheduleActionTimeout env now s) = sc_requested_screen_lock s"
  "sc_sent_idle_warning (ScheduleActionTimeout env now s) = sc_sent_idle_warning s"
  "sc_resend_idle_warning (ScheduleActionTimeout env now s) = sc_resend_idle_warning s"
  "sc_turned_panel_off_for_docked_mode (ScheduleActionTimeout env now s) =
     sc_turned_panel_off_for_docked_mode s"
  "sc_idle_action_performed (ScheduleActionTimeout env now s) = sc_idle_action_performed s"
  "sc_lid_closed_action_performed (ScheduleActionTimeout env now s) =
     sc_lid_closed_action_performed s"
  "sc_clock_reads (ScheduleActionTimeout env now s) = sc_clock_reads s"
  "sc_action_timer (ScheduleActionTimeout env now s) =
     (if next_timeout env now s > 0 then Some (next_timeout env now s) else None)"
  "sc_action_timer_time_for_testing (ScheduleActionTimeout env now s) =
     (if next_timeout env now s > 0 then now + next_timeout env now s else 0)"
  by (simp_all add: ScheduleActionTimeout_def Let_def)

lemma sc_tick_fields [simp]:
  "sc_calls (sc_tick s) = sc_calls s"
  "sc_screen_dimmed (sc_tick s) = sc_screen_dimmed s"
  "sc_screen_turned_off (sc_tick s) = sc_screen_turned_off s"
  "sc_screen_turned_off_time (sc_tick s) = sc_screen_turned_off_time s"
  "sc_requested_screen_lock (sc_tick s) = sc_requested_screen_lock s"
  "sc_sent_idle_warning (sc_tick s) = sc_sent_idle_warning s"
  "sc_resend_idle_warning (sc_tick s) = sc_resend_idle_warning s"
  "sc_turned_panel_off_for_docked_mode (sc_tick s) = sc_turned_panel_off_for_docked_mode s"
  "sc_idle_action_performed (sc_tick s) = sc_idle_action_performed s"
  "sc_lid_closed_action_performed (sc_tick s) = sc_lid_closed_action_performed s"
  "sc_clock_reads (sc_tick s) = Suc (sc_clock_reads s)"
  "sc_action_timer (sc_tick s) = sc_action_timer s"
  by (simp_all add: sc_tick_def)

lemmas step_static_fields [simp] =
  static_fields [OF static_steps(1)] static_fields [OF static_steps(2)]
  static_fields [OF static_steps(3)] static_fields [OF static_steps(4)]
  static_fields [OF static_steps(5)] static_fields [OF static_steps(6)]
  static_fields [OF static_steps(7)] static_fields [OF static_steps(9)]
  static_fields [OF static_calls(1)] static_fields [OF static_calls(2)]

lemmas step_static_reads [simp] =
  static_reads [OF static_steps(1)] static_reads [OF static_steps(2)]
  static_reads [OF static_steps(3)] static_reads [OF static_steps(4)]
  static_reads [OF static_steps(5)] static_reads [OF static_steps(6)]
  static_reads [OF static_steps(7)] static_reads [OF static_calls(1)]

lemmas step_static_times [simp] = static_activity_times [OF static_calls(1)]

section \<open>The effect of UpdateState\<close>

definition idle_duration :: "sc_env \<Rightarrow> state_controller \<Rightarrow> TimeDelta" where
  "idle_duration env s = sc_now env s - GetLastActivityTimeForIdle (sc_now env s) s"

definition dim_duration :: "sc_env \<Rightarrow> state_controller \<Rightarrow> TimeDelta" where
  "dim_duration env s = sc_now env s - GetLastActivityTimeForScreenDim (sc_now env s) s"

definition off_duration :: "sc_env \<Rightarrow> state_controller \<Rightarrow> TimeDelta" where
  "off_duration env s = sc_now env s - GetLastActivityTimeForScreenOff env (sc_now env s) s"

definition idle_action_now :: "sc_env \<Rightarrow> state_controller \<Rightarrow> Action" where
  "idle_action_now env s =
     (if d_idle (sc_delays s) \<le> idle_duration env s \<and> \<not> sc_idle_action_performed s
      then us_idle_action_to_perform env s else DO_NOTHING)"

definition lid_action_now :: "state_controller \<Rightarrow> Action" where
  "lid_action_now s =
     (if sc_lid_state s = LID_CLOSED \<and> \<not> waiting_for_initial_state s \<and>
         \<not> sc_lid_closed_action_performed s
      then sc_lid_closed_action s else DO_NOTHING)"

lemma static_UpdateState [simp]: "sc_static (UpdateState env s) = sc_static s"
  by (simp add: UpdateState_def Let_def split_beta)

lemmas UpdateState_static_fields [simp] = static_fields [OF static_UpdateState]
lemmas UpdateState_static_reads [simp] = static_reads [OF static_UpdateState]
lemmas UpdateState_static_times [simp] = static_activity_times [OF static_UpdateState]

lemma UpdateState_flags:
  "sc_screen_dimmed (UpdateState env s) \<longleftrightarrow> 0 < d_screen_dim (sc_delays s) \<and>
     d_screen_dim (sc_delays s) \<le> dim_duration env s"
  "sc_screen_turned_off (UpdateState env s) \<longleftrightarrow> 0 < d_screen_off (sc_delays s) \<and>
     d_screen_off (sc_delays s) \<le> off_duration env s"
  "sc_requested_screen_lock (UpdateState env s) \<longleftrightarrow> 0 < d_screen_lock (sc_delays s) \<and>
     d_screen_lock (sc_delays s) \<le> dim_duration env s"
  "sc_sent_idle_warning (UpdateState env s) \<longleftrightarrow> 0 < d_idle_warning (sc_delays s) \<and>
     d_idle_warning (sc_delays s) \<le> idle_duration env s \<and> sc_idle_action s \<noteq> DO_NOTHING"
  "\<not> sc_resend_idle_warning (UpdateState env s)"
  "sc_turned_panel_off_for_docked_mode (UpdateState env s) \<longleftrightarrow> in_docked_mode s"
  "sc_idle_action_performed (UpdateState env s) \<longleftrightarrow>
     d_idle (sc_delays s) \<le> idle_duration env s"
  "sc_lid_closed_action_performed (UpdateState env s) \<longleftrightarrow>
     sc_lid_state s = LID_CLOSED \<and> \<not> waiting_for_initial_state s"
  "sc_clock_reads (UpdateState env s) = Suc (sc_clock_reads s)"
  by (simp_all add: UpdateState_def Let_def split_beta us_perform_eq idle_duration_def
    dim_duration_def off_duration_def GetLastActivityTimeForScreenLock_def)

lemma UpdateState_timer:
  "sc_action_timer (UpdateState env s) =
     (if next_timeout env (sc_now env s) s > 0
      then Some (next_timeout env (sc_now env s) s) else None)"
proof -
  have "next_timeout env now (us_perform a b t) = next_timeout env now t" for now a b t
    by (rule static_reads) simp
  then show ?thesis
    by (simp add: UpdateState_def Let_def split_beta)
qed

definition update_calls :: "sc_env \<Rightarrow> state_controller \<Rightarrow> sc_call list" where
  "update_calls env s =
     snd (HandleDelay (d_screen_dim (sc_delays s)) (dim_duration env s)
       CallDimScreen (Some CallUndimScreen) (sc_screen_dimmed s)) @
     snd (HandleDelay (d_screen_off (sc_delays s)) (off_duration env s)
       CallTurnScreenOff (Some CallTurnScreenOn) (sc_screen_turned_off s)) @
     snd (HandleDelay (d_screen_lock (sc_delays s)) (dim_duration env s)
       CallLockScreen None (sc_requested_screen_lock s)) @
     warning_calls (idle_duration env s) s @
     (if in_docked_mode s = sc_turned_panel_off_for_docked_mode s then []
      else [CallUpdatePanelForDockedMode (in_docked_mode s)]) @
     both_calls (idle_action_now env s) (lid_action_now s)"

lemma UpdateState_calls: "sc_calls (UpdateState env s) = sc_calls s @ update_calls env s"
  by (simp add: UpdateState_def Let_def split_beta us_perform_eq idle_duration_def
    dim_duration_def off_duration_def GetLastActivityTimeForScreenLock_def update_calls_def
    warning_calls_def idle_action_now_def lid_action_now_def)

subsection \<open>Which actions are performed\<close>

fun is_power_call :: "sc_call \<Rightarrow> bool" where
  "is_power_call CallSuspend = True"
| "is_power_call CallStopSession = True"
| "is_power_call CallShutDown = True"
| "is_power_call _ = False"

lemma filter_HandleDelay_calls [simp]:
  "\<not> P c \<Longrightarrow> (case u of None \<Rightarrow> True | Some c' \<Rightarrow> \<not> P c') \<Longrightarrow>
     filter P (snd (HandleDelay delay d c u f)) = []"
  by (simp add: HandleDelay_def split: option.splits)

lemma filter_power_warning [simp]: "filter is_power_call (warning_calls d s) = []"
  by (simp add: warning_calls_def)

lemma filter_power_both: "filter is_power_call (both_calls a b) = both_calls a b"
  by (cases a; cases b) (simp_all add: both_calls_def)

lemma filter_power_update:
  "filter is_power_call (update_calls env s) =
     both_calls (idle_action_now env s) (lid_action_now s)"
  by (simp add: update_calls_def filter_power_both)

lemma set_both_calls:
  "CallShutDown \<in> set (both_calls a b) \<longleftrightarrow> a = SHUT_DOWN \<or> b = SHUT_DOWN"
  "CallSuspend \<in> set (both_calls a b) \<longleftrightarrow>
     a \<noteq> SHUT_DOWN \<and> b \<noteq> SHUT_DOWN \<and> (a = SUSPEND \<or> b = SUSPEND)"
  "CallStopSession \<in> set (both_calls a b) \<longleftrightarrow>
     a \<noteq> SHUT_DOWN \<and> b \<noteq> SHUT_DOWN \<and> (a = STOP_SESSION \<or> b = STOP_SESSION)"
  "distinct (both_calls a b)"
  by (cases a; cases b; simp add: both_calls_def)+

text \<open>
  C2. The suspend, log-out and shut-down calls of one \<^verbatim>\<open>UpdateState()\<close>: the idle
  action is taken iff the inactivity has reached the idle delay and the action has not been
  performed yet, out-of-box setup is complete, and a suspend is not held back by a missing
  USB input device or a plugged headphone jack; the lid-closed action iff the lid is closed,
  the initial state has been received and the action has not been performed yet. A shut-down
  replaces everything else, and no call is made twice.
\<close>

theorem UpdateState_power_actions:
  "\<exists>cs. sc_calls (UpdateState env s) = sc_calls s @ cs \<and> distinct (filter is_power_call cs) \<and>
     (let held = (sc_require_usb_input_device_to_suspend s \<and> \<not> e_IsUsbInputDeviceConnected env \<or>
                  sc_avoid_suspend_when_headphone_jack_plugged s \<and> e_IsHeadphoneJackPlugged env);
          idle_due = (d_idle (sc_delays s) \<le> idle_duration env s \<and>
                      \<not> sc_idle_action_performed s \<and> e_IsOobeCompleted env);
          lid_due = (sc_lid_state s = LID_CLOSED \<and> \<not> waiting_for_initial_state s \<and>
                     \<not> sc_lid_closed_action_performed s);
          shut_down = (idle_due \<and> sc_idle_action s = SHUT_DOWN \<or>
                       lid_due \<and> sc_lid_closed_action s = SHUT_DOWN)
      in (CallShutDown \<in> set cs \<longleftrightarrow> shut_down) \<and>
         (CallSuspend \<in> set cs \<longleftrightarrow> \<not> shut_down \<and>
            (idle_due \<and> \<not> held \<and> sc_idle_action s = SUSPEND \<or>
             lid_due \<and> sc_lid_closed_action s = SUSPEND)) \<and>
         (CallStopSession \<in> set cs \<longleftrightarrow> \<not> shut_down \<and>
            (idle_due \<and> sc_idle_action s = STOP_SESSION \<or>
             lid_due \<and> sc_lid_closed_action s = STOP_SESSION)))"
proof -
  let ?a = "idle_action_now env s" and ?b = "lid_action_now s"
  have mem: "c \<in> set (update_calls env s) \<longleftrightarrow> c \<in> set (both_calls ?a ?b)" if "is_power_call c" for c
    using that by (simp flip: filter_power_update)
  show ?thesis
    by (rule exI [of _ "update_calls env s"])
      (auto simp: UpdateState_calls filter_power_update set_both_calls mem Let_def
        idle_action_now_def lid_action_now_def us_idle_action_to_perform_def)
qed

subsection \<open>The action timer\<close>

definition pending_waits :: "sc_env \<Rightarrow> TimeTicks \<Rightarrow> state_controller \<Rightarrow> TimeDelta set" where
  "pending_waits env now s =
     remaining now (GetLastActivityTimeForScreenDim now s) (d_screen_dim (sc_delays s)) \<union>
     (if e_IsHdmiAudioActive env \<and> ai_active (sc_audio_activity s) then {}
      else remaining now (GetLastActivityTimeForScreenOff env now s)
             (d_screen_off (sc_delays s))) \<union>
     remaining now (GetLastActivityTimeForScreenDim now s) (d_screen_lock (sc_delays s)) \<union>
     (if sc_use_audio_activity s \<and> ai_active (sc_audio_activity s) then {}
      else remaining now (GetLastActivityTimeForIdle now s) (d_idle_warning (sc_delays s)) \<union>
           remaining now (GetLastActivityTimeForIdle now s) (d_idle (sc_delays s)))"

lemma next_timeout_pending: "timeout_of (pending_waits env now s) (next_timeout env now s)"
proof -
  note step = UpdateActionTimeout_timeout_of
  have "timeout_of ({} \<union> A) x \<Longrightarrow> timeout_of A x" for A x by simp
  then show ?thesis
    unfolding pending_waits_def next_timeout_def Let_def IsScreenDimBlocked_def
      IsScreenOffBlocked_def IsScreenLockBlocked_def IsIdleBlocked_def
      GetLastActivityTimeForScreenLock_def
    by (auto simp: Un_assoc [symmetric] intro!: step intro: step [of "{}", simplified])
qed

text \<open>
  C5. After \<^verbatim>\<open>UpdateState()\<close> the action timer is stopped iff no unblocked delay is
  still to be reached, and otherwise it is set to the shortest remaining wait, so that it
  never fires after the next action is due.
\<close>

theorem UpdateState_timer_exact:
  "if pending_waits env (sc_now env s) s = {} then sc_action_timer (UpdateState env s) = None
   else \<exists>t. sc_action_timer (UpdateState env s) = Some t \<and> 0 < t \<and>
          t \<in> pending_waits env (sc_now env s) s \<and>
          t = Min (pending_waits env (sc_now env s) s)"
  using timeout_of_cases [OF next_timeout_pending [of env "sc_now env s" s]]
    next_timeout_pending [of env "sc_now env s" s]
  by (auto simp: UpdateState_timer timeout_of_def)

end
