(* ===== verification/State_Controller_Settings.thy ===== *)
theory State_Controller_Settings
  imports State_Controller_Proofs
begin

text \<open>
  The settings of \<^verbatim>\<open>StateController\<close>: what \<^verbatim>\<open>UpdateSettingsAndState()\<close> computes,
  and that after every handler of the class the settings in force are the ones the current
  inputs require. The invariant also ties the call trace to the flags, so that paired calls
  alternate.
\<close>

section \<open>Settings follow their inputs\<close>

text \<open>
  The declarative reading of \<^verbatim>\<open>UpdateSettingsAndState()\<close>: which idle and lid-closed
  action, which delays and which kinds of activity apply, as functions of the power source,
  preferences, policy, display mode, update state and TPM counter.
\<close>

definition tpm_counter_high :: "state_controller \<Rightarrow> bool" where
  "tpm_counter_high s \<longleftrightarrow> 0 < sc_tpm_dictionary_attack_suspend_threshold s \<and>
     sc_tpm_dictionary_attack_suspend_threshold s \<le> sc_tpm_dictionary_attack_count s"

definition effective_policy :: "state_controller \<Rightarrow> policy" where
  "effective_policy s = (if sc_ignore_external_policy s then empty_policy else sc_policy s)"

definition required_idle_action :: "state_controller \<Rightarrow> Action" where
  "required_idle_action s =
     (let p = effective_policy s;
          a = policy_action (if sc_power_source s = AC then pol_ac_idle_action p
                             else pol_battery_idle_action p) SUSPEND;
          keep_awake = (sc_disable_idle_suspend s \<or>
            sc_updater_state s = UPDATER_UPDATING \<and> sc_power_source s = AC)
      in if (a = SUSPEND \<or> a = SHUT_DOWN) \<and> keep_awake then DO_NOTHING
         else if a = SHUT_DOWN \<and> tpm_counter_high s then SUSPEND else a)"

definition required_lid_closed_action :: "state_controller \<Rightarrow> Action" where
  "required_lid_closed_action s =
     (let a = policy_action (pol_lid_closed_action (effective_policy s)) SUSPEND
      in if sc_allow_docked_mode s \<and> sc_display_mode s = DISPLAY_PRESENTATION then DO_NOTHING
         else if a = SHUT_DOWN \<and> tpm_counter_high s then SUSPEND else a)"

definition required_delays ::
  "(TimeDelta \<Rightarrow> rat \<Rightarrow> TimeDelta) \<Rightarrow> state_controller \<Rightarrow> delays" where
  "required_delays mul s =
     (let p = effective_policy s;
          d = (if sc_power_source s = AC
               then policy_merge_delays (pol_ac_delays p) (sc_pref_ac_delays s)
               else policy_merge_delays (pol_battery_delays p) (sc_pref_battery_delays s));
          f = (if sc_display_mode s = DISPLAY_PRESENTATION
               then get_or (pol_presentation_screen_dim_delay_factor p) 1
               else if sc_saw_user_activity_soon_after_screen_dim_or_off s
               then get_or (pol_user_activity_screen_dim_delay_factor p) 1 else 1)
      in SanitizeDelays (ScaleDelays mul f d))"

definition sc_uses :: "state_controller \<Rightarrow> bool \<times> bool \<times> bool" where
  "sc_uses s = (sc_use_audio_activity s, sc_use_video_activity s,
     sc_wait_for_initial_user_activity s)"

definition settings_synced ::
  "(TimeDelta \<Rightarrow> rat \<Rightarrow> TimeDelta) \<Rightarrow> state_controller \<Rightarrow> bool" where
  "settings_synced mul s \<longleftrightarrow>
     sc_idle_action s = required_idle_action s \<and>
     sc_lid_closed_action s = required_lid_closed_action s \<and>
     sc_delays s = required_delays mul s \<and>
     sc_uses s = (get_or (pol_use_audio_activity (effective_policy s)) True,
       get_or (pol_use_video_activity (effective_policy s)) True,
       get_or (pol_wait_for_initial_user_activity (effective_policy s)) False)"

text \<open>\<open>sc_input\<close> blanks the fields that the settings part of the code writes.\<close>

definition sc_input :: "state_controller \<Rightarrow> state_controller" where
  "sc_input s = s\<lparr>sc_idle_action := DO_NOTHING, sc_lid_closed_action := DO_NOTHING,
     sc_delays := empty_delays, sc_use_audio_activity := True, sc_use_video_activity := True,
     sc_wait_for_initial_user_activity := False, sc_reason_for_ignoring_idle_action := [],
     sc_idle_action_performed := False, sc_lid_closed_action_performed := False,
     sc_resend_idle_warning := False\<rparr>"

lemma input_updates [simp]:
  "sc_input (s\<lparr>sc_idle_action := a\<rparr>) = sc_input s"
  "sc_input (s\<lparr>sc_lid_closed_action := a\<rparr>) = sc_input s"
  "sc_input (s\<lparr>sc_delays := d\<rparr>) = sc_input s"
  "sc_input (s\<lparr>sc_use_audio_activity := b\<rparr>) = sc_input s"
  "sc_input (s\<lparr>sc_use_video_activity := b\<rparr>) = sc_input s"
  "sc_input (s\<lparr>sc_wait_for_initial_user_activity := b\<rparr>) = sc_input s"
  "sc_input (s\<lparr>sc_reason_for_ignoring_idle_action := r\<rparr>) = sc_input s"
  "sc_input (s\<lparr>sc_idle_action_performed := b\<rparr>) = sc_input s"
  "sc_input (s\<lparr>sc_lid_closed_action_performed := b\<rparr>) = sc_input s"
  "sc_input (s\<lparr>sc_resend_idle_warning := b\<rparr>) = sc_input s"
  by (simp_all add: sc_input_def)

lemma input_steps [simp]:
  "sc_input (set_default_settings s) = sc_input s"
  "sc_input (apply_external_policy s) = sc_input s"
  "sc_input (scale_settings env s) = sc_input s"
  "sc_input (override_disable_idle_suspend s) = sc_input s"
  "sc_input (override_updating s) = sc_input s"
  "sc_input (override_docked s) = sc_input s"
  "sc_input (override_tpm s) = sc_input s"
  "sc_input (reset_performed a b s) = sc_input s"
  "sc_input (finish_settings d s) = sc_input s"
  unfolding set_default_settings_def apply_external_policy_def scale_settings_def
    override_disable_idle_suspend_def override_updating_def override_docked_def
    override_tpm_def reset_performed_def finish_settings_def Let_def
  by simp_all

lemma input_fields:
  assumes "sc_input t = sc_input s"
  shows "sc_calls t = sc_calls s"
    and "sc_clock_reads t = sc_clock_reads s"
    and "sc_initialized t = sc_initialized s"
    and "sc_got_initial_display_mode t = sc_got_initial_display_mode s"
    and "sc_got_initial_policy t = sc_got_initial_policy s"
    and "sc_action_timer t = sc_action_timer s"
    and "sc_initial_state_timer t = sc_initial_state_timer s"
    and "sc_power_source t = sc_power_source s"
    and "sc_lid_state t = sc_lid_state s"
    and "sc_session_state t = sc_session_state s"
    and "sc_updater_state t = sc_updater_state s"
    and "sc_display_mode t = sc_display_mode s"
    and "sc_screen_dimmed t = sc_screen_dimmed s"
    and "sc_screen_turned_off t = sc_screen_turned_off s"
    and "sc_requested_screen_lock t = sc_requested_screen_lock s"
    and "sc_sent_idle_warning t = sc_sent_idle_warning s"
    and "sc_turned_panel_off_for_docked_mode t = sc_turned_panel_off_for_docked_mode s"
    and "sc_screen_turned_off_time t = sc_screen_turned_off_time s"
    and "sc_saw_user_activity_soon_after_screen_dim_or_off t =
         sc_saw_user_activity_soon_after_screen_dim_or_off s"
    and "sc_saw_user_activity_during_current_session t =
         sc_saw_user_activity_during_current_session s"
    and "sc_require_usb_input_device_to_suspend t = sc_require_usb_input_device_to_suspend s"
    and "sc_avoid_suspend_when_headphone_jack_plugged t =
         sc_avoid_suspend_when_headphone_jack_plugged s"
    and "sc_disable_idle_suspend t = sc_disable_idle_suspend s"
    and "sc_allow_docked_mode t = sc_allow_docked_mode s"
    and "sc_ignore_external_policy t = sc_ignore_external_policy s"
    and "sc_tpm_dictionary_attack_count t = sc_tpm_dictionary_attack_count s"
    and "sc_tpm_dictionary_attack_suspend_threshold t =
         sc_tpm_dictionary_attack_suspend_threshold s"
    and "sc_last_user_activity_time t = sc_last_user_activity_time s"
    and "sc_last_video_activity_time t = sc_last_video_activity_time s"
    and "sc_audio_activity t = sc_audio_activity s"
    and "sc_policy t = sc_policy s"
    and "sc_pref_ac_delays t = sc_pref_ac_delays s"
    and "sc_pref_battery_delays t = sc_pref_battery_delays s"
  using assms by (cases s, cases t, simp add: sc_input_def)+

lemma input_UpdateSettings [simp]: "sc_input (UpdateSettings env s) = sc_input s"
  by (simp add: UpdateSettings_def Let_def)

lemmas UpdateSettings_frame [simp] = input_fields [OF input_UpdateSettings]
lemmas settings_step_frame [simp] =
  input_fields [OF input_steps(1)] input_fields [OF input_steps(2)]
  input_fields [OF input_steps(3)] input_fields [OF input_steps(4)]
  input_fields [OF input_steps(5)] input_fields [OF input_steps(6)]
  input_fields [OF input_steps(7)] input_fields [OF input_steps(8)]

lemma settings_idle_action [simp]:
  "sc_idle_action (set_default_settings s) = SUSPEND"
  "sc_idle_action (apply_external_policy s) = policy_action
     (if sc_power_source s = AC then pol_ac_idle_action (effective_policy s)
      else pol_battery_idle_action (effective_policy s)) (sc_idle_action s)"
  "sc_idle_action (scale_settings env s) = sc_idle_action s"
  "sc_idle_action (override_docked s) = sc_idle_action s"
  "sc_idle_action (reset_performed a b s) = sc_idle_action s"
  "sc_idle_action (finish_settings d s) = sc_idle_action s"
  "sc_idle_action (override_disable_idle_suspend s) =
     (if sc_disable_idle_suspend s \<and> (sc_idle_action s = SUSPEND \<or> sc_idle_action s = SHUT_DOWN)
      then DO_NOTHING else sc_idle_action s)"
  "sc_idle_action (override_updating s) =
     (if sc_updater_state s = UPDATER_UPDATING \<and> sc_power_source s = AC \<and>
         (sc_idle_action s = SUSPEND \<or> sc_idle_action s = SHUT_DOWN)
      then DO_NOTHING else sc_idle_action s)"
  "sc_idle_action (override_tpm s) =
     (if tpm_counter_high s \<and> sc_idle_action s = SHUT_DOWN then SUSPEND else sc_idle_action s)"
  by (auto simp: set_default_settings_def apply_external_policy_def effective_policy_def
    scale_settings_def override_disable_idle_suspend_def override_updating_def
    override_docked_def override_tpm_def reset_performed_def finish_settings_def Let_def
    policy_action_def empty_policy_def tpm_counter_high_def)

lemma settings_lid_closed_action [simp]:
  "sc_lid_closed_action (set_default_settings s) = SUSPEND"
  "sc_lid_closed_action (apply_external_policy s) =
     policy_action (pol_lid_closed_action (effective_policy s)) (sc_lid_closed_action s)"
  "sc_lid_closed_action (scale_settings env s) = sc_lid_closed_action s"
  "sc_lid_closed_action (override_disable_idle_suspend s) = sc_lid_closed_action s"
  "sc_lid_closed_action (override_updating s) = sc_lid_closed_action s"
  "sc_lid_closed_action (reset_performed a b s) = sc_lid_closed_action s"
  "sc_lid_closed_action (finish_settings d s) = sc_lid_closed_action s"
  "sc_lid_closed_action (override_docked s) =
     (if sc_allow_docked_mode s \<and> sc_display_mode s = DISPLAY_PRESENTATION then DO_NOTHING
      else sc_lid_closed_action s)"
  "sc_lid_closed_action (override_tpm s) =
     (if tpm_counter_high s \<and> sc_lid_closed_action s = SHUT_DOWN then SUSPEND
      else sc_lid_closed_action s)"
  by (auto simp: set_default_settings_def apply_external_policy_def effective_policy_def
    scale_settings_def override_disable_idle_suspend_def override_updating_def
    override_docked_def override_tpm_def reset_performed_def finish_settings_def Let_def
    policy_action_def empty_policy_def tpm_counter_high_def)

lemma effective_policy_frame [simp]:
  "effective_policy (set_default_settings s) = effective_policy s"
  "tpm_counter_high (set_default_settings s) = tpm_counter_high s"
  "tpm_counter_high (apply_external_policy s) = tpm_counter_high s"
  "tpm_counter_high (scale_settings env s) = tpm_counter_high s"
  "tpm_counter_high (override_disable_idle_suspend s) = tpm_counter_high s"
  "tpm_counter_high (override_updating s) = tpm_counter_high s"
  "tpm_counter_high (override_docked s) = tpm_counter_high s"
  by (simp_all add: effective_policy_def tpm_counter_high_def)

lemma ScaleDelays_one [simp]: "ScaleDelays mul 1 d = d"
  by (simp add: ScaleDelays_def)

lemma settings_delays [simp]:
  "sc_delays (set_default_settings s) =
     (if sc_power_source s = AC then sc_pref_ac_delays s else sc_pref_battery_delays s)"
  "sc_delays (apply_external_policy s) = policy_merge_delays
     (if sc_power_source s = AC then pol_ac_delays (effective_policy s)
      else pol_battery_delays (effective_policy s)) (sc_delays s)"
  "sc_delays (scale_settings env s) = ScaleDelays (e_mul env)
     (if sc_display_mode s = DISPLAY_PRESENTATION then presentation_factor s
      else if sc_saw_user_activity_soon_after_screen_dim_or_off s
      then user_activity_factor s else 1) (sc_delays s)"
  "sc_delays (override_disable_idle_suspend s) = sc_delays s"
  "sc_delays (override_updating s) = sc_delays s"
  "sc_delays (override_docked s) = sc_delays s"
  "sc_delays (override_tpm s) = sc_delays s"
  "sc_delays (reset_performed a b s) = sc_delays s"
  "sc_delays (finish_settings d s) = SanitizeDelays (sc_delays s)"
  by (simp_all add: set_default_settings_def apply_external_policy_def effective_policy_def
    scale_settings_def override_disable_idle_suspend_def override_updating_def
    override_docked_def override_tpm_def reset_performed_def finish_settings_def Let_def
    policy_merge_delays_def empty_policy_def)

lemma settings_uses [simp]:
  "sc_uses (apply_external_policy (set_default_settings s)) =
     (get_or (pol_use_audio_activity (effective_policy s)) True,
      get_or (pol_use_video_activity (effective_policy s)) True,
      get_or (pol_wait_for_initial_user_activity (effective_policy s)) False)"
  "sc_uses (scale_settings env s) = sc_uses s"
  "sc_uses (override_disable_idle_suspend s) = sc_uses s"
  "sc_uses (override_updating s) = sc_uses s"
  "sc_uses (override_docked s) = sc_uses s"
  "sc_uses (override_tpm s) = sc_uses s"
  "sc_uses (reset_performed a b s) = sc_uses s"
  "sc_uses (finish_settings d s) = sc_uses s"
  by (simp_all add: sc_uses_def set_default_settings_def apply_external_policy_def
    effective_policy_def scale_settings_def override_disable_idle_suspend_def
    override_updating_def override_docked_def override_tpm_def reset_performed_def
    finish_settings_def Let_def empty_policy_def)

lemma UpdateSettings_uses:
  "sc_uses (UpdateSettings env s) =
     (get_or (pol_use_audio_activity (effective_policy s)) True,
      get_or (pol_use_video_activity (effective_policy s)) True,
      get_or (pol_wait_for_initial_user_activity (effective_policy s)) False)"
  by (simp add: UpdateSettings_def Let_def)

lemma UpdateSettings_delays: "sc_delays (UpdateSettings env s) = required_delays (e_mul env) s"
  by (simp add: UpdateSettings_def required_delays_def Let_def presentation_factor_def
    user_activity_factor_def effective_policy_def empty_policy_def)

lemma UpdateSettings_idle_action:
  "sc_idle_action (UpdateSettings env s) = required_idle_action s"
proof -
  define a where "a = sc_idle_action (apply_external_policy (set_default_settings s))"
  have "required_idle_action s =
      (if (a = SUSPEND \<or> a = SHUT_DOWN) \<and> (sc_disable_idle_suspend s \<or>
           sc_updater_state s = UPDATER_UPDATING \<and> sc_power_source s = AC) then DO_NOTHING
       else if a = SHUT_DOWN \<and> tpm_counter_high s then SUSPEND else a)"
    by (simp only: required_idle_action_def Let_def a_def settings_idle_action
      settings_step_frame effective_policy_frame)
  moreover have "sc_idle_action (UpdateSettings env s) = \<dots>"
    by (cases a) (simp_all add: UpdateSettings_def Let_def a_def [symmetric]
      del: settings_idle_action(2))
  ultimately show ?thesis by simp
qed

lemma UpdateSettings_lid_closed_action:
  "sc_lid_closed_action (UpdateSettings env s) = required_lid_closed_action s"
proof -
  define a where "a = policy_action (pol_lid_closed_action (effective_policy s)) SUSPEND"
  then show ?thesis
    by (cases a) (simp_all add: UpdateSettings_def required_lid_closed_action_def Let_def
      flip: a_def)
qed

text \<open>The inputs of the settings; a state that agrees on them requires the same settings.\<close>

definition settings_inputs where
  "settings_inputs s = (sc_power_source s, sc_policy s, sc_ignore_external_policy s,
     sc_pref_ac_delays s, sc_pref_battery_delays s, sc_display_mode s,
     sc_saw_user_activity_soon_after_screen_dim_or_off s, sc_disable_idle_suspend s,
     sc_updater_state s, sc_allow_docked_mode s, sc_tpm_dictionary_attack_count s,
     sc_tpm_dictionary_attack_suspend_threshold s)"

lemma required_cong:
  assumes "settings_inputs t = settings_inputs s"
  shows "required_idle_action t = required_idle_action s"
    and "required_lid_closed_action t = required_lid_closed_action s"
    and "required_delays mul t = required_delays mul s"
    and "effective_policy t = effective_policy s"
proof -
  have eqs: "sc_power_source t = sc_power_source s" "sc_policy t = sc_policy s"
    "sc_ignore_external_policy t = sc_ignore_external_policy s"
    "sc_pref_ac_delays t = sc_pref_ac_delays s"
    "sc_pref_battery_delays t = sc_pref_battery_delays s"
    "sc_display_mode t = sc_display_mode s"
    "sc_saw_user_activity_soon_after_screen_dim_or_off t =
     sc_saw_user_activity_soon_after_screen_dim_or_off s"
    "sc_disable_idle_suspend t = sc_disable_idle_suspend s"
    "sc_updater_state t = sc_updater_state s"
    "sc_allow_docked_mode t = sc_allow_docked_mode s"
    "sc_tpm_dictionary_attack_count t = sc_tpm_dictionary_attack_count s"
    "sc_tpm_dictionary_attack_suspend_threshold t =
     sc_tpm_dictionary_attack_suspend_threshold s"
    using assms by (simp_all add: settings_inputs_def)
  show "required_idle_action t = required_idle_action s"
    "required_lid_closed_action t = required_lid_closed_action s"
    "required_delays mul t = required_delays mul s"
    "effective_policy t = effective_policy s"
    unfolding required_idle_action_def required_lid_closed_action_def
      required_delays_def effective_policy_def tpm_counter_high_def eqs
    by (rule refl)+
qed

lemma settings_inputs_frame [simp]:
  "settings_inputs (UpdateSettings env s) = settings_inputs s"
  "settings_inputs (UpdateState env s) = settings_inputs s"
  "settings_inputs (sc_tick s) = settings_inputs s"
  "settings_inputs (sc_call c s) = settings_inputs s"
  by (simp_all add: settings_inputs_def)

lemma synced_UpdateSettings: "settings_synced (e_mul env) (UpdateSettings env s)"
  by (simp add: settings_synced_def UpdateSettings_delays UpdateSettings_idle_action
    UpdateSettings_lid_closed_action UpdateSettings_uses required_cong [OF settings_inputs_frame(1)])

lemma synced_UpdateState [simp]: "settings_synced mul (UpdateState env s) = settings_synced mul s"
  by (simp add: settings_synced_def sc_uses_def required_cong [OF settings_inputs_frame(2)])

section \<open>Paired calls alternate\<close>

lemma switch_state_other:
  "(\<And>c. c \<in> set cs \<Longrightarrow> \<not> on c \<and> \<not> off c) \<Longrightarrow> switch_state on off b cs = Some b"
  by (induction cs) auto

definition dim_calls :: "sc_call list \<Rightarrow> bool option" where
  "dim_calls = switch_state (\<lambda>c. c = CallDimScreen) (\<lambda>c. c = CallUndimScreen) False"

definition off_calls :: "sc_call list \<Rightarrow> bool option" where
  "off_calls = switch_state (\<lambda>c. c = CallTurnScreenOff) (\<lambda>c. c = CallTurnScreenOn) False"

definition panel_calls :: "sc_call list \<Rightarrow> bool option" where
  "panel_calls = switch_state (\<lambda>c. c = CallUpdatePanelForDockedMode True)
     (\<lambda>c. c = CallUpdatePanelForDockedMode False) False"

definition flags_match_calls :: "state_controller \<Rightarrow> bool" where
  "flags_match_calls s \<longleftrightarrow>
     dim_calls (sc_calls s) = Some (sc_screen_dimmed s) \<and>
     off_calls (sc_calls s) = Some (sc_screen_turned_off s) \<and>
     panel_calls (sc_calls s) = Some (sc_turned_panel_off_for_docked_mode s)"

lemma set_HandleDelay:
  "set (snd (HandleDelay delay d c u f)) \<subseteq> insert c (set_option u)"
  by (auto simp: HandleDelay_def split: option.splits)

lemma set_warning_calls:
  "c \<in> set (warning_calls d s) \<Longrightarrow>
     c = CallEmitIdleActionDeferred \<or> (\<exists>x. c = CallEmitIdleActionImminent x)"
  by (auto simp: warning_calls_def split: if_splits)

lemma set_both_calls_subset: "set (both_calls a b) \<subseteq> {CallSuspend, CallStopSession, CallShutDown}"
  by (cases a; cases b) (auto simp: both_calls_def)

lemma switch_HandleDelay:
  "on c \<Longrightarrow> \<not> on u \<Longrightarrow> off u \<Longrightarrow>
     switch_state on off f (snd (HandleDelay delay d c (Some u) f)) =
       Some (0 < delay \<and> delay \<le> d)"
  by (simp add: HandleDelay_def)

lemma switch_update_calls:
  "switch_state (\<lambda>c. c = CallDimScreen) (\<lambda>c. c = CallUndimScreen) (sc_screen_dimmed s)
     (update_calls env s) = Some (sc_screen_dimmed (UpdateState env s))"
  "switch_state (\<lambda>c. c = CallTurnScreenOff) (\<lambda>c. c = CallTurnScreenOn)
     (sc_screen_turned_off s) (update_calls env s) =
     Some (sc_screen_turned_off (UpdateState env s))"
  "switch_state (\<lambda>c. c = CallUpdatePanelForDockedMode True)
     (\<lambda>c. c = CallUpdatePanelForDockedMode False) (sc_turned_panel_off_for_docked_mode s)
     (update_calls env s) = Some (sc_turned_panel_off_for_docked_mode (UpdateState env s))"
proof -
  let ?dim = "snd (HandleDelay (d_screen_dim (sc_delays s)) (dim_duration env s)
       CallDimScreen (Some CallUndimScreen) (sc_screen_dimmed s))"
  let ?off = "snd (HandleDelay (d_screen_off (sc_delays s)) (off_duration env s)
       CallTurnScreenOff (Some CallTurnScreenOn) (sc_screen_turned_off s))"
  let ?lock = "snd (HandleDelay (d_screen_lock (sc_delays s)) (dim_duration env s)
       CallLockScreen None (sc_requested_screen_lock s))"
  let ?warn = "warning_calls (idle_duration env s) s"
  let ?panel = "if in_docked_mode s = sc_turned_panel_off_for_docked_mode s then []
      else [CallUpdatePanelForDockedMode (in_docked_mode s)]"
  let ?act = "both_calls (idle_action_now env s) (lid_action_now s)"
  have mem: "\<And>c. c \<in> set ?dim \<Longrightarrow> c = CallDimScreen \<or> c = CallUndimScreen"
    "\<And>c. c \<in> set ?off \<Longrightarrow> c = CallTurnScreenOff \<or> c = CallTurnScreenOn"
    "\<And>c. c \<in> set ?lock \<Longrightarrow> c = CallLockScreen"
    using set_HandleDelay by fastforce+
  note others = set_warning_calls set_both_calls_subset [THEN subsetD]
  have "switch_state (\<lambda>c. c = CallDimScreen) (\<lambda>c. c = CallUndimScreen) b
      (?off @ ?lock @ ?warn @ ?panel @ ?act) = Some b" for b
    by (rule switch_state_other) (auto dest!: mem others split: if_splits)
  then show "switch_state (\<lambda>c. c = CallDimScreen) (\<lambda>c. c = CallUndimScreen) (sc_screen_dimmed s)
     (update_calls env s) = Some (sc_screen_dimmed (UpdateState env s))"
    by (simp add: update_calls_def switch_state_append switch_HandleDelay UpdateState_flags)
  have off1: "switch_state (\<lambda>c. c = CallTurnScreenOff) (\<lambda>c. c = CallTurnScreenOn) b ?dim = Some b"
    and off2: "switch_state (\<lambda>c. c = CallTurnScreenOff) (\<lambda>c. c = CallTurnScreenOn) b
      (?lock @ ?warn @ ?panel @ ?act) = Some b" for b
    by (rule switch_state_other; auto dest!: mem others split: if_splits)+
  show "switch_state (\<lambda>c. c = CallTurnScreenOff) (\<lambda>c. c = CallTurnScreenOn)
     (sc_screen_turned_off s) (update_calls env s) =
     Some (sc_screen_turned_off (UpdateState env s))"
    using off2 unfolding update_calls_def switch_state_append [of _ _ _ ?dim] off1 option.case
    by (simp add: switch_state_append [of _ _ _ ?off] switch_HandleDelay UpdateState_flags)
  have p1: "switch_state (\<lambda>c. c = CallUpdatePanelForDockedMode True)
     (\<lambda>c. c = CallUpdatePanelForDockedMode False) b (?dim @ ?off @ ?lock @ ?warn) = Some b"
    and p2: "switch_state (\<lambda>c. c = CallUpdatePanelForDockedMode True)
     (\<lambda>c. c = CallUpdatePanelForDockedMode False) b ?act = Some b" for b
    by (rule switch_state_other; auto dest!: mem others split: if_splits)+
  have "switch_state (\<lambda>c. c = CallUpdatePanelForDockedMode True)
     (\<lambda>c. c = CallUpdatePanelForDockedMode False) (sc_turned_panel_off_for_docked_mode s)
     ((?dim @ ?off @ ?lock @ ?warn) @ ?panel @ ?act) = Some (in_docked_mode s)"
    unfolding switch_state_append [of _ _ _ "?dim @ ?off @ ?lock @ ?warn"] p1 option.case
    using p2 by simp
  then show "switch_state (\<lambda>c. c = CallUpdatePanelForDockedMode True)
     (\<lambda>c. c = CallUpdatePanelForDockedMode False) (sc_turned_panel_off_for_docked_mode s)
     (update_calls env s) = Some (sc_turned_panel_off_for_docked_mode (UpdateState env s))"
    by (simp add: update_calls_def UpdateState_flags)
qed

lemma flags_match_UpdateState: "flags_match_calls s \<Longrightarrow> flags_match_calls (UpdateState env s)"
  by (simp add: flags_match_calls_def UpdateState_calls dim_calls_def off_calls_def
    panel_calls_def switch_update_calls)

section \<open>The invariant of the state controller\<close>

definition sc_base :: "state_controller \<Rightarrow> bool" where
  "sc_base s \<longleftrightarrow> flags_match_calls s \<and>
     \<not> (IsRunning (sc_initial_state_timer s) \<and> sc_got_initial_display_mode s \<and>
        sc_got_initial_policy s)"

definition sc_inv ::
  "(TimeDelta \<Rightarrow> rat \<Rightarrow> TimeDelta) \<Rightarrow> state_controller \<Rightarrow> bool" where
  "sc_inv mul s \<longleftrightarrow> sc_initialized s \<and> sc_base s \<and> settings_synced mul s \<and>
     sc_turned_panel_off_for_docked_mode s = in_docked_mode s \<and> \<not> sc_resend_idle_warning s"

lemma base_UpdateState: "sc_base s \<Longrightarrow> sc_base (UpdateState env s)"
  by (simp add: sc_base_def flags_match_UpdateState)

lemma base_UpdateSettings [simp]: "sc_base (UpdateSettings env s) = sc_base s"
  by (simp add: sc_base_def flags_match_calls_def)

lemma flags_match_metrics [simp]:
  "flags_match_calls (sc_call CallReportUserActivityMetrics s) = flags_match_calls s"
proof -
  have "switch_state on off False (cs @ [CallReportUserActivityMetrics]) =
      switch_state on off False cs"
    if "\<not> on CallReportUserActivityMetrics" "\<not> off CallReportUserActivityMetrics" for on off cs
    using that by (simp add: switch_state_append split: option.splits)
  then show ?thesis
    by (simp add: flags_match_calls_def sc_call_def dim_calls_def off_calls_def
      panel_calls_def)
qed

lemma base_updates [simp]:
  "sc_base (sc_tick s) = sc_base s"
  "sc_base (s\<lparr>sc_power_source := ps\<rparr>) = sc_base s"
  "sc_base (s\<lparr>sc_lid_state := ls\<rparr>) = sc_base s"
  "sc_base (s\<lparr>sc_session_state := ss\<rparr>) = sc_base s"
  "sc_base (s\<lparr>sc_updater_state := us\<rparr>) = sc_base s"
  "sc_base (s\<lparr>sc_display_mode := dm\<rparr>) = sc_base s"
  "sc_base (s\<lparr>sc_policy := p\<rparr>) = sc_base s"
  "sc_base (s\<lparr>sc_lid_closed_action_performed := b\<rparr>) = sc_base s"
  "sc_base (s\<lparr>sc_saw_user_activity_soon_after_screen_dim_or_off := b\<rparr>) = sc_base s"
  "sc_base (s\<lparr>sc_saw_user_activity_during_current_session := b\<rparr>) = sc_base s"
  "sc_base (s\<lparr>sc_last_user_activity_time := now\<rparr>) = sc_base s"
  "sc_base (s\<lparr>sc_last_video_activity_time := now\<rparr>) = sc_base s"
  "sc_base (s\<lparr>sc_audio_activity := ai\<rparr>) = sc_base s"
  "sc_base (s\<lparr>sc_tpm_dictionary_attack_count := n\<rparr>) = sc_base s"
  "sc_base (s\<lparr>sc_action_timer := tm\<rparr>) = sc_base s"
  "sc_base (s\<lparr>sc_action_timer_time_for_testing := now\<rparr>) = sc_base s"
  "sc_base (s\<lparr>sc_initialized := b\<rparr>) = sc_base s"
  "sc_base s \<Longrightarrow> sc_base (s\<lparr>sc_initial_state_timer := None\<rparr>)"
  by (simp_all add: sc_base_def flags_match_calls_def)

lemma base_UpdateLastUserActivityTime [simp]:
  "sc_base (UpdateLastUserActivityTime env s) = sc_base s"
proof -
  have "sc_base (sc_call CallReportUserActivityMetrics t) = sc_base t" for t
    by (simp add: sc_base_def)
  then show ?thesis by (simp add: UpdateLastUserActivityTime_def)
qed

lemma base_MaybeStopInitialStateTimer [simp]:
  "sc_base (MaybeStopInitialStateTimer (s\<lparr>sc_got_initial_policy := True\<rparr>))"
  "sc_base (MaybeStopInitialStateTimer (s\<lparr>sc_got_initial_display_mode := True\<rparr>))"
  if "sc_base s"
  using that
  by (auto simp: MaybeStopInitialStateTimer_def sc_base_def flags_match_calls_def)

lemma initialized_frame [simp]:
  "sc_initialized (MaybeStopInitialStateTimer s) = sc_initialized s"
  "sc_initialized (UpdateLastUserActivityTime env s) = sc_initialized s"
  "sc_initialized (note_activity_after_dim env s) = sc_initialized s"
  by (simp_all add: MaybeStopInitialStateTimer_def UpdateLastUserActivityTime_def
    note_activity_after_dim_def Let_def)

lemma base_note_activity [simp]: "sc_base (note_activity_after_dim env s) = sc_base s"
  by (simp add: note_activity_after_dim_def Let_def)

lemma LoadPrefs_frame:
  assumes "LoadPrefs env s = Some t"
  shows "sc_base s \<Longrightarrow> sc_base t" and "sc_initialized t = sc_initialized s"
proof -
  have flags: "sc_base (load_flag_prefs p s) = sc_base s"
    "sc_initialized (load_flag_prefs p s) = sc_initialized s" for p
    by (simp_all add: load_flag_prefs_def sc_base_def flags_match_calls_def)
  have "sc_base u = sc_base v" "sc_initialized u = sc_initialized v"
    if "load_delay_prefs p v = Some u" for p u v
    using that by (auto simp: load_delay_prefs_def bind_eq_Some_conv sc_base_def
      flags_match_calls_def)
  with flags assms show "sc_base s \<Longrightarrow> sc_base t" "sc_initialized t = sc_initialized s"
    by (auto simp: LoadPrefs_def bind_eq_Some_conv split: if_splits)
qed

lemma inv_UpdateState:
  "sc_initialized s \<Longrightarrow> sc_base s \<Longrightarrow> settings_synced mul s \<Longrightarrow> sc_inv mul (UpdateState env s)"
  by (simp add: sc_inv_def base_UpdateState UpdateState_flags)

lemma inv_UpdateSettingsAndState:
  "sc_initialized s \<Longrightarrow> sc_base s \<Longrightarrow> sc_inv (e_mul env) (UpdateSettingsAndState env s)"
  by (simp add: UpdateSettingsAndState_def inv_UpdateState synced_UpdateSettings)

subsection \<open>Every handler keeps the invariant\<close>

lemma checked_Some: "checked s u = Some t \<longleftrightarrow> sc_initialized s \<and> t = u"
  by (auto simp: checked_def)

lemma synced_inputs:
  assumes "settings_synced mul s" "settings_inputs t = settings_inputs s"
    "sc_idle_action t = sc_idle_action s" "sc_lid_closed_action t = sc_lid_closed_action s"
    "sc_delays t = sc_delays s" "sc_uses t = sc_uses s"
  shows "settings_synced mul t"
  using assms(1,3-6) by (simp add: settings_synced_def required_cong [OF assms(2)])

lemma synced_updates [simp]:
  "settings_synced mul s \<Longrightarrow> settings_synced mul (s\<lparr>sc_lid_state := ls\<rparr>)"
  "settings_synced mul s \<Longrightarrow> settings_synced mul (s\<lparr>sc_lid_closed_action_performed := b\<rparr>)"
  "settings_synced mul s \<Longrightarrow> settings_synced mul (s\<lparr>sc_last_video_activity_time := now\<rparr>)"
  "settings_synced mul s \<Longrightarrow> settings_synced mul (s\<lparr>sc_audio_activity := ai\<rparr>)"
  "settings_synced mul s \<Longrightarrow>
     settings_synced mul (s\<lparr>sc_saw_user_activity_during_current_session := b\<rparr>)"
  "settings_synced mul s \<Longrightarrow> settings_synced mul (s\<lparr>sc_action_timer := tm\<rparr>)"
  "settings_synced mul s \<Longrightarrow> settings_synced mul (s\<lparr>sc_action_timer_time_for_testing := now\<rparr>)"
  "settings_synced mul s \<Longrightarrow> settings_synced mul (s\<lparr>sc_initial_state_timer := tm\<rparr>)"
  "settings_synced mul s \<Longrightarrow> settings_synced mul (sc_tick s)"
  "settings_synced mul s \<Longrightarrow> settings_synced mul (UpdateLastUserActivityTime env s)"
  by (erule synced_inputs; simp add: settings_inputs_def sc_uses_def
    UpdateLastUserActivityTime_def)+

lemma synced_note_activity:
  assumes "settings_synced mul s"
    and "sc_saw_user_activity_soon_after_screen_dim_or_off (note_activity_after_dim env s) =
         sc_saw_user_activity_soon_after_screen_dim_or_off s"
  shows "settings_synced mul (note_activity_after_dim env s)"
  using assms by (auto simp: note_activity_after_dim_def Let_def split: if_splits)

lemma saw_activity_frame [simp]:
  "sc_saw_user_activity_soon_after_screen_dim_or_off (UpdateLastUserActivityTime env s) =
   sc_saw_user_activity_soon_after_screen_dim_or_off s"
  by (simp add: UpdateLastUserActivityTime_def)

lemmas inv_UpdateStates = inv_UpdateState inv_UpdateSettingsAndState

lemma inv_HandleUserActivity:
  assumes "sc_inv (e_mul env) s" "sc_HandleUserActivity env s = Some t"
  shows "sc_inv (e_mul env) t"
proof (cases "sc_saw_user_activity_soon_after_screen_dim_or_off (note_activity_after_dim env s) =
    sc_saw_user_activity_soon_after_screen_dim_or_off s")
  case True
  then show ?thesis
    using assms synced_note_activity [of "e_mul env" s env]
    by (auto simp: sc_HandleUserActivity_def checked_Some Let_def sc_inv_def [of _ s]
      intro!: inv_UpdateStates)
next
  case False
  then show ?thesis
    using assms by (auto simp: sc_HandleUserActivity_def checked_Some Let_def sc_inv_def [of _ s]
      intro!: inv_UpdateStates)
qed

lemma inv_step:
  assumes inv: "sc_inv (e_mul env) s" and step: "sc_step s (env, ev) = Some t"
  shows "sc_inv (e_mul env) t"
proof -
  from inv have s: "sc_initialized s" "sc_base s" "settings_synced (e_mul env) s"
    by (simp_all add: sc_inv_def)
  show ?thesis
  proof (cases ev)
    case (EvPrefChanged n)
    with step inv s show ?thesis
      by (auto simp: sc_OnPrefChanged_def LoadPrefs_frame split: if_splits
        intro!: inv_UpdateStates)
  next
    case EvUserActivity
    with inv step show ?thesis by (auto intro: inv_HandleUserActivity)
  next
    case EvResume
    with step s show ?thesis
      by (auto simp: HandleResume_def checked_Some intro!: inv_UpdateStates split: LidState.splits)
  qed (use inv s step in \<open>auto simp: checked_Some Let_def HandlePowerSourceChange_def
      HandleLidStateChange_def HandleSessionStateChange_def HandleUpdaterStateChange_def
      HandleDisplayModeChange_def HandlePolicyChange_def HandleVideoActivity_def
      HandleAudioStateChange_def HandleTpmStatus_def TriggerActionTimeout_def
      TriggerInitialStateTimeout_def HandleActionTimeout_def HandleInitialStateTimeout_def
      split: if_splits intro!: inv_UpdateStates\<close>)
qed

lemma LoadPrefs_keeps:
  "LoadPrefs env s = Some t \<Longrightarrow> sc_got_initial_display_mode t = sc_got_initial_display_mode s"
  "LoadPrefs env s = Some t \<Longrightarrow> sc_calls t = sc_calls s"
  by (auto simp: LoadPrefs_def load_delay_prefs_def load_flag_prefs_def
    MaybeStopInitialStateTimer_def bind_eq_Some_conv split: if_splits)

lemma inv_Init:
  assumes "sc_Init env ps ls StateController = Some s"
  shows "sc_inv (e_mul env) s"
proof -
  obtain u where u: "LoadPrefs env StateController = Some u"
    and s: "s = (UpdateSettingsAndState env ((sc_tick (u\<lparr>sc_last_user_activity_time := sc_now env u\<rparr>))
      \<lparr>sc_power_source := ps, sc_lid_state := ls,
       sc_initial_state_timer := Some (FromMilliseconds kInitialStateTimeoutMs)\<rparr>))
      \<lparr>sc_initialized := True\<rparr>"
    using assms by (auto simp: sc_Init_def bind_eq_Some_conv Let_def)
  define v where "v = (sc_tick (u\<lparr>sc_last_user_activity_time := sc_now env u\<rparr>))
      \<lparr>sc_power_source := ps, sc_lid_state := ls,
       sc_initial_state_timer := Some (FromMilliseconds kInitialStateTimeoutMs)\<rparr>"
  have "sc_base StateController"
    by (simp add: sc_base_def flags_match_calls_def StateController_def dim_calls_def
      off_calls_def panel_calls_def)
  then have "sc_base u" by (rule LoadPrefs_frame(1) [OF u])
  moreover have "\<not> sc_got_initial_display_mode u"
    using LoadPrefs_keeps(1) [OF u] by (simp add: StateController_def)
  ultimately have v: "sc_base v"
    by (simp add: v_def sc_base_def flags_match_calls_def)
  define w where "w = UpdateState env (UpdateSettings env v)"
  have "sc_base w" "settings_synced (e_mul env) w" "\<not> sc_resend_idle_warning w"
    "sc_turned_panel_off_for_docked_mode w = in_docked_mode w"
    using v by (simp_all add: w_def base_UpdateState synced_UpdateSettings UpdateState_flags)
  moreover from this(2) have "settings_synced (e_mul env) (w\<lparr>sc_initialized := True\<rparr>)"
    by (rule synced_inputs) (simp_all add: settings_inputs_def sc_uses_def)
  moreover have "s = w\<lparr>sc_initialized := True\<rparr>"
    unfolding s w_def v_def UpdateSettingsAndState_def ..
  ultimately show ?thesis
    by (simp add: sc_inv_def in_docked_mode_def)
qed

text \<open>
  The event loop with libchrome's multiplication of a \<^verbatim>\<open>TimeDelta\<close> fixed to \<open>mul\<close>
  throughout; everything else of the environment may differ from event to event.
\<close>

definition sc_step_mul ::
  "(TimeDelta \<Rightarrow> rat \<Rightarrow> TimeDelta) \<Rightarrow> state_controller \<Rightarrow> sc_env \<times> sc_event \<Rightarrow>
   state_controller option" where
  "sc_step_mul mul s e = sc_step s ((fst e)\<lparr>e_mul := mul\<rparr>, snd e)"

interpretation scm: event_machine "sc_step_mul mul" "sc_inv mul" for mul
proof
  fix s e t
  assume "sc_inv mul s" "sc_step_mul mul s e = Some t"
  then show "sc_inv mul t"
    using inv_step [of "(fst e)\<lparr>e_mul := mul\<rparr>" s "snd e" t] by (simp add: sc_step_mul_def)
qed

lemma reachable_inv:
  "sc_Init env ps ls StateController = Some s \<Longrightarrow>
     run_events (sc_step_mul (e_mul env)) s es = Some t \<Longrightarrow> sc_inv (e_mul env) t"
  by (erule scm.run_inv [OF inv_Init])

end
