(* ===== verification/State_Controller_Safety.thy ===== *)
theory State_Controller_Safety
  imports State_Controller_Settings
begin

text \<open>
  Guarantees of a running \<^verbatim>\<open>StateController\<close>: from \<^verbatim>\<open>Init()\<close> through any sequence of
  handler calls and timer firings, with the environment's answers chosen freely at every
  event.
\<close>

section \<open>A concrete device\<close>

text \<open>
  A concrete device for the witnesses: all delays are one minute, docked mode is allowed and
  the TPM threshold is 60000; the clock stands at one hour; the lid has just been opened.
\<close>

definition example_prefs :: prefs where
  "example_prefs = \<lparr>pref_string = \<lambda>_. None, pref_int64 = \<lambda>_. Some 60000,
     pref_bool = \<lambda>n. if n = ''allow_docked_mode'' then Some True else None\<rparr>"

definition example_env :: sc_env where
  "example_env = \<lparr>e_clock = \<lambda>_. 3600000000, e_IsUsbInputDeviceConnected = True,
     e_IsOobeCompleted = True, e_IsHdmiAudioActive = False, e_IsHeadphoneJackPlugged = False,
     e_QueryLidState = LID_CLOSED, e_prefs = example_prefs, e_mul = \<lambda>d f. d * floor f\<rparr>"


definition example_start :: state_controller where
  "example_start = the (sc_Init example_env AC LID_OPEN StateController)"

lemma example_start: "sc_Init example_env AC LID_OPEN StateController = Some example_start"
  by code_simp

section \<open>Guarantees of the running controller\<close>

text \<open>
  C1. Settings are never stale and paired calls never repeat. After \<^verbatim>\<open>Init()\<close> and any
  sequence of events, the idle action, lid-closed action, delays and activity switches in
  force are exactly those that the current power source, preferences, policy, display mode,
  update state and TPM counter require; the dim/undim calls, the screen off/on calls and the
  docked-mode panel calls made so far alternate, and the corresponding flags hold the state
  they lead to; the panel is off exactly in docked mode.
\<close>

theorem StateController_settings_and_calls:
  assumes "sc_Init env ps ls StateController = Some s"
    and "run_events (sc_step_mul (e_mul env)) s es = Some t"
  shows "settings_synced (e_mul env) t \<and>
    dim_calls (sc_calls t) = Some (sc_screen_dimmed t) \<and>
    off_calls (sc_calls t) = Some (sc_screen_turned_off t) \<and>
    panel_calls (sc_calls t) = Some (in_docked_mode t)"
  using reachable_inv [OF assms] by (simp add: sc_inv_def sc_base_def flags_match_calls_def)

definition example_events :: "(sc_env \<times> sc_event) list" where
  "example_events = [(example_env, EvDisplayMode DISPLAY_PRESENTATION),
     (example_env, EvPolicy (empty_policy\<lparr>pol_ac_idle_action := Some PROTO_SHUT_DOWN,
        pol_lid_closed_action := Some PROTO_SHUT_DOWN\<rparr>)),
     (example_env, EvTpmStatus 70000),
     (example_env, EvLidState LID_CLOSED),
     (example_env\<lparr>e_clock := \<lambda>_. 3700000000\<rparr>, EvActionTimeout)]"

definition example_end :: state_controller where
  "example_end = the (run_events (sc_step_mul (e_mul example_env)) example_start example_events)"

lemma example_end:
  "run_events (sc_step_mul (e_mul example_env)) example_start example_events = Some example_end"
  by code_simp

theorem StateController_settings_and_calls_witness:
  "settings_synced (e_mul example_env) example_end \<and>
    dim_calls (sc_calls example_end) = Some (sc_screen_dimmed example_end) \<and>
    off_calls (sc_calls example_end) = Some (sc_screen_turned_off example_end) \<and>
    panel_calls (sc_calls example_end) = Some (in_docked_mode example_end)"
  by (rule StateController_settings_and_calls [OF example_start example_end])

text \<open>The calls that the next \<^verbatim>\<open>UpdateState()\<close> makes.\<close>

lemma power_update_calls:
  "is_power_call c \<Longrightarrow> c \<in> set (update_calls env s) \<longleftrightarrow>
     c \<in> set (both_calls (idle_action_now env s) (lid_action_now s))"
  by (simp flip: filter_power_update)

lemma idle_action_now_cases:
  "idle_action_now env s = sc_idle_action s \<or> idle_action_now env s = DO_NOTHING"
  by (auto simp: idle_action_now_def us_idle_action_to_perform_def Let_def)

lemma lid_action_now_cases:
  "lid_action_now s = sc_lid_closed_action s \<or> lid_action_now s = DO_NOTHING"
  by (auto simp: lid_action_now_def)

text \<open>
  Every handler either returns at once or ends with one \<^verbatim>\<open>UpdateState()\<close> whose settings
  are in step with their inputs; before it, only user activity metrics may be reported.
\<close>

definition calls_extend :: "state_controller \<Rightarrow> state_controller \<Rightarrow> bool" where
  "calls_extend s v \<longleftrightarrow>
     (\<exists>r. sc_calls v = sc_calls s @ replicate r CallReportUserActivityMetrics)"

definition ends_with_update ::
  "sc_env \<Rightarrow> state_controller \<Rightarrow> state_controller \<Rightarrow> bool" where
  "ends_with_update env s t \<longleftrightarrow>
     (\<exists>v. t = UpdateState env v \<and> settings_synced (e_mul env) v \<and> calls_extend s v)"

lemma calls_extend_same [simp]: "sc_calls v = sc_calls s \<Longrightarrow> calls_extend s v"
  unfolding calls_extend_def by (rule exI [of _ 0]) simp

lemma calls_extend_activity:
  "sc_calls v = sc_calls s \<Longrightarrow> calls_extend s (UpdateLastUserActivityTime env v)"
  unfolding calls_extend_def
  by (rule exI [of _ 1]) (simp add: UpdateLastUserActivityTime_def sc_call_def)

lemma ends_with_UpdateState:
  "settings_synced (e_mul env) v \<Longrightarrow> calls_extend s v \<Longrightarrow> ends_with_update env s (UpdateState env v)"
  by (auto simp: ends_with_update_def)

lemma ends_with_UpdateSettingsAndState:
  "calls_extend s v \<Longrightarrow> ends_with_update env s (UpdateSettingsAndState env v)"
  by (simp add: UpdateSettingsAndState_def ends_with_UpdateState synced_UpdateSettings
    calls_extend_def)

lemma calls_frame [simp]:
  "sc_calls (MaybeStopInitialStateTimer s) = sc_calls s"
  "sc_calls (note_activity_after_dim env s) = sc_calls s"
  by (simp_all add: MaybeStopInitialStateTimer_def note_activity_after_dim_def Let_def)

lemmas ends_intros = ends_with_UpdateState ends_with_UpdateSettingsAndState
  calls_extend_activity

lemma user_activity_ends_with_update:
  assumes "settings_synced (e_mul env) s" "sc_HandleUserActivity env s = Some t" "t \<noteq> s"
  shows "ends_with_update env s t"
proof -
  define n where "n = note_activity_after_dim env s"
  define v where "v = (if sc_session_state n = SESSION_STARTED
    then n\<lparr>sc_saw_user_activity_during_current_session := True\<rparr> else n)"
  let ?u = "UpdateLastUserActivityTime env v"
  have saw: "sc_saw_user_activity_soon_after_screen_dim_or_off v =
      sc_saw_user_activity_soon_after_screen_dim_or_off n"
    and u: "calls_extend s ?u"
    by (simp_all add: v_def n_def calls_extend_activity)
  from assms(2,3) have t: "t = (if sc_saw_user_activity_soon_after_screen_dim_or_off s \<noteq>
      sc_saw_user_activity_soon_after_screen_dim_or_off ?u
      then UpdateSettingsAndState env ?u else UpdateState env ?u)"
    unfolding sc_HandleUserActivity_def checked_Some Let_def v_def n_def
    by presburger
  show ?thesis
  proof (cases "sc_saw_user_activity_soon_after_screen_dim_or_off n =
      sc_saw_user_activity_soon_after_screen_dim_or_off s")
    case True
    then have "settings_synced (e_mul env) n"
      using synced_note_activity [OF assms(1)] by (simp add: n_def)
    then have "settings_synced (e_mul env) ?u" by (simp add: v_def)
    with True u saw show ?thesis by (simp add: t ends_with_UpdateState)
  next
    case False
    with u saw show ?thesis by (auto simp: t intro: ends_with_UpdateSettingsAndState)
  qed
qed

lemma step_ends_with_update:
  assumes inv: "sc_inv (e_mul env) s" and step: "sc_step s (env, ev) = Some t" and "t \<noteq> s"
  shows "ends_with_update env s t"
proof -
  from inv have s: "settings_synced (e_mul env) s" by (simp add: sc_inv_def)
  show ?thesis
  proof (cases ev)
    case (EvPrefChanged n)
    with step \<open>t \<noteq> s\<close> show ?thesis
      by (auto simp: sc_OnPrefChanged_def LoadPrefs_keeps split: if_splits intro!: ends_intros)
  next
    case EvUserActivity
    with s step \<open>t \<noteq> s\<close> show ?thesis by (auto intro: user_activity_ends_with_update)
  next
    case EvResume
    with step s show ?thesis
      by (auto simp: HandleResume_def checked_Some intro!: ends_intros split: LidState.splits)
  qed (use s step \<open>t \<noteq> s\<close> in \<open>auto simp: checked_Some Let_def HandlePowerSourceChange_def
      HandleLidStateChange_def HandleSessionStateChange_def HandleUpdaterStateChange_def
      HandleDisplayModeChange_def HandlePolicyChange_def HandleVideoActivity_def
      HandleAudioStateChange_def HandleTpmStatus_def TriggerActionTimeout_def
      TriggerInitialStateTimeout_def HandleActionTimeout_def HandleInitialStateTimeout_def
      split: if_splits intro!: ends_intros\<close>)
qed

text \<open>
  A power call made by a step is one of the two actions in force after the step; the lid's
  only when the lid is then closed.
\<close>

lemma step_power_calls:
  assumes inv: "sc_inv (e_mul env) s" and step: "sc_step s (env, ev) = Some t"
  obtains cs where "sc_calls t = sc_calls s @ cs"
    and "\<And>a. a \<noteq> DO_NOTHING \<Longrightarrow> set (action_calls a) \<subseteq> set cs \<Longrightarrow>
      sc_idle_action t = a \<or> sc_lid_closed_action t = a \<and> sc_lid_state t = LID_CLOSED"
proof (cases "t = s")
  case True
  have "a \<noteq> DO_NOTHING \<Longrightarrow> \<not> set (action_calls a) \<subseteq> {}" for a by (cases a) auto
  with True show ?thesis by (intro that [of "[]"]) auto
next
  case False
  from step_ends_with_update [OF assms False] obtain v r where t: "t = UpdateState env v"
    and v: "sc_calls v = sc_calls s @ replicate r CallReportUserActivityMetrics"
    by (auto simp: ends_with_update_def calls_extend_def)
  show ?thesis
  proof (rule that [of "replicate r CallReportUserActivityMetrics @ update_calls env v"])
    show "sc_calls t = sc_calls s @ replicate r CallReportUserActivityMetrics @ update_calls env v"
      by (simp add: t v UpdateState_calls)
    fix a
    assume "a \<noteq> DO_NOTHING" and
      "set (action_calls a) \<subseteq> set (replicate r CallReportUserActivityMetrics @ update_calls env v)"
    then have "idle_action_now env v = a \<or> lid_action_now v = a"
      by (cases a) (auto simp: power_update_calls set_both_calls split: if_splits)
    with \<open>a \<noteq> DO_NOTHING\<close> idle_action_now_cases [of env v]
    show "sc_idle_action t = a \<or> sc_lid_closed_action t = a \<and> sc_lid_state t = LID_CLOSED"
      by (auto simp: t lid_action_now_def split: if_splits)
  qed
qed

text \<open>
  C3. Never shut down while the TPM is near a dictionary-attack lockout (a reboot would count
  as another attempt): in any run, a step that ends with the reported counter at or above a
  positive threshold does not ask for a shut-down, whatever the policy's idle and lid-closed
  actions are.
\<close>

theorem StateController_tpm_no_shut_down:
  assumes "sc_Init env ps ls StateController = Some s"
    and "run_events (sc_step_mul (e_mul env)) s es = Some t"
    and "sc_step_mul (e_mul env) t e = Some u"
    and "0 < sc_tpm_dictionary_attack_suspend_threshold u"
    and "sc_tpm_dictionary_attack_suspend_threshold u \<le> sc_tpm_dictionary_attack_count u"
  shows "\<exists>cs. sc_calls u = sc_calls t @ cs \<and> CallShutDown \<notin> set cs"
proof -
  have t: "sc_inv (e_mul env) t" by (rule reachable_inv [OF assms(1,2)])
  have u: "sc_inv (e_mul env) u" by (rule scm.step_inv [OF t assms(3)])
  then have "sc_idle_action u \<noteq> SHUT_DOWN" "sc_lid_closed_action u \<noteq> SHUT_DOWN"
    using assms(4,5) by (auto simp: sc_inv_def settings_synced_def required_idle_action_def
      required_lid_closed_action_def tpm_counter_high_def Let_def)
  moreover obtain cs where "sc_calls u = sc_calls t @ cs" "\<And>a. a \<noteq> DO_NOTHING \<Longrightarrow>
      set (action_calls a) \<subseteq> set cs \<Longrightarrow>
      sc_idle_action u = a \<or> sc_lid_closed_action u = a \<and> sc_lid_state u = LID_CLOSED"
    using step_power_calls [of "(fst e)\<lparr>e_mul := e_mul env\<rparr>" t "snd e" u] t assms(3)
    by (auto simp: sc_step_mul_def)
  from this(1) this(2) [of SHUT_DOWN] show ?thesis
    using \<open>sc_idle_action u \<noteq> SHUT_DOWN\<close> \<open>sc_lid_closed_action u \<noteq> SHUT_DOWN\<close> by auto
qed

theorem StateController_tpm_no_shut_down_witness:
  "\<exists>cs. sc_calls (the (sc_step_mul (e_mul example_env) example_end (example_env, EvLidState LID_OPEN)))
     = sc_calls example_end @ cs \<and> CallShutDown \<notin> set cs"
  by (rule StateController_tpm_no_shut_down [OF example_start example_end,
      where e = "(example_env, EvLidState LID_OPEN)"]) code_simp+

text \<open>
  C4. No inactivity suspend during an update or when idle suspend is disabled: in any run, a
  step after which the lid is not closed and an update is being applied on AC power, or the
  \<^verbatim>\<open>disable_idle_suspend\<close> preference is in force, neither suspends nor shuts down,
  however long the user has been inactive.
\<close>

theorem StateController_update_keeps_awake:
  assumes "sc_Init env ps ls StateController = Some s"
    and "run_events (sc_step_mul (e_mul env)) s es = Some t"
    and "sc_step_mul (e_mul env) t e = Some u"
    and "sc_disable_idle_suspend u \<or>
         sc_updater_state u = UPDATER_UPDATING \<and> sc_power_source u = AC"
    and "sc_lid_state u \<noteq> LID_CLOSED"
  shows "\<exists>cs. sc_calls u = sc_calls t @ cs \<and> CallSuspend \<notin> set cs \<and> CallShutDown \<notin> set cs"
proof -
  have t: "sc_inv (e_mul env) t" by (rule reachable_inv [OF assms(1,2)])
  have u: "sc_inv (e_mul env) u" by (rule scm.step_inv [OF t assms(3)])
  have act: "sc_idle_action u \<noteq> SHUT_DOWN \<and> sc_idle_action u \<noteq> SUSPEND"
    using u assms(4) by (auto simp: sc_inv_def settings_synced_def required_idle_action_def
      Let_def)
  obtain cs where cs: "sc_calls u = sc_calls t @ cs" "\<And>a. a \<noteq> DO_NOTHING \<Longrightarrow>
      set (action_calls a) \<subseteq> set cs \<Longrightarrow>
      sc_idle_action u = a \<or> sc_lid_closed_action u = a \<and> sc_lid_state u = LID_CLOSED"
    using step_power_calls [of "(fst e)\<lparr>e_mul := e_mul env\<rparr>" t "snd e" u] t assms(3)
    by (auto simp: sc_step_mul_def)
  show ?thesis
    using cs(1) cs(2) [of SUSPEND] cs(2) [of SHUT_DOWN] act assms(5) by auto
qed

definition updating_events :: "(sc_env \<times> sc_event) list" where
  "updating_events = [(example_env, EvUpdaterState UPDATER_UPDATING)]"

definition updating_state :: state_controller where
  "updating_state =
     the (run_events (sc_step_mul (e_mul example_env)) example_start updating_events)"

definition updating_step :: "sc_env \<times> sc_event" where
  "updating_step = (example_env\<lparr>e_clock := \<lambda>_. 9000000000\<rparr>, EvActionTimeout)"

theorem StateController_update_keeps_awake_witness:
  "\<exists>cs. sc_calls (the (sc_step_mul (e_mul example_env) updating_state updating_step)) =
      sc_calls updating_state @ cs \<and> CallSuspend \<notin> set cs \<and> CallShutDown \<notin> set cs"
  by (rule StateController_update_keeps_awake [OF example_start, where es = updating_events
      and e = updating_step]) code_simp+

text \<open>Each power call is made at most once by an update.\<close>

lemma count_list_distinct: "distinct xs \<Longrightarrow> count_list xs x = (if x \<in> set xs then 1 else 0)"
  by (induction xs) auto

lemma count_list_filter: "P x \<Longrightarrow> count_list (filter P xs) x = count_list xs x"
  by (induction xs) auto

lemma count_power_update:
  "is_power_call c \<Longrightarrow> count_list (update_calls env s) c =
     (if c \<in> set (both_calls (idle_action_now env s) (lid_action_now s)) then 1 else 0)"
  using count_list_filter [of is_power_call c "update_calls env s"]
  by (simp add: filter_power_update count_list_distinct set_both_calls)

lemma idle_duration_lid_flag:
  "idle_duration env (s\<lparr>sc_lid_closed_action_performed := b\<rparr>) = idle_duration env s"
  using static_activity_times [of "s\<lparr>sc_lid_closed_action_performed := b\<rparr>" s]
  by (simp add: idle_duration_def sc_now_def)

text \<open>
  C7. Resuming with the lid still closed suspends again: when the lid was closed before the
  suspend, its action is to suspend and had been performed, and the lid is still closed on
  resume, \<^verbatim>\<open>HandleResume()\<close> requests exactly one suspend and no shutdown. The one
  exception is an idle action to shut down that is due on the resume (setup completed, the
  inactivity has reached the idle delay, the action not performed yet): then the system is
  shut down, once, and not suspended. Either way the lid action counts as performed.
\<close>

theorem HandleResume_lid_still_closed:
  assumes "sc_initialized s" "sc_lid_state s = LID_CLOSED" "e_QueryLidState env = LID_CLOSED"
    and "sc_lid_closed_action s = SUSPEND" "sc_lid_closed_action_performed s"
    and "\<not> waiting_for_initial_state s"
  shows "\<exists>t cs. HandleResume env s = Some t \<and> sc_calls t = sc_calls s @ cs \<and>
    sc_lid_closed_action_performed t \<and>
    (let shut_down = (sc_idle_action s = SHUT_DOWN \<and> e_IsOobeCompleted env \<and>
           \<not> sc_idle_action_performed s \<and> d_idle (sc_delays s) \<le> idle_duration env s)
     in count_list cs CallShutDown = (if shut_down then 1 else 0) \<and>
        count_list cs CallSuspend = (if shut_down then 0 else 1))"
proof -
  let ?s = "s\<lparr>sc_lid_closed_action_performed := False\<rparr>"
  have lid: "lid_action_now ?s = SUSPEND"
    using assms by (simp add: lid_action_now_def waiting_for_initial_state_def)
  have idle: "idle_action_now env ?s = SHUT_DOWN \<longleftrightarrow> sc_idle_action s = SHUT_DOWN \<and>
      e_IsOobeCompleted env \<and> \<not> sc_idle_action_performed s \<and>
      d_idle (sc_delays s) \<le> idle_duration env s"
    using idle_duration_lid_flag [of env False s]
    by (auto simp: idle_action_now_def us_idle_action_to_perform_def Let_def)
  have "HandleResume env s = Some (UpdateState env ?s)"
    using assms by (simp add: HandleResume_def checked_def)
  moreover have "sc_lid_closed_action_performed (UpdateState env ?s)"
    using assms by (simp add: UpdateState_flags waiting_for_initial_state_def)
  moreover have "sc_calls (UpdateState env ?s) = sc_calls s @ update_calls env ?s"
    by (simp add: UpdateState_calls)
  moreover have "count_list (update_calls env ?s) CallShutDown =
      (if idle_action_now env ?s = SHUT_DOWN then 1 else 0)"
    "count_list (update_calls env ?s) CallSuspend =
      (if idle_action_now env ?s = SHUT_DOWN then 0 else 1)"
    by (simp_all add: count_power_update set_both_calls lid)
  ultimately show ?thesis
    by (intro exI [of _ "UpdateState env ?s"] exI [of _ "update_calls env ?s"])
      (simp only: Let_def idle simp_thms)
qed

definition closed_state :: state_controller where
  "closed_state = the (run_events (sc_step_mul (e_mul example_env)) example_start
     [(example_env, EvDisplayMode DISPLAY_NORMAL), (example_env, EvPolicy empty_policy),
      (example_env, EvLidState LID_CLOSED)])"

theorem HandleResume_lid_still_closed_witness:
  "\<exists>t cs. HandleResume example_env closed_state = Some t \<and>
     sc_calls t = sc_calls closed_state @ cs \<and> sc_lid_closed_action_performed t \<and>
     count_list cs CallShutDown = 0 \<and> count_list cs CallSuspend = 1"
proof -
  have "sc_initialized closed_state" "sc_lid_state closed_state = LID_CLOSED"
    "e_QueryLidState example_env = LID_CLOSED" "sc_lid_closed_action closed_state = SUSPEND"
    "sc_lid_closed_action_performed closed_state" "\<not> waiting_for_initial_state closed_state"
    by code_simp+
  moreover have "sc_idle_action closed_state \<noteq> SHUT_DOWN" by code_simp
  ultimately show ?thesis
    using HandleResume_lid_still_closed [of closed_state example_env] by (simp add: Let_def)
qed

lemma user_activity_last_time:
  assumes "sc_HandleUserActivity env s = Some t" "sc_lid_state s \<noteq> LID_CLOSED \<or> in_docked_mode s"
  obtains v n where "t = UpdateState env v" "sc_last_user_activity_time v = e_clock env n"
    and "\<not> waiting_for_initial_user_activity v"
proof -
  define n where "n = note_activity_after_dim env s"
  define w where "w = (if sc_session_state n = SESSION_STARTED
    then n\<lparr>sc_saw_user_activity_during_current_session := True\<rparr> else n)"
  define u where "u = UpdateLastUserActivityTime env w"
  from assms have t: "t = (if sc_saw_user_activity_soon_after_screen_dim_or_off s \<noteq>
      sc_saw_user_activity_soon_after_screen_dim_or_off u
      then UpdateSettingsAndState env u else UpdateState env u)"
    unfolding sc_HandleUserActivity_def checked_Some Let_def u_def w_def n_def
    by presburger
  have "sc_last_user_activity_time u = e_clock env (sc_clock_reads w)"
    by (simp add: u_def UpdateLastUserActivityTime_def sc_now_def)
  moreover have "sc_session_state u = SESSION_STARTED \<Longrightarrow>
      sc_saw_user_activity_during_current_session u"
    by (auto simp: u_def w_def UpdateLastUserActivityTime_def)
  ultimately have "\<exists>n. sc_last_user_activity_time v = e_clock env n"
      "\<not> waiting_for_initial_user_activity v" if "v = u \<or> v = UpdateSettings env u" for v
    using that by (auto simp: waiting_for_initial_user_activity_def)
  moreover obtain v where "v = u \<or> v = UpdateSettings env u" "t = UpdateState env v"
    unfolding t UpdateSettingsAndState_def by metis
  ultimately show ?thesis using that by blast
qed

lemma activity_times_lower:
  assumes "\<not> waiting_for_initial_user_activity s"
  shows "sc_last_user_activity_time s \<le> GetLastActivityTimeForIdle now s"
    and "sc_last_user_activity_time s \<le> GetLastActivityTimeForScreenDim now s"
    and "sc_last_user_activity_time s \<le> GetLastActivityTimeForScreenOff env now s"
  using assms by (auto simp: GetLastActivityTimeForIdle_def GetLastActivityTimeForScreenDim_def
    GetLastActivityTimeForScreenOff_def base_activity_time_def Let_def)

text \<open>
  C6. User activity brings the screen back: with the lid open (or docked), if the clock
  moves by less than every positive delay while the event is handled, then after
  \<^verbatim>\<open>HandleUserActivity()\<close> the screen is neither dimmed nor off, no lock or idle warning
  is outstanding and the idle action is armed again.
\<close>

theorem HandleUserActivity_wakes_screen:
  assumes handled: "sc_HandleUserActivity env s = Some t"
    and lid: "sc_lid_state s \<noteq> LID_CLOSED \<or> in_docked_mode s"
    and clock: "\<And>i j. e_clock env j - e_clock env i < B"
    and delays: "\<And>d. d \<in> {d_screen_dim (sc_delays t), d_screen_off (sc_delays t),
      d_screen_lock (sc_delays t), d_idle_warning (sc_delays t)} \<Longrightarrow> 0 < d \<Longrightarrow> B \<le> d"
    and idle: "B \<le> d_idle (sc_delays t)"
  shows "\<not> sc_screen_dimmed t \<and> \<not> sc_screen_turned_off t \<and> \<not> sc_requested_screen_lock t \<and>
    \<not> sc_sent_idle_warning t \<and> \<not> sc_idle_action_performed t"
proof -
  obtain v n where t: "t = UpdateState env v" and v: "sc_last_user_activity_time v = e_clock env n"
    "\<not> waiting_for_initial_user_activity v"
    by (rule user_activity_last_time [OF handled lid])
  have "sc_now env v - sc_last_user_activity_time v < B"
    using clock by (simp add: v sc_now_def)
  then have "idle_duration env v < B" "dim_duration env v < B" "off_duration env v < B"
    using activity_times_lower(1,2) [OF v(2), of "sc_now env v"]
      activity_times_lower(3) [OF v(2), of env "sc_now env v"]
    by (simp_all add: idle_duration_def dim_duration_def off_duration_def)
  with delays idle show ?thesis
    by (force simp: t UpdateState_flags)
qed

definition dimmed_state :: state_controller where
  "dimmed_state = the (run_events (sc_step_mul (e_mul example_env)) example_start
     [(example_env\<lparr>e_clock := \<lambda>_. 3700000000\<rparr>, EvActionTimeout)])"

definition awake_state :: state_controller where
  "awake_state = the (sc_HandleUserActivity (example_env\<lparr>e_clock := \<lambda>_. 3800000000\<rparr>) dimmed_state)"

theorem HandleUserActivity_wakes_screen_witness:
  "sc_screen_dimmed dimmed_state \<and> \<not> sc_screen_dimmed awake_state \<and>
   \<not> sc_screen_turned_off awake_state \<and> \<not> sc_requested_screen_lock awake_state \<and>
   \<not> sc_sent_idle_warning awake_state \<and> \<not> sc_idle_action_performed awake_state"
proof (rule conjI)
  show "sc_screen_dimmed dimmed_state" by code_simp
  have d: "sc_delays awake_state = \<lparr>d_idle = 60000000, d_idle_warning = 0,
      d_screen_off = 60000000, d_screen_dim = 60000000, d_screen_lock = 0\<rparr>"
    by code_simp
  show "\<not> sc_screen_dimmed awake_state \<and>
     \<not> sc_screen_turned_off awake_state \<and> \<not> sc_requested_screen_lock awake_state \<and>
     \<not> sc_sent_idle_warning awake_state \<and> \<not> sc_idle_action_performed awake_state"
  proof (rule HandleUserActivity_wakes_screen [where B = 1 and s = dimmed_state
      and env = "example_env\<lparr>e_clock := \<lambda>_. 3800000000\<rparr>"])
    show "sc_HandleUserActivity (example_env\<lparr>e_clock := \<lambda>_. 3800000000\<rparr>) dimmed_state =
        Some awake_state"
      by code_simp
    show "sc_lid_state dimmed_state \<noteq> LID_CLOSED \<or> in_docked_mode dimmed_state" by code_simp
  qed (auto simp: d)
qed

definition delay_pref_names :: "string list" where
  "delay_pref_names = [''plugged_suspend_ms'', ''plugged_off_ms'', ''plugged_dim_ms'',
     ''unplugged_suspend_ms'', ''unplugged_off_ms'', ''unplugged_dim_ms'']"

text \<open>
  \<^verbatim>\<open>Init()\<close> aborts exactly when one of the six inactivity delay preferences is
  missing; every other preference is optional.
\<close>

theorem sc_Init_aborts_iff:
  "sc_Init env ps ls s = None \<longleftrightarrow>
     (\<exists>n \<in> set delay_pref_names. pref_int64 (e_prefs env) n = None)"
proof -
  have "load_delay_prefs p u = None \<longleftrightarrow> (\<exists>n \<in> set delay_pref_names. pref_int64 p n = None)" for p u
    by (simp add: load_delay_prefs_def delay_pref_names_def GetMillisecondPref_def
      bind_eq_None_conv split: option.splits)
  then show ?thesis
    by (simp add: sc_Init_def LoadPrefs_def bind_eq_None_conv Let_def)
qed

end
