(* ===== verification/Suspend_Delays.thy ===== *)
theory Suspend_Delays
  imports Powerd_Prelude
begin

text \<open>
  \<^verbatim>\<open>SuspendDelayController\<close>
  (\<^verbatim>\<open>src/power_manager/powerd/policy/suspend_delay_controller.{h,cc}\<close>): other processes
  register delays; when a suspend is announced the controller waits until every registered
  delay has reported readiness or the longest timeout has passed, and then notifies its
  observer.

  The zero-delay timer
  \<^verbatim>\<open>notify_observers_timer_\<close> is represented by the suspend ID bound to its task. Both
  timers are stopped before their task runs. IDs are \<open>int\<close>: powerd starts them low enough
  for 2^15 requests (\<^verbatim>\<open>Daemon::GetInitialSuspendId()\<close>), so they are not wrapped here.
\<close>

section \<open>State\<close>

record delay_info =
  di_timeout :: TimeDelta
  di_dbus_client :: string
  di_description :: string

definition empty_delay_info :: delay_info where
  "empty_delay_info = \<lparr>di_timeout = 0, di_dbus_client = [], di_description = []\<rparr>"

type_synonym delay_info_map = "(int \<times> delay_info) list"

record suspend_delay_controller =
  sdc_registered_delays :: delay_info_map
  sdc_description :: string
  sdc_next_delay_id :: int
  sdc_current_suspend_id :: int
  sdc_delay_ids_being_waited_on :: "int set"
  sdc_notify_observers_timer :: "int option"
  sdc_delay_expiration_timer :: OneShotTimer

definition SuspendDelayController :: "int \<Rightarrow> string \<Rightarrow> suspend_delay_controller" where
  "SuspendDelayController initial_delay_id description = \<lparr>
     sdc_registered_delays = [], sdc_description = description,
     sdc_next_delay_id = initial_delay_id, sdc_current_suspend_id = 0,
     sdc_delay_ids_being_waited_on = {}, sdc_notify_observers_timer = None,
     sdc_delay_expiration_timer = None\<rparr>"

section \<open>Operations\<close>

definition kMaxDelayTimeoutMs :: int where
  "kMaxDelayTimeoutMs = 20000"

record register_request =
  rr_timeout :: int
  rr_description :: string

definition PostNotifyObserversTask ::
  "int \<Rightarrow> suspend_delay_controller \<Rightarrow> suspend_delay_controller" where
  "PostNotifyObserversTask suspend_id c = c\<lparr>sdc_notify_observers_timer := Some suspend_id\<rparr>"

definition ready_for_suspend :: "suspend_delay_controller \<Rightarrow> bool" where
  "ready_for_suspend c \<longleftrightarrow> sdc_delay_ids_being_waited_on c = {}"

definition RegisterSuspendDelay ::
  "register_request \<Rightarrow> string \<Rightarrow> suspend_delay_controller \<Rightarrow> int \<times> suspend_delay_controller" where
  "RegisterSuspendDelay request dbus_client c =
     (let delay_id = sdc_next_delay_id c;
          info = \<lparr>di_timeout = rr_timeout request, di_dbus_client = dbus_client,
                  di_description = rr_description request\<rparr>
      in (delay_id, c\<lparr>sdc_next_delay_id := delay_id + 1,
           sdc_registered_delays := map_insert delay_id info (sdc_registered_delays c)\<rparr>))"

definition RemoveDelayFromWaitList ::
  "int \<Rightarrow> suspend_delay_controller \<Rightarrow> suspend_delay_controller" where
  "RemoveDelayFromWaitList delay_id c =
     (if delay_id \<notin> sdc_delay_ids_being_waited_on c then c
      else let c1 = c\<lparr>sdc_delay_ids_being_waited_on :=
                        sdc_delay_ids_being_waited_on c - {delay_id}\<rparr>
           in if sdc_delay_ids_being_waited_on c1 = {}
              then PostNotifyObserversTask (sdc_current_suspend_id c1)
                     (c1\<lparr>sdc_delay_expiration_timer := None\<rparr>)
              else c1)"

definition UnregisterDelayInternal ::
  "int \<Rightarrow> suspend_delay_controller \<Rightarrow> suspend_delay_controller" where
  "UnregisterDelayInternal delay_id c =
     (if \<not> map_count delay_id (sdc_registered_delays c) then c
      else let c1 = RemoveDelayFromWaitList delay_id c
           in c1\<lparr>sdc_registered_delays := map_erase delay_id (sdc_registered_delays c1)\<rparr>)"

definition UnregisterSuspendDelay ::
  "int \<Rightarrow> suspend_delay_controller \<Rightarrow> suspend_delay_controller" where
  "UnregisterSuspendDelay delay_id c = UnregisterDelayInternal delay_id c"

definition sdc_HandleSuspendReadiness ::
  "int \<Rightarrow> int \<Rightarrow> suspend_delay_controller \<Rightarrow> suspend_delay_controller" where
  "sdc_HandleSuspendReadiness delay_id suspend_id c =
     (if suspend_id \<noteq> sdc_current_suspend_id c then c
      else if delay_id \<notin> sdc_delay_ids_being_waited_on c then c
      else RemoveDelayFromWaitList delay_id c)"

definition HandleDBusClientDisconnected ::
  "string \<Rightarrow> suspend_delay_controller \<Rightarrow> suspend_delay_controller" where
  "HandleDBusClientDisconnected client c =
     (let delay_ids_to_remove = map fst
        (filter (\<lambda>e. di_dbus_client (snd e) = client) (sdc_registered_delays c))
      in fold UnregisterDelayInternal delay_ids_to_remove c)"

definition max_delay_timeout :: "delay_info_map \<Rightarrow> TimeDelta" where
  "max_delay_timeout m =
     min (fold (\<lambda>e t. max t (di_timeout (snd e))) m 0) (FromMilliseconds kMaxDelayTimeoutMs)"

definition PrepareForSuspend ::
  "int \<Rightarrow> suspend_delay_controller \<Rightarrow> suspend_delay_controller" where
  "PrepareForSuspend suspend_id c0 =
     (let c = c0\<lparr>sdc_current_suspend_id := suspend_id,
                 sdc_delay_ids_being_waited_on := set (map fst (sdc_registered_delays c0))\<rparr>
      in if sdc_delay_ids_being_waited_on c = {}
         then PostNotifyObserversTask (sdc_current_suspend_id c) c
         else c\<lparr>sdc_delay_expiration_timer :=
                  Some (max_delay_timeout (sdc_registered_delays c))\<rparr>)"

definition FinishSuspend ::
  "int \<Rightarrow> suspend_delay_controller \<Rightarrow> suspend_delay_controller" where
  "FinishSuspend suspend_id c =
     (if suspend_id \<noteq> sdc_current_suspend_id c then c
      else c\<lparr>sdc_delay_expiration_timer := None, sdc_delay_ids_being_waited_on := {}\<rparr>)"

text \<open>
  The loop that builds the log message reads \<^verbatim>\<open>registered_delays_[*it]\<close>, which would add
  an entry for an ID that is not registered; its iteration order is by key.
\<close>

definition OnDelayExpiration :: "suspend_delay_controller \<Rightarrow> suspend_delay_controller" where
  "OnDelayExpiration c =
     (let m = fold (map_touch empty_delay_info)
                (sorted_list_of_set (sdc_delay_ids_being_waited_on c)) (sdc_registered_delays c)
      in PostNotifyObserversTask (sdc_current_suspend_id c)
           (c\<lparr>sdc_registered_delays := m, sdc_delay_ids_being_waited_on := {}\<rparr>))"

text \<open>The timers as the message loop fires them; \<open>fire_notify\<close> returns the ID passed to
  \<^verbatim>\<open>OnReadyForSuspend()\<close>.\<close>

definition fire_expiration :: "suspend_delay_controller \<Rightarrow> suspend_delay_controller" where
  "fire_expiration c =
     (if IsRunning (sdc_delay_expiration_timer c)
      then OnDelayExpiration (c\<lparr>sdc_delay_expiration_timer := None\<rparr>) else c)"

definition NotifyObservers ::
  "suspend_delay_controller \<Rightarrow> int option \<times> suspend_delay_controller" where
  "NotifyObservers c =
     (sdc_notify_observers_timer c, c\<lparr>sdc_notify_observers_timer := None\<rparr>)"

end
