(* ===== verification/Dark_Resume.thy ===== *)
theory Dark_Resume
  imports Powerd_Prelude "HOL-Library.Monad_Syntax"
begin

text \<open>
  \<^verbatim>\<open>DarkResume\<close> (\<^verbatim>\<open>src/power_manager/powerd/system/dark_resume.{h,cc}\<close>): decides before
  each suspend attempt whether to suspend (and for how long) or to shut down, from the
  battery level, and tells whether a resume was a dark one.

  Battery percentages are doubles that are only compared; they are \<open>rat\<close>. What comes from
  libchrome or the file system is in \<open>dr_env\<close>: path tests and appends, string parsing, file
  reads and the outcome of writes. \<open>dr_writes\<close> records the files written, with their
  contents. \<^verbatim>\<open>timer_\<close> exists iff \<open>dr_has_timer\<close>. Dereferencing the end iterator of an
  empty map is \<open>None\<close>.
\<close>

section \<open>State\<close>

datatype DarkAction = DARK_SUSPEND | DARK_SHUT_DOWN

record dr_env =
  dre_can_wake_from_suspend :: bool
  dre_PathExists :: "string \<Rightarrow> bool"
  dre_AppendASCII :: "string \<Rightarrow> string \<Rightarrow> string"
  dre_TrimTrailing :: "string \<Rightarrow> string"
  dre_SplitKeyValuePairs :: "string \<Rightarrow> (string \<times> string) list option"
  dre_SplitLines :: "string \<Rightarrow> string list"
  dre_StringToDouble :: "string \<Rightarrow> rat option"
  dre_StringToInt :: "string \<Rightarrow> int option"
  dre_StringToUint64 :: "string \<Rightarrow> 64 word option"
  dre_ReadFileToString :: "string \<Rightarrow> string option"
  dre_WriteFileFully :: "string \<Rightarrow> string \<Rightarrow> bool"
  dre_prefs :: prefs

record power_reading =
  pr_RefreshImmediately :: bool
  pr_battery_percentage :: rat
  pr_line_power_on :: bool

record dark_resume =
  dr_writes :: "(string \<times> string) list"
  dr_in_dark_resume :: bool
  dr_enabled :: bool
  dr_using_wakeup_type :: bool
  dr_can_safely_exit_dark_resume :: bool
  dr_has_timer :: bool
  dr_timer :: OneShotTimer
  dr_state_path :: string
  dr_battery_shutdown_threshold :: rat
  dr_suspend_durations :: "(rat \<times> TimeDelta) list"
  dr_next_action :: DarkAction
  dr_dark_resume_sources :: "string list"
  dr_dark_resume_devices :: "string list"

definition kDarkResumeStatePath :: string where
  "kDarkResumeStatePath = ''/sys/power/dark_resume_state''"

definition kWakeupTypePath :: string where
  "kWakeupTypePath = ''/sys/power/wakeup_type''"

definition kPMTestPath :: string where
  "kPMTestPath = ''/sys/power/pm_test''"

definition kPMTestDelayPath :: string where
  "kPMTestDelayPath = ''/sys/power/pm_test_delay''"

definition kPowerStatePath :: string where
  "kPowerStatePath = ''/sys/power/state''"

definition DarkResume :: dark_resume where
  "DarkResume = \<lparr>dr_writes = [], dr_in_dark_resume = False, dr_enabled = False,
     dr_using_wakeup_type = False, dr_can_safely_exit_dark_resume = False,
     dr_has_timer = False, dr_timer = None, dr_state_path = [],
     dr_battery_shutdown_threshold = 0, dr_suspend_durations = [],
     dr_next_action = DARK_SUSPEND, dr_dark_resume_sources = [], dr_dark_resume_devices = []\<rparr>"

section \<open>Setup\<close>

definition dr_write :: "string \<Rightarrow> string \<Rightarrow> dark_resume \<Rightarrow> dark_resume" where
  "dr_write path data d = d\<lparr>dr_writes := dr_writes d @ [(path, data)]\<rparr>"

definition SetStates :: "string list \<Rightarrow> string \<Rightarrow> dark_resume \<Rightarrow> dark_resume" where
  "SetStates files state d = fold (\<lambda>path. dr_write path state) files d"

definition GetFiles :: "dr_env \<Rightarrow> string \<Rightarrow> string \<Rightarrow> string list" where
  "GetFiles env pref_name base_file =
     (case pref_string (dre_prefs env) pref_name of
        None \<Rightarrow> []
      | Some data \<Rightarrow> map (\<lambda>line. dre_AppendASCII env (dre_AppendASCII env line ''power'') base_file)
                      (dre_SplitLines env data))"

fun read_durations ::
  "dr_env \<Rightarrow> (string \<times> string) list \<Rightarrow> (rat \<times> TimeDelta) list \<Rightarrow>
   bool \<times> (rat \<times> TimeDelta) list" where
  "read_durations env [] m = (m \<noteq> [], m)"
| "read_durations env ((level, seconds) # pairs) m =
     (case (dre_StringToDouble env level, dre_StringToInt env seconds) of
        (Some battery_level, Some suspend_duration) \<Rightarrow>
          (if 86400 dvd suspend_duration then (False, m)
           else read_durations env pairs
                  (map_assign battery_level (FromSeconds suspend_duration) m))
      | _ \<Rightarrow> (False, m))"

definition ReadSuspendDurationsPref :: "dr_env \<Rightarrow> dark_resume \<Rightarrow> bool \<times> dark_resume" where
  "ReadSuspendDurationsPref env d0 =
     (let d = d0\<lparr>dr_suspend_durations := []\<rparr> in
      case pref_string (dre_prefs env) ''dark_resume_suspend_durations'' of
        None \<Rightarrow> (False, d)
      | Some data \<Rightarrow>
          (case dre_SplitKeyValuePairs env (dre_TrimTrailing env data) of
             None \<Rightarrow> (False, d)
           | Some pairs \<Rightarrow>
               (let (ok, m) = read_durations env pairs []
                in (ok, d\<lparr>dr_suspend_durations := m\<rparr>))))"

text \<open>\<^verbatim>\<open>Init()\<close>: the timer and \<^verbatim>\<open>enabled_\<close>, the state path, the device files.\<close>

definition init_enabled :: "dr_env \<Rightarrow> dark_resume \<Rightarrow> dark_resume" where
  "init_enabled env d0 =
     (let d = (if dre_can_wake_from_suspend env then d0\<lparr>dr_has_timer := True\<rparr> else d0);
          disable = get_or (pref_bool (dre_prefs env) ''disable_dark_resume'') False
      in if disable then d\<lparr>dr_enabled := False\<rparr>
         else let (read_ok, d) = ReadSuspendDurationsPref env d in d\<lparr>dr_enabled := read_ok\<rparr>)"

definition init_state_path :: "dr_env \<Rightarrow> dark_resume \<Rightarrow> string \<times> string \<times> dark_resume" where
  "init_state_path env d0 =
     (let d = d0\<lparr>dr_state_path := kWakeupTypePath\<rparr> in
      if dre_PathExists env kWakeupTypePath
      then (''wakeup_type'', if dr_enabled d then ''automatic'' else ''unknown'',
            d\<lparr>dr_using_wakeup_type := True\<rparr>)
      else if dre_PathExists env kDarkResumeStatePath
      then (''dark_resume_source'', if dr_enabled d then ''enabled'' else ''disabled'',
            d\<lparr>dr_state_path := kDarkResumeStatePath, dr_using_wakeup_type := False\<rparr>)
      else ([], [], d\<lparr>dr_enabled := False\<rparr>))"

definition init_devices :: "dr_env \<Rightarrow> string \<Rightarrow> string \<Rightarrow> dark_resume \<Rightarrow> dark_resume" where
  "init_devices env source_file source_state d =
     (let d = d\<lparr>dr_dark_resume_sources := GetFiles env ''dark_resume_sources'' source_file,
                dr_dark_resume_devices :=
                  GetFiles env ''dark_resume_devices'' ''dark_resume_active''\<rparr>;
          d = SetStates (dr_dark_resume_sources d) source_state d;
          d = SetStates (dr_dark_resume_devices d)
                (if dr_enabled d then ''enabled'' else ''disabled'') d
      in d\<lparr>dr_can_safely_exit_dark_resume := dre_PathExists env kPMTestDelayPath\<rparr>)"

definition dr_Init :: "dr_env \<Rightarrow> dark_resume \<Rightarrow> dark_resume" where
  "dr_Init env d0 =
     (let (source_file, source_state, d) = init_state_path env (init_enabled env d0)
      in if dr_enabled d then init_devices env source_file source_state d else d)"

definition dr_destroy :: "dark_resume \<Rightarrow> dark_resume" where
  "dr_destroy d =
     (if dr_enabled d
      then SetStates (dr_dark_resume_devices d) ''disabled''
             (SetStates (dr_dark_resume_sources d)
               (if dr_using_wakeup_type d then ''unknown'' else ''disabled'') d)
      else d)"

section \<open>Suspend attempts\<close>

definition GetNextSuspendDuration :: "power_reading \<Rightarrow> dark_resume \<Rightarrow> TimeDelta option" where
  "GetNextSuspendDuration p d =
     (let m = dr_suspend_durations d;
          below = takeWhile (\<lambda>e. fst e \<le> pr_battery_percentage p) m
      in case (below, m) of
           ([], []) \<Rightarrow> None
         | ([], e # _) \<Rightarrow> Some (snd e)
         | (_, _) \<Rightarrow> Some (snd (last below)))"

definition UpdateNextAction :: "power_reading \<Rightarrow> dark_resume \<Rightarrow> dark_resume" where
  "UpdateNextAction p d =
     (let battery = pr_battery_percentage p;
          d1 = (if \<not> dr_in_dark_resume d \<or> battery > dr_battery_shutdown_threshold d
                then d\<lparr>dr_battery_shutdown_threshold := battery\<rparr> else d)
      in d1\<lparr>dr_next_action :=
              (if battery < dr_battery_shutdown_threshold d1 \<and> \<not> pr_line_power_on p
               then DARK_SHUT_DOWN else DARK_SUSPEND)\<rparr>)"

definition ScheduleBatteryCheck :: "power_reading \<Rightarrow> dark_resume \<Rightarrow> dark_resume option" where
  "ScheduleBatteryCheck p d =
     (if \<not> pr_RefreshImmediately p then Some d
      else let d1 = UpdateNextAction p d in do {
        delay \<leftarrow> GetNextSuspendDuration p d1;
        Some (d1\<lparr>dr_timer := Some delay\<rparr>) })"

definition PrepareForSuspendRequest :: "power_reading \<Rightarrow> dark_resume \<Rightarrow> dark_resume option" where
  "PrepareForSuspendRequest p d =
     (if dr_has_timer d \<and> dr_enabled d then ScheduleBatteryCheck p d else Some d)"

definition UndoPrepareForSuspendRequest :: "dark_resume \<Rightarrow> dark_resume" where
  "UndoPrepareForSuspendRequest d =
     (if dr_has_timer d then d\<lparr>dr_timer := None\<rparr> else d)\<lparr>dr_in_dark_resume := False\<rparr>"

definition GetActionForSuspendAttempt ::
  "power_reading \<Rightarrow> dark_resume \<Rightarrow> (DarkAction \<times> TimeDelta \<times> dark_resume) option" where
  "GetActionForSuspendAttempt p d =
     (if \<not> dr_enabled d \<or> \<not> pr_RefreshImmediately p then Some (DARK_SUSPEND, 0, d)
      else if dr_has_timer d then Some (dr_next_action d, 0, d)
      else let d1 = UpdateNextAction p d in do {
        duration \<leftarrow> GetNextSuspendDuration p d1;
        Some (dr_next_action d1, duration, d1) })"

definition HandleSuccessfulResume :: "dr_env \<Rightarrow> dark_resume \<Rightarrow> dark_resume" where
  "HandleSuccessfulResume env d =
     (if \<not> dr_enabled d then d\<lparr>dr_in_dark_resume := False\<rparr>
      else case dre_ReadFileToString env (dr_state_path d) of
        None \<Rightarrow> d\<lparr>dr_in_dark_resume := False\<rparr>
      | Some buf \<Rightarrow>
          (let buf = dre_TrimTrailing env buf in
           if dr_using_wakeup_type d then d\<lparr>dr_in_dark_resume := (buf = ''automatic'')\<rparr>
           else d\<lparr>dr_in_dark_resume :=
                    (case dre_StringToUint64 env buf of None \<Rightarrow> False | Some v \<Rightarrow> v \<noteq> 0)\<rparr>))"

definition InDarkResume :: "dark_resume \<Rightarrow> bool" where
  "InDarkResume d = dr_in_dark_resume d"

definition IsEnabled :: "dark_resume \<Rightarrow> bool" where
  "IsEnabled d = dr_enabled d"

definition CanSafelyExitDarkResume :: "dark_resume \<Rightarrow> bool" where
  "CanSafelyExitDarkResume d = dr_can_safely_exit_dark_resume d"

definition ExitDarkResume :: "dr_env \<Rightarrow> dark_resume \<Rightarrow> bool \<times> dark_resume" where
  "ExitDarkResume env d =
     (let d = dr_write kPMTestPath ''devices'' d in
      if \<not> dre_WriteFileFully env kPMTestPath ''devices'' then (False, d)
      else let d = dr_write kPowerStatePath ''mem'' d in
      if \<not> dre_WriteFileFully env kPowerStatePath ''mem'' then (False, d)
      else let d = dr_write kPMTestPath ''none'' d in
      if \<not> dre_WriteFileFully env kPMTestPath ''none'' then (False, d)
      else (True, d))"

text \<open>The battery check timer as the message loop fires it.\<close>

definition fire_battery_check :: "power_reading \<Rightarrow> dark_resume \<Rightarrow> dark_resume option" where
  "fire_battery_check p d =
     (if IsRunning (dr_timer d) then ScheduleBatteryCheck p (d\<lparr>dr_timer := None\<rparr>) else Some d)"

end
