(* ===== verification/Suspender.thy ===== *)
theory Suspender
  imports Suspend_Delays Dark_Resume
begin

text \<open>
  \<^verbatim>\<open>Suspender\<close> (\<^verbatim>\<open>src/power_manager/powerd/policy/suspender.{h,cc}\<close>): announces a suspend
  request, waits for other processes, suspends, and retries, resuspends from dark resume,
  finishes or gives up.

  The record \<open>suspender\<close> has the class's fields, with its two
  \<^verbatim>\<open>SuspendDelayController\<close>s and its \<^verbatim>\<open>DarkResume\<close> as components. \<open>su_calls\<close> is the
  trace of the calls made to \<^verbatim>\<open>delegate_\<close> and of the D-Bus signals emitted. The answers of
  the delegate are functions of that trace (\<open>su_env\<close>), so that every call may be answered
  differently. While it handles a call, the delegate may call back into the suspender
  (\<^verbatim>\<open>UndoPrepareToSuspend()\<close> can request another suspend, \<^verbatim>\<open>ShutDownFor*()\<close> reports the
  shutdown): \<open>sue_reenter\<close> gives the methods it invokes, all of them while
  \<^verbatim>\<open>handling_event_\<close> is set. The wall clock's \<open>n\<close>-th reading is \<open>sue_wall_time env n\<close>.

  The loop over \<^verbatim>\<open>queued_events_\<close> is a \<open>partial_function\<close>: \<open>None\<close> is a loop that does
  not end (or the end-iterator dereference of \<open>Dark_Resume\<close>). IDs and attempt counters are
  \<open>int\<close>; wakeup counts are 64-bit words.
\<close>

section \<open>State\<close>

datatype SuspendResult = SUCCESS | FAILURE | CANCELED

datatype SuState = IDLE | WAITING_FOR_SUSPEND_DELAYS | WAITING_TO_RESUSPEND | SHUTTING_DOWN

datatype SuEvent = SUSPEND_REQUESTED | SUSPEND_DELAYS_READY | USER_ACTIVITY | READY_TO_RESUSPEND
  | SHUTDOWN_STARTED

type_synonym DarkResumeInfo = "string \<times> TimeDelta"

datatype su_call = SuIsLidClosedForSuspend | SuReadSuspendWakeupCount
  | SuSetSuspendAnnounced bool | SuPrepareToSuspend | SuDoSuspend "64 word" bool TimeDelta
  | SuUndoPrepareToSuspend bool int bool
  | SuGenerateDarkResumeMetrics "DarkResumeInfo list" TimeDelta
  | SuShutDownForFailedSuspend | SuShutDownForDarkResume
  | SuSuspendImminent int | SuSuspendDone int TimeDelta | SuDarkSuspendImminent int

datatype su_input = InRequestSuspend | InRequestSuspendWithExternalWakeupCount "64 word"
  | InLidOpened | InUserActivity | InShutdown

record su_env =
  sue_IsLidClosedForSuspend :: "su_call list \<Rightarrow> bool"
  sue_ReadSuspendWakeupCount :: "su_call list \<Rightarrow> bool \<times> 64 word"
  sue_DoSuspend :: "su_call list \<Rightarrow> SuspendResult"
  sue_reenter :: "su_call list \<Rightarrow> su_input list"
  sue_power :: "su_call list \<Rightarrow> power_reading"
  sue_dark :: "su_call list \<Rightarrow> dr_env"
  sue_wall_time :: "nat \<Rightarrow> int"

record suspender =
  su_calls :: "su_call list"
  su_clock_reads :: nat
  su_suspend_delay_controller :: suspend_delay_controller
  su_dark_suspend_delay_controller :: suspend_delay_controller
  su_dark_resume :: dark_resume
  su_state :: SuState
  su_handling_event :: bool
  su_processing_queued_events :: bool
  su_queued_events :: "SuEvent list"
  su_suspend_request_id :: int
  su_dark_suspend_id :: int
  su_suspend_request_supplied_wakeup_count :: bool
  su_suspend_request_wakeup_count :: "64 word"
  su_wakeup_count :: "64 word"
  su_wakeup_count_valid :: bool
  su_suspend_request_start_time :: int
  su_retry_delay :: TimeDelta
  su_max_retries :: int
  su_current_num_attempts :: int
  su_initial_num_attempts :: int
  su_dark_resume_start_time :: int
  su_dark_resume_wake_durations :: "DarkResumeInfo list"
  su_last_dark_resume_wake_reason :: string
  su_resuspend_timer :: OneShotTimer

definition kDefaultWakeReason :: string where
  "kDefaultWakeReason = ''Other''"

definition Suspender :: "dark_resume \<Rightarrow> suspender" where
  "Suspender dark_resume = \<lparr>su_calls = [], su_clock_reads = 0,
     su_suspend_delay_controller = SuspendDelayController 0 [],
     su_dark_suspend_delay_controller = SuspendDelayController 0 [],
     su_dark_resume = dark_resume, su_state = IDLE, su_handling_event = False,
     su_processing_queued_events = False, su_queued_events = [], su_suspend_request_id = 0,
     su_dark_suspend_id = 0, su_suspend_request_supplied_wakeup_count = False,
     su_suspend_request_wakeup_count = 0, su_wakeup_count = 0, su_wakeup_count_valid = False,
     su_suspend_request_start_time = 0, su_retry_delay = 0, su_max_retries = 0,
     su_current_num_attempts = 0, su_initial_num_attempts = 0, su_dark_resume_start_time = 0,
     su_dark_resume_wake_durations = [], su_last_dark_resume_wake_reason = kDefaultWakeReason,
     su_resuspend_timer = None\<rparr>"

section \<open>Calls to the delegate\<close>

definition push_event :: "SuEvent \<Rightarrow> suspender \<Rightarrow> suspender" where
  "push_event ev s = s\<lparr>su_queued_events := su_queued_events s @ [ev]\<rparr>"

text \<open>A public method invoked while \<^verbatim>\<open>handling_event_\<close> is set.\<close>

fun reenter :: "su_input \<Rightarrow> suspender \<Rightarrow> suspender" where
  "reenter InRequestSuspend s = push_event SUSPEND_REQUESTED
     (s\<lparr>su_suspend_request_supplied_wakeup_count := False,
        su_suspend_request_wakeup_count := 0\<rparr>)"
| "reenter (InRequestSuspendWithExternalWakeupCount w) s = push_event SUSPEND_REQUESTED
     (s\<lparr>su_suspend_request_supplied_wakeup_count := True,
        su_suspend_request_wakeup_count := w\<rparr>)"
| "reenter InLidOpened s = push_event USER_ACTIVITY s"
| "reenter InUserActivity s = push_event USER_ACTIVITY s"
| "reenter InShutdown s = push_event SHUTDOWN_STARTED s"

definition su_record :: "su_call \<Rightarrow> suspender \<Rightarrow> suspender" where
  "su_record c s = s\<lparr>su_calls := su_calls s @ [c]\<rparr>"

definition su_delegate :: "su_env \<Rightarrow> su_call \<Rightarrow> suspender \<Rightarrow> suspender" where
  "su_delegate env c s = (let s1 = su_record c s in fold reenter (sue_reenter env (su_calls s1)) s1)"

definition su_wall_time :: "su_env \<Rightarrow> suspender \<Rightarrow> int" where
  "su_wall_time env s = sue_wall_time env (su_clock_reads s)"

definition su_tick :: "suspender \<Rightarrow> suspender" where
  "su_tick s = s\<lparr>su_clock_reads := Suc (su_clock_reads s)\<rparr>"

definition read_wakeup_count :: "su_env \<Rightarrow> suspender \<Rightarrow> suspender" where
  "read_wakeup_count env s =
     (let (ok, w) = sue_ReadSuspendWakeupCount env (su_calls s)
      in s\<lparr>su_wakeup_count_valid := ok, su_wakeup_count := w\<rparr>)"

section \<open>Requests\<close>

definition StartRequest :: "su_env \<Rightarrow> suspender \<Rightarrow> suspender option" where
  "StartRequest env s = do {
     let s = s\<lparr>su_suspend_request_id := su_suspend_request_id s + 1\<rparr>;
     let s = (if su_suspend_request_supplied_wakeup_count s
              then s\<lparr>su_wakeup_count := su_suspend_request_wakeup_count s,
                     su_wakeup_count_valid := True\<rparr>
              else read_wakeup_count env (su_delegate env SuReadSuspendWakeupCount s));
     let s = su_tick (s\<lparr>su_suspend_request_start_time := su_wall_time env s,
       su_current_num_attempts := 0, su_initial_num_attempts := 0,
       su_dark_resume_wake_durations := [],
       su_last_dark_resume_wake_reason := kDefaultWakeReason\<rparr>);
     let s = su_delegate env SuPrepareToSuspend s;
     let s = s\<lparr>su_suspend_delay_controller := PrepareForSuspend (su_suspend_request_id s)
       (su_suspend_delay_controller s)\<rparr>;
     dr \<leftarrow> PrepareForSuspendRequest (sue_power env (su_calls s)) (su_dark_resume s);
     let s = s\<lparr>su_dark_resume := dr\<rparr>;
     let s = su_delegate env (SuSetSuspendAnnounced True) s;
     Some (su_record (SuSuspendImminent (su_suspend_request_id s)) s)
   }"

definition FinishRequest :: "su_env \<Rightarrow> bool \<Rightarrow> suspender \<Rightarrow> suspender" where
  "FinishRequest env success s0 =
     (let s = s0\<lparr>su_resuspend_timer := None,
            su_suspend_delay_controller :=
              FinishSuspend (su_suspend_request_id s0) (su_suspend_delay_controller s0),
            su_dark_suspend_delay_controller :=
              FinishSuspend (su_dark_suspend_id s0) (su_dark_suspend_delay_controller s0)\<rparr>;
          suspend_duration = max 0 (su_wall_time env s - su_suspend_request_start_time s);
          s = su_tick s;
          s = su_record (SuSuspendDone (su_suspend_request_id s) suspend_duration) s;
          s = su_delegate env (SuSetSuspendAnnounced False) s;
          s = su_delegate env (SuUndoPrepareToSuspend success
                (if su_initial_num_attempts s \<noteq> 0 then su_initial_num_attempts s
                 else su_current_num_attempts s)
                (InDarkResume (su_dark_resume s))) s;
          s = (if IsEnabled (su_dark_resume s)
               then su_delegate env (SuGenerateDarkResumeMetrics
                      (su_dark_resume_wake_durations s) suspend_duration) s
               else s)
      in s\<lparr>su_dark_resume := UndoPrepareForSuspendRequest (su_dark_resume s)\<rparr>)"

definition ScheduleResuspend :: "TimeDelta \<Rightarrow> suspender \<Rightarrow> suspender" where
  "ScheduleResuspend delay s = s\<lparr>su_resuspend_timer := Some delay\<rparr>"

text \<open>The parts of \<^verbatim>\<open>Suspend()\<close>: the bookkeeping before an attempt, and the three ways on
  after an attempt that did not complete the request.\<close>

definition note_wake_duration :: "su_env \<Rightarrow> suspender \<Rightarrow> suspender" where
  "note_wake_duration env s =
     (if su_dark_resume_wake_durations s = [] then s
      else su_tick (s\<lparr>su_dark_resume_wake_durations :=
        butlast (su_dark_resume_wake_durations s) @
          [(su_last_dark_resume_wake_reason s,
            max 0 (su_wall_time env s - su_dark_resume_start_time s))]\<rparr>))"

definition prepare_resuspend ::
  "su_env \<Rightarrow> bool \<Rightarrow> SuspendResult \<Rightarrow> suspender \<Rightarrow> suspender" where
  "prepare_resuspend env in_dark_resume result s0 =
     (let s = (if in_dark_resume \<and> su_initial_num_attempts s0 = 0
               then s0\<lparr>su_initial_num_attempts := su_current_num_attempts s0\<rparr> else s0);
          s = s\<lparr>su_dark_suspend_id := su_dark_suspend_id s + 1\<rparr>;
          s = (if result = SUCCESS
               then su_tick (s\<lparr>su_dark_resume_start_time := su_wall_time env s,
                 su_dark_resume_wake_durations :=
                   su_dark_resume_wake_durations s @ [(kDefaultWakeReason, 0)],
                 su_last_dark_resume_wake_reason := kDefaultWakeReason,
                 su_current_num_attempts := 0\<rparr>)
               else s)
      in if CanSafelyExitDarkResume (su_dark_resume s)
         then su_record (SuDarkSuspendImminent (su_dark_suspend_id s))
                (s\<lparr>su_dark_suspend_delay_controller := PrepareForSuspend (su_dark_suspend_id s)
                     (su_dark_suspend_delay_controller s)\<rparr>)
         else ScheduleResuspend (if result = SUCCESS then 0 else su_retry_delay s)
                (s\<lparr>su_wakeup_count := 0, su_wakeup_count_valid := False\<rparr>))"

definition retry_failed_suspend :: "su_env \<Rightarrow> suspender \<Rightarrow> suspender" where
  "retry_failed_suspend env s0 =
     (let s = (if \<not> su_suspend_request_supplied_wakeup_count s0
               then read_wakeup_count env (su_delegate env SuReadSuspendWakeupCount s0) else s0)
      in ScheduleResuspend (su_retry_delay s) s)"

definition after_attempt ::
  "su_env \<Rightarrow> SuspendResult \<Rightarrow> suspender \<Rightarrow> SuState \<times> suspender" where
  "after_attempt env result s0 =
     (let s = (if result = SUCCESS
               then s0\<lparr>su_dark_resume :=
                 HandleSuccessfulResume (sue_dark env (su_calls s0)) (su_dark_resume s0)\<rparr>
               else s0);
          in_dark_resume = InDarkResume (su_dark_resume s)
      in if \<not> in_dark_resume \<and> (result = SUCCESS \<or>
              result = CANCELED \<and> su_suspend_request_supplied_wakeup_count s)
         then (IDLE, FinishRequest env (result = SUCCESS) s)
         else if in_dark_resume \<and> result = SUCCESS \<or>
              result = CANCELED \<and> su_current_num_attempts s \<le> su_max_retries s
         then (WAITING_TO_RESUSPEND, prepare_resuspend env in_dark_resume result s)
         else if su_current_num_attempts s > su_max_retries s
         then (SHUTTING_DOWN, su_delegate env SuShutDownForFailedSuspend s)
         else (WAITING_TO_RESUSPEND, retry_failed_suspend env s))"

definition su_Suspend :: "su_env \<Rightarrow> suspender \<Rightarrow> (SuState \<times> suspender) option" where
  "su_Suspend env s = do {
     (action, duration, dr) \<leftarrow>
       GetActionForSuspendAttempt (sue_power env (su_calls s)) (su_dark_resume s);
     let s = s\<lparr>su_dark_resume := dr\<rparr>;
     if action = DARK_SHUT_DOWN
     then Some (SHUTTING_DOWN, su_delegate env SuShutDownForDarkResume s)
     else do {
       let s = note_wake_duration env s;
       let s = s\<lparr>su_current_num_attempts := su_current_num_attempts s + 1\<rparr>;
       let s = su_delegate env
         (SuDoSuspend (su_wakeup_count s) (su_wakeup_count_valid s) duration) s;
       Some (after_attempt env (sue_DoSuspend env (su_calls s)) s)
     }
   }"

section \<open>Events\<close>

definition suspend_now :: "su_env \<Rightarrow> suspender \<Rightarrow> suspender option" where
  "suspend_now env s = do { (state, s) \<leftarrow> su_Suspend env s; Some (s\<lparr>su_state := state\<rparr>) }"

definition may_finish :: "suspender \<Rightarrow> bool" where
  "may_finish s \<longleftrightarrow> su_state s = WAITING_FOR_SUSPEND_DELAYS \<or>
     \<not> InDarkResume (su_dark_resume s) \<or> CanSafelyExitDarkResume (su_dark_resume s)"

fun dispatch :: "su_env \<Rightarrow> SuState \<Rightarrow> SuEvent \<Rightarrow> suspender \<Rightarrow> suspender option" where
  "dispatch env IDLE SUSPEND_REQUESTED s =
     map_option (\<lambda>s. s\<lparr>su_state := WAITING_FOR_SUSPEND_DELAYS\<rparr>) (StartRequest env s)"
| "dispatch env IDLE SHUTDOWN_STARTED s = Some (s\<lparr>su_state := SHUTTING_DOWN\<rparr>)"
| "dispatch env IDLE _ s = Some s"
| "dispatch env SHUTTING_DOWN _ s = Some s"
| "dispatch env WAITING_FOR_SUSPEND_DELAYS SUSPEND_DELAYS_READY s = suspend_now env s"
| "dispatch env WAITING_TO_RESUSPEND READY_TO_RESUSPEND s = suspend_now env s"
| "dispatch env _ USER_ACTIVITY s =
     (let s = su_delegate env SuIsLidClosedForSuspend s in
      if sue_IsLidClosedForSuspend env (su_calls s) then Some s
      else if may_finish s then Some ((FinishRequest env False s)\<lparr>su_state := IDLE\<rparr>)
      else Some s)"
| "dispatch env _ SHUTDOWN_STARTED s =
     (let s = (if may_finish s then FinishRequest env False s else s)
      in Some (s\<lparr>su_state := SHUTTING_DOWN\<rparr>))"
| "dispatch env _ _ s = Some s"

text \<open>
  \<^verbatim>\<open>HandleEvent()\<close> with nothing queued and no event being handled; this is also all that a
  call made from the loop over \<^verbatim>\<open>queued_events_\<close> does, since
  \<^verbatim>\<open>processing_queued_events_\<close> is then set.
\<close>

definition handle_one :: "su_env \<Rightarrow> SuEvent \<Rightarrow> suspender \<Rightarrow> suspender option" where
  "handle_one env event s =
     map_option (\<lambda>s. s\<lparr>su_handling_event := False\<rparr>)
       (dispatch env (su_state s) event (s\<lparr>su_handling_event := True\<rparr>))"

partial_function (option) process_queued_events ::
  "su_env \<Rightarrow> suspender \<Rightarrow> suspender option" where
  "process_queued_events env s =
     (case su_queued_events s of
        [] \<Rightarrow> Some s
      | event # q \<Rightarrow> Option.bind (handle_one env event (s\<lparr>su_queued_events := q\<rparr>))
                      (process_queued_events env))"

declare process_queued_events.simps [code]

definition HandleEvent :: "su_env \<Rightarrow> SuEvent \<Rightarrow> suspender \<Rightarrow> suspender option" where
  "HandleEvent env event s =
     (if su_handling_event s then Some (push_event event s)
      else do {
        s \<leftarrow> handle_one env event s;
        if su_processing_queued_events s then Some s
        else do {
          s \<leftarrow> process_queued_events env (s\<lparr>su_processing_queued_events := True\<rparr>);
          Some (s\<lparr>su_processing_queued_events := False\<rparr>)
        }
      })"

section \<open>Public methods\<close>

definition su_Init ::
  "prefs \<Rightarrow> int \<Rightarrow> int \<Rightarrow> bool \<Rightarrow> suspender \<Rightarrow> suspender option" where
  "su_Init p initial_id initial_dark_id announced s = do {
     let s = s\<lparr>su_suspend_request_id := initial_id - 1,
       su_suspend_delay_controller := SuspendDelayController initial_id [],
       su_dark_suspend_id := initial_dark_id - 1,
       su_dark_suspend_delay_controller := SuspendDelayController initial_dark_id ''dark''\<rparr>;
     retry_delay_ms \<leftarrow> pref_int64 p ''retry_suspend_ms'';
     max_retries \<leftarrow> pref_int64 p ''retry_suspend_attempts'';
     let s = s\<lparr>su_retry_delay := FromMilliseconds retry_delay_ms,
       su_max_retries := max_retries\<rparr>;
     Some (if announced
           then su_record (SuSetSuspendAnnounced False) (su_record (SuSuspendDone 0 0) s)
           else s)
   }"

definition RequestSuspend :: "su_env \<Rightarrow> suspender \<Rightarrow> suspender option" where
  "RequestSuspend env s = HandleEvent env SUSPEND_REQUESTED
     (s\<lparr>su_suspend_request_supplied_wakeup_count := False,
        su_suspend_request_wakeup_count := 0\<rparr>)"

definition RequestSuspendWithExternalWakeupCount ::
  "su_env \<Rightarrow> 64 word \<Rightarrow> suspender \<Rightarrow> suspender option" where
  "RequestSuspendWithExternalWakeupCount env wakeup_count s = HandleEvent env SUSPEND_REQUESTED
     (s\<lparr>su_suspend_request_supplied_wakeup_count := True,
        su_suspend_request_wakeup_count := wakeup_count\<rparr>)"

definition HandleLidOpened :: "su_env \<Rightarrow> suspender \<Rightarrow> suspender option" where
  "HandleLidOpened env s = HandleEvent env USER_ACTIVITY s"

definition su_HandleUserActivity :: "su_env \<Rightarrow> suspender \<Rightarrow> suspender option" where
  "su_HandleUserActivity env s = HandleEvent env USER_ACTIVITY s"

definition HandleShutdown :: "su_env \<Rightarrow> suspender \<Rightarrow> suspender option" where
  "HandleShutdown env s = HandleEvent env SHUTDOWN_STARTED s"

definition HandleDBusNameOwnerChanged ::
  "string \<Rightarrow> string \<Rightarrow> string \<Rightarrow> suspender \<Rightarrow> suspender" where
  "HandleDBusNameOwnerChanged name old_owner new_owner s =
     (if new_owner = []
      then s\<lparr>su_suspend_delay_controller :=
               HandleDBusClientDisconnected name (su_suspend_delay_controller s),
             su_dark_suspend_delay_controller :=
               HandleDBusClientDisconnected name (su_dark_suspend_delay_controller s)\<rparr>
      else s)"

datatype which_controller = REGULAR | DARK

fun get_controller :: "which_controller \<Rightarrow> suspender \<Rightarrow> suspend_delay_controller" where
  "get_controller REGULAR s = su_suspend_delay_controller s"
| "get_controller DARK s = su_dark_suspend_delay_controller s"

fun set_controller ::
  "which_controller \<Rightarrow> suspend_delay_controller \<Rightarrow> suspender \<Rightarrow> suspender" where
  "set_controller REGULAR c s = s\<lparr>su_suspend_delay_controller := c\<rparr>"
| "set_controller DARK c s = s\<lparr>su_dark_suspend_delay_controller := c\<rparr>"

definition OnReadyForSuspend ::
  "su_env \<Rightarrow> which_controller \<Rightarrow> int \<Rightarrow> suspender \<Rightarrow> suspender option" where
  "OnReadyForSuspend env controller suspend_id s =
     (if controller = REGULAR \<and> suspend_id = su_suspend_request_id s
      then HandleEvent env SUSPEND_DELAYS_READY s
      else if controller = DARK \<and> suspend_id = su_dark_suspend_id s
      then HandleEvent env READY_TO_RESUSPEND
             (if \<not> su_suspend_request_supplied_wakeup_count s
              then read_wakeup_count env (su_record SuReadSuspendWakeupCount s) else s)
      else Some s)"

text \<open>
  D-Bus methods: the request is \<open>None\<close> when the protocol buffer cannot be parsed. The reply
  is returned with the new state.
\<close>

datatype dbus_reply = ReplyDelayId int | ReplyEmpty | ReplyInvalidArgs

definition RegisterSuspendDelayInternal ::
  "which_controller \<Rightarrow> register_request option \<Rightarrow> string \<Rightarrow> suspender \<Rightarrow> dbus_reply \<times> suspender"
where
  "RegisterSuspendDelayInternal w request sender s =
     (case request of
        None \<Rightarrow> (ReplyInvalidArgs, s)
      | Some r \<Rightarrow> (let (delay_id, c) = RegisterSuspendDelay r sender (get_controller w s)
                   in (ReplyDelayId delay_id, set_controller w c s)))"

definition UnregisterSuspendDelayInternal ::
  "which_controller \<Rightarrow> int option \<Rightarrow> suspender \<Rightarrow> dbus_reply \<times> suspender" where
  "UnregisterSuspendDelayInternal w request s =
     (case request of
        None \<Rightarrow> (ReplyInvalidArgs, s)
      | Some delay_id \<Rightarrow>
          (ReplyEmpty, set_controller w (UnregisterSuspendDelay delay_id (get_controller w s)) s))"

definition HandleSuspendReadinessInternal ::
  "which_controller \<Rightarrow> (int \<times> int) option \<Rightarrow> suspender \<Rightarrow> dbus_reply \<times> suspender" where
  "HandleSuspendReadinessInternal w request s =
     (case request of
        None \<Rightarrow> (ReplyInvalidArgs, s)
      | Some (delay_id, suspend_id) \<Rightarrow>
          (ReplyEmpty, set_controller w
            (sdc_HandleSuspendReadiness delay_id suspend_id (get_controller w s)) s))"

definition RecordDarkResumeWakeReason :: "string option \<Rightarrow> suspender \<Rightarrow> dbus_reply \<times> suspender" where
  "RecordDarkResumeWakeReason request s =
     (case request of
        None \<Rightarrow> (ReplyInvalidArgs, s)
      | Some wake_reason \<Rightarrow> (ReplyEmpty, s\<lparr>su_last_dark_resume_wake_reason := wake_reason\<rparr>))"

section \<open>The message loop\<close>

text \<open>Timers, stopped before their task runs.\<close>

definition fire_notify :: "su_env \<Rightarrow> which_controller \<Rightarrow> suspender \<Rightarrow> suspender option" where
  "fire_notify env w s =
     (case NotifyObservers (get_controller w s) of
        (None, _) \<Rightarrow> Some s
      | (Some suspend_id, c) \<Rightarrow> OnReadyForSuspend env w suspend_id (set_controller w c s))"

definition TriggerResuspendTimeout :: "su_env \<Rightarrow> suspender \<Rightarrow> suspender option" where
  "TriggerResuspendTimeout env s =
     (if IsRunning (su_resuspend_timer s)
      then HandleEvent env READY_TO_RESUSPEND (s\<lparr>su_resuspend_timer := None\<rparr>) else Some s)"

datatype su_event = SuInput su_input | SuRegister which_controller "register_request option" string
  | SuUnregister which_controller "int option"
  | SuReadiness which_controller "(int \<times> int) option"
  | SuWakeReason "string option" | SuNameOwnerChanged string string string
  | SuNotifyTimer which_controller | SuExpirationTimer which_controller
  | SuResuspendTimer | SuBatteryCheckTimer power_reading

fun su_step :: "suspender \<Rightarrow> su_env \<times> su_event \<Rightarrow> suspender option" where
  "su_step s (env, SuInput InRequestSuspend) = RequestSuspend env s"
| "su_step s (env, SuInput (InRequestSuspendWithExternalWakeupCount w)) =
     RequestSuspendWithExternalWakeupCount env w s"
| "su_step s (env, SuInput InLidOpened) = HandleLidOpened env s"
| "su_step s (env, SuInput InUserActivity) = su_HandleUserActivity env s"
| "su_step s (env, SuInput InShutdown) = HandleShutdown env s"
| "su_step s (env, SuRegister w r sender) = Some (snd (RegisterSuspendDelayInternal w r sender s))"
| "su_step s (env, SuUnregister w r) = Some (snd (UnregisterSuspendDelayInternal w r s))"
| "su_step s (env, SuReadiness w r) = Some (snd (HandleSuspendReadinessInternal w r s))"
| "su_step s (env, SuWakeReason r) = Some (snd (RecordDarkResumeWakeReason r s))"
| "su_step s (env, SuNameOwnerChanged name old_owner new_owner) =
     Some (HandleDBusNameOwnerChanged name old_owner new_owner s)"
| "su_step s (env, SuNotifyTimer w) = fire_notify env w s"
| "su_step s (env, SuExpirationTimer w) =
     Some (set_controller w (fire_expiration (get_controller w s)) s)"
| "su_step s (env, SuResuspendTimer) = TriggerResuspendTimeout env s"
| "su_step s (env, SuBatteryCheckTimer p) =
     map_option (\<lambda>d. s\<lparr>su_dark_resume := d\<rparr>) (fire_battery_check p (su_dark_resume s))"

end
