(* ===== verification/Suspend_Delays_Proofs.thy ===== *)
theory Suspend_Delays_Proofs
  imports Suspend_Delays
begin

text \<open>
  Correctness of \<^verbatim>\<open>SuspendDelayController\<close>: its invariant, exactly which delays an
  announced suspend still waits for, and that the observer is always notified in the end.
\<close>

section \<open>The invariant\<close>

definition sdc_inv :: "suspend_delay_controller \<Rightarrow> bool" where
  "sdc_inv c \<longleftrightarrow>
     sorted (map fst (sdc_registered_delays c)) \<and>
     distinct (map fst (sdc_registered_delays c)) \<and>
     (\<forall>k \<in> fst ` set (sdc_registered_delays c). k < sdc_next_delay_id c) \<and>
     sdc_delay_ids_being_waited_on c \<subseteq> fst ` set (sdc_registered_delays c) \<and>
     (IsRunning (sdc_delay_expiration_timer c) \<longleftrightarrow> sdc_delay_ids_being_waited_on c \<noteq> {}) \<and>
     (\<forall>d \<in> set_option (sdc_delay_expiration_timer c). 0 \<le> d \<and> d \<le> 20000000)"

datatype sdc_event = SdcRegister register_request string | SdcUnregister int
  | SdcReadiness int int | SdcDisconnected string
  | SdcPrepare int | SdcFinish int | SdcExpire | SdcNotify

fun sdc_step :: "suspend_delay_controller \<Rightarrow> sdc_event \<Rightarrow> suspend_delay_controller" where
  "sdc_step c (SdcRegister r client) = snd (RegisterSuspendDelay r client c)"
| "sdc_step c (SdcUnregister k) = UnregisterSuspendDelay k c"
| "sdc_step c (SdcReadiness k n) = sdc_HandleSuspendReadiness k n c"
| "sdc_step c (SdcDisconnected client) = HandleDBusClientDisconnected client c"
| "sdc_step c (SdcPrepare n) = PrepareForSuspend n c"
| "sdc_step c (SdcFinish n) = FinishSuspend n c"
| "sdc_step c SdcExpire = fire_expiration c"
| "sdc_step c SdcNotify = snd (NotifyObservers c)"

text \<open>
  Readiness, unregistration and disconnection all come down to releasing a set of delays:
  the wait list loses them, and when it becomes empty the expiration timer is stopped and
  the notification is posted.
\<close>

definition released ::
  "int set \<Rightarrow> suspend_delay_controller \<Rightarrow> suspend_delay_controller \<Rightarrow> bool" where
  "released K c c' \<longleftrightarrow>
     sdc_delay_ids_being_waited_on c' = sdc_delay_ids_being_waited_on c - K \<and>
     sdc_current_suspend_id c' = sdc_current_suspend_id c \<and>
     sdc_next_delay_id c \<le> sdc_next_delay_id c' \<and>
     (if sdc_delay_ids_being_waited_on c \<noteq> {} \<and> sdc_delay_ids_being_waited_on c - K = {}
      then sdc_notify_observers_timer c' = Some (sdc_current_suspend_id c) \<and>
           sdc_delay_expiration_timer c' = None
      else sdc_notify_observers_timer c' = sdc_notify_observers_timer c \<and>
           sdc_delay_expiration_timer c' = sdc_delay_expiration_timer c)"

lemma released_RemoveDelayFromWaitList: "released {k} c (RemoveDelayFromWaitList k c)"
  by (auto simp: released_def RemoveDelayFromWaitList_def PostNotifyObserversTask_def Let_def)

lemma released_none: "K \<inter> sdc_delay_ids_being_waited_on c = {} \<Longrightarrow> released K c c"
  by (auto simp: released_def)

lemma released_trans: "released K c d \<Longrightarrow> released L d e \<Longrightarrow> released (K \<union> L) c e"
  unfolding released_def by (auto simp: Diff_eq split: if_splits)

lemma RemoveDelayFromWaitList_registered [simp]:
  "sdc_registered_delays (RemoveDelayFromWaitList k c) = sdc_registered_delays c"
  by (simp add: RemoveDelayFromWaitList_def PostNotifyObserversTask_def Let_def)

lemma registered_Unregister [simp]:
  "sdc_registered_delays (UnregisterDelayInternal k c) = map_erase k (sdc_registered_delays c)"
proof (cases "map_count k (sdc_registered_delays c)")
  case False
  then have "map_erase k (sdc_registered_delays c) = sdc_registered_delays c"
    by (auto simp: map_erase_def filter_id_conv)
  with False show ?thesis by (simp add: UnregisterDelayInternal_def)
qed (simp add: UnregisterDelayInternal_def Let_def)

lemma released_Unregister:
  assumes "sdc_delay_ids_being_waited_on c \<subseteq> fst ` set (sdc_registered_delays c)"
  shows "released {k} c (UnregisterDelayInternal k c)"
proof (cases "map_count k (sdc_registered_delays c)")
  case False
  with assms have "released {k} c c" by (intro released_none) auto
  with False show ?thesis by (simp add: UnregisterDelayInternal_def)
next
  case True
  with released_RemoveDelayFromWaitList [of k c] show ?thesis
    by (simp add: UnregisterDelayInternal_def Let_def released_def)
qed

lemma waited_subset_Unregister:
  assumes "sdc_delay_ids_being_waited_on c \<subseteq> fst ` set (sdc_registered_delays c)"
  shows "sdc_delay_ids_being_waited_on (UnregisterDelayInternal k c) \<subseteq>
    fst ` set (sdc_registered_delays (UnregisterDelayInternal k c))"
  using assms released_Unregister [OF assms, of k] by (auto simp: released_def map_erase_facts)

lemma fold_Unregister:
  assumes "sdc_delay_ids_being_waited_on c \<subseteq> fst ` set (sdc_registered_delays c)"
  shows "released (set ks) c (fold UnregisterDelayInternal ks c) \<and>
    sdc_registered_delays (fold UnregisterDelayInternal ks c) =
      filter (\<lambda>e. fst e \<notin> set ks) (sdc_registered_delays c)"
  using assms
proof (induction ks arbitrary: c)
  case Nil
  then show ?case by (simp add: released_none)
next
  case (Cons k ks)
  let ?d = "UnregisterDelayInternal k c"
  have "released (set ks) ?d (fold UnregisterDelayInternal ks ?d) \<and>
      sdc_registered_delays (fold UnregisterDelayInternal ks ?d) =
        filter (\<lambda>e. fst e \<notin> set ks) (sdc_registered_delays ?d)"
    by (rule Cons.IH [OF waited_subset_Unregister [OF Cons.prems]])
  with released_trans [OF released_Unregister [OF Cons.prems, of k]] show ?case
    by (auto simp: map_erase_def conj_ac)
qed

lemma inv_released:
  assumes "sdc_inv c" "released K c c'"
    and "sdc_registered_delays c' = filter (\<lambda>e. fst e \<notin> L) (sdc_registered_delays c)"
    and "L \<subseteq> K"
  shows "sdc_inv c'"
proof -
  have keys: "fst ` set (sdc_registered_delays c') = fst ` set (sdc_registered_delays c) - L"
    unfolding assms(3) by (rule filter_keys)
  have "sorted (map fst (sdc_registered_delays c'))" "distinct (map fst (sdc_registered_delays c'))"
    using assms(1) by (simp_all add: assms(3) sdc_inv_def sorted_filter distinct_map_filter)
  with assms(1,2,4) show ?thesis
    unfolding sdc_inv_def released_def keys by (auto split: if_splits)
qed

lemma max_delay_timeout_bounds: "0 \<le> max_delay_timeout m" "max_delay_timeout m \<le> 20000000"
proof -
  have "t \<le> fold (\<lambda>e t. max t (di_timeout (snd e))) m t" for t
    by (induction m arbitrary: t) (auto intro: order_trans [OF max.cobounded1])
  from this [of 0] show "0 \<le> max_delay_timeout m" "max_delay_timeout m \<le> 20000000"
    by (simp_all add: max_delay_timeout_def FromMilliseconds_def kMaxDelayTimeoutMs_def)
qed

lemma max_delay_timeout_eq:
  "max_delay_timeout m = min (Max (insert 0 (di_timeout ` snd ` set m))) (FromSeconds 20)"
proof -
  have "fold (\<lambda>e t. max t (di_timeout (snd e))) m t = fold max (map (di_timeout \<circ> snd) m) t" for t
    by (induction m arbitrary: t) (simp_all add: max.commute)
  then have "fold (\<lambda>e t. max t (di_timeout (snd e))) m 0 = fold max (map (di_timeout \<circ> snd) m) 0"
    by blast
  also have "\<dots> = Max (insert 0 (di_timeout ` snd ` set m))"
    using Max.set_eq_fold [of 0 "map (di_timeout \<circ> snd) m"] by (simp add: image_comp)
  finally show ?thesis
    by (simp add: max_delay_timeout_def FromMilliseconds_def FromSeconds_def kMaxDelayTimeoutMs_def)
qed

lemma fold_map_touch:
  "set ks \<subseteq> fst ` set m \<Longrightarrow> fold (map_touch d) ks m = m"
  by (induction ks) (auto simp: map_touch_def map_insert_def)

lemma OnDelayExpiration_registered:
  assumes "sdc_delay_ids_being_waited_on c \<subseteq> fst ` set (sdc_registered_delays c)"
  shows "sdc_registered_delays (OnDelayExpiration c) = sdc_registered_delays c"
proof -
  have "finite (sdc_delay_ids_being_waited_on c)" using assms by (rule finite_subset) simp
  with assms show ?thesis
    by (simp add: OnDelayExpiration_def PostNotifyObserversTask_def Let_def fold_map_touch)
qed

lemma inv_SuspendDelayController: "sdc_inv (SuspendDelayController n desc)"
  by (simp add: sdc_inv_def SuspendDelayController_def)

lemma HandleDBusClientDisconnected_effect:
  fixes c client
  defines "ks \<equiv> {k \<in> fst ` set (sdc_registered_delays c).
    map_option di_dbus_client (map_of (sdc_registered_delays c) k) = Some client}"
  assumes "sdc_inv c"
  shows "released ks c (HandleDBusClientDisconnected client c)"
    and "sdc_registered_delays (HandleDBusClientDisconnected client c) =
      filter (\<lambda>e. fst e \<notin> ks) (sdc_registered_delays c)"
proof -
  let ?l = "map fst (filter (\<lambda>e. di_dbus_client (snd e) = client) (sdc_registered_delays c))"
  have d: "distinct (map fst (sdc_registered_delays c))"
    and w: "sdc_delay_ids_being_waited_on c \<subseteq> fst ` set (sdc_registered_delays c)"
    using assms(2) by (simp_all add: sdc_inv_def)
  have "set ?l = ks"
    by (auto simp: ks_def image_iff map_of_eq_Some_iff [OF d])
  with fold_Unregister [OF w, of ?l] show "released ks c (HandleDBusClientDisconnected client c)"
    "sdc_registered_delays (HandleDBusClientDisconnected client c) =
      filter (\<lambda>e. fst e \<notin> ks) (sdc_registered_delays c)"
    by (simp_all only: HandleDBusClientDisconnected_def Let_def)
qed

lemma inv_step_sdc:
  assumes "sdc_inv c"
  shows "sdc_inv (sdc_step c e)"
proof (cases e)
  case (SdcRegister r client)
  with assms show ?thesis
    by (auto simp: sdc_inv_def RegisterSuspendDelay_def Let_def map_insert_facts)
next
  case (SdcUnregister k)
  have "released {k} c (UnregisterDelayInternal k c)"
    using assms by (intro released_Unregister) (simp add: sdc_inv_def)
  then have "sdc_inv (UnregisterDelayInternal k c)"
    by (rule inv_released [OF assms, where L = "{k}"]) (simp_all add: map_erase_def)
  with SdcUnregister show ?thesis by (simp add: UnregisterSuspendDelay_def)
next
  case (SdcReadiness k n)
  have "sdc_inv (RemoveDelayFromWaitList k c)"
    by (rule inv_released [OF assms released_RemoveDelayFromWaitList, where L = "{}"]) simp_all
  with SdcReadiness assms show ?thesis by (simp add: sdc_HandleSuspendReadiness_def)
next
  case (SdcDisconnected client)
  with assms show ?thesis
    using inv_released [OF assms HandleDBusClientDisconnected_effect(1)
      HandleDBusClientDisconnected_effect(2)] by simp
next
  case (SdcPrepare n)
  with assms max_delay_timeout_bounds [of "sdc_registered_delays c"] show ?thesis
    by (auto simp: sdc_inv_def PrepareForSuspend_def PostNotifyObserversTask_def Let_def)
next
  case (SdcFinish n)
  with assms show ?thesis by (auto simp: sdc_inv_def FinishSuspend_def)
next
  case SdcExpire
  have "sdc_registered_delays (OnDelayExpiration (c\<lparr>sdc_delay_expiration_timer := None\<rparr>)) =
      sdc_registered_delays c"
    using assms by (subst OnDelayExpiration_registered) (simp_all add: sdc_inv_def)
  with assms SdcExpire show ?thesis
    by (auto simp: sdc_inv_def fire_expiration_def OnDelayExpiration_def
      PostNotifyObserversTask_def Let_def)
next
  case SdcNotify
  with assms show ?thesis by (simp add: sdc_inv_def NotifyObservers_def)
qed

interpretation sdcm: total_event_machine "\<lambda>c e. Some (sdc_step c e)" sdc_inv
  by unfold_locales (auto simp: inv_step_sdc)

section \<open>What an announced suspend waits for\<close>

fun client_event :: "sdc_event \<Rightarrow> bool" where
  "client_event (SdcRegister _ _) = True"
| "client_event (SdcUnregister _) = True"
| "client_event (SdcReadiness _ _) = True"
| "client_event (SdcDisconnected _) = True"
| "client_event _ = False"

fun released_by :: "suspend_delay_controller \<Rightarrow> sdc_event \<Rightarrow> int set" where
  "released_by c (SdcUnregister k) = {k}"
| "released_by c (SdcReadiness k n) = (if n = sdc_current_suspend_id c then {k} else {})"
| "released_by c (SdcDisconnected client) = {k \<in> fst ` set (sdc_registered_delays c).
     map_option di_dbus_client (map_of (sdc_registered_delays c) k) = Some client}"
| "released_by c _ = {}"

lemma client_step_released:
  assumes "sdc_inv c" "client_event e"
  shows "released (released_by c e) c (sdc_step c e)"
proof (cases e)
  case (SdcUnregister k)
  with assms(1) show ?thesis
    by (auto simp: UnregisterSuspendDelay_def sdc_inv_def intro!: released_Unregister)
next
  case (SdcReadiness k n)
  with released_RemoveDelayFromWaitList [of k c] released_none [of "{k}" c] show ?thesis
    by (auto simp: sdc_HandleSuspendReadiness_def released_none)
next
  case (SdcDisconnected client)
  with HandleDBusClientDisconnected_effect(1) [OF assms(1)] show ?thesis by simp
qed (use assms(2) in \<open>auto simp: released_def RegisterSuspendDelay_def Let_def\<close>)

lemma client_step_registered:
  assumes "sdc_inv c" "client_event e" "k \<in> fst ` set (sdc_registered_delays c)"
    and "k \<notin> released_by c e"
  shows "map_of (sdc_registered_delays (sdc_step c e)) k = map_of (sdc_registered_delays c) k"
proof (cases e)
  case (SdcRegister r client)
  have "sdc_next_delay_id c \<notin> fst ` set (sdc_registered_delays c)"
    using assms(1) unfolding sdc_inv_def by blast
  moreover from this assms(3) have "k \<noteq> sdc_next_delay_id c" by blast
  ultimately show ?thesis
    using SdcRegister by (simp add: RegisterSuspendDelay_def Let_def map_insert_facts)
next
  case (SdcUnregister j)
  with assms show ?thesis by (simp add: UnregisterSuspendDelay_def map_erase_facts)
next
  case (SdcReadiness j n)
  then show ?thesis by (simp add: sdc_HandleSuspendReadiness_def)
next
  case (SdcDisconnected client)
  have "sdc_registered_delays (sdc_step c e) =
      filter (\<lambda>e'. fst e' \<notin> released_by c e) (sdc_registered_delays c)"
    unfolding SdcDisconnected sdc_step.simps released_by.simps
    by (rule HandleDBusClientDisconnected_effect(2) [OF assms(1)])
  then show ?thesis
    using assms(4) by (simp add: map_of_filter_key [where P = "\<lambda>x. x \<notin> released_by c e"])
qed (use assms(2) in simp_all)

definition delay_released :: "int \<Rightarrow> delay_info_map \<Rightarrow> sdc_event list \<Rightarrow> int \<Rightarrow> bool" where
  "delay_released sid m es k \<longleftrightarrow> SdcReadiness k sid \<in> set es \<or> SdcUnregister k \<in> set es \<or>
     (\<exists>i. map_of m k = Some i \<and> SdcDisconnected (di_dbus_client i) \<in> set es)"

definition unreleased :: "int \<Rightarrow> delay_info_map \<Rightarrow> sdc_event list \<Rightarrow> int set" where
  "unreleased sid m es = {k \<in> fst ` set m. \<not> delay_released sid m es k}"

lemma unreleased_append:
  "unreleased sid m (es @ fs) = {k \<in> unreleased sid m es. \<not> delay_released sid m fs k}"
  by (auto simp: unreleased_def delay_released_def)

text \<open>The suspend IDs that the message loop delivers to the observers during a run.\<close>

fun delivered :: "suspend_delay_controller \<Rightarrow> sdc_event \<Rightarrow> int list" where
  "delivered c SdcNotify = (case fst (NotifyObservers c) of None \<Rightarrow> [] | Some n \<Rightarrow> [n])"
| "delivered c _ = []"

fun notified :: "suspend_delay_controller \<Rightarrow> sdc_event list \<Rightarrow> int list" where
  "notified c [] = []"
| "notified c (e # es) = delivered c e @ notified (sdc_step c e) es"

lemma notified_append:
  "notified c (es @ fs) = notified c es @ notified (foldl sdc_step c es) fs"
  by (induction es arbitrary: c) simp_all

fun waiting_event :: "sdc_event \<Rightarrow> bool" where
  "waiting_event (SdcPrepare _) = False"
| "waiting_event (SdcFinish _) = False"
| "waiting_event _ = True"

lemma waiting_event_cases:
  "waiting_event e \<Longrightarrow> client_event e \<or> e = SdcExpire \<or> e = SdcNotify"
  by (cases e) simp_all

text \<open>Who is still waited for: nobody once the delays have expired.\<close>

definition waited_for :: "int \<Rightarrow> delay_info_map \<Rightarrow> sdc_event list \<Rightarrow> int set" where
  "waited_for sid m es = (if SdcExpire \<in> set es then {} else unreleased sid m es)"

definition sdc_waits ::
  "int \<Rightarrow> suspend_delay_controller \<Rightarrow> sdc_event list \<Rightarrow> suspend_delay_controller \<Rightarrow> bool" where
  "sdc_waits sid c es c' \<longleftrightarrow> (let m = sdc_registered_delays c; W = waited_for sid m es in
     sdc_inv c' \<and> sdc_current_suspend_id c' = sid \<and>
     sdc_delay_ids_being_waited_on c' = W \<and>
     (\<forall>k \<in> W. map_of (sdc_registered_delays c') k = map_of m k) \<and>
     (W \<noteq> {} \<longrightarrow> sdc_delay_expiration_timer c' = Some (max_delay_timeout m)) \<and>
     count_list (notified (PrepareForSuspend sid c) es) sid +
       (if sdc_notify_observers_timer c' = Some sid then 1 else 0) = (if W = {} then 1 else 0))"

lemma sdc_waitsD:
  assumes "sdc_waits sid c es c'"
  shows "sdc_inv c'" "sdc_current_suspend_id c' = sid"
    "sdc_delay_ids_being_waited_on c' = waited_for sid (sdc_registered_delays c) es"
    "k \<in> waited_for sid (sdc_registered_delays c) es \<Longrightarrow>
       map_of (sdc_registered_delays c') k = map_of (sdc_registered_delays c) k"
    "waited_for sid (sdc_registered_delays c) es \<noteq> {} \<Longrightarrow>
       sdc_delay_expiration_timer c' = Some (max_delay_timeout (sdc_registered_delays c))"
    "count_list (notified (PrepareForSuspend sid c) es) sid +
       (if sdc_notify_observers_timer c' = Some sid then 1 else 0) =
       (if waited_for sid (sdc_registered_delays c) es = {} then 1 else 0)"
  using assms by (simp_all add: sdc_waits_def Let_def)

lemma waits_prepare:
  assumes "sdc_inv c" "sdc_notify_observers_timer c \<noteq> Some sid"
  shows "sdc_waits sid c [] (PrepareForSuspend sid c)"
proof -
  have "sdc_inv (PrepareForSuspend sid c)" using inv_step_sdc [OF assms(1), of "SdcPrepare sid"] by simp
  then show ?thesis
    using assms(2) by (auto simp: sdc_waits_def PrepareForSuspend_def PostNotifyObserversTask_def
      Let_def waited_for_def unreleased_def delay_released_def)
qed

lemma waits_client:
  assumes w: "sdc_waits sid c es d" and e: "client_event e"
    and d: "d = foldl sdc_step (PrepareForSuspend sid c) es"
  shows "sdc_waits sid c (es @ [e]) (sdc_step d e)"
proof -
  let ?m = "sdc_registered_delays c"
  let ?W = "waited_for sid ?m es"
  note IH = sdc_waitsD [OF w]
  have keys: "k \<in> fst ` set (sdc_registered_delays d)" if "k \<in> ?W" for k
    using that IH(1,3) by (auto simp: sdc_inv_def)
  have W: "waited_for sid ?m (es @ [e]) = ?W - released_by d e"
  proof (cases "SdcExpire \<in> set es")
    case False
    have "k \<in> released_by d e \<longleftrightarrow> delay_released sid ?m [e] k" if "k \<in> ?W" for k
      using IH(4) [OF that] keys [OF that] IH(2) by (cases e) (auto simp: delay_released_def)
    moreover have "SdcExpire \<notin> set (es @ [e])" using False e by auto
    ultimately show ?thesis using False by (auto simp: waited_for_def unreleased_append)
  qed (simp add: waited_for_def)
  have r: "released (released_by d e) d (sdc_step d e)"
    by (rule client_step_released [OF IH(1) e])
  have "map_of (sdc_registered_delays (sdc_step d e)) k = map_of ?m k"
    if "k \<in> ?W" "k \<notin> released_by d e" for k
    using client_step_registered [OF IH(1) e keys] IH(4) that by auto
  moreover have "delivered d e = []" using e by (cases e) simp_all
  then have "notified (PrepareForSuspend sid c) (es @ [e]) = notified (PrepareForSuspend sid c) es"
    by (simp add: notified_append d)
  ultimately show ?thesis
    using IH r inv_step_sdc [OF IH(1), of e]
    unfolding sdc_waits_def Let_def W by (auto simp: released_def split: if_splits)
qed

lemma waits_expire:
  assumes w: "sdc_waits sid c es d" and d: "d = foldl sdc_step (PrepareForSuspend sid c) es"
  shows "sdc_waits sid c (es @ [SdcExpire]) (sdc_step d SdcExpire)"
proof -
  note IH = sdc_waitsD [OF w]
  have "sdc_inv (fire_expiration d)" using inv_step_sdc [OF IH(1), of SdcExpire] by simp
  moreover have "IsRunning (sdc_delay_expiration_timer d) \<longleftrightarrow>
      waited_for sid (sdc_registered_delays c) es \<noteq> {}"
    using IH(1,3) by (simp add: sdc_inv_def)
  ultimately show ?thesis
    using IH by (auto simp: sdc_waits_def waited_for_def [of _ _ "es @ _"] notified_append
      fire_expiration_def OnDelayExpiration_def PostNotifyObserversTask_def Let_def
      split: if_splits)
qed

lemma waits_notify:
  assumes w: "sdc_waits sid c es d" and d: "d = foldl sdc_step (PrepareForSuspend sid c) es"
  shows "sdc_waits sid c (es @ [SdcNotify]) (sdc_step d SdcNotify)"
proof -
  note IH = sdc_waitsD [OF w]
  have "sdc_inv (snd (NotifyObservers d))" using inv_step_sdc [OF IH(1), of SdcNotify] by simp
  moreover have "waited_for sid m (es @ [SdcNotify]) = waited_for sid m es" for m
    by (simp add: waited_for_def unreleased_def delay_released_def)
  ultimately show ?thesis
    using IH d [symmetric] by (auto simp: sdc_waits_def notified_append NotifyObservers_def Let_def
      split: if_splits option.splits)
qed

lemma waits_run:
  assumes "sdc_inv c" "sdc_notify_observers_timer c \<noteq> Some sid" "list_all waiting_event es"
  shows "sdc_waits sid c es (foldl sdc_step (PrepareForSuspend sid c) es)"
  using assms(3)
proof (induction es rule: rev_induct)
  case Nil
  then show ?case using waits_prepare [OF assms(1,2)] by simp
next
  case (snoc e es)
  then have w: "sdc_waits sid c es (foldl sdc_step (PrepareForSuspend sid c) es)"
    and "waiting_event e" by simp_all
  from waiting_event_cases [OF this(2)] waits_client [OF w _ refl] waits_expire [OF w refl]
    waits_notify [OF w refl]
  show ?case by auto
qed

text \<open>
  C15. An announced suspend waits for exactly the right clients. After
  \<^verbatim>\<open>PrepareForSuspend(sid)\<close> and any sequence of client requests, the delays still waited
  for are those registered at the announcement whose readiness for this very suspend has not
  been reported, that have not been unregistered and whose D-Bus client has not gone away
  (delays registered later, and readiness for another suspend, do not count); the observer
  notification for \<open>sid\<close> is posted exactly when none is left. As long as one is left the
  expiration timer runs, set to the largest timeout registered at the announcement but to no
  more than 20 seconds; it is stopped when none is left.
\<close>

theorem PrepareForSuspend_waits_exactly:
  assumes "sdc_inv c" "list_all client_event es" "sdc_notify_observers_timer c \<noteq> Some sid"
  shows "let c' = foldl sdc_step (PrepareForSuspend sid c) es;
      left = unreleased sid (sdc_registered_delays c) es;
      timeouts = di_timeout ` snd ` set (sdc_registered_delays c)
    in sdc_delay_ids_being_waited_on c' = left \<and>
       (sdc_notify_observers_timer c' = Some sid \<longleftrightarrow> left = {}) \<and>
       sdc_delay_expiration_timer c' =
         (if left = {} then None else Some (min (Max (insert 0 timeouts)) (FromSeconds 20)))"
proof -
  have "waiting_event e" if "client_event e" for e using that by (cases e) simp_all
  then have es: "list_all waiting_event es" using assms(2) by (auto simp: list_all_iff)
  note w = sdc_waitsD [OF waits_run [OF assms(1,3) es]]
  have W: "waited_for sid (sdc_registered_delays c) es = unreleased sid (sdc_registered_delays c) es"
    using assms(2) by (auto simp: waited_for_def list_all_iff)
  have "notified d es = []" for d
    using assms(2)
  proof (induction es arbitrary: d)
    case (Cons e es)
    then show ?case by (cases e) simp_all
  qed simp
  with w(6) have "sdc_notify_observers_timer (foldl sdc_step (PrepareForSuspend sid c) es) = Some sid
      \<longleftrightarrow> unreleased sid (sdc_registered_delays c) es = {}"
    by (auto simp: W split: if_splits)
  moreover have "sdc_delay_expiration_timer (foldl sdc_step (PrepareForSuspend sid c) es) = None"
    if "unreleased sid (sdc_registered_delays c) es = {}"
    using w(1,3) that by (simp add: W sdc_inv_def IsRunning_def)
  ultimately show ?thesis
    using w(3,5) by (auto simp: Let_def W max_delay_timeout_eq)
qed

definition example_delays_controller :: suspend_delay_controller where
  "example_delays_controller = foldl sdc_step (SuspendDelayController 7 [])
     [SdcRegister \<lparr>rr_timeout = 5000000, rr_description = ''a''\<rparr> '':1.1'',
      SdcRegister \<lparr>rr_timeout = 90000000, rr_description = ''b''\<rparr> '':1.2'',
      SdcRegister \<lparr>rr_timeout = 1000000, rr_description = ''c''\<rparr> '':1.3'']"

definition example_client_events :: "sdc_event list" where
  "example_client_events = [SdcReadiness 7 3, SdcReadiness 8 2,
     SdcRegister \<lparr>rr_timeout = 0, rr_description = ''d''\<rparr> '':1.4'', SdcDisconnected '':1.3'']"

lemma example_delays_inv: "sdc_inv example_delays_controller"
  unfolding example_delays_controller_def foldl.simps
  by (intro inv_step_sdc inv_SuspendDelayController)

theorem PrepareForSuspend_waits_exactly_witness:
  "let c' = foldl sdc_step (PrepareForSuspend 3 example_delays_controller) example_client_events
   in sdc_delay_ids_being_waited_on c' = {8} \<and> sdc_notify_observers_timer c' \<noteq> Some 3 \<and>
      sdc_delay_expiration_timer c' = Some 20000000"
proof -
  have m: "sdc_registered_delays example_delays_controller =
      [(7, \<lparr>di_timeout = 5000000, di_dbus_client = '':1.1'', di_description = ''a''\<rparr>),
       (8, \<lparr>di_timeout = 90000000, di_dbus_client = '':1.2'', di_description = ''b''\<rparr>),
       (9, \<lparr>di_timeout = 1000000, di_dbus_client = '':1.3'', di_description = ''c''\<rparr>)]"
    by code_simp
  then have "unreleased 3 (sdc_registered_delays example_delays_controller)
      example_client_events = {8}"
    by (auto simp: unreleased_def delay_released_def example_client_events_def)
  moreover have "list_all client_event example_client_events"
    "sdc_notify_observers_timer example_delays_controller \<noteq> Some 3"
    by code_simp+
  ultimately show ?thesis
    using PrepareForSuspend_waits_exactly [OF example_delays_inv, of example_client_events 3]
    by (simp add: m Let_def FromSeconds_def)
qed

section \<open>The contract with the suspender\<close>

text \<open>
  What a client of the controller relies on: once a suspend has been announced it stays
  \<open>pending\<close>, whatever requests arrive, until the notification for it is delivered; and a
  pending announcement is answered by the notification timer or, at the latest, after the
  expiration timer has fired.
\<close>

locale suspend_delays =
  fixes prepare :: "int \<Rightarrow> 'c \<Rightarrow> 'c"
    and request :: "'c \<Rightarrow> 'e \<Rightarrow> 'c"
    and expire :: "'c \<Rightarrow> 'c"
    and posted :: "'c \<Rightarrow> int option"
    and deliver :: "'c \<Rightarrow> 'c"
    and valid :: "'c \<Rightarrow> bool"
    and pending :: "'c \<Rightarrow> int \<Rightarrow> bool"
  assumes prepare_pending: "valid c \<Longrightarrow> pending (prepare n c) n"
    and request_pending: "pending c n \<Longrightarrow> pending (request c e) n"
    and expire_pending: "pending c n \<Longrightarrow> pending (expire c) n"
    and deliver_pending: "pending c n \<Longrightarrow> posted c \<noteq> Some n \<Longrightarrow> pending (deliver c) n"
    and pending_answered: "pending c n \<Longrightarrow> posted (expire c) = Some n"
begin

lemma requests_pending: "pending c n \<Longrightarrow> pending (foldl request c es) n"
  by (induction es arbitrary: c) (auto intro: request_pending)

lemma announced_answered:
  "valid c \<Longrightarrow> posted (expire (foldl request (prepare n c) es)) = Some n"
  by (intro pending_answered requests_pending prepare_pending)

end

definition client_step ::
  "suspend_delay_controller \<Rightarrow> sdc_event \<Rightarrow> suspend_delay_controller" where
  "client_step c e = (if client_event e then sdc_step c e else c)"

definition sdc_pending :: "suspend_delay_controller \<Rightarrow> int \<Rightarrow> bool" where
  "sdc_pending c n \<longleftrightarrow> sdc_inv c \<and> sdc_current_suspend_id c = n \<and>
     (sdc_delay_ids_being_waited_on c \<noteq> {} \<or> sdc_notify_observers_timer c = Some n)"

lemma pending_client_step: "sdc_pending c n \<Longrightarrow> sdc_pending (client_step c e) n"
  using client_step_released [of c e]
  by (auto simp: sdc_pending_def client_step_def released_def inv_step_sdc split: if_splits)

lemma pending_fire_expiration:
  assumes "sdc_pending c n"
  shows "sdc_pending (fire_expiration c) n" "sdc_notify_observers_timer (fire_expiration c) = Some n"
proof -
  from assms inv_step_sdc [of c SdcExpire] have "sdc_inv (fire_expiration c)"
    by (simp add: sdc_pending_def)
  with assms show "sdc_pending (fire_expiration c) n"
    "sdc_notify_observers_timer (fire_expiration c) = Some n"
    by (auto simp: sdc_pending_def fire_expiration_def OnDelayExpiration_def
      PostNotifyObserversTask_def Let_def sdc_inv_def [of c])
qed

interpretation sdc: suspend_delays PrepareForSuspend client_step fire_expiration
  sdc_notify_observers_timer "\<lambda>c. snd (NotifyObservers c)" sdc_inv sdc_pending
proof
  fix c n
  show "sdc_pending (PrepareForSuspend n c) n" if "sdc_inv c"
    using inv_step_sdc [OF that, of "SdcPrepare n"]
    by (auto simp: sdc_pending_def PrepareForSuspend_def PostNotifyObserversTask_def Let_def)
  show "sdc_pending (snd (NotifyObservers c)) n"
    if "sdc_pending c n" "sdc_notify_observers_timer c \<noteq> Some n"
    using that inv_step_sdc [of c SdcNotify] by (auto simp: sdc_pending_def NotifyObservers_def)
qed (fact pending_client_step pending_fire_expiration)+

text \<open>
  C16. Suspend delays cannot block a suspend, and it is announced as ready once. After
  \<^verbatim>\<open>PrepareForSuspend(sid)\<close>, let clients register, report, unregister or disconnect and let
  the expiration and notification timers fire, in any order. The notifications for \<open>sid\<close>
  that \<^verbatim>\<open>NotifyObservers()\<close> has delivered and the one that may still be posted are together
  one if the expiration timer has fired or every delay registered at the announcement has been
  released by readiness, unregistration or disconnection, and none otherwise; in the latter
  case the expiration timer is running with at most 20 seconds. Firing the two timers then
  completes the delivery: the observers have been notified of \<open>sid\<close> exactly once.
\<close>

theorem suspend_delays_cannot_block:
  assumes "sdc_inv c" "sdc_notify_observers_timer c \<noteq> Some sid" "list_all waiting_event es"
  shows "let c0 = PrepareForSuspend sid c; c' = foldl sdc_step c0 es;
      settled = (SdcExpire \<in> set es \<or> unreleased sid (sdc_registered_delays c) es = {})
    in count_list (notified c0 es) sid +
         (if sdc_notify_observers_timer c' = Some sid then 1 else 0) = (if settled then 1 else 0) \<and>
       (\<not> settled \<longrightarrow>
         (\<exists>d. sdc_delay_expiration_timer c' = Some d \<and> 0 \<le> d \<and> d \<le> FromSeconds 20)) \<and>
       count_list (notified c0 (es @ [SdcExpire, SdcNotify])) sid = 1"
proof -
  let ?m = "sdc_registered_delays c"
  note w = sdc_waitsD [OF waits_run [OF assms]]
  have W: "waited_for sid ?m es = {} \<longleftrightarrow> SdcExpire \<in> set es \<or> unreleased sid ?m es = {}"
    by (simp add: waited_for_def)
  have "list_all waiting_event (es @ [SdcExpire, SdcNotify])" using assms(3) by simp
  note x = sdc_waitsD [OF waits_run [OF assms(1,2) this]]
  have "count_list (notified (PrepareForSuspend sid c) (es @ [SdcExpire, SdcNotify])) sid = 1"
    using x(6) by (simp add: waited_for_def NotifyObservers_def)
  then show ?thesis
    using w(5,6) max_delay_timeout_bounds [of ?m]
    unfolding Let_def W by (simp add: FromSeconds_def)
qed

theorem suspend_delays_cannot_block_witness:
  "count_list (notified (PrepareForSuspend 3 example_delays_controller)
     (example_client_events @ [SdcNotify] @ [SdcExpire, SdcNotify])) 3 = 1"
proof -
  have "sdc_notify_observers_timer example_delays_controller \<noteq> Some 3"
    "list_all waiting_event (example_client_events @ [SdcNotify])" by code_simp+
  from suspend_delays_cannot_block [OF example_delays_inv this] show ?thesis
    by (simp only: Let_def append_assoc)
qed

end
