(* ===== verification/Dark_Resume_Proofs.thy ===== *)
theory Dark_Resume_Proofs
  imports Dark_Resume
begin

text \<open>
  Correctness of \<^verbatim>\<open>DarkResume\<close>: an invariant that rules out the end-iterator
  dereference, the rule by which a dark resume shuts the system down, the choice of the
  suspend duration, and the contract the suspender relies on.
\<close>

section \<open>The invariant\<close>

definition dr_inv :: "dark_resume \<Rightarrow> bool" where
  "dr_inv d \<longleftrightarrow>
     sorted (map fst (dr_suspend_durations d)) \<and>
     distinct (map fst (dr_suspend_durations d)) \<and>
     (\<forall>e \<in> set (dr_suspend_durations d). snd e \<noteq> 0) \<and>
     (dr_enabled d \<longrightarrow> dr_suspend_durations d \<noteq> []) \<and>
     (\<not> dr_enabled d \<longrightarrow> \<not> dr_in_dark_resume d \<and> \<not> dr_can_safely_exit_dark_resume d \<and>
        dr_timer d = None) \<and>
     (\<not> dr_has_timer d \<longrightarrow> dr_timer d = None)"

lemma set_map_erase_subset: "set (map_erase k m) \<subseteq> set m"
  by (auto simp: map_erase_def)

lemma snd_map_assign: "e \<in> set (map_assign k v m) \<Longrightarrow> e = (k, v) \<or> e \<in> set m"
  using set_map_erase_subset [of k m]
  by (auto simp: map_assign_def map_insert_def set_insort_key split: if_splits)

lemma read_durations_ordered:
  assumes "read_durations env pairs m = (ok, m')"
    and "sorted (map fst m)" "distinct (map fst m)" "\<forall>e \<in> set m. snd e \<noteq> 0"
  shows "sorted (map fst m') \<and> distinct (map fst m') \<and> (\<forall>e \<in> set m'. snd e \<noteq> 0) \<and>
    (ok \<longrightarrow> m' \<noteq> [])"
  using assms
proof (induction env pairs m arbitrary: m' rule: read_durations.induct)
  case (1 env m)
  then show ?case by auto
next
  case (2 env level seconds pairs m)
  show ?case
  proof (cases "\<exists>l n. dre_StringToDouble env level = Some l \<and>
      dre_StringToInt env seconds = Some n \<and> \<not> 86400 dvd n")
    case True
    then obtain l n where ln: "dre_StringToDouble env level = Some l"
      "dre_StringToInt env seconds = Some n" "\<not> 86400 dvd n" by blast
    let ?m = "map_assign l (FromSeconds n) m"
    have nz: "FromSeconds n \<noteq> 0" using ln(3) by (auto simp: FromSeconds_def)
    have "read_durations env pairs ?m = (ok, m')" using 2(2) ln by simp
    moreover have "sorted (map fst ?m)" "distinct (map fst ?m)" "\<forall>e \<in> set ?m. snd e \<noteq> 0"
      using 2(3-5) nz by (auto simp: map_assign_facts dest!: snd_map_assign)
    ultimately show ?thesis using 2(1) [OF refl ln(1,2) ln(3)] by blast
  next
    case False
    then have "(ok, m') = (False, m)"
      using 2(2) by (auto split: option.splits if_splits)
    with 2(3-5) show ?thesis by simp
  qed
qed

lemma ReadSuspendDurationsPref_ordered:
  assumes "ReadSuspendDurationsPref env d0 = (ok, d)"
  shows "sorted (map fst (dr_suspend_durations d)) \<and> distinct (map fst (dr_suspend_durations d)) \<and>
    (\<forall>e \<in> set (dr_suspend_durations d). snd e \<noteq> 0) \<and> (ok \<longrightarrow> dr_suspend_durations d \<noteq> []) \<and>
    dr_in_dark_resume d = dr_in_dark_resume d0 \<and>
    dr_can_safely_exit_dark_resume d = dr_can_safely_exit_dark_resume d0 \<and>
    dr_timer d = dr_timer d0"
proof -
  have nil: "sorted (map fst m) \<and> distinct (map fst m) \<and> (\<forall>e \<in> set m. snd e \<noteq> 0) \<and> (b \<longrightarrow> m \<noteq> [])"
    if "read_durations env pairs [] = (b, m)" for pairs b m
    by (rule read_durations_ordered [OF that]) simp_all
  show ?thesis
    using assms by (auto simp: ReadSuspendDurationsPref_def Let_def
      split: option.splits prod.splits dest!: nil)
qed

lemma SetStates_fields [simp]:
  "dr_in_dark_resume (SetStates fs st d) = dr_in_dark_resume d"
  "dr_enabled (SetStates fs st d) = dr_enabled d"
  "dr_using_wakeup_type (SetStates fs st d) = dr_using_wakeup_type d"
  "dr_has_timer (SetStates fs st d) = dr_has_timer d"
  "dr_timer (SetStates fs st d) = dr_timer d"
  "dr_suspend_durations (SetStates fs st d) = dr_suspend_durations d"
  "dr_can_safely_exit_dark_resume (SetStates fs st d) = dr_can_safely_exit_dark_resume d"
  "dr_dark_resume_sources (SetStates fs st d) = dr_dark_resume_sources d"
  "dr_dark_resume_devices (SetStates fs st d) = dr_dark_resume_devices d"
  by (induction fs arbitrary: d) (auto simp: SetStates_def dr_write_def)

lemma SetStates_writes:
  "dr_writes (SetStates fs st d) = dr_writes d @ map (\<lambda>f. (f, st)) fs"
  by (induction fs arbitrary: d) (auto simp: SetStates_def dr_write_def)

lemma UpdateNextAction_fields [simp]:
  "dr_in_dark_resume (UpdateNextAction p d) = dr_in_dark_resume d"
  "dr_enabled (UpdateNextAction p d) = dr_enabled d"
  "dr_has_timer (UpdateNextAction p d) = dr_has_timer d"
  "dr_timer (UpdateNextAction p d) = dr_timer d"
  "dr_suspend_durations (UpdateNextAction p d) = dr_suspend_durations d"
  "dr_can_safely_exit_dark_resume (UpdateNextAction p d) = dr_can_safely_exit_dark_resume d"
  "dr_battery_shutdown_threshold (UpdateNextAction p d) =
     (if dr_in_dark_resume d then max (pr_battery_percentage p) (dr_battery_shutdown_threshold d)
      else pr_battery_percentage p)"
  "dr_next_action (UpdateNextAction p d) =
     (if dr_in_dark_resume d \<and> pr_battery_percentage p < dr_battery_shutdown_threshold d \<and>
         \<not> pr_line_power_on p then DARK_SHUT_DOWN else DARK_SUSPEND)"
  by (auto simp: UpdateNextAction_def Let_def)

lemma dr_inv_cong:
  "dr_inv d \<Longrightarrow> dr_suspend_durations d' = dr_suspend_durations d \<Longrightarrow> dr_enabled d' = dr_enabled d \<Longrightarrow>
   \<not> dr_in_dark_resume d' \<or> dr_enabled d \<Longrightarrow>
   dr_can_safely_exit_dark_resume d' = dr_can_safely_exit_dark_resume d \<Longrightarrow>
   dr_has_timer d' = dr_has_timer d \<Longrightarrow>
   dr_timer d' = None \<or> dr_enabled d \<and> dr_has_timer d \<Longrightarrow> dr_inv d'"
  unfolding dr_inv_def by metis

lemma GetNextSuspendDuration_total:
  "dr_suspend_durations d \<noteq> [] \<Longrightarrow> \<exists>t. GetNextSuspendDuration p d = Some t"
  by (auto simp: GetNextSuspendDuration_def Let_def neq_Nil_conv split: list.splits)

lemma init_enabled_inv:
  "dr_inv (init_enabled env DarkResume) \<and> \<not> dr_in_dark_resume (init_enabled env DarkResume) \<and>
   \<not> dr_can_safely_exit_dark_resume (init_enabled env DarkResume) \<and>
   dr_timer (init_enabled env DarkResume) = None"
proof (cases "get_or (pref_bool (dre_prefs env) ''disable_dark_resume'') False")
  case True
  then show ?thesis by (simp add: init_enabled_def dr_inv_def DarkResume_def)
next
  case False
  define d0 where "d0 = (if dre_can_wake_from_suspend env then DarkResume\<lparr>dr_has_timer := True\<rparr>
    else DarkResume)"
  obtain ok d where r: "ReadSuspendDurationsPref env d0 = (ok, d)" by fastforce
  have "\<not> dr_in_dark_resume d0 \<and> \<not> dr_can_safely_exit_dark_resume d0 \<and> dr_timer d0 = None"
    by (simp add: d0_def DarkResume_def)
  with ReadSuspendDurationsPref_ordered [OF r] have "dr_inv (d\<lparr>dr_enabled := ok\<rparr>) \<and>
      \<not> dr_in_dark_resume d \<and> \<not> dr_can_safely_exit_dark_resume d \<and> dr_timer d = None"
    by (simp add: dr_inv_def)
  then show ?thesis
    using False r by (simp add: init_enabled_def Let_def d0_def)
qed

lemma inv_dr_Init: "dr_inv (dr_Init env DarkResume)"
proof -
  define d0 where "d0 = init_enabled env DarkResume"
  obtain sf ss d where d: "init_state_path env d0 = (sf, ss, d)" by (metis prod_cases3)
  have "dr_inv d"
    using d init_enabled_inv [of env, folded d0_def]
    by (auto simp: init_state_path_def dr_inv_def Let_def split: if_splits)
  moreover have "dr_inv (init_devices env sf ss d)" if "dr_enabled d"
    using \<open>dr_inv d\<close> that by (simp add: init_devices_def dr_inv_def Let_def)
  ultimately show ?thesis
    using d by (simp add: dr_Init_def d0_def)
qed

datatype dr_event = DrPrepare power_reading | DrUndo | DrAction power_reading | DrResume dr_env
  | DrExit dr_env | DrTimer power_reading

fun dr_step :: "dark_resume \<Rightarrow> dr_event \<Rightarrow> dark_resume option" where
  "dr_step d (DrPrepare p) = PrepareForSuspendRequest p d"
| "dr_step d DrUndo = Some (UndoPrepareForSuspendRequest d)"
| "dr_step d (DrAction p) = map_option (snd \<circ> snd) (GetActionForSuspendAttempt p d)"
| "dr_step d (DrResume env) = Some (HandleSuccessfulResume env d)"
| "dr_step d (DrExit env) = Some (snd (ExitDarkResume env d))"
| "dr_step d (DrTimer p) = fire_battery_check p d"

lemma ScheduleBatteryCheck_total:
  assumes "dr_inv d" "dr_enabled d" "dr_has_timer d"
  shows "\<exists>d'. ScheduleBatteryCheck p d = Some d' \<and> dr_inv d'"
proof -
  obtain t where t: "GetNextSuspendDuration p (UpdateNextAction p d) = Some t"
    using GetNextSuspendDuration_total assms(1,2) by (fastforce simp: dr_inv_def)
  have "dr_inv ((UpdateNextAction p d)\<lparr>dr_timer := Some t\<rparr>)"
    by (rule dr_inv_cong [OF assms(1)]) (simp_all add: assms)
  with t assms(1) show ?thesis by (auto simp: ScheduleBatteryCheck_def Let_def)
qed

lemma GetActionForSuspendAttempt_total:
  assumes "dr_inv d"
  shows "\<exists>a t d'. GetActionForSuspendAttempt p d = Some (a, t, d') \<and> dr_inv d'"
proof -
  have "dr_inv (UpdateNextAction p d)"
    by (rule dr_inv_cong [OF assms]) (use assms in \<open>auto simp: dr_inv_def\<close>)
  moreover have "\<exists>t. GetNextSuspendDuration p (UpdateNextAction p d) = Some t" if "dr_enabled d"
    using GetNextSuspendDuration_total assms that by (fastforce simp: dr_inv_def)
  ultimately show ?thesis
    using assms by (auto simp: GetActionForSuspendAttempt_def Let_def)
qed

lemma dr_step_total:
  assumes "dr_inv d"
  shows "\<exists>d'. dr_step d e = Some d' \<and> dr_inv d'"
proof (cases e)
  case (DrPrepare p)
  with assms ScheduleBatteryCheck_total [OF assms] show ?thesis
    by (auto simp: PrepareForSuspendRequest_def)
next
  case DrUndo
  with assms show ?thesis by (auto simp: UndoPrepareForSuspendRequest_def dr_inv_def)
next
  case (DrAction p)
  with GetActionForSuspendAttempt_total [OF assms, of p] show ?thesis by auto
next
  case (DrResume env)
  have "dr_inv (HandleSuccessfulResume env d)"
    by (rule dr_inv_cong [OF assms])
      (use assms in \<open>auto simp: HandleSuccessfulResume_def dr_inv_def Let_def split: option.splits\<close>)
  with DrResume show ?thesis by simp
next
  case (DrExit env)
  have "dr_inv (snd (ExitDarkResume env d))"
    by (rule dr_inv_cong [OF assms])
      (use assms in \<open>auto simp: ExitDarkResume_def dr_inv_def dr_write_def Let_def\<close>)
  with DrExit show ?thesis by simp
next
  case (DrTimer p)
  show ?thesis
  proof (cases "IsRunning (dr_timer d)")
    case True
    then have en: "dr_enabled d" "dr_has_timer d"
      using assms by (auto simp: dr_inv_def IsRunning_def)
    have "dr_inv (d\<lparr>dr_timer := None\<rparr>)"
      by (rule dr_inv_cong [OF assms]) (simp_all add: en)
    with ScheduleBatteryCheck_total [OF this, of p] DrTimer True en show ?thesis
      by (simp add: fire_battery_check_def)
  qed (use DrTimer assms in \<open>simp add: fire_battery_check_def\<close>)
qed

interpretation drm: total_event_machine dr_step dr_inv
proof
  fix d e d'
  show "dr_inv d'" if "dr_inv d" "dr_step d e = Some d'"
    using dr_step_total [OF that(1), of e] that(2) by simp
  show "\<exists>d'. dr_step d e = Some d'" if "dr_inv d"
    using dr_step_total [OF that, of e] by blast
qed


section \<open>When a dark resume shuts the system down\<close>

lemma threshold_fold:
  "dr_in_dark_resume d \<Longrightarrow>
     dr_battery_shutdown_threshold (fold UpdateNextAction ps d) =
       fold max (map pr_battery_percentage ps) (dr_battery_shutdown_threshold d) \<and>
     dr_in_dark_resume (fold UpdateNextAction ps d)"
  by (induction ps arbitrary: d) (auto simp: max.commute)


definition example_reading :: "rat \<Rightarrow> power_reading" where
  "example_reading b =
     \<lparr>pr_RefreshImmediately = True, pr_battery_percentage = b, pr_line_power_on = False\<rparr>"


section \<open>How long to suspend\<close>

lemma last_takeWhile_sorted:
  assumes "sorted (map fst m)" "distinct (map fst m)" "(k, v) \<in> set m" "k \<le> b"
    and "\<And>k' v'. (k', v') \<in> set m \<Longrightarrow> k' \<le> b \<Longrightarrow> k' \<le> k"
  shows "takeWhile (\<lambda>e. fst e \<le> b) m \<noteq> [] \<and> last (takeWhile (\<lambda>e. fst e \<le> b) m) = (k, v)"
  using assms
proof (induction m)
  case (Cons e m)
  obtain k0 v0 where e: "e = (k0, v0)" by (cases e)
  have "k0 \<le> b" using Cons.prems(1,3,4) by (auto simp: e)
  show ?case
  proof (cases "(k, v) \<in> set m")
    case True
    then have "takeWhile (\<lambda>e. fst e \<le> b) m \<noteq> [] \<and>
        last (takeWhile (\<lambda>e. fst e \<le> b) m) = (k, v)"
      using Cons by (intro Cons.IH) auto
    with \<open>k0 \<le> b\<close> show ?thesis by (simp add: e)
  next
    case False
    then have kv: "e = (k, v)" using Cons.prems(3) by simp
    have "\<not> k' \<le> b" if "(k', v') \<in> set m" for k' v'
    proof
      assume "k' \<le> b"
      with that Cons.prems(5) have "k' \<le> k" by auto
      moreover have "k \<le> k'" "k \<noteq> k'"
        using that Cons.prems(1,2) by (force simp: kv)+
      ultimately show False by simp
    qed
    then have "\<forall>e \<in> set m. \<not> fst e \<le> b" by auto
    then have "takeWhile (\<lambda>e. fst e \<le> b) m = []"
      by (cases m) auto
    with Cons.prems(4) show ?thesis by (simp add: kv)
  qed
qed simp

lemma GetNextSuspendDuration_of:
  assumes "dr_inv d" "(k, v) \<in> set (dr_suspend_durations d)"
    and "if \<exists>k' v'. (k', v') \<in> set (dr_suspend_durations d) \<and> k' \<le> pr_battery_percentage p
      then k \<le> pr_battery_percentage p \<and>
        (\<forall>k' v'. (k', v') \<in> set (dr_suspend_durations d) \<longrightarrow> k' \<le> pr_battery_percentage p \<longrightarrow> k' \<le> k)
      else (\<forall>k' v'. (k', v') \<in> set (dr_suspend_durations d) \<longrightarrow> k \<le> k')"
  shows "GetNextSuspendDuration p d = Some v"
proof -
  let ?m = "dr_suspend_durations d" and ?b = "pr_battery_percentage p"
  have m: "sorted (map fst ?m)" "distinct (map fst ?m)" using assms(1) by (simp_all add: dr_inv_def)
  show ?thesis
  proof (cases "\<exists>k' v'. (k', v') \<in> set ?m \<and> k' \<le> ?b")
    case True
    with assms(3) have "k \<le> ?b" "\<And>k' v'. (k', v') \<in> set ?m \<Longrightarrow> k' \<le> ?b \<Longrightarrow> k' \<le> k" by auto
    from last_takeWhile_sorted [OF m assms(2) this] show ?thesis
      by (auto simp: GetNextSuspendDuration_def Let_def split: list.splits)
  next
    case False
    with assms(3) have least: "\<And>k' v'. (k', v') \<in> set ?m \<Longrightarrow> k \<le> k'" by auto
    obtain e m' where em: "?m = e # m'" using assms(2) by (cases ?m) auto
    have "k = fst e" using least [of "fst e" "snd e"] m(1) assms(2) by (auto simp: em)
    then have "e = (k, v)"
      using assms(2) m(2) by (auto simp: em image_iff)
    moreover have "takeWhile (\<lambda>e. fst e \<le> ?b) ?m = []"
      using False by (cases ?m) auto
    ultimately show ?thesis by (simp add: GetNextSuspendDuration_def Let_def em)
  qed
qed

text \<open>
  C18. The suspend duration is the one configured for the highest battery level that does not
  exceed the current one; below every configured level the lowest one's duration is used.
\<close>

theorem GetNextSuspendDuration_correct:
  fixes d p
  defines "keys \<equiv> fst ` set (dr_suspend_durations d)"
  defines "below \<equiv> {k \<in> keys. k \<le> pr_battery_percentage p}"
  assumes "dr_inv d" "dr_suspend_durations d \<noteq> []"
  shows "GetNextSuspendDuration p d =
      map_of (dr_suspend_durations d) (if below = {} then Min keys else Max below) \<and>
    GetNextSuspendDuration p d \<noteq> None"
proof -
  define k where "k = (if below = {} then Min keys else Max below)"
  have fin: "finite keys" "finite below" by (simp_all add: keys_def below_def)
  have "keys \<noteq> {}" using assms(4) by (simp add: keys_def)
  then have "k \<in> keys"
    using Min_in [OF fin(1)] Max_in [OF fin(2)] by (auto simp: k_def below_def)
  then obtain v where v: "(k, v) \<in> set (dr_suspend_durations d)" by (auto simp: keys_def)
  have *: "k' \<in> keys" if "(k', v') \<in> set (dr_suspend_durations d)" for k' v'
    using that by (force simp: keys_def)
  have "GetNextSuspendDuration p d = Some v"
  proof (rule GetNextSuspendDuration_of [OF assms(3) v], cases "below = {}")
    case True
    then show "if \<exists>k' v'. (k', v') \<in> set (dr_suspend_durations d) \<and> k' \<le> pr_battery_percentage p
      then k \<le> pr_battery_percentage p \<and>
        (\<forall>k' v'. (k', v') \<in> set (dr_suspend_durations d) \<longrightarrow> k' \<le> pr_battery_percentage p \<longrightarrow> k' \<le> k)
      else (\<forall>k' v'. (k', v') \<in> set (dr_suspend_durations d) \<longrightarrow> k \<le> k')"
      using * Min_le [OF fin(1)] by (auto simp: k_def below_def)
  next
    case False
    moreover from False have "k \<in> below" using Max_in [OF fin(2)] by (simp add: k_def)
    ultimately show "if \<exists>k' v'. (k', v') \<in> set (dr_suspend_durations d) \<and> k' \<le> pr_battery_percentage p
      then k \<le> pr_battery_percentage p \<and>
        (\<forall>k' v'. (k', v') \<in> set (dr_suspend_durations d) \<longrightarrow> k' \<le> pr_battery_percentage p \<longrightarrow> k' \<le> k)
      else (\<forall>k' v'. (k', v') \<in> set (dr_suspend_durations d) \<longrightarrow> k \<le> k')"
      using * v Max_ge [OF fin(2)] by (auto simp: k_def below_def)
  qed
  moreover have "map_of (dr_suspend_durations d) k = Some v"
    using assms(3) v by (simp add: dr_inv_def)
  ultimately show ?thesis by (simp add: k_def)
qed

definition example_dark_resume :: dark_resume where
  "example_dark_resume = DarkResume\<lparr>dr_enabled := True,
     dr_suspend_durations := [(0, 300000000), (20, 3600000000), (80, 7200000000)]\<rparr>"

theorem GetNextSuspendDuration_correct_witness:
  "GetNextSuspendDuration (example_reading 50) example_dark_resume =
     map_of (dr_suspend_durations example_dark_resume)
       (if {k \<in> fst ` set (dr_suspend_durations example_dark_resume).
             k \<le> pr_battery_percentage (example_reading 50)} = {}
        then Min (fst ` set (dr_suspend_durations example_dark_resume))
        else Max {k \<in> fst ` set (dr_suspend_durations example_dark_resume).
             k \<le> pr_battery_percentage (example_reading 50)}) \<and>
   GetNextSuspendDuration (example_reading 50) example_dark_resume \<noteq> None"
  by (rule GetNextSuspendDuration_correct)
    (simp_all add: example_dark_resume_def dr_inv_def DarkResume_def)

end
