(* ===== verification/Suspender_Proofs.thy ===== *)
theory Suspender_Proofs
  imports Suspender Suspend_Delays_Proofs Dark_Resume_Proofs
begin

text \<open>
  Correctness of \<^verbatim>\<open>Suspender\<close>: the protocol it follows with its delegate and the D-Bus
  clients, that a waiting suspender always has a timer that will move it on, the bound on
  suspend attempts, and that the event queue is always drained.
\<close>

section \<open>The delegate protocol\<close>

text \<open>
  The legal order of the calls of one suspend request: prepare, persist the announcement,
  announce \<open>SuspendImminent\<close>; any number of attempts, resuspend announcements and lid
  queries; then either a shutdown, or \<open>SuspendDone\<close> with the same ID, the announcement
  cleared and the preparation undone. The wakeup count may be read at any time.
\<close>

datatype phase = PIdle | PPrepared | PAnnounced | POpen int | PDone | PCleared | PShut

fun phase_step :: "phase \<Rightarrow> su_call \<Rightarrow> phase option" where
  "phase_step p SuReadSuspendWakeupCount = Some p"
| "phase_step PIdle SuPrepareToSuspend = Some PPrepared"
| "phase_step PIdle (SuGenerateDarkResumeMetrics _ _) = Some PIdle"
| "phase_step PPrepared (SuSetSuspendAnnounced True) = Some PAnnounced"
| "phase_step PAnnounced (SuSuspendImminent n) = Some (POpen n)"
| "phase_step (POpen n) (SuDoSuspend _ _ _) = Some (POpen n)"
| "phase_step (POpen n) (SuDarkSuspendImminent _) = Some (POpen n)"
| "phase_step (POpen n) SuIsLidClosedForSuspend = Some (POpen n)"
| "phase_step (POpen n) (SuSuspendDone m _) = (if m = n then Some PDone else None)"
| "phase_step (POpen n) SuShutDownForFailedSuspend = Some PShut"
| "phase_step (POpen n) SuShutDownForDarkResume = Some PShut"
| "phase_step PDone (SuSetSuspendAnnounced False) = Some PCleared"
| "phase_step PCleared (SuUndoPrepareToSuspend _ _ _) = Some PIdle"
| "phase_step _ _ = None"

fun run_phase :: "phase \<Rightarrow> su_call list \<Rightarrow> phase option" where
  "run_phase p [] = Some p"
| "run_phase p (c # cs) = Option.bind (phase_step p c) (\<lambda>q. run_phase q cs)"

lemma run_phase_append:
  "run_phase p (xs @ ys) = Option.bind (run_phase p xs) (\<lambda>q. run_phase q ys)"
  by (induction xs arbitrary: p) (auto split: bind_splits)

section \<open>Calls to the delegate\<close>

fun input_event :: "su_input \<Rightarrow> SuEvent" where
  "input_event InRequestSuspend = SUSPEND_REQUESTED"
| "input_event (InRequestSuspendWithExternalWakeupCount _) = SUSPEND_REQUESTED"
| "input_event InLidOpened = USER_ACTIVITY"
| "input_event InUserActivity = USER_ACTIVITY"
| "input_event InShutdown = SHUTDOWN_STARTED"

fun supplied_after :: "su_input list \<Rightarrow> bool \<times> 64 word \<Rightarrow> bool \<times> 64 word" where
  "supplied_after [] x = x"
| "supplied_after (InRequestSuspend # is) x = supplied_after is (False, 0)"
| "supplied_after (InRequestSuspendWithExternalWakeupCount w # is) x = supplied_after is (True, w)"
| "supplied_after (_ # is) x = supplied_after is x"

lemma fold_reenter:
  "fold reenter is s = s\<lparr>su_queued_events := su_queued_events s @ map input_event is,
     su_suspend_request_supplied_wakeup_count := fst (supplied_after is
       (su_suspend_request_supplied_wakeup_count s, su_suspend_request_wakeup_count s)),
     su_suspend_request_wakeup_count := snd (supplied_after is
       (su_suspend_request_supplied_wakeup_count s, su_suspend_request_wakeup_count s))\<rparr>"
proof (induction "is" arbitrary: s)
  case (Cons i "is")
  then show ?case by (cases i) (simp_all add: push_event_def)
qed simp

lemma su_delegate_fields [simp]:
  "su_calls (su_delegate env c s) = su_calls s @ [c]"
  "su_clock_reads (su_delegate env c s) = su_clock_reads s"
  "su_suspend_delay_controller (su_delegate env c s) = su_suspend_delay_controller s"
  "su_dark_suspend_delay_controller (su_delegate env c s) = su_dark_suspend_delay_controller s"
  "su_dark_resume (su_delegate env c s) = su_dark_resume s"
  "su_state (su_delegate env c s) = su_state s"
  "su_handling_event (su_delegate env c s) = su_handling_event s"
  "su_processing_queued_events (su_delegate env c s) = su_processing_queued_events s"
  "su_queued_events (su_delegate env c s) =
     su_queued_events s @ map input_event (sue_reenter env (su_calls s @ [c]))"
  "su_suspend_request_id (su_delegate env c s) = su_suspend_request_id s"
  "su_dark_suspend_id (su_delegate env c s) = su_dark_suspend_id s"
  "su_max_retries (su_delegate env c s) = su_max_retries s"
  "su_current_num_attempts (su_delegate env c s) = su_current_num_attempts s"
  "su_resuspend_timer (su_delegate env c s) = su_resuspend_timer s"
  by (simp_all add: su_delegate_def su_record_def fold_reenter Let_def)

lemma su_record_fields [simp]:
  "su_calls (su_record c s) = su_calls s @ [c]"
  "su_clock_reads (su_record c s) = su_clock_reads s"
  "su_suspend_delay_controller (su_record c s) = su_suspend_delay_controller s"
  "su_dark_suspend_delay_controller (su_record c s) = su_dark_suspend_delay_controller s"
  "su_dark_resume (su_record c s) = su_dark_resume s"
  "su_state (su_record c s) = su_state s"
  "su_handling_event (su_record c s) = su_handling_event s"
  "su_processing_queued_events (su_record c s) = su_processing_queued_events s"
  "su_queued_events (su_record c s) = su_queued_events s"
  "su_suspend_request_id (su_record c s) = su_suspend_request_id s"
  "su_dark_suspend_id (su_record c s) = su_dark_suspend_id s"
  "su_max_retries (su_record c s) = su_max_retries s"
  "su_current_num_attempts (su_record c s) = su_current_num_attempts s"
  "su_resuspend_timer (su_record c s) = su_resuspend_timer s"
  by (simp_all add: su_record_def)

lemma su_tick_fields [simp]:
  "su_calls (su_tick s) = su_calls s"
  "su_suspend_delay_controller (su_tick s) = su_suspend_delay_controller s"
  "su_dark_suspend_delay_controller (su_tick s) = su_dark_suspend_delay_controller s"
  "su_dark_resume (su_tick s) = su_dark_resume s"
  "su_state (su_tick s) = su_state s"
  "su_handling_event (su_tick s) = su_handling_event s"
  "su_processing_queued_events (su_tick s) = su_processing_queued_events s"
  "su_queued_events (su_tick s) = su_queued_events s"
  "su_suspend_request_id (su_tick s) = su_suspend_request_id s"
  "su_dark_suspend_id (su_tick s) = su_dark_suspend_id s"
  "su_max_retries (su_tick s) = su_max_retries s"
  "su_current_num_attempts (su_tick s) = su_current_num_attempts s"
  "su_resuspend_timer (su_tick s) = su_resuspend_timer s"
  by (simp_all add: su_tick_def)

lemma read_wakeup_count_fields [simp]:
  "su_calls (read_wakeup_count env s) = su_calls s"
  "su_suspend_delay_controller (read_wakeup_count env s) = su_suspend_delay_controller s"
  "su_dark_suspend_delay_controller (read_wakeup_count env s) =
     su_dark_suspend_delay_controller s"
  "su_dark_resume (read_wakeup_count env s) = su_dark_resume s"
  "su_state (read_wakeup_count env s) = su_state s"
  "su_handling_event (read_wakeup_count env s) = su_handling_event s"
  "su_processing_queued_events (read_wakeup_count env s) = su_processing_queued_events s"
  "su_queued_events (read_wakeup_count env s) = su_queued_events s"
  "su_suspend_request_id (read_wakeup_count env s) = su_suspend_request_id s"
  "su_dark_suspend_id (read_wakeup_count env s) = su_dark_suspend_id s"
  "su_max_retries (read_wakeup_count env s) = su_max_retries s"
  "su_current_num_attempts (read_wakeup_count env s) = su_current_num_attempts s"
  "su_resuspend_timer (read_wakeup_count env s) = su_resuspend_timer s"
  by (simp_all add: read_wakeup_count_def split_beta)

section \<open>The effect of each part\<close>

text \<open>\<open>extends p q s t\<close>: the calls made between \<open>s\<close> and \<open>t\<close> lead the protocol from \<open>p\<close> to
  \<open>q\<close>, and the flags of the event loop are untouched.\<close>

definition extends :: "phase \<Rightarrow> phase \<Rightarrow> suspender \<Rightarrow> suspender \<Rightarrow> bool" where
  "extends p q s t \<longleftrightarrow> (\<exists>cs. su_calls t = su_calls s @ cs \<and> run_phase p cs = Some q) \<and>
     su_handling_event t = su_handling_event s \<and>
     su_processing_queued_events t = su_processing_queued_events s \<and>
     su_max_retries t = su_max_retries s"

lemma extendsI:
  "su_calls t = su_calls s @ cs \<Longrightarrow> run_phase p cs = Some q \<Longrightarrow>
   su_handling_event t = su_handling_event s \<Longrightarrow>
   su_processing_queued_events t = su_processing_queued_events s \<Longrightarrow>
   su_max_retries t = su_max_retries s \<Longrightarrow> extends p q s t"
  by (auto simp: extends_def)

lemma extends_trans: "extends p q s t \<Longrightarrow> extends q r t u \<Longrightarrow> extends p r s u"
  by (auto simp: extends_def run_phase_append)

lemma StartRequest_effect:
  assumes "dr_inv (su_dark_resume s)" "sdc_inv (su_suspend_delay_controller s)"
  obtains t where "StartRequest env s = Some t"
    and "extends PIdle (POpen (su_suspend_request_id t)) s t"
    and "sdc_pending (su_suspend_delay_controller t) (su_suspend_request_id t)"
    and "su_dark_suspend_delay_controller t = su_dark_suspend_delay_controller s"
    and "dr_inv (su_dark_resume t)" "su_current_num_attempts t = 0"
    and "su_resuspend_timer t = su_resuspend_timer s"
    and "su_suspend_request_id t = su_suspend_request_id s + 1"
proof -
  define s1 where "s1 = s\<lparr>su_suspend_request_id := su_suspend_request_id s + 1\<rparr>"
  define s2 where "s2 = (if su_suspend_request_supplied_wakeup_count s1
      then s1\<lparr>su_wakeup_count := su_suspend_request_wakeup_count s1,
             su_wakeup_count_valid := True\<rparr>
      else read_wakeup_count env (su_delegate env SuReadSuspendWakeupCount s1))"
  define s3 where "s3 = su_delegate env SuPrepareToSuspend
    (su_tick (s2\<lparr>su_suspend_request_start_time := su_wall_time env s2,
       su_current_num_attempts := 0, su_initial_num_attempts := 0,
       su_dark_resume_wake_durations := [],
       su_last_dark_resume_wake_reason := kDefaultWakeReason\<rparr>))"
  define s4 where "s4 = s3\<lparr>su_suspend_delay_controller :=
    PrepareForSuspend (su_suspend_request_id s3) (su_suspend_delay_controller s3)\<rparr>"
  have dr: "su_dark_resume s4 = su_dark_resume s"
    by (simp add: s4_def s3_def s2_def s1_def)
  obtain d where d: "PrepareForSuspendRequest (sue_power env (su_calls s4)) (su_dark_resume s4) =
      Some d" "dr_inv d"
    using dr_step_total [OF assms(1), of "DrPrepare (sue_power env (su_calls s4))"]
    by (auto simp: dr)
  define t where "t = su_record (SuSuspendImminent (su_suspend_request_id s4))
    (su_delegate env (SuSetSuspendAnnounced True) (s4\<lparr>su_dark_resume := d\<rparr>))"
  have "StartRequest env s = Some t"
    using d(1) unfolding StartRequest_def t_def s4_def s3_def s2_def s1_def Let_def by simp
  moreover have "extends PIdle (POpen (su_suspend_request_id t)) s t"
    by (rule extendsI [of _ _ "(if su_suspend_request_supplied_wakeup_count s1 then []
        else [SuReadSuspendWakeupCount]) @ [SuPrepareToSuspend, SuSetSuspendAnnounced True,
          SuSuspendImminent (su_suspend_request_id s4)]"])
      (simp_all add: t_def s4_def s3_def s2_def s1_def)
  moreover have "sdc_pending (su_suspend_delay_controller t) (su_suspend_request_id t)"
    using sdc.prepare_pending [OF assms(2)] by (simp add: t_def s4_def s3_def s2_def s1_def)
  ultimately show ?thesis
    by (rule that) (simp_all add: t_def s4_def s3_def s2_def s1_def d(2))
qed

text \<open>
  What holds of a suspender in state \<open>st\<close>: its components are valid; while it waits for
  delays the announcement is pending and no attempt has been made; while it waits to
  resuspend the retry timer is running or a dark announcement is pending, and the number of
  attempts of the current series is within the limit.
\<close>

definition su_core_at :: "SuState \<Rightarrow> suspender \<Rightarrow> bool" where
  "su_core_at st s \<longleftrightarrow>
     sdc_inv (su_suspend_delay_controller s) \<and> sdc_inv (su_dark_suspend_delay_controller s) \<and>
     dr_inv (su_dark_resume s) \<and>
     (st = WAITING_FOR_SUSPEND_DELAYS \<longrightarrow>
        sdc_pending (su_suspend_delay_controller s) (su_suspend_request_id s) \<and>
        su_current_num_attempts s = 0) \<and>
     (st = WAITING_TO_RESUSPEND \<longrightarrow>
        (IsRunning (su_resuspend_timer s) \<or>
         sdc_pending (su_dark_suspend_delay_controller s) (su_dark_suspend_id s)) \<and>
        0 \<le> su_current_num_attempts s \<and>
        (su_current_num_attempts s = 0 \<or> su_current_num_attempts s \<le> su_max_retries s)) \<and>
     (st = IDLE \<or> st = WAITING_FOR_SUSPEND_DELAYS \<longrightarrow> su_resuspend_timer s = None)"

fun phase_at :: "SuState \<Rightarrow> int \<Rightarrow> phase \<Rightarrow> bool" where
  "phase_at IDLE n p \<longleftrightarrow> p = PIdle"
| "phase_at SHUTTING_DOWN n p \<longleftrightarrow> True"
| "phase_at _ n p \<longleftrightarrow> p = POpen n"

lemma FinishRequest_effect:
  assumes "sdc_inv (su_suspend_delay_controller s)" "sdc_inv (su_dark_suspend_delay_controller s)"
    and "dr_inv (su_dark_resume s)"
  shows "extends (POpen (su_suspend_request_id s)) PIdle s (FinishRequest env b s)"
    and "st = IDLE \<or> st = SHUTTING_DOWN \<Longrightarrow> su_core_at st (FinishRequest env b s)"
    and "su_state (FinishRequest env b s) = su_state s"
    and "su_suspend_request_id (FinishRequest env b s) = su_suspend_request_id s"
proof -
  let ?done = "SuSuspendDone (su_suspend_request_id s)
    (max 0 (su_wall_time env s - su_suspend_request_start_time s))"
  have time: "su_wall_time env (s\<lparr>su_resuspend_timer := x, su_suspend_delay_controller := y,
      su_dark_suspend_delay_controller := z\<rparr>) = su_wall_time env s" for x y z
    by (simp add: su_wall_time_def)
  have finish: "sdc_inv (FinishSuspend n c)" if "sdc_inv c" for n c
    using inv_step_sdc [OF that, of "SdcFinish n"] by simp
  have undo: "dr_inv (UndoPrepareForSuspendRequest (su_dark_resume s))"
    using dr_step_total [OF assms(3), of DrUndo] by simp
  show "su_state (FinishRequest env b s) = su_state s"
    "su_suspend_request_id (FinishRequest env b s) = su_suspend_request_id s"
    by (simp_all add: FinishRequest_def Let_def)
  show "su_core_at st (FinishRequest env b s)" if "st = IDLE \<or> st = SHUTTING_DOWN"
    using that finish [OF assms(1)] finish [OF assms(2)] undo
    by (auto simp: su_core_at_def FinishRequest_def Let_def)
  show "extends (POpen (su_suspend_request_id s)) PIdle s (FinishRequest env b s)"
    by (cases "IsEnabled (su_dark_resume s)")
      (auto simp: FinishRequest_def Let_def time intro!: extendsI)
qed

lemma prepare_resuspend_effect:
  assumes "sdc_inv (su_suspend_delay_controller s)" "sdc_inv (su_dark_suspend_delay_controller s)"
    and "dr_inv (su_dark_resume s)" "0 \<le> su_current_num_attempts s"
    and "r = SUCCESS \<or> su_current_num_attempts s \<le> su_max_retries s"
  shows "extends (POpen n) (POpen n) s (prepare_resuspend env dark r s)"
    and "su_core_at WAITING_TO_RESUSPEND (prepare_resuspend env dark r s)"
    and "su_state (prepare_resuspend env dark r s) = su_state s"
    and "su_suspend_request_id (prepare_resuspend env dark r s) = su_suspend_request_id s"
proof -
  show "su_state (prepare_resuspend env dark r s) = su_state s"
    "su_suspend_request_id (prepare_resuspend env dark r s) = su_suspend_request_id s"
    by (simp_all add: prepare_resuspend_def ScheduleResuspend_def Let_def)
  have prep: "sdc_pending (PrepareForSuspend m (su_dark_suspend_delay_controller s)) m" for m
    by (rule sdc.prepare_pending [OF assms(2)])
  then have "sdc_inv (PrepareForSuspend m (su_dark_suspend_delay_controller s))" for m
    by (auto simp: sdc_pending_def)
  with prep assms show "su_core_at WAITING_TO_RESUSPEND (prepare_resuspend env dark r s)"
    by (auto simp: su_core_at_def prepare_resuspend_def ScheduleResuspend_def Let_def)
  show "extends (POpen n) (POpen n) s (prepare_resuspend env dark r s)"
    by (cases "CanSafelyExitDarkResume (su_dark_resume s)"; cases "r = SUCCESS")
      (auto simp: prepare_resuspend_def ScheduleResuspend_def Let_def intro!: extendsI)
qed

lemma retry_failed_suspend_effect:
  assumes "sdc_inv (su_suspend_delay_controller s)" "sdc_inv (su_dark_suspend_delay_controller s)"
    and "dr_inv (su_dark_resume s)" "0 \<le> su_current_num_attempts s"
    and "su_current_num_attempts s \<le> su_max_retries s"
  shows "extends (POpen n) (POpen n) s (retry_failed_suspend env s)"
    and "su_core_at WAITING_TO_RESUSPEND (retry_failed_suspend env s)"
    and "su_state (retry_failed_suspend env s) = su_state s"
    and "su_suspend_request_id (retry_failed_suspend env s) = su_suspend_request_id s"
  using assms
  by (auto simp: retry_failed_suspend_def ScheduleResuspend_def su_core_at_def Let_def
    intro!: extendsI)

definition su_valid :: "suspender \<Rightarrow> bool" where
  "su_valid s \<longleftrightarrow> sdc_inv (su_suspend_delay_controller s) \<and>
     sdc_inv (su_dark_suspend_delay_controller s) \<and> dr_inv (su_dark_resume s)"

lemma core_valid: "su_core_at st s \<Longrightarrow> su_valid s"
  by (simp add: su_core_at_def su_valid_def)

text \<open>The outcome of a suspend attempt, in terms of the state it leads to.\<close>

definition attempt_outcome :: "suspender \<Rightarrow> SuState \<Rightarrow> suspender \<Rightarrow> bool" where
  "attempt_outcome s st t \<longleftrightarrow>
     (\<exists>q. extends (POpen (su_suspend_request_id s)) q s t \<and>
          phase_at st (su_suspend_request_id t) q) \<and>
     su_core_at st t \<and> su_suspend_request_id t = su_suspend_request_id s"

lemma attempt_outcomeI:
  "extends (POpen (su_suspend_request_id s)) q s t \<Longrightarrow>
   phase_at st (su_suspend_request_id t) q \<Longrightarrow> su_core_at st t \<Longrightarrow>
   su_suspend_request_id t = su_suspend_request_id s \<Longrightarrow> attempt_outcome s st t"
  by (auto simp: attempt_outcome_def)

lemma after_attempt_outcome:
  assumes "su_valid s0" "0 \<le> su_current_num_attempts s0" "after_attempt env r s0 = (st, t)"
  shows "attempt_outcome s0 st t"
proof -
  define s where "s = (if r = SUCCESS then s0\<lparr>su_dark_resume :=
    HandleSuccessfulResume (sue_dark env (su_calls s0)) (su_dark_resume s0)\<rparr> else s0)"
  have "dr_inv (HandleSuccessfulResume e (su_dark_resume s0))" for e
    using assms(1) dr_step_total [of "su_dark_resume s0" "DrResume e"] by (simp add: su_valid_def)
  then have v: "sdc_inv (su_suspend_delay_controller s)"
    "sdc_inv (su_dark_suspend_delay_controller s)" "dr_inv (su_dark_resume s)"
    using assms(1) by (auto simp: s_def su_valid_def)
  have s0: "su_suspend_request_id s = su_suspend_request_id s0"
    "su_current_num_attempts s = su_current_num_attempts s0"
    "extends p q s0 u \<longleftrightarrow> extends p q s u" for p q u
    by (auto simp: s_def extends_def)
  consider "st = IDLE" "t = FinishRequest env (r = SUCCESS) s"
    | "st = WAITING_TO_RESUSPEND" "t = prepare_resuspend env (InDarkResume (su_dark_resume s)) r s"
      "r = SUCCESS \<or> su_current_num_attempts s \<le> su_max_retries s"
    | "st = SHUTTING_DOWN" "t = su_delegate env SuShutDownForFailedSuspend s"
    | "st = WAITING_TO_RESUSPEND" "t = retry_failed_suspend env s"
      "su_current_num_attempts s \<le> su_max_retries s"
    using assms(3) unfolding after_attempt_def Let_def s_def [symmetric]
    by (auto split: if_splits)
  then show ?thesis
  proof cases
    case 1
    with FinishRequest_effect [OF v] show ?thesis
      by (intro attempt_outcomeI [where q = PIdle]) (simp_all add: s0)
  next
    case 2
    with prepare_resuspend_effect [OF v] assms(2) show ?thesis
      by (intro attempt_outcomeI [where q = "POpen (su_suspend_request_id s)"]) (simp_all add: s0)
  next
    case 3
    with v show ?thesis
      by (intro attempt_outcomeI [where q = PShut])
        (auto simp: s0 su_core_at_def intro!: extendsI)
  next
    case 4
    with retry_failed_suspend_effect [OF v] assms(2) show ?thesis
      by (intro attempt_outcomeI [where q = "POpen (su_suspend_request_id s)"]) (simp_all add: s0)
  qed
qed

lemma attempt_outcome_trans:
  "extends (POpen (su_suspend_request_id s)) (POpen (su_suspend_request_id s)) s u \<Longrightarrow>
   su_suspend_request_id u = su_suspend_request_id s \<Longrightarrow> attempt_outcome u st t \<Longrightarrow>
   attempt_outcome s st t"
  by (auto simp: attempt_outcome_def intro: extends_trans)

lemma su_Suspend_outcome:
  assumes "su_valid s" "0 \<le> su_current_num_attempts s"
  obtains st t where "su_Suspend env s = Some (st, t)" "attempt_outcome s st t"
    and "\<exists>cs. su_calls t = su_calls s @ cs \<and>
      (SuShutDownForDarkResume \<in> set cs \<or> (\<exists>w v d. SuDoSuspend w v d \<in> set cs))"
proof -
  obtain a d dr where g: "GetActionForSuspendAttempt (sue_power env (su_calls s)) (su_dark_resume s)
      = Some (a, d, dr)" and dr: "dr_inv dr"
    using GetActionForSuspendAttempt_total assms(1) unfolding su_valid_def by blast
  show ?thesis
  proof (cases "a = DARK_SHUT_DOWN")
    case True
    let ?t = "su_delegate env SuShutDownForDarkResume (s\<lparr>su_dark_resume := dr\<rparr>)"
    have "su_Suspend env s = Some (SHUTTING_DOWN, ?t)" using g True by (simp add: su_Suspend_def)
    moreover have "attempt_outcome s SHUTTING_DOWN ?t"
      using assms(1) dr by (intro attempt_outcomeI [where q = PShut])
        (auto simp: su_core_at_def su_valid_def intro!: extendsI)
    ultimately show ?thesis by (rule that) simp
  next
    case False
    define u where "u = (note_wake_duration env (s\<lparr>su_dark_resume := dr\<rparr>))
      \<lparr>su_current_num_attempts :=
        su_current_num_attempts (note_wake_duration env (s\<lparr>su_dark_resume := dr\<rparr>)) + 1\<rparr>"
    define c where "c = SuDoSuspend (su_wakeup_count u) (su_wakeup_count_valid u) d"
    define x where "x = su_delegate env c u"
    obtain st t where t: "after_attempt env (sue_DoSuspend env (su_calls x)) x = (st, t)"
      by fastforce
    have x: "su_calls x = su_calls s @ [c]" "su_suspend_request_id x = su_suspend_request_id s"
      "su_valid x" "0 \<le> su_current_num_attempts x"
      "extends (POpen n) (POpen n) s x" for n
      using assms dr
      by (auto simp: x_def u_def c_def note_wake_duration_def su_valid_def intro!: extendsI)
    have "attempt_outcome x st t" by (rule after_attempt_outcome [OF x(3,4) t])
    then have "attempt_outcome s st t" by (rule attempt_outcome_trans [OF x(5,2)])
    moreover have "su_Suspend env s = Some (st, t)"
      using g False t unfolding x_def c_def u_def by (simp add: su_Suspend_def Let_def)
    moreover have "\<exists>cs. su_calls t = su_calls s @ cs \<and>
        (SuShutDownForDarkResume \<in> set cs \<or> (\<exists>w v d. SuDoSuspend w v d \<in> set cs))"
    proof -
      from \<open>attempt_outcome x st t\<close> obtain cs where "su_calls t = su_calls x @ cs"
        by (auto simp: attempt_outcome_def extends_def)
      then have "su_calls t = su_calls s @ (c # cs)" by (simp add: x(1))
      moreover have "\<exists>w v d. SuDoSuspend w v d \<in> set (c # cs)"
        unfolding c_def by (meson list.set_intros(1))
      ultimately show ?thesis by blast
    qed
    ultimately show ?thesis by (intro that)
  qed
qed

section \<open>Handling events\<close>

text \<open>
  The invariant between calls, for the calls made after the calls \<open>k\<close>: the protocol has
  been followed and its phase matches the state.
\<close>

definition phase_of :: "su_call list \<Rightarrow> su_call list \<Rightarrow> phase option" where
  "phase_of k cs = (if take (length k) cs = k then run_phase PIdle (drop (length k) cs) else None)"

lemma phase_of_append:
  assumes "phase_of k cs = Some p"
  shows "phase_of k (cs @ ds) = run_phase p ds"
proof -
  from assms have "take (length k) cs = k" "run_phase PIdle (drop (length k) cs) = Some p"
    by (auto simp: phase_of_def split: if_splits)
  moreover from this(1) have "length k \<le> length cs"
    by (metis length_take min.cobounded1)
  ultimately show ?thesis by (simp add: phase_of_def run_phase_append)
qed

lemma phase_of_start [simp]: "phase_of k k = Some PIdle"
  by (simp add: phase_of_def)

lemma phase_of_SomeD:
  "phase_of k cs = Some p \<Longrightarrow> \<exists>ds. cs = k @ ds \<and> run_phase PIdle ds = Some p"
  by (metis append_take_drop_id option.distinct(1) phase_of_def)

definition su_core :: "su_call list \<Rightarrow> suspender \<Rightarrow> bool" where
  "su_core k s \<longleftrightarrow> su_core_at (su_state s) s \<and>
     (\<exists>p. phase_of k (su_calls s) = Some p \<and>
          phase_at (su_state s) (su_suspend_request_id s) p)"

definition su_flags :: "suspender \<Rightarrow> bool \<times> bool \<times> int" where
  "su_flags s = (su_handling_event s, su_processing_queued_events s, su_max_retries s)"

lemma core_extends:
  assumes "phase_of k (su_calls s) = Some p"
    and "extends p q s t" "phase_at (su_state t) (su_suspend_request_id t) q"
    and "su_core_at (su_state t) t"
  shows "su_core k t" "su_flags t = su_flags s"
  using assms by (auto simp: su_core_def extends_def phase_of_append su_flags_def)

lemma extends_state [simp]: "extends p q s (t\<lparr>su_state := st\<rparr>) = extends p q s t"
  by (simp add: extends_def)

lemma core_at_state [simp]: "su_core_at st (t\<lparr>su_state := st'\<rparr>) = su_core_at st t"
  by (simp add: su_core_at_def)

lemma core_flags [simp]:
  "su_core k (s\<lparr>su_handling_event := b\<rparr>) = su_core k s"
  "su_core k (s\<lparr>su_processing_queued_events := b\<rparr>) = su_core k s"
  "su_core k (s\<lparr>su_queued_events := q\<rparr>) = su_core k s"
  "su_core k (s\<lparr>su_suspend_request_supplied_wakeup_count := b,
     su_suspend_request_wakeup_count := w\<rparr>) = su_core k s"
  by (simp_all add: su_core_def su_core_at_def)

text \<open>The protocol phase that goes with each state.\<close>

lemma core_phase:
  assumes "su_core k s"
  obtains p where "phase_of k (su_calls s) = Some p"
    and "phase_at (su_state s) (su_suspend_request_id s) p"
  using assms by (auto simp: su_core_def)

lemma core_waiting:
  assumes "su_core k s" "su_state s = WAITING_FOR_SUSPEND_DELAYS \<or> su_state s = WAITING_TO_RESUSPEND"
  shows "phase_of k (su_calls s) = Some (POpen (su_suspend_request_id s))"
    and "su_valid s" "0 \<le> su_current_num_attempts s"
  using assms by (auto simp: su_core_def su_core_at_def su_valid_def)

text \<open>A suspender with an open request, whether or not a timer is pending for it.\<close>

definition su_open :: "su_call list \<Rightarrow> suspender \<Rightarrow> bool" where
  "su_open k s \<longleftrightarrow>
     phase_of k (su_calls s) = Some (POpen (su_suspend_request_id s)) \<and>
     su_valid s \<and> 0 \<le> su_current_num_attempts s"

lemma core_open:
  "su_core k s \<Longrightarrow> su_state s = WAITING_FOR_SUSPEND_DELAYS \<or> su_state s = WAITING_TO_RESUSPEND \<Longrightarrow>
   su_open k s"
  using core_waiting [of k s] by (simp add: su_open_def)

lemma suspend_now_core:
  assumes c: "su_open k s"
  obtains t where "suspend_now env s = Some t" "su_core k t" "su_flags t = su_flags s"
    and "\<exists>cs. su_calls t = su_calls s @ cs \<and>
      (SuShutDownForDarkResume \<in> set cs \<or> (\<exists>w v d. SuDoSuspend w v d \<in> set cs))"
proof -
  from c have cw: "phase_of k (su_calls s) = Some (POpen (su_suspend_request_id s))"
    "su_valid s" "0 \<le> su_current_num_attempts s"
    by (simp_all add: su_open_def)
  obtain st t where t: "su_Suspend env s = Some (st, t)" "attempt_outcome s st t"
    "\<exists>cs. su_calls t = su_calls s @ cs \<and>
      (SuShutDownForDarkResume \<in> set cs \<or> (\<exists>w v d. SuDoSuspend w v d \<in> set cs))"
    by (rule su_Suspend_outcome [OF cw(2,3)])
  then obtain q where q: "extends (POpen (su_suspend_request_id s)) q s t"
    "phase_at st (su_suspend_request_id t) q" "su_core_at st t"
    by (auto simp: attempt_outcome_def)
  let ?t = "t\<lparr>su_state := st\<rparr>"
  have "su_core k ?t" "su_flags ?t = su_flags s"
    using core_extends [OF cw(1), of q ?t] q by simp_all
  moreover have "suspend_now env s = Some ?t" using t(1) by (simp add: suspend_now_def)
  ultimately show ?thesis using that t(3) by simp
qed

lemma finish_core:
  assumes c: "su_core k s"
    and w: "su_state s = WAITING_FOR_SUSPEND_DELAYS \<or> su_state s = WAITING_TO_RESUSPEND"
    and st: "st = IDLE \<or> st = SHUTTING_DOWN"
  shows "su_core k ((FinishRequest env b s)\<lparr>su_state := st\<rparr>)"
    and "su_flags ((FinishRequest env b s)\<lparr>su_state := st\<rparr>) = su_flags s"
proof -
  note cw = core_waiting [OF c w]
  from cw(2) have v: "sdc_inv (su_suspend_delay_controller s)"
    "sdc_inv (su_dark_suspend_delay_controller s)" "dr_inv (su_dark_resume s)"
    by (simp_all add: su_valid_def)
  note f = FinishRequest_effect(1) [OF v, of env b] FinishRequest_effect(2) [OF v st, of env b]
  show "su_core k ((FinishRequest env b s)\<lparr>su_state := st\<rparr>)"
    "su_flags ((FinishRequest env b s)\<lparr>su_state := st\<rparr>) = su_flags s"
    using core_extends [OF cw(1), of PIdle "(FinishRequest env b s)\<lparr>su_state := st\<rparr>"]
      f st by auto
qed

lemma dispatch_waiting:
  assumes c: "su_core k s"
    and w: "su_state s = WAITING_FOR_SUSPEND_DELAYS \<or> su_state s = WAITING_TO_RESUSPEND"
  obtains t where "dispatch env (su_state s) ev s = Some t" "su_core k t" "su_flags t = su_flags s"
proof -
  note cw = core_waiting [OF c w]
  obtain u where u: "suspend_now env s = Some u" "su_core k u" "su_flags u = su_flags s"
    by (rule suspend_now_core [OF core_open [OF c w]])
  define l where "l = su_delegate env SuIsLidClosedForSuspend s"
  have "extends (POpen (su_suspend_request_id s)) (POpen (su_suspend_request_id s)) s l"
    by (rule extendsI [of _ _ "[SuIsLidClosedForSuspend]"]) (simp_all add: l_def)
  moreover have "su_core_at (su_state s) l"
    using c by (simp add: l_def su_core_def su_core_at_def)
  ultimately have l: "su_core k l" "su_flags l = su_flags s" "su_state l = su_state s"
    using core_extends [OF cw(1), of "POpen (su_suspend_request_id s)" l] w
    by (auto simp: l_def)
  note fl = finish_core [OF l(1), unfolded l(3), OF w, of IDLE env False]
  note fs = finish_core [OF c w, of SHUTTING_DOWN env False]
  have sh: "su_core k (s\<lparr>su_state := SHUTTING_DOWN\<rparr>)"
    using c cw(1) by (auto simp: su_core_def su_core_at_def)
  show ?thesis
  proof (cases ev)
    case USER_ACTIVITY
    let ?t = "if \<not> sue_IsLidClosedForSuspend env (su_calls l) \<and> may_finish l
      then (FinishRequest env False l)\<lparr>su_state := IDLE\<rparr> else l"
    have "dispatch env (su_state s) ev s = Some ?t"
      using w by (cases "su_state s") (simp_all add: USER_ACTIVITY l_def [symmetric] Let_def)
    moreover have "su_core k ?t" "su_flags ?t = su_flags s" using fl l by simp_all
    ultimately show ?thesis by (rule that)
  next
    case SHUTDOWN_STARTED
    have "su_flags (s\<lparr>su_state := SHUTTING_DOWN\<rparr>) = su_flags s" by (simp add: su_flags_def)
    with w fs sh that show ?thesis
      by (cases "su_state s") (auto simp: SHUTDOWN_STARTED Let_def)
  qed (use w c u that in \<open>cases "su_state s"; auto\<close>)+
qed

lemma dispatch_core:
  assumes c: "su_core k s"
  obtains t where "dispatch env (su_state s) ev s = Some t" "su_core k t" "su_flags t = su_flags s"
proof (cases "su_state s")
  case IDLE
  then have idle: "phase_of k (su_calls s) = Some PIdle"
    "dr_inv (su_dark_resume s)" "sdc_inv (su_suspend_delay_controller s)"
    "sdc_inv (su_dark_suspend_delay_controller s)" "su_resuspend_timer s = None"
    using c by (auto simp: su_core_def su_core_at_def)
  obtain t where t: "StartRequest env s = Some t"
    "extends PIdle (POpen (su_suspend_request_id t)) s t"
    "sdc_pending (su_suspend_delay_controller t) (su_suspend_request_id t)"
    "su_dark_suspend_delay_controller t = su_dark_suspend_delay_controller s"
    "dr_inv (su_dark_resume t)" "su_current_num_attempts t = 0"
    "su_resuspend_timer t = su_resuspend_timer s"
    by (rule StartRequest_effect [OF idle(2,3)])
  let ?t = "t\<lparr>su_state := WAITING_FOR_SUSPEND_DELAYS\<rparr>"
  have "su_core_at WAITING_FOR_SUSPEND_DELAYS t"
    using t idle by (auto simp: su_core_at_def sdc_pending_def)
  then have start: "su_core k ?t" "su_flags ?t = su_flags s"
    using core_extends [OF idle(1), of "POpen (su_suspend_request_id t)" ?t] t(2)
    by simp_all
  have sh: "su_core k (s\<lparr>su_state := SHUTTING_DOWN\<rparr>)"
    "su_flags (s\<lparr>su_state := SHUTTING_DOWN\<rparr>) = su_flags s"
    using c idle(1) by (auto simp: su_core_def su_core_at_def su_flags_def)
  show ?thesis
    using that start sh c t(1) by (cases ev) (auto simp: IDLE)
next
  case SHUTTING_DOWN
  then show ?thesis using that c by (cases ev) auto
qed (use that dispatch_waiting [OF c] in auto)

lemma handle_one_core:
  assumes c: "su_core k s"
  obtains t where "handle_one env ev s = Some t" "su_core k t"
    and "\<not> su_handling_event t" "su_processing_queued_events t = su_processing_queued_events s"
    and "su_max_retries t = su_max_retries s"
proof -
  have "su_core k (s\<lparr>su_handling_event := True\<rparr>)" using c by simp
  then obtain t where "dispatch env (su_state (s\<lparr>su_handling_event := True\<rparr>)) ev
      (s\<lparr>su_handling_event := True\<rparr>) = Some t" "su_core k t"
    "su_flags t = su_flags (s\<lparr>su_handling_event := True\<rparr>)"
    by (rule dispatch_core)
  then show ?thesis
    by (intro that [of "t\<lparr>su_handling_event := False\<rparr>"])
      (auto simp: handle_one_def su_flags_def)
qed

lemma process_queued_events_core:
  assumes "process_queued_events env s = Some t" "su_core k s" "\<not> su_handling_event s"
  shows "su_core k t \<and> \<not> su_handling_event t \<and> su_queued_events t = []"
proof -
  have "su_core k s \<longrightarrow> \<not> su_handling_event s \<longrightarrow>
    su_core k t \<and> \<not> su_handling_event t \<and> su_queued_events t = []"
  proof (rule process_queued_events.raw_induct [where P = "\<lambda>env s t. su_core k s \<longrightarrow>
      \<not> su_handling_event s \<longrightarrow> su_core k t \<and> \<not> su_handling_event t \<and> su_queued_events t = []",
      OF _ assms(1)], intro impI)
    fix process env s t
    assume IH: "\<And>env s t. process env s = Some t \<Longrightarrow> su_core k s \<longrightarrow> \<not> su_handling_event s \<longrightarrow>
        su_core k t \<and> \<not> su_handling_event t \<and> su_queued_events t = []"
      and step: "(case su_queued_events s of [] \<Rightarrow> Some s
        | event # q \<Rightarrow> Option.bind (handle_one env event (s\<lparr>su_queued_events := q\<rparr>))
            (process env)) = Some t"
      and c: "su_core k s" and h: "\<not> su_handling_event s"
    show "su_core k t \<and> \<not> su_handling_event t \<and> su_queued_events t = []"
    proof (cases "su_queued_events s")
      case Nil
      with step c h show ?thesis by simp
    next
      case (Cons ev q)
      have "su_core k (s\<lparr>su_queued_events := q\<rparr>)" using c by simp
      then obtain u where "handle_one env ev (s\<lparr>su_queued_events := q\<rparr>) = Some u" "su_core k u"
        "\<not> su_handling_event u"
        by (rule handle_one_core)
      with IH [of env u t] step Cons show ?thesis by simp
    qed
  qed
  with assms show ?thesis by blast
qed

definition su_inv :: "su_call list \<Rightarrow> suspender \<Rightarrow> bool" where
  "su_inv k s \<longleftrightarrow> su_core k s \<and> \<not> su_handling_event s \<and> \<not> su_processing_queued_events s \<and>
     su_queued_events s = []"

lemma HandleEvent_drains:
  assumes "HandleEvent env ev s = Some t" "\<not> su_handling_event s"
    and u: "handle_one env ev s = Some u" "su_core k u" "\<not> su_handling_event u"
      "\<not> su_processing_queued_events u"
  shows "su_inv k t"
proof -
  from assms obtain v where
    v: "process_queued_events env (u\<lparr>su_processing_queued_events := True\<rparr>) = Some v"
    "t = v\<lparr>su_processing_queued_events := False\<rparr>"
    by (auto simp: HandleEvent_def bind_eq_Some_conv)
  from process_queued_events_core [OF v(1), of k] u show ?thesis
    by (simp add: v(2) su_inv_def)
qed

lemma HandleEvent_inv:
  assumes "su_core k s" "\<not> su_handling_event s" "\<not> su_processing_queued_events s"
    and "HandleEvent env ev s = Some t"
  shows "su_inv k t"
proof -
  obtain u where "handle_one env ev s = Some u" "su_core k u" "\<not> su_handling_event u"
    "\<not> su_processing_queued_events u"
    using handle_one_core [OF assms(1)] assms(3) by metis
  with HandleEvent_drains [OF assms(4,2)] show ?thesis by blast
qed

text \<open>The event that an open request waits for leads to a suspend attempt.\<close>

definition awaited :: "SuState \<Rightarrow> SuEvent \<Rightarrow> bool" where
  "awaited st ev \<longleftrightarrow> st = WAITING_FOR_SUSPEND_DELAYS \<and> ev = SUSPEND_DELAYS_READY \<or>
     st = WAITING_TO_RESUSPEND \<and> ev = READY_TO_RESUSPEND"

lemma handle_one_awaited:
  assumes "su_open k s" "awaited (su_state s) ev"
  obtains u where "handle_one env ev s = Some u" "su_core k u" "\<not> su_handling_event u"
    and "su_processing_queued_events u = su_processing_queued_events s"
    and "\<exists>cs. su_calls u = su_calls s @ cs \<and>
      (SuShutDownForDarkResume \<in> set cs \<or> (\<exists>w v d. SuDoSuspend w v d \<in> set cs))"
proof -
  let ?s = "s\<lparr>su_handling_event := True\<rparr>"
  have "su_open k ?s" using assms(1) by (simp add: su_open_def su_valid_def)
  then obtain u where "suspend_now env ?s = Some u" "su_core k u" "su_flags u = su_flags ?s"
    "\<exists>cs. su_calls u = su_calls ?s @ cs \<and>
      (SuShutDownForDarkResume \<in> set cs \<or> (\<exists>w v d. SuDoSuspend w v d \<in> set cs))"
    by (rule suspend_now_core)
  then show ?thesis
    using assms(2) by (intro that [of "u\<lparr>su_handling_event := False\<rparr>"])
      (auto simp: handle_one_def awaited_def su_flags_def)
qed

lemma HandleEvent_awaited:
  assumes "su_open k s" "awaited (su_state s) ev" "\<not> su_handling_event s"
    and "\<not> su_processing_queued_events s" "HandleEvent env ev s = Some t"
  shows "su_inv k t"
proof -
  obtain u where "handle_one env ev s = Some u" "su_core k u" "\<not> su_handling_event u"
    "su_processing_queued_events u = su_processing_queued_events s"
    by (rule handle_one_awaited [OF assms(1,2)])
  with HandleEvent_drains [OF assms(5,3)] assms(4) show ?thesis by blast
qed

section \<open>Steps of the message loop\<close>

lemma core_controllers:
  assumes "su_core k s" "sdc_inv c" "\<And>n. sdc_pending (get_controller w s) n \<Longrightarrow> sdc_pending c n"
  shows "su_core k (set_controller w c s)"
  using assms by (cases w) (auto simp: su_core_def su_core_at_def)

lemma core_client_step:
  assumes "su_core k s"
  shows "su_core k (set_controller w (client_step (get_controller w s) e) s)"
proof (rule core_controllers [OF assms])
  have "sdc_inv (get_controller w s)"
    using assms by (cases w) (auto simp: su_core_def su_core_at_def)
  then show "sdc_inv (client_step (get_controller w s) e)"
    by (simp add: client_step_def inv_step_sdc)
qed (rule sdc.request_pending)

text \<open>
  Delivering a notification. If it answers the pending announcement, the state in which the
  announcement is waited for is left, so losing it is harmless.
\<close>

lemma valid_controller: "su_core k s \<Longrightarrow> sdc_inv (get_controller w s)"
  by (cases w) (auto simp: su_core_def su_core_at_def)

definition loop_idle :: "suspender \<Rightarrow> bool" where
  "loop_idle s \<longleftrightarrow> \<not> su_handling_event s \<and> \<not> su_processing_queued_events s \<and>
     su_queued_events s = []"

definition ready_for :: "su_call list \<Rightarrow> SuEvent \<Rightarrow> suspender \<Rightarrow> bool" where
  "ready_for k ev s \<longleftrightarrow> loop_idle s \<and> (su_core k s \<or> su_open k s \<and> awaited (su_state s) ev)"

lemma ready_HandleEvent: "ready_for k ev s \<Longrightarrow> HandleEvent env ev s = Some t \<Longrightarrow> su_inv k t"
  by (auto simp: ready_for_def loop_idle_def intro: HandleEvent_inv HandleEvent_awaited)

lemma OnReady_regular:
  fixes s n
  defines "c \<equiv> snd (NotifyObservers (su_suspend_delay_controller s))"
  defines "s' \<equiv> s\<lparr>su_suspend_delay_controller := c\<rparr>"
  assumes inv: "su_inv k s" and n: "sdc_notify_observers_timer (su_suspend_delay_controller s) = Some n"
  shows "if n = su_suspend_request_id s
    then OnReadyForSuspend env REGULAR n s' = HandleEvent env SUSPEND_DELAYS_READY s' \<and>
         ready_for k SUSPEND_DELAYS_READY s'
    else OnReadyForSuspend env REGULAR n s' = Some s' \<and> su_inv k s'"
proof -
  from inv have core: "su_core k s" and f: "loop_idle s'"
    by (simp_all add: su_inv_def loop_idle_def s'_def)
  have v: "sdc_inv c"
    using valid_controller [OF core, of REGULAR] inv_step_sdc [of _ SdcNotify] by (simp add: c_def)
  have "su_core k s' \<or> su_open k s' \<and> n = su_suspend_request_id s \<and>
      su_state s = WAITING_FOR_SUSPEND_DELAYS"
  proof (cases "n = su_suspend_request_id s \<and> su_state s = WAITING_FOR_SUSPEND_DELAYS")
    case True
    with core_open [OF core] v show ?thesis by (auto simp: su_open_def su_valid_def s'_def)
  next
    case False
    with core v n sdc.deliver_pending [of "su_suspend_delay_controller s" "su_suspend_request_id s"]
    show ?thesis by (auto simp: su_core_def su_core_at_def s'_def c_def)
  qed
  with f show ?thesis
    by (auto simp: OnReadyForSuspend_def ready_for_def awaited_def su_inv_def loop_idle_def s'_def)
qed

lemma OnReady_dark:
  fixes s n
  defines "c \<equiv> snd (NotifyObservers (su_dark_suspend_delay_controller s))"
  defines "s' \<equiv> s\<lparr>su_dark_suspend_delay_controller := c\<rparr>"
  assumes inv: "su_inv k s"
    and n: "sdc_notify_observers_timer (su_dark_suspend_delay_controller s) = Some n"
  shows "if n = su_dark_suspend_id s
    then \<exists>r. OnReadyForSuspend env DARK n s' = HandleEvent env READY_TO_RESUSPEND r \<and>
         ready_for k READY_TO_RESUSPEND r \<and> su_state r = su_state s \<and>
         (\<exists>cs. su_calls r = su_calls s @ cs)
    else OnReadyForSuspend env DARK n s' = Some s' \<and> su_inv k s'"
proof -
  let ?r = "if \<not> su_suspend_request_supplied_wakeup_count s'
    then read_wakeup_count env (su_record SuReadSuspendWakeupCount s') else s'"
  from inv have core: "su_core k s" and f: "loop_idle s'" "loop_idle ?r"
    by (simp_all add: su_inv_def loop_idle_def s'_def)
  have v: "sdc_inv c"
    using valid_controller [OF core, of DARK] inv_step_sdc [of _ SdcNotify] by (simp add: c_def)
  have *: "su_core k s' \<or> su_open k s' \<and> n = su_dark_suspend_id s \<and> su_state s = WAITING_TO_RESUSPEND"
  proof (cases "n = su_dark_suspend_id s \<and> su_state s = WAITING_TO_RESUSPEND")
    case True
    with core_open [OF core] v show ?thesis by (auto simp: su_open_def su_valid_def s'_def)
  next
    case False
    with core v n sdc.deliver_pending [of "su_dark_suspend_delay_controller s" "su_dark_suspend_id s"]
    show ?thesis by (auto simp: su_core_def su_core_at_def s'_def c_def)
  qed
  have read: "su_core k x \<Longrightarrow> su_core k (read_wakeup_count env (su_record SuReadSuspendWakeupCount x))"
    "su_open k x \<Longrightarrow> su_open k (read_wakeup_count env (su_record SuReadSuspendWakeupCount x))" for x
    by (auto simp: su_core_def su_open_def su_core_at_def su_valid_def phase_of_append)
  have state: "su_state ?r = su_state s" "\<exists>cs. su_calls ?r = su_calls s @ cs" by (auto simp: s'_def)
  have "ready_for k READY_TO_RESUSPEND ?r" if "n = su_dark_suspend_id s"
    using * f(2) read state(1) by (auto simp: ready_for_def awaited_def)
  moreover have "OnReadyForSuspend env DARK n s' = HandleEvent env READY_TO_RESUSPEND ?r"
    if "n = su_dark_suspend_id s"
    using that by (simp add: OnReadyForSuspend_def s'_def)
  moreover have "OnReadyForSuspend env DARK n s' = Some s' \<and> su_inv k s'"
    if "n \<noteq> su_dark_suspend_id s"
    using that * f(1) by (auto simp: OnReadyForSuspend_def s'_def su_inv_def loop_idle_def)
  ultimately show ?thesis using state by auto
qed

lemma resuspend_ready:
  assumes "su_inv k s" "IsRunning (su_resuspend_timer s)"
  shows "ready_for k READY_TO_RESUSPEND (s\<lparr>su_resuspend_timer := None\<rparr>)"
proof -
  let ?s = "s\<lparr>su_resuspend_timer := None\<rparr>"
  from assms have c: "su_core k s" "loop_idle ?s" by (simp_all add: su_inv_def loop_idle_def)
  show ?thesis
  proof (cases "su_state s = WAITING_TO_RESUSPEND")
    case True
    then have "su_open k ?s" using core_open [OF c(1)] by (auto simp: su_open_def su_valid_def)
    with True c show ?thesis by (simp add: ready_for_def awaited_def)
  next
    case False
    then have "su_core k ?s" using c by (auto simp: su_core_def su_core_at_def)
    with c show ?thesis by (simp add: ready_for_def)
  qed
qed

lemma resuspend_timer_inv:
  "su_inv k s \<Longrightarrow> TriggerResuspendTimeout env s = Some t \<Longrightarrow> su_inv k t"
  by (auto simp: TriggerResuspendTimeout_def split: if_splits
    dest: resuspend_ready ready_HandleEvent)

lemma inv_controllers:
  "su_inv k s \<Longrightarrow> su_core k (set_controller w c s) \<Longrightarrow> su_inv k (set_controller w c s)"
  by (cases w) (auto simp: su_inv_def)

lemma inv_client_step:
  "su_inv k s \<Longrightarrow> su_inv k (set_controller w (client_step (get_controller w s) e) s)"
  by (rule inv_controllers) (auto simp: su_inv_def intro: core_client_step)

lemma client_step_simps:
  "snd (RegisterSuspendDelay r sender c) = client_step c (SdcRegister r sender)"
  "UnregisterSuspendDelay i c = client_step c (SdcUnregister i)"
  "sdc_HandleSuspendReadiness i n c = client_step c (SdcReadiness i n)"
  "HandleDBusClientDisconnected name c = client_step c (SdcDisconnected name)"
  by (simp_all add: client_step_def)

lemma set_get_controller [simp]: "set_controller w (get_controller w s) s = s"
  by (cases w) simp_all

lemma name_owner_inv:
  assumes "su_inv k s"
  shows "su_inv k (HandleDBusNameOwnerChanged name old_owner new_owner s)"
proof (cases "new_owner = []")
  case True
  let ?s = "set_controller REGULAR
    (client_step (get_controller REGULAR s) (SdcDisconnected name)) s"
  have "HandleDBusNameOwnerChanged name old_owner new_owner s = set_controller DARK
      (client_step (get_controller DARK ?s) (SdcDisconnected name)) ?s"
    by (simp add: True HandleDBusNameOwnerChanged_def client_step_simps)
  then show ?thesis by (simp only: inv_client_step assms)
qed (use assms in \<open>simp add: HandleDBusNameOwnerChanged_def\<close>)

lemma fire_notify_inv:
  assumes "su_inv k s" "fire_notify env w s = Some t"
  shows "su_inv k t"
proof (cases "sdc_notify_observers_timer (get_controller w s)")
  case None
  with assms show ?thesis by (simp add: fire_notify_def NotifyObservers_def)
next
  case (Some n)
  show ?thesis
  proof (cases w)
    case REGULAR
    with assms Some OnReady_regular [OF assms(1), of n env] show ?thesis
      by (auto simp: fire_notify_def NotifyObservers_def split: if_splits
        intro: ready_HandleEvent ready_HandleEvent [OF _ sym])
  next
    case DARK
    with assms Some OnReady_dark [OF assms(1), of n env] show ?thesis
      by (auto simp: fire_notify_def NotifyObservers_def split: if_splits
        intro: ready_HandleEvent ready_HandleEvent [OF _ sym])
  qed
qed

lemma battery_check_inv:
  assumes "su_inv k s" "fire_battery_check p (su_dark_resume s) = Some d"
  shows "su_inv k (s\<lparr>su_dark_resume := d\<rparr>)"
proof -
  have "dr_inv (su_dark_resume s)" using assms(1) by (simp add: su_inv_def su_core_def su_core_at_def)
  then have "dr_inv d" using drm.step_inv [of "su_dark_resume s" "DrTimer p" d] assms(2) by simp
  with assms(1) show ?thesis by (auto simp: su_inv_def su_core_def su_core_at_def)
qed

lemma su_step_inv:
  assumes inv: "su_inv k s" and step: "su_step s (env, e) = Some t"
  shows "su_inv k t"
proof (cases e)
  case (SuInput i)
  have "su_core k s" "\<not> su_handling_event s" "\<not> su_processing_queued_events s"
    using inv by (simp_all add: su_inv_def)
  with SuInput step show ?thesis
    by (cases i) (auto simp: RequestSuspend_def RequestSuspendWithExternalWakeupCount_def
      HandleLidOpened_def su_HandleUserActivity_def HandleShutdown_def
      elim!: HandleEvent_inv [rotated 3])
next
  case (SuRegister w r sender)
  with step inv_client_step [OF inv, of w "SdcRegister (the r) sender"] inv show ?thesis
    by (cases r) (auto simp: RegisterSuspendDelayInternal_def split_beta client_step_simps)
next
  case (SuUnregister w r)
  with step inv inv_client_step [OF inv] show ?thesis
    by (cases r) (auto simp: UnregisterSuspendDelayInternal_def client_step_simps)
next
  case (SuReadiness w r)
  with step inv inv_client_step [OF inv] show ?thesis
    by (cases r) (auto simp: HandleSuspendReadinessInternal_def client_step_simps)
next
  case (SuWakeReason r)
  have "su_inv k (s\<lparr>su_last_dark_resume_wake_reason := x\<rparr>)" for x
    using inv by (auto simp: su_inv_def su_core_def su_core_at_def)
  with SuWakeReason step inv show ?thesis
    by (cases r) (auto simp: RecordDarkResumeWakeReason_def)
next
  case (SuNameOwnerChanged name old_owner new_owner)
  with step name_owner_inv [OF inv] show ?thesis by auto
next
  case (SuNotifyTimer w)
  with step inv show ?thesis by (auto intro: fire_notify_inv)
next
  case (SuExpirationTimer w)
  have "sdc_inv (fire_expiration (get_controller w s))"
    using valid_controller [of k s w] inv_step_sdc [of _ SdcExpire] inv by (simp add: su_inv_def)
  then have "su_core k (set_controller w (fire_expiration (get_controller w s)) s)"
    using inv by (intro core_controllers) (auto simp: su_inv_def intro: sdc.expire_pending)
  with SuExpirationTimer step inv_controllers [OF inv] show ?thesis by auto
next
  case SuResuspendTimer
  with step inv show ?thesis by (auto intro: resuspend_timer_inv)
next
  case (SuBatteryCheckTimer p)
  with step battery_check_inv [OF inv] show ?thesis by auto
qed

interpretation sum: event_machine su_step "su_inv k" for k
  by unfold_locales (metis su_step_inv prod.collapse)

lemma su_Init_inv:
  assumes "su_Init p n m announced (Suspender d) = Some s" "dr_inv d"
  shows "su_inv (su_calls s) s"
  using assms by (auto simp: su_Init_def Suspender_def su_inv_def su_core_def su_core_at_def
    inv_SuspendDelayController bind_eq_Some_conv su_record_def Let_def split: if_splits)

end
