(* ===== verification/Suspender_Liveness.thy ===== *)
theory Suspender_Liveness
  imports Suspender_Proofs
begin

text \<open>
  The event queue of \<^verbatim>\<open>Suspender\<close> is always drained when the delegate behaves like the
  daemon or stops calling back, and a waiting suspender can always move on.
\<close>

section \<open>Delegates like the daemon\<close>

text \<open>
  \<^verbatim>\<open>Daemon\<close> calls back into the suspender only from \<^verbatim>\<open>UndoPrepareToSuspend()\<close> (through
  \<^verbatim>\<open>StateController::HandleResume()\<close>, which may suspend or shut down again) and from the two
  \<^verbatim>\<open>ShutDownFor*()\<close> methods (through \<^verbatim>\<open>Daemon::ShutDown()\<close>), and only to request a
  suspend or to report the shutdown.
\<close>

fun may_call_back :: "su_call \<Rightarrow> bool" where
  "may_call_back (SuUndoPrepareToSuspend _ _ _) = True"
| "may_call_back SuShutDownForFailedSuspend = True"
| "may_call_back SuShutDownForDarkResume = True"
| "may_call_back _ = False"

definition quiet :: "SuEvent \<Rightarrow> bool" where
  "quiet ev \<longleftrightarrow> ev = SUSPEND_REQUESTED \<or> ev = SHUTDOWN_STARTED"

definition daemon_like :: "su_env \<Rightarrow> bool" where
  "daemon_like env \<longleftrightarrow> (\<forall>cs c. \<forall>i \<in> set (sue_reenter env (cs @ [c])).
     may_call_back c \<and> quiet (input_event i))"

fun is_attempt :: "su_call \<Rightarrow> bool" where
  "is_attempt (SuDoSuspend _ _ _) = True"
| "is_attempt _ = False"

text \<open>Only calls that are not suspend attempts were made, and only quiet events were queued.\<close>

definition quietly :: "suspender \<Rightarrow> suspender \<Rightarrow> bool" where
  "quietly s t \<longleftrightarrow> (\<exists>cs. su_calls t = su_calls s @ cs \<and> \<not> (\<exists>c \<in> set cs. is_attempt c)) \<and>
     (\<exists>q. su_queued_events t = su_queued_events s @ q \<and> list_all quiet q)"

lemma quietly_refl: "quietly s s"
  by (simp add: quietly_def)

lemma quietly_trans [trans]: "quietly s t \<Longrightarrow> quietly t u \<Longrightarrow> quietly s u"
  by (auto simp: quietly_def)

lemma quietly_delegate:
  assumes "daemon_like env" "\<not> is_attempt c"
  shows "quietly s (su_delegate env c s)"
  using assms by (auto simp: quietly_def daemon_like_def list_all_iff)

lemma silent_delegate:
  assumes "daemon_like env" "\<not> may_call_back c"
  shows "su_delegate env c s = su_record c s"
proof -
  have "sue_reenter env (su_calls s @ [c]) = []"
    using assms unfolding daemon_like_def by (metis list.set_intros(1) neq_Nil_conv)
  then show ?thesis by (simp add: su_delegate_def)
qed

lemma quietly_record: "\<not> is_attempt c \<Longrightarrow> quietly s (su_record c s)"
  by (simp add: quietly_def)

lemma quietly_cong:
  "quietly s t \<Longrightarrow> su_calls u = su_calls t \<Longrightarrow> su_queued_events u = su_queued_events t \<Longrightarrow> quietly s u"
  by (simp add: quietly_def)

lemma FinishRequest_quietly:
  assumes "daemon_like env"
  shows "quietly s (FinishRequest env b s)"
proof -
  note q = quietly_delegate [OF assms]
  define s0 where "s0 = s\<lparr>su_resuspend_timer := None,
    su_suspend_delay_controller :=
      FinishSuspend (su_suspend_request_id s) (su_suspend_delay_controller s),
    su_dark_suspend_delay_controller :=
      FinishSuspend (su_dark_suspend_id s) (su_dark_suspend_delay_controller s)\<rparr>"
  define dur where "dur = max 0 (su_wall_time env s0 - su_suspend_request_start_time s0)"
  define s1 where "s1 = su_tick s0"
  define s2 where "s2 = su_record (SuSuspendDone (su_suspend_request_id s1) dur) s1"
  define s3 where "s3 = su_delegate env (SuSetSuspendAnnounced False) s2"
  define s4 where "s4 = su_delegate env (SuUndoPrepareToSuspend b
    (if su_initial_num_attempts s3 \<noteq> 0 then su_initial_num_attempts s3
     else su_current_num_attempts s3) (InDarkResume (su_dark_resume s3))) s3"
  define s5 where "s5 = (if IsEnabled (su_dark_resume s4)
    then su_delegate env (SuGenerateDarkResumeMetrics (su_dark_resume_wake_durations s4) dur) s4
    else s4)"
  have fin: "FinishRequest env b s =
      s5\<lparr>su_dark_resume := UndoPrepareForSuspendRequest (su_dark_resume s5)\<rparr>"
    unfolding FinishRequest_def Let_def s0_def dur_def s1_def s2_def s3_def s4_def s5_def ..
  have "quietly s s1" by (rule quietly_cong [OF quietly_refl]) (simp_all add: s1_def s0_def)
  also have "quietly s1 s2" unfolding s2_def by (rule quietly_record) simp
  also have "quietly s2 s3" unfolding s3_def by (rule q) simp
  also have "quietly s3 s4" unfolding s4_def by (rule q) simp
  also have "quietly s4 s5" unfolding s5_def by (simp add: q quietly_refl)
  finally show ?thesis by (rule quietly_cong) (simp_all add: fin)
qed

lemma StartRequest_quietly:
  assumes "daemon_like env" "StartRequest env s = Some t"
  shows "quietly s t" "su_queued_events t = su_queued_events s"
  using assms(2)
  by (auto simp: StartRequest_def quietly_def Let_def bind_eq_Some_conv
    silent_delegate [OF assms(1)])

section \<open>Draining the queue\<close>

lemma process_Nil: "su_queued_events s = [] \<Longrightarrow> process_queued_events env s = Some s"
  by (subst process_queued_events.simps) simp

lemma process_Cons:
  "su_queued_events s = ev # q \<Longrightarrow> handle_one env ev (s\<lparr>su_queued_events := q\<rparr>) = Some t \<Longrightarrow>
   process_queued_events env s = process_queued_events env t"
  by (subst process_queued_events.simps) simp

text \<open>The queue is drained without a suspend attempt.\<close>

definition drains :: "su_env \<Rightarrow> suspender \<Rightarrow> bool" where
  "drains env s \<longleftrightarrow> (\<exists>t cs. process_queued_events env s = Some t \<and> su_calls t = su_calls s @ cs \<and>
     \<not> (\<exists>c \<in> set cs. is_attempt c))"

lemma drains_Cons:
  assumes "su_queued_events s = ev # q" "handle_one env ev (s\<lparr>su_queued_events := q\<rparr>) = Some t"
    and "drains env t" "su_calls t = su_calls s @ cs" "\<not> (\<exists>c \<in> set cs. is_attempt c)"
  shows "drains env s"
proof -
  from assms(3) obtain u ds where "process_queued_events env t = Some u"
    "su_calls u = su_calls t @ ds" "\<not> (\<exists>c \<in> set ds. is_attempt c)"
    by (auto simp: drains_def)
  with assms(4,5) process_Cons [OF assms(1,2)] show ?thesis
    unfolding drains_def by (intro exI [of _ u] exI [of _ "cs @ ds"]) auto
qed

lemma drains_shutting_down: "su_state s = SHUTTING_DOWN \<Longrightarrow> drains env s"
proof (induction "su_queued_events s" arbitrary: s)
  case Nil
  then show ?case by (auto simp: drains_def process_Nil)
next
  case (Cons ev q)
  let ?t = "s\<lparr>su_queued_events := q, su_handling_event := False\<rparr>"
  have "handle_one env ev (s\<lparr>su_queued_events := q\<rparr>) = Some ?t"
    using Cons.prems by (cases ev) (simp_all add: handle_one_def)
  moreover have "drains env ?t" using Cons by simp
  ultimately show ?case
    using drains_Cons [OF Cons.hyps(2) [symmetric], of env ?t "[]"] by simp
qed

lemma drains_waiting:
  assumes d: "daemon_like env"
  shows "su_state s = WAITING_FOR_SUSPEND_DELAYS \<or> su_state s = WAITING_TO_RESUSPEND \<Longrightarrow>
    list_all quiet (su_queued_events s) \<Longrightarrow> drains env s"
proof (induction "su_queued_events s" arbitrary: s)
  case Nil
  then show ?case by (auto simp: drains_def process_Nil)
next
  case (Cons ev q)
  let ?s = "s\<lparr>su_queued_events := q, su_handling_event := True\<rparr>"
  have eq: "su_queued_events s = ev # q" using Cons.hyps(2) by simp
  consider "ev = SUSPEND_REQUESTED" | "ev = SHUTDOWN_STARTED"
    using Cons.prems(2) unfolding eq by (auto simp: quiet_def)
  then show ?case
  proof cases
    case 1
    let ?t = "?s\<lparr>su_handling_event := False\<rparr>"
    have "handle_one env ev (s\<lparr>su_queued_events := q\<rparr>) = Some ?t"
      using Cons.prems(1) 1 by (auto simp: handle_one_def)
    moreover have "drains env ?t" using Cons eq by simp
    ultimately show ?thesis using drains_Cons [OF eq, of env ?t "[]"] by simp
  next
    case 2
    define f where "f = (if may_finish ?s then FinishRequest env False ?s else ?s)"
    let ?t = "f\<lparr>su_state := SHUTTING_DOWN, su_handling_event := False\<rparr>"
    have "handle_one env ev (s\<lparr>su_queued_events := q\<rparr>) = Some ?t"
      using Cons.prems(1) 2 by (auto simp: handle_one_def f_def Let_def)
    moreover have "quietly ?s f"
      using FinishRequest_quietly [OF d] quietly_refl by (simp add: f_def)
    then obtain cs where "su_calls f = su_calls s @ cs" "\<not> (\<exists>c \<in> set cs. is_attempt c)"
      by (auto simp: quietly_def)
    moreover have "drains env ?t" by (rule drains_shutting_down) simp
    ultimately show ?thesis using drains_Cons [OF eq, of env ?t cs] by simp
  qed
qed

lemma drains_idle:
  assumes d: "daemon_like env"
  shows "su_state s = IDLE \<Longrightarrow> su_valid s \<Longrightarrow> list_all quiet (su_queued_events s) \<Longrightarrow> drains env s"
proof (cases "su_queued_events s")
  case Nil
  then show ?thesis by (auto simp: drains_def process_Nil)
next
  case (Cons ev q)
  assume idle: "su_state s = IDLE" and v: "su_valid s" and qs: "list_all quiet (su_queued_events s)"
  let ?s = "s\<lparr>su_queued_events := q, su_handling_event := True\<rparr>"
  consider "ev = SUSPEND_REQUESTED" | "ev = SHUTDOWN_STARTED"
    using qs unfolding Cons by (auto simp: quiet_def)
  then show ?thesis
  proof cases
    case 1
    obtain t where t: "StartRequest env ?s = Some t"
      using StartRequest_effect [of ?s env] v by (auto simp: su_valid_def)
    let ?t = "t\<lparr>su_state := WAITING_FOR_SUSPEND_DELAYS, su_handling_event := False\<rparr>"
    have "handle_one env ev (s\<lparr>su_queued_events := q\<rparr>) = Some ?t"
      using idle 1 t by (simp add: handle_one_def)
    moreover obtain cs where "su_calls t = su_calls s @ cs" "\<not> (\<exists>c \<in> set cs. is_attempt c)"
      using StartRequest_quietly(1) [OF d t] by (auto simp: quietly_def)
    moreover have "drains env ?t"
      using StartRequest_quietly(2) [OF d t] qs by (intro drains_waiting [OF d]) (auto simp: Cons)
    ultimately show ?thesis using drains_Cons [OF Cons, of env ?t cs] by simp
  next
    case 2
    let ?t = "?s\<lparr>su_state := SHUTTING_DOWN, su_handling_event := False\<rparr>"
    have "handle_one env ev (s\<lparr>su_queued_events := q\<rparr>) = Some ?t"
      using idle 2 by (simp add: handle_one_def)
    moreover have "drains env ?t" by (rule drains_shutting_down) simp
    ultimately show ?thesis using drains_Cons [OF Cons, of env ?t "[]"] by simp
  qed
qed

lemma drains_any:
  assumes "daemon_like env" "su_valid s" "list_all quiet (su_queued_events s)"
  shows "drains env s"
  using assms drains_idle drains_waiting drains_shutting_down by (cases "su_state s") blast+

section \<open>Every call returns\<close>

definition queues :: "suspender \<Rightarrow> suspender \<Rightarrow> bool" where
  "queues s t \<longleftrightarrow> (\<exists>q. su_queued_events t = su_queued_events s @ q \<and> list_all quiet q)"

lemma quietly_queues: "quietly s t \<Longrightarrow> queues s t"
  by (auto simp: quietly_def queues_def)

text \<open>
  A relation that holds between a state and any later one as long as it survives single calls
  to the delegate and to D-Bus: it is then kept by every handler.
\<close>

locale call_relation =
  fixes env :: su_env and R :: "suspender \<Rightarrow> suspender \<Rightarrow> bool"
  assumes frame: "su_calls t = su_calls s \<Longrightarrow> su_queued_events t = su_queued_events s \<Longrightarrow> R s t"
    and trans: "R s t \<Longrightarrow> R t u \<Longrightarrow> R s u"
    and delegate: "R s (su_delegate env c s)"
    and record_call: "R s (su_record c s)"
begin

lemma then_frame:
  "R s t \<Longrightarrow> su_calls u = su_calls t \<Longrightarrow> su_queued_events u = su_queued_events t \<Longrightarrow> R s u"
  by (rule trans [OF _ frame])

lemma then_delegate: "R s t \<Longrightarrow> R s (su_delegate env c t)"
  by (rule trans [OF _ delegate])

lemma then_record: "R s t \<Longrightarrow> R s (su_record c t)"
  by (rule trans [OF _ record_call])

lemma FinishRequest_related: "R s (FinishRequest env b s)"
proof -
  define s1 where "s1 = su_tick (s\<lparr>su_resuspend_timer := None,
    su_suspend_delay_controller :=
      FinishSuspend (su_suspend_request_id s) (su_suspend_delay_controller s),
    su_dark_suspend_delay_controller :=
      FinishSuspend (su_dark_suspend_id s) (su_dark_suspend_delay_controller s)\<rparr>)"
  have s1: "R s s1" by (rule frame) (simp_all add: s1_def)
  show ?thesis
    unfolding FinishRequest_def Let_def s1_def [symmetric]
    by (rule then_frame [of s "if _ then _ else _"])
      (auto intro!: then_delegate then_record s1)
qed

lemma StartRequest_related:
  assumes "StartRequest env s = Some t"
  shows "R s t"
proof -
  define s1 where "s1 = s\<lparr>su_suspend_request_id := su_suspend_request_id s + 1\<rparr>"
  define s2 where "s2 = (if su_suspend_request_supplied_wakeup_count s1
    then s1\<lparr>su_wakeup_count := su_suspend_request_wakeup_count s1, su_wakeup_count_valid := True\<rparr>
    else read_wakeup_count env (su_delegate env SuReadSuspendWakeupCount s1))"
  define s3 where "s3 = su_tick (s2\<lparr>su_suspend_request_start_time := su_wall_time env s2,
    su_current_num_attempts := 0, su_initial_num_attempts := 0,
    su_dark_resume_wake_durations := [], su_last_dark_resume_wake_reason := kDefaultWakeReason\<rparr>)"
  define s4 where "s4 = su_delegate env SuPrepareToSuspend s3"
  define s5 where "s5 = s4\<lparr>su_suspend_delay_controller :=
    PrepareForSuspend (su_suspend_request_id s4) (su_suspend_delay_controller s4)\<rparr>"
  from assms obtain dr where t: "t = su_record (SuSuspendImminent (su_suspend_request_id
      (su_delegate env (SuSetSuspendAnnounced True) (s5\<lparr>su_dark_resume := dr\<rparr>))))
      (su_delegate env (SuSetSuspendAnnounced True) (s5\<lparr>su_dark_resume := dr\<rparr>))"
    unfolding StartRequest_def Let_def s1_def [symmetric] s2_def [symmetric] s3_def [symmetric]
      s4_def [symmetric] s5_def [symmetric] bind_eq_Some_conv by auto
  have s1: "R s s1" by (rule frame) (simp_all add: s1_def)
  have "R s s2"
  proof (cases "su_suspend_request_supplied_wakeup_count s1")
    case True
    then show ?thesis by (intro then_frame [OF s1]) (simp_all add: s2_def)
  next
    case False
    then show ?thesis
      by (intro then_frame [OF then_delegate [OF s1, of SuReadSuspendWakeupCount]])
        (simp_all add: s2_def)
  qed
  then have "R s s3" by (rule then_frame) (simp_all add: s3_def)
  then have "R s s4" unfolding s4_def by (rule then_delegate)
  then have "R s (s5\<lparr>su_dark_resume := dr\<rparr>)" by (rule then_frame) (simp_all add: s5_def)
  then show ?thesis unfolding t by (intro then_record then_delegate)
qed

lemma after_attempt_related: "R s (snd (after_attempt env r s))"
proof -
  define u where "u = (if r = SUCCESS then s\<lparr>su_dark_resume :=
    HandleSuccessfulResume (sue_dark env (su_calls s)) (su_dark_resume s)\<rparr> else s)"
  have u: "R s u" by (rule frame) (simp_all add: u_def)
  have "R s (prepare_resuspend env b r u)" for b
  proof -
    define v where "v = (if b \<and> su_initial_num_attempts u = 0
      then u\<lparr>su_initial_num_attempts := su_current_num_attempts u\<rparr> else u)"
    define w where "w = v\<lparr>su_dark_suspend_id := su_dark_suspend_id v + 1\<rparr>"
    define x where "x = (if r = SUCCESS
      then su_tick (w\<lparr>su_dark_resume_start_time := su_wall_time env w,
        su_dark_resume_wake_durations := su_dark_resume_wake_durations w @ [(kDefaultWakeReason, 0)],
        su_last_dark_resume_wake_reason := kDefaultWakeReason, su_current_num_attempts := 0\<rparr>)
      else w)"
    have x: "R s x" by (rule then_frame [OF u]) (simp_all add: x_def w_def v_def)
    show ?thesis
      unfolding prepare_resuspend_def Let_def v_def [symmetric] w_def [symmetric] x_def [symmetric]
      by (auto simp: ScheduleResuspend_def intro!: then_record then_frame [OF x])
  qed
  moreover have "R s (retry_failed_suspend env u)"
    by (cases "su_suspend_request_supplied_wakeup_count u")
      (auto simp: retry_failed_suspend_def ScheduleResuspend_def Let_def
        intro: then_frame [OF u] then_frame [OF then_delegate [OF u, of SuReadSuspendWakeupCount]])
  ultimately show ?thesis
    using trans [OF u FinishRequest_related] then_delegate [OF u]
    unfolding after_attempt_def Let_def u_def [symmetric] by auto
qed

lemma suspend_now_related:
  assumes "suspend_now env s = Some t"
  shows "R s t"
proof -
  obtain st u where u: "su_Suspend env s = Some (st, u)" "t = u\<lparr>su_state := st\<rparr>"
    using assms by (auto simp: suspend_now_def bind_eq_Some_conv)
  then obtain a dur dr where g: "GetActionForSuspendAttempt (sue_power env (su_calls s))
      (su_dark_resume s) = Some (a, dur, dr)"
    by (auto simp: su_Suspend_def bind_eq_Some_conv)
  have d: "R s (s\<lparr>su_dark_resume := dr\<rparr>)" by (rule frame) simp_all
  have "R s u"
  proof (cases "a = DARK_SHUT_DOWN")
    case True
    then have "u = su_delegate env SuShutDownForDarkResume (s\<lparr>su_dark_resume := dr\<rparr>)"
      using u(1) g by (simp add: su_Suspend_def)
    with then_delegate [OF d] show ?thesis by simp
  next
    case False
    define v where "v = (note_wake_duration env (s\<lparr>su_dark_resume := dr\<rparr>))
      \<lparr>su_current_num_attempts :=
        su_current_num_attempts (note_wake_duration env (s\<lparr>su_dark_resume := dr\<rparr>)) + 1\<rparr>"
    define x where "x = su_delegate env
      (SuDoSuspend (su_wakeup_count v) (su_wakeup_count_valid v) dur) v"
    have "(st, u) = after_attempt env (sue_DoSuspend env (su_calls x)) x"
      using u(1) g False unfolding x_def v_def by (simp add: su_Suspend_def Let_def)
    then have u': "u = snd (after_attempt env (sue_DoSuspend env (su_calls x)) x)"
      by (metis snd_conv)
    have "R s v" by (rule then_frame [OF d]) (simp_all add: v_def note_wake_duration_def)
    then have "R s x" unfolding x_def by (rule then_delegate)
    then show ?thesis unfolding u' by (rule trans [OF _ after_attempt_related])
  qed
  then show ?thesis by (rule then_frame) (simp_all add: u(2))
qed

lemma dispatch_related:
  assumes t: "dispatch env st ev s = Some t"
  shows "R s t"
proof -
  have refl: "R s (s\<lparr>su_state := x\<rparr>)" "R s s" for x s by (rule frame; simp)+
  have fin: "R s ((FinishRequest env False s)\<lparr>su_state := x\<rparr>)" for x s
    by (rule trans [OF FinishRequest_related refl(1)])
  note lid = delegate [of _ SuIsLidClosedForSuspend]
  show ?thesis
  proof (cases ev)
    case SUSPEND_REQUESTED
    with t show ?thesis
      by (cases st) (auto intro: refl trans [OF StartRequest_related refl(1)])
  next
    case USER_ACTIVITY
    with t show ?thesis
      by (cases st) (auto simp: Let_def split: if_splits intro: refl lid trans [OF lid fin])
  next
    case SHUTDOWN_STARTED
    with t fin [of s SHUTTING_DOWN] refl show ?thesis
      by (cases st) (auto simp: Let_def split: if_splits)
  qed (use t suspend_now_related refl in \<open>cases st; auto\<close>)+
qed

lemma handle_one_related:
  assumes "handle_one env ev s = Some t"
  shows "R s t"
proof -
  obtain u where u: "dispatch env (su_state s) ev (s\<lparr>su_handling_event := True\<rparr>) = Some u"
    "t = u\<lparr>su_handling_event := False\<rparr>"
    using assms by (auto simp: handle_one_def)
  have "R s (s\<lparr>su_handling_event := True\<rparr>)" by (rule frame) simp_all
  from trans [OF this dispatch_related [OF u(1)]] show ?thesis
    by (rule then_frame) (simp_all add: u(2))
qed

end

text \<open>Delegates like the daemon queue only quiet events.\<close>

interpretation queues: call_relation env "\<lambda>s t. daemon_like env \<longrightarrow> queues s t" for env
  by unfold_locales (auto simp: queues_def daemon_like_def list_all_iff)

text \<open>
  Delegates that, after some number of calls, no longer call back: a handler that queues an
  event then has used up one of these calls.
\<close>

definition silent_from :: "nat \<Rightarrow> su_env \<Rightarrow> bool" where
  "silent_from n env \<longleftrightarrow> (\<forall>cs. n \<le> length cs \<longrightarrow> sue_reenter env cs = [])"

definition spends :: "nat \<Rightarrow> suspender \<Rightarrow> suspender \<Rightarrow> bool" where
  "spends n s t \<longleftrightarrow> length (su_calls s) \<le> length (su_calls t) \<and>
     (su_queued_events t = su_queued_events s \<or>
      length (su_calls s) < n \<and> length (su_calls s) < length (su_calls t))"

interpretation spends: call_relation env "\<lambda>s t. silent_from n env \<longrightarrow> spends n s t" for env n
proof
  fix s t u
  show "silent_from n env \<longrightarrow> spends n s t \<Longrightarrow> silent_from n env \<longrightarrow> spends n t u \<Longrightarrow>
      silent_from n env \<longrightarrow> spends n s u"
    by (auto simp: spends_def)
next
  fix s c
  show "silent_from n env \<longrightarrow> spends n s (su_delegate env c s)"
    by (cases "Suc (length (su_calls s)) \<le> n") (auto simp: spends_def silent_from_def)
qed (auto simp: spends_def)

lemma process_queued_events_total:
  assumes "silent_from n env"
  shows "su_core k s \<Longrightarrow> \<exists>t. process_queued_events env s = Some t"
proof (induction "(n - length (su_calls s), length (su_queued_events s))" arbitrary: s
    rule: wf_induct_rule [OF wf_lex_prod [OF wf_less_than wf_less_than]])
  case (1 s)
  show ?case
  proof (cases "su_queued_events s")
    case Nil
    then show ?thesis by (auto simp: process_Nil)
  next
    case (Cons ev q)
    let ?s = "s\<lparr>su_queued_events := q\<rparr>"
    have "su_core k ?s" using 1(2) by simp
    then obtain t where t: "handle_one env ev ?s = Some t" "su_core k t"
      by (rule handle_one_core)
    have "spends n ?s t" using spends.handle_one_related [OF t(1), of n] assms by blast
    then have "((n - length (su_calls t), length (su_queued_events t)),
        (n - length (su_calls s), length (su_queued_events s))) \<in> less_than <*lex*> less_than"
      by (auto simp: spends_def Cons)
    with 1(1) t(2) process_Cons [OF Cons t(1)] show ?thesis by auto
  qed
qed

text \<open>
  A call from the idle event loop returns, and its outcome extends that of handling the event
  itself by calls that are not suspend attempts.
\<close>

lemma HandleEvent_returns:
  assumes d: "daemon_like env" and "\<not> su_handling_event s" "\<not> su_processing_queued_events s"
    and q: "su_queued_events s = []"
    and u: "handle_one env ev s = Some u" "su_core k u" "\<not> su_handling_event u"
      "\<not> su_processing_queued_events u"
  shows "\<exists>t cs. HandleEvent env ev s = Some t \<and> su_inv k t \<and> su_calls t = su_calls u @ cs \<and>
    \<not> (\<exists>c \<in> set cs. is_attempt c)"
proof -
  let ?u = "u\<lparr>su_processing_queued_events := True\<rparr>"
  obtain v where v: "dispatch env (su_state s) ev (s\<lparr>su_handling_event := True\<rparr>) = Some v"
    "u = v\<lparr>su_handling_event := False\<rparr>"
    using u(1) by (auto simp: handle_one_def)
  have "list_all quiet (su_queued_events u)"
    using queues.dispatch_related [OF v(1)] d q by (simp add: v(2) queues_def)
  moreover have "su_valid ?u" using u(2) by (auto simp: su_core_def su_core_at_def su_valid_def)
  ultimately have "drains env ?u" using drains_any [OF d, of ?u] by simp
  then obtain t cs where t: "process_queued_events env ?u = Some t" "su_calls t = su_calls u @ cs"
    "\<not> (\<exists>c \<in> set cs. is_attempt c)"
    by (auto simp: drains_def)
  let ?t = "t\<lparr>su_processing_queued_events := False\<rparr>"
  have h: "HandleEvent env ev s = Some ?t"
    using assms(2) u t(1) by (simp add: HandleEvent_def)
  moreover have "su_inv k ?t" by (rule HandleEvent_drains [OF h assms(2) u])
  ultimately show ?thesis using t(2,3) by (intro exI [of _ ?t] exI [of _ cs]) simp
qed

text \<open>Every delegate under which the queue is drained: like the daemon, or silent after a while.\<close>

definition settles :: "su_env \<Rightarrow> bool" where
  "settles env \<longleftrightarrow> daemon_like env \<or> (\<exists>n. silent_from n env)"

lemma HandleEvent_settles:
  assumes "settles env" "\<not> su_handling_event s" "\<not> su_processing_queued_events s"
    and "su_queued_events s = []"
    and u: "handle_one env ev s = Some u" "su_core k u" "\<not> su_handling_event u"
      "\<not> su_processing_queued_events u"
  shows "\<exists>t. HandleEvent env ev s = Some t \<and> su_inv k t"
  using assms(1) unfolding settles_def
proof (elim disjE exE)
  assume "daemon_like env"
  from HandleEvent_returns [OF this assms(2-4) u] show ?thesis by blast
next
  fix n
  assume "silent_from n env"
  then obtain t where "process_queued_events env (u\<lparr>su_processing_queued_events := True\<rparr>) = Some t"
    using process_queued_events_total [of n env k] u(2) by (metis core_flags(2))
  then have "HandleEvent env ev s = Some (t\<lparr>su_processing_queued_events := False\<rparr>)"
    using assms(2) u by (simp add: HandleEvent_def)
  with HandleEvent_drains [OF this assms(2) u] show ?thesis by blast
qed

lemma HandleEvent_total:
  assumes d: "settles env" and "su_core k s" "\<not> su_handling_event s"
    "\<not> su_processing_queued_events s" "su_queued_events s = []"
  shows "\<exists>t. HandleEvent env ev s = Some t \<and> su_inv k t"
proof -
  obtain u where "handle_one env ev s = Some u" "su_core k u" "\<not> su_handling_event u"
    "\<not> su_processing_queued_events u"
    using handle_one_core [OF assms(2)] assms(4) by metis
  with HandleEvent_settles [OF d assms(3-5)] show ?thesis by blast
qed

lemma HandleEvent_awaited_total:
  assumes d: "settles env" and "su_open k s" "awaited (su_state s) ev"
    "\<not> su_handling_event s" "\<not> su_processing_queued_events s" "su_queued_events s = []"
  shows "\<exists>t. HandleEvent env ev s = Some t \<and> su_inv k t"
proof -
  obtain u where "handle_one env ev s = Some u" "su_core k u" "\<not> su_handling_event u"
    "\<not> su_processing_queued_events u"
    using handle_one_awaited [OF assms(2,3), of env] assms(5) by metis
  with HandleEvent_settles [OF d assms(4-6)] show ?thesis by blast
qed

lemma HandleEvent_attempts:
  assumes d: "daemon_like env" and "su_open k s" "awaited (su_state s) ev"
    "\<not> su_handling_event s" "\<not> su_processing_queued_events s" "su_queued_events s = []"
  shows "\<exists>t cs. HandleEvent env ev s = Some t \<and> su_inv k t \<and> su_calls t = su_calls s @ cs \<and>
    (SuShutDownForDarkResume \<in> set cs \<or> (\<exists>c \<in> set cs. is_attempt c))"
proof -
  obtain u cs where u: "handle_one env ev s = Some u" "su_core k u" "\<not> su_handling_event u"
    "su_processing_queued_events u = su_processing_queued_events s"
    and cs: "su_calls u = su_calls s @ cs"
      "SuShutDownForDarkResume \<in> set cs \<or> (\<exists>w v d. SuDoSuspend w v d \<in> set cs)"
    using handle_one_awaited [OF assms(2,3), of env] by metis
  obtain t ds where "HandleEvent env ev s = Some t" "su_inv k t" "su_calls t = su_calls u @ ds"
    using HandleEvent_returns [OF d assms(4-6) u(1-3)] u(4) assms(5) by auto
  moreover have "SuShutDownForDarkResume \<in> set (cs @ ds) \<or> (\<exists>c \<in> set (cs @ ds). is_attempt c)"
    using cs(2) by (metis UnCI is_attempt.simps(1) set_append)
  ultimately show ?thesis using cs(1) by (intro exI [of _ t] exI [of _ "cs @ ds"]) simp
qed

end
