(* ===== verification/Suspender_Safety.thy ===== *)
theory Suspender_Safety
  imports Suspender_Liveness
begin

text \<open>
  Guarantees of a running \<^verbatim>\<open>Suspender\<close>: from \<^verbatim>\<open>Init()\<close> through any sequence of public
  calls, D-Bus requests and timers, with the delegate's answers chosen freely.
\<close>

section \<open>Reachable states\<close>

lemma su_reachable_inv:
  assumes "su_Init p n m announced (Suspender (dr_Init denv DarkResume)) = Some s"
    and "run_events su_step s es = Some t"
  shows "su_inv (su_calls s) t"
  by (rule sum.run_inv [OF su_Init_inv [OF assms(1) inv_dr_Init] assms(2)])

lemma ready_total:
  assumes "settles env" "ready_for k ev s"
  shows "\<exists>t. HandleEvent env ev s = Some t"
  using assms HandleEvent_total [OF assms(1), of k s ev]
    HandleEvent_awaited_total [OF assms(1), of k s ev]
  by (auto simp: ready_for_def loop_idle_def)

lemma inv_ready:
  "su_inv k s \<Longrightarrow> ready_for k ev s"
  "su_inv k s \<Longrightarrow> ready_for k ev (s\<lparr>su_suspend_request_supplied_wakeup_count := b,
     su_suspend_request_wakeup_count := w\<rparr>)"
  by (simp_all add: su_inv_def ready_for_def loop_idle_def)

lemma su_step_total:
  assumes d: "settles env" and inv: "su_inv k s"
  shows "\<exists>t. su_step s (env, e) = Some t"
proof (cases e)
  case (SuInput i)
  then show ?thesis
    by (cases i) (simp_all add: RequestSuspend_def RequestSuspendWithExternalWakeupCount_def
      HandleLidOpened_def su_HandleUserActivity_def HandleShutdown_def
      ready_total [OF d inv_ready(1) [OF inv]] ready_total [OF d inv_ready(2) [OF inv]])
next
  case (SuNotifyTimer w)
  show ?thesis
  proof (cases "sdc_notify_observers_timer (get_controller w s)")
    case None
    with SuNotifyTimer show ?thesis by (simp add: fire_notify_def NotifyObservers_def)
  next
    case (Some n)
    with SuNotifyTimer OnReady_regular [OF inv, of n env] OnReady_dark [OF inv, of n env] show ?thesis
      by (cases w) (auto simp: fire_notify_def NotifyObservers_def split: if_splits
        dest: ready_total [OF d])
  qed
next
  case SuResuspendTimer
  with resuspend_ready [OF inv] ready_total [OF d] show ?thesis
    by (auto simp: TriggerResuspendTimeout_def)
next
  case (SuBatteryCheckTimer p)
  have "dr_inv (su_dark_resume s)" using inv by (simp add: su_inv_def su_core_def su_core_at_def)
  with SuBatteryCheckTimer dr_step_total [of "su_dark_resume s" "DrTimer p"] show ?thesis by auto
qed simp_all

lemma su_run_total:
  "su_inv k s \<Longrightarrow> list_all (settles \<circ> fst) es \<Longrightarrow>
     \<exists>t. run_events su_step s es = Some t \<and> su_inv k t"
proof (induction es arbitrary: s)
  case (Cons e es)
  obtain env ev where e: "e = (env, ev)" by (cases e)
  with Cons.prems(2) have "settles env" by simp
  then obtain u where u: "su_step s e = Some u" using su_step_total [OF _ Cons.prems(1)] e by blast
  with sum.step_inv [OF Cons.prems(1)] have "su_inv k u" by blast
  with Cons.IH [of u] Cons.prems(2) u show ?case by simp
qed simp

section \<open>A concrete system\<close>

definition example_su_prefs :: prefs where
  "example_su_prefs = \<lparr>pref_string = \<lambda>_. None, pref_int64 = \<lambda>n.
       if n = ''retry_suspend_ms'' then Some 10000
       else if n = ''retry_suspend_attempts'' then Some 2 else None,
     pref_bool = \<lambda>_. None\<rparr>"

definition example_dr_env :: dr_env where
  "example_dr_env = \<lparr>dre_can_wake_from_suspend = False, dre_PathExists = \<lambda>_. False,
     dre_AppendASCII = \<lambda>a b. a @ ''/'' @ b, dre_TrimTrailing = \<lambda>x. x,
     dre_SplitKeyValuePairs = \<lambda>_. None, dre_SplitLines = \<lambda>x. [x],
     dre_StringToDouble = \<lambda>_. None, dre_StringToInt = \<lambda>_. None, dre_StringToUint64 = \<lambda>_. None,
     dre_ReadFileToString = \<lambda>_. None, dre_WriteFileFully = \<lambda>_ _. True,
     dre_prefs = example_su_prefs\<rparr>"

text \<open>The delegate asks for another suspend whenever a request is finished unsuccessfully.\<close>

definition example_su_env :: "SuspendResult \<Rightarrow> su_env" where
  "example_su_env r = \<lparr>sue_IsLidClosedForSuspend = \<lambda>_. False,
     sue_ReadSuspendWakeupCount = \<lambda>cs. (True, of_nat (length cs)), sue_DoSuspend = \<lambda>_. r,
     sue_reenter = \<lambda>cs. (case last cs of SuUndoPrepareToSuspend False _ _ \<Rightarrow> [InRequestSuspend]
       | SuShutDownForFailedSuspend \<Rightarrow> [InShutdown] | _ \<Rightarrow> []),
     sue_power = \<lambda>_. example_reading 50, sue_dark = \<lambda>_. example_dr_env,
     sue_wall_time = \<lambda>n. int n * 1000000\<rparr>"

lemma example_daemon_like: "daemon_like (example_su_env r)"
  by (auto simp: daemon_like_def example_su_env_def quiet_def split: su_call.splits bool.splits)

definition example_suspender :: suspender where
  "example_suspender =
     the (su_Init example_su_prefs 65537 98305 True (Suspender (dr_Init example_dr_env DarkResume)))"

lemma example_suspender:
  "su_Init example_su_prefs 65537 98305 True (Suspender (dr_Init example_dr_env DarkResume)) =
     Some example_suspender"
  by code_simp

definition example_su_events :: "(su_env \<times> su_event) list" where
  "example_su_events =
     [(example_su_env FAILURE, SuRegister REGULAR
         (Some \<lparr>rr_timeout = 5000000, rr_description = ''x''\<rparr>) '':1.7''),
      (example_su_env FAILURE, SuInput InRequestSuspend)]"

definition example_waiting :: suspender where
  "example_waiting = the (run_events su_step example_suspender example_su_events)"

lemma example_waiting: "run_events su_step example_suspender example_su_events = Some example_waiting"
  by code_simp

section \<open>The protocol\<close>



text \<open>
  C12. The suspender always comes back to the message loop: every sequence of events runs to
  completion, draining all events queued while others were being handled, for two kinds of
  delegates. One calls back as the daemon does: only from \<^verbatim>\<open>UndoPrepareToSuspend()\<close> and the
  two \<^verbatim>\<open>ShutDownFor*()\<close> methods, and only to request a suspend or to report a shutdown,
  but as often as it likes. The other calls back from any method with any event, but no longer
  once a fixed number of calls has been made to it.
\<close>

theorem Suspender_always_returns:
  assumes "su_Init p n m announced (Suspender (dr_Init denv DarkResume)) = Some s"
    and "\<forall>(env, _) \<in> set es. daemon_like env \<or>
      (\<exists>k. \<forall>cs. k \<le> length cs \<longrightarrow> sue_reenter env cs = [])"
  shows "\<exists>t. run_events su_step s es = Some t \<and> su_queued_events t = [] \<and>
    \<not> su_handling_event t \<and> \<not> su_processing_queued_events t"
proof -
  have "settles env" if "(env, e) \<in> set es" for env e
    using bspec [OF assms(2) that] by (simp add: settles_def silent_from_def)
  then have "list_all (settles \<circ> fst) es" by (auto simp: list_all_iff)
  with su_run_total [OF su_Init_inv [OF assms(1) inv_dr_Init]] show ?thesis
    by (auto simp: su_inv_def)
qed

text \<open>A delegate that reports user activity from its first nine calls.\<close>

definition chatty_env :: su_env where
  "chatty_env = (example_su_env FAILURE)\<lparr>sue_reenter :=
     \<lambda>cs. if length cs < 10 then [InUserActivity, InRequestSuspend] else []\<rparr>"

lemma chatty_silent: "10 \<le> length cs \<Longrightarrow> sue_reenter chatty_env cs = []"
  by (simp add: chatty_env_def)

theorem Suspender_always_returns_witness:
  "\<exists>t. run_events su_step example_suspender
       (example_su_events @ [(chatty_env, SuInput InRequestSuspend)]) = Some t \<and>
    su_queued_events t = [] \<and> \<not> su_handling_event t \<and> \<not> su_processing_queued_events t"
proof (rule Suspender_always_returns [OF example_suspender])
  show "\<forall>(env, _) \<in> set (example_su_events @ [(chatty_env, SuInput InRequestSuspend)]).
      daemon_like env \<or> (\<exists>k. \<forall>cs. k \<le> length cs \<longrightarrow> sue_reenter env cs = [])"
    using example_daemon_like chatty_silent by (auto simp: example_su_events_def)
qed

section \<open>Progress\<close>

lemma ready_waiting_open:
  "ready_for k ev s \<Longrightarrow> awaited (su_state s) ev \<Longrightarrow> su_open k s"
  by (auto simp: ready_for_def awaited_def dest: core_open)

lemma ready_attempts:
  assumes "daemon_like env" "ready_for k ev s" "awaited (su_state s) ev"
  shows "\<exists>t cs. HandleEvent env ev s = Some t \<and> su_calls t = su_calls s @ cs \<and>
    (SuShutDownForDarkResume \<in> set cs \<or> (\<exists>c \<in> set cs. is_attempt c))"
  using HandleEvent_attempts [OF assms(1) ready_waiting_open [OF assms(2,3)] assms(3)] assms(2)
  by (auto simp: ready_for_def loop_idle_def)

definition attempts_after :: "su_env \<Rightarrow> suspender \<Rightarrow> su_event list \<Rightarrow> bool" where
  "attempts_after env s es \<longleftrightarrow>
     (\<exists>t cs. run_events su_step s (map (Pair env) es) = Some t \<and> su_calls t = su_calls s @ cs \<and>
        (SuShutDownForDarkResume \<in> set cs \<or> (\<exists>c \<in> set cs. is_attempt c)))"

lemma attempts_after_delays:
  assumes d: "daemon_like env" and inv: "su_inv k s" and st: "su_state s = WAITING_FOR_SUSPEND_DELAYS"
  shows "attempts_after env s [SuExpirationTimer REGULAR, SuNotifyTimer REGULAR]"
proof -
  let ?c = "fire_expiration (su_suspend_delay_controller s)"
  let ?s = "s\<lparr>su_suspend_delay_controller := ?c\<rparr>"
  have pend: "sdc_pending (su_suspend_delay_controller s) (su_suspend_request_id s)"
    using inv st by (auto simp: su_inv_def su_core_def su_core_at_def)
  have inv': "su_inv k ?s"
    using sum.step_inv [OF inv, of "(env, SuExpirationTimer REGULAR)" ?s] by simp
  have posted: "sdc_notify_observers_timer (su_suspend_delay_controller ?s) =
      Some (su_suspend_request_id ?s)"
    using sdc.pending_answered [OF pend] by simp
  let ?r = "?s\<lparr>su_suspend_delay_controller := snd (NotifyObservers ?c)\<rparr>"
  have r: "OnReadyForSuspend env REGULAR (su_suspend_request_id s) ?r =
      HandleEvent env SUSPEND_DELAYS_READY ?r" "ready_for k SUSPEND_DELAYS_READY ?r"
    using OnReady_regular [OF inv' posted, of env] by simp_all
  obtain t cs where "HandleEvent env SUSPEND_DELAYS_READY ?r = Some t" "su_calls t = su_calls s @ cs"
    "SuShutDownForDarkResume \<in> set cs \<or> (\<exists>c \<in> set cs. is_attempt c)"
    using ready_attempts [OF d r(2)] st by (auto simp: awaited_def)
  with posted r(1) show ?thesis
    unfolding attempts_after_def
    by (intro exI [of _ t] exI [of _ cs]) (simp add: fire_notify_def NotifyObservers_def)
qed

lemma attempts_after_resuspend_timer:
  assumes d: "daemon_like env" and inv: "su_inv k s" and st: "su_state s = WAITING_TO_RESUSPEND"
    and timer: "IsRunning (su_resuspend_timer s)"
  shows "attempts_after env s [SuResuspendTimer]"
proof -
  obtain t cs where "HandleEvent env READY_TO_RESUSPEND (s\<lparr>su_resuspend_timer := None\<rparr>) = Some t"
    "su_calls t = su_calls s @ cs"
    "SuShutDownForDarkResume \<in> set cs \<or> (\<exists>c \<in> set cs. is_attempt c)"
    using ready_attempts [OF d resuspend_ready [OF inv timer]] st by (auto simp: awaited_def)
  with timer show ?thesis
    unfolding attempts_after_def
    by (intro exI [of _ t] exI [of _ cs]) (simp add: TriggerResuspendTimeout_def)
qed

lemma attempts_after_dark_delays:
  assumes d: "daemon_like env" and inv: "su_inv k s" and st: "su_state s = WAITING_TO_RESUSPEND"
    and pend: "sdc_pending (su_dark_suspend_delay_controller s) (su_dark_suspend_id s)"
  shows "attempts_after env s [SuExpirationTimer DARK, SuNotifyTimer DARK]"
proof -
  let ?c = "fire_expiration (su_dark_suspend_delay_controller s)"
  let ?s = "s\<lparr>su_dark_suspend_delay_controller := ?c\<rparr>"
  have inv': "su_inv k ?s"
    using sum.step_inv [OF inv, of "(env, SuExpirationTimer DARK)" ?s] by simp
  have posted: "sdc_notify_observers_timer (su_dark_suspend_delay_controller ?s) =
      Some (su_dark_suspend_id ?s)"
    using sdc.pending_answered [OF pend] by simp
  let ?r = "?s\<lparr>su_dark_suspend_delay_controller := snd (NotifyObservers ?c)\<rparr>"
  obtain r ds where r: "OnReadyForSuspend env DARK (su_dark_suspend_id s) ?r =
      HandleEvent env READY_TO_RESUSPEND r" "ready_for k READY_TO_RESUSPEND r"
    "su_state r = su_state s" "su_calls r = su_calls s @ ds"
    using OnReady_dark [OF inv' posted, of env] by auto
  obtain t cs where t: "HandleEvent env READY_TO_RESUSPEND r = Some t" "su_calls t = su_calls r @ cs"
    "SuShutDownForDarkResume \<in> set cs \<or> (\<exists>c \<in> set cs. is_attempt c)"
    using ready_attempts [OF d r(2)] st r(3) by (auto simp: awaited_def)
  show ?thesis
    unfolding attempts_after_def using posted r(1,4) t
    by (intro exI [of _ t] exI [of _ "ds @ cs"]) (auto simp: fire_notify_def NotifyObservers_def)
qed

text \<open>
  C11. A suspend request never gets stuck: in every reachable waiting state there are timers
  that are already running (the delay expiration and the notification it posts, or the
  resuspend timer) and whose firing leads to another suspend attempt or to the shutdown
  decided by dark resume, even if no client ever answers.
\<close>

theorem Suspender_never_stuck:
  assumes "su_Init p n m announced (Suspender (dr_Init denv DarkResume)) = Some s"
    and "run_events su_step s es = Some t"
    and "su_state t = WAITING_FOR_SUSPEND_DELAYS \<or> su_state t = WAITING_TO_RESUSPEND"
    and "daemon_like env"
  shows "attempts_after env t [SuExpirationTimer REGULAR, SuNotifyTimer REGULAR] \<or>
    attempts_after env t [SuResuspendTimer] \<or>
    attempts_after env t [SuExpirationTimer DARK, SuNotifyTimer DARK]"
proof -
  have inv: "su_inv (su_calls s) t" by (rule su_reachable_inv [OF assms(1,2)])
  then have "IsRunning (su_resuspend_timer t) \<or>
      sdc_pending (su_dark_suspend_delay_controller t) (su_dark_suspend_id t)"
    if "su_state t = WAITING_TO_RESUSPEND"
    using that by (auto simp: su_inv_def su_core_def su_core_at_def)
  with attempts_after_delays [OF assms(4) inv] attempts_after_resuspend_timer [OF assms(4) inv]
    attempts_after_dark_delays [OF assms(4) inv] assms(3) show ?thesis by blast
qed

theorem Suspender_never_stuck_witness:
  "attempts_after (example_su_env FAILURE) example_waiting
     [SuExpirationTimer REGULAR, SuNotifyTimer REGULAR] \<or>
   attempts_after (example_su_env FAILURE) example_waiting [SuResuspendTimer] \<or>
   attempts_after (example_su_env FAILURE) example_waiting
     [SuExpirationTimer DARK, SuNotifyTimer DARK]"
proof (rule Suspender_never_stuck [OF example_suspender example_waiting])
  show "su_state example_waiting = WAITING_FOR_SUSPEND_DELAYS \<or>
      su_state example_waiting = WAITING_TO_RESUSPEND"
    by code_simp
qed (rule example_daemon_like)

section \<open>Shutting down\<close>

lemma HandleEvent_shutting_down:
  assumes "su_state s = SHUTTING_DOWN" "loop_idle s"
  shows "HandleEvent env ev s = Some s"
proof -
  have "handle_one env ev s = Some s"
    using assms by (cases ev) (simp_all add: handle_one_def loop_idle_def)
  moreover have "process_queued_events env (s\<lparr>su_processing_queued_events := True\<rparr>) =
      Some (s\<lparr>su_processing_queued_events := True\<rparr>)"
    using assms by (intro process_Nil) (simp add: loop_idle_def)
  ultimately show ?thesis using assms by (simp add: HandleEvent_def loop_idle_def)
qed

definition stays_down :: "suspender \<Rightarrow> suspender \<Rightarrow> bool" where
  "stays_down s t \<longleftrightarrow> su_state t = SHUTTING_DOWN \<and>
     (\<exists>cs. su_calls t = su_calls s @ cs \<and> set cs \<subseteq> {SuReadSuspendWakeupCount})"

lemma stays_down_same:
  "su_state t = SHUTTING_DOWN \<Longrightarrow> su_calls t = su_calls s \<Longrightarrow> stays_down s t"
  by (simp add: stays_down_def)

lemma OnReady_shutting_down:
  assumes "su_state s = SHUTTING_DOWN" "loop_idle s" "OnReadyForSuspend env w n s = Some t"
  shows "stays_down s t"
proof -
  have "HandleEvent env ev x = Some x"
    if "x = s \<or> x = read_wakeup_count env (su_record SuReadSuspendWakeupCount s)" for x ev
    using that assms(1,2) by (intro HandleEvent_shutting_down) (auto simp: loop_idle_def)
  then show ?thesis
    using assms(1,3)
    by (cases w) (auto simp: OnReadyForSuspend_def stays_down_def split: if_splits)
qed

lemma set_controller_fields [simp]:
  "su_state (set_controller w c s) = su_state s"
  "su_calls (set_controller w c s) = su_calls s"
  "loop_idle (set_controller w c s) = loop_idle s"
  by (cases w; simp add: loop_idle_def)+

text \<open>
  C14. A shutdown is final: once the suspender is shutting down, every further event leaves it
  shutting down and makes no call to the delegate other than reading the wakeup count; in
  particular no suspend is announced or attempted and the preparation is not undone.
\<close>

theorem Suspender_shutdown_final:
  assumes "su_Init p n m announced (Suspender (dr_Init denv DarkResume)) = Some s"
    and "run_events su_step s es = Some t" "su_state t = SHUTTING_DOWN"
    and "su_step t (env, e) = Some u"
  shows "su_state u = SHUTTING_DOWN \<and>
    (\<exists>cs. su_calls u = su_calls t @ cs \<and> set cs \<subseteq> {SuReadSuspendWakeupCount})"
proof -
  have idle: "loop_idle t"
    using su_reachable_inv [OF assms(1,2)] by (simp add: su_inv_def loop_idle_def)
  have "stays_down t u"
  proof (cases e)
    case (SuInput i)
    have "loop_idle (t\<lparr>su_suspend_request_supplied_wakeup_count := b,
        su_suspend_request_wakeup_count := w\<rparr>)" for b w
      using idle by (simp add: loop_idle_def)
    with SuInput assms(3,4) idle show ?thesis
      by (cases i) (auto simp: RequestSuspend_def RequestSuspendWithExternalWakeupCount_def
        HandleLidOpened_def su_HandleUserActivity_def HandleShutdown_def
        HandleEvent_shutting_down intro!: stays_down_same)
  next
    case (SuRegister w r sender)
    with assms(3,4) show ?thesis
      by (cases r) (auto simp: RegisterSuspendDelayInternal_def split_beta intro!: stays_down_same)
  next
    case (SuUnregister w r)
    with assms(3,4) show ?thesis
      by (cases r) (auto simp: UnregisterSuspendDelayInternal_def intro!: stays_down_same)
  next
    case (SuReadiness w r)
    with assms(3,4) show ?thesis
      by (cases r) (auto simp: HandleSuspendReadinessInternal_def intro!: stays_down_same)
  next
    case (SuWakeReason r)
    with assms(3,4) show ?thesis
      by (cases r) (auto simp: RecordDarkResumeWakeReason_def intro!: stays_down_same)
  next
    case (SuNameOwnerChanged name old_owner new_owner)
    with assms(3,4) show ?thesis
      by (auto simp: HandleDBusNameOwnerChanged_def intro!: stays_down_same)
  next
    case (SuNotifyTimer w)
    then obtain c where "u = t \<or> (\<exists>n. OnReadyForSuspend env w n (set_controller w c t) = Some u)"
      using assms(4) by (auto simp: fire_notify_def split: prod.splits option.splits)
    with assms(3) idle OnReady_shutting_down [of "set_controller w c t" env w _ u] show ?thesis
      by (auto simp: stays_down_def)
  next
    case (SuExpirationTimer w)
    with assms(3,4) show ?thesis by (auto intro!: stays_down_same)
  next
    case SuResuspendTimer
    have "loop_idle (t\<lparr>su_resuspend_timer := None\<rparr>)" using idle by (simp add: loop_idle_def)
    with SuResuspendTimer assms(3,4) show ?thesis
      by (auto simp: TriggerResuspendTimeout_def HandleEvent_shutting_down split: if_splits
        intro!: stays_down_same)
  next
    case (SuBatteryCheckTimer p)
    with assms(3,4) show ?thesis by (auto intro!: stays_down_same)
  qed
  then show ?thesis by (simp add: stays_down_def)
qed

definition example_shutdown_events :: "(su_env \<times> su_event) list" where
  "example_shutdown_events = [(example_su_env FAILURE, SuInput InShutdown)]"

theorem Suspender_shutdown_final_witness:
  "let t = the (run_events su_step example_suspender example_shutdown_events);
       u = the (su_step t (example_su_env FAILURE, SuInput InRequestSuspend))
   in su_state u = SHUTTING_DOWN \<and>
     (\<exists>cs. su_calls u = su_calls t @ cs \<and> set cs \<subseteq> {SuReadSuspendWakeupCount})"
  unfolding Let_def
  by (rule Suspender_shutdown_final [OF example_suspender,
      where es = example_shutdown_events and env = "example_su_env FAILURE"
      and e = "SuInput InRequestSuspend"]) code_simp+

section \<open>Giving up\<close>

lemma process_shutting_down:
  "su_state s = SHUTTING_DOWN \<Longrightarrow> \<exists>t. process_queued_events env s = Some t \<and>
     su_calls t = su_calls s \<and> su_state t = SHUTTING_DOWN \<and>
     su_dark_resume t = su_dark_resume s \<and> su_max_retries t = su_max_retries s"
proof (induction "su_queued_events s" arbitrary: s)
  case Nil
  then show ?case by (auto simp: process_Nil)
next
  case (Cons ev q)
  let ?t = "s\<lparr>su_queued_events := q, su_handling_event := False\<rparr>"
  have "handle_one env ev (s\<lparr>su_queued_events := q\<rparr>) = Some ?t"
    using Cons.prems by (cases ev) (simp_all add: handle_one_def)
  with Cons.hyps(1) [of ?t] Cons.prems process_Cons [OF Cons.hyps(2) [symmetric]] show ?case
    by simp
qed

definition always_fails :: "su_env \<Rightarrow> bool" where
  "always_fails env \<longleftrightarrow> daemon_like env \<and> (\<forall>cs. sue_DoSuspend env cs = FAILURE)"

text \<open>The outcome of a failed attempt: retry or give up.\<close>

definition failed_outcome :: "suspender \<Rightarrow> suspender \<Rightarrow> su_call list \<Rightarrow> bool" where
  "failed_outcome s t cs \<longleftrightarrow> su_calls t = su_calls s @ cs \<and> length (filter is_attempt cs) = 1 \<and>
     su_dark_resume t = su_dark_resume s \<and> su_max_retries t = su_max_retries s \<and>
     (if su_current_num_attempts s < su_max_retries s
      then su_state t = WAITING_TO_RESUSPEND \<and> IsRunning (su_resuspend_timer t) \<and>
        su_current_num_attempts t = su_current_num_attempts s + 1 \<and>
        SuShutDownForFailedSuspend \<notin> set cs
      else su_state t = SHUTTING_DOWN \<and> SuShutDownForFailedSuspend \<in> set cs)"

lemma suspend_now_fails:
  assumes f: "always_fails env" and dr: "dr_inv (su_dark_resume s)" "\<not> dr_enabled (su_dark_resume s)"
  shows "\<exists>t cs. suspend_now env s = Some t \<and> failed_outcome s t cs \<and>
    su_handling_event t = su_handling_event s \<and>
    su_processing_queued_events t = su_processing_queued_events s \<and>
    (su_state t = WAITING_TO_RESUSPEND \<longrightarrow> su_queued_events t = su_queued_events s)"
proof -
  have d: "daemon_like env" and fail: "sue_DoSuspend env cs = FAILURE" for cs
    using f by (simp_all add: always_fails_def)
  have dark: "\<not> dr_in_dark_resume (su_dark_resume s)" using dr by (simp add: dr_inv_def)
  define v where "v = (note_wake_duration env s)\<lparr>su_current_num_attempts :=
    su_current_num_attempts (note_wake_duration env s) + 1\<rparr>"
  define c where "c = SuDoSuspend (su_wakeup_count v) (su_wakeup_count_valid v) 0"
  define x where "x = su_record c v"
  have x: "su_calls x = su_calls s @ [c]" "su_dark_resume x = su_dark_resume s"
    "su_current_num_attempts x = su_current_num_attempts s + 1" "su_max_retries x = su_max_retries s"
    "su_queued_events x = su_queued_events s" "su_handling_event x = su_handling_event s"
    "su_processing_queued_events x = su_processing_queued_events s"
    by (simp_all add: x_def v_def note_wake_duration_def)
  have after: "after_attempt env FAILURE x = (if su_current_num_attempts s < su_max_retries s
      then (WAITING_TO_RESUSPEND, retry_failed_suspend env x)
      else (SHUTTING_DOWN, su_delegate env SuShutDownForFailedSuspend x))"
    using dark by (auto simp: after_attempt_def Let_def InDarkResume_def x)
  have s: "s\<lparr>su_dark_resume := su_dark_resume s\<rparr> = s" by simp
  have "suspend_now env s = (case after_attempt env FAILURE x of (st, t) \<Rightarrow> Some (t\<lparr>su_state := st\<rparr>))"
    using dr(2) unfolding x_def c_def v_def
    by (simp add: suspend_now_def su_Suspend_def GetActionForSuspendAttempt_def s fail Let_def
      silent_delegate [OF d])
  then show ?thesis
    using x unfolding after failed_outcome_def
    by (auto simp: retry_failed_suspend_def ScheduleResuspend_def c_def silent_delegate [OF d] Let_def
      split: if_splits)
qed

lemma HandleEvent_fails:
  assumes f: "always_fails env" and dr: "dr_inv (su_dark_resume s)" "\<not> dr_enabled (su_dark_resume s)"
    and aw: "awaited (su_state s) ev" and idle: "loop_idle s"
  shows "\<exists>t cs. HandleEvent env ev s = Some t \<and> failed_outcome s t cs"
proof -
  let ?s = "s\<lparr>su_handling_event := True\<rparr>"
  obtain t cs where t: "suspend_now env ?s = Some t" "failed_outcome ?s t cs"
    "su_processing_queued_events t = su_processing_queued_events s"
    "su_state t = WAITING_TO_RESUSPEND \<longrightarrow> su_queued_events t = su_queued_events s"
    using suspend_now_fails [OF f, of ?s] dr by auto
  let ?u = "t\<lparr>su_handling_event := False\<rparr>"
  let ?w = "?u\<lparr>su_processing_queued_events := True\<rparr>"
  have one: "handle_one env ev s = Some ?u"
    using aw t(1) by (auto simp: awaited_def handle_one_def)
  have "\<exists>y. process_queued_events env ?w = Some y \<and> failed_outcome s y cs"
  proof (cases "su_state t = SHUTTING_DOWN")
    case True
    with process_shutting_down [of ?w env] t(2) show ?thesis
      by (auto simp: failed_outcome_def split: if_splits)
  next
    case False
    then have "su_queued_events ?w = []"
      using t(2,4) idle by (auto simp: failed_outcome_def loop_idle_def split: if_splits)
    with process_Nil [of ?w env] t(2) show ?thesis
      by (auto simp: failed_outcome_def split: if_splits)
  qed
  then obtain y where y: "process_queued_events env ?w = Some y" "failed_outcome s y cs" by blast
  have "HandleEvent env ev s = Some (y\<lparr>su_processing_queued_events := False\<rparr>)"
    using one y(1) t(3) idle by (simp add: HandleEvent_def loop_idle_def)
  moreover have "failed_outcome s (y\<lparr>su_processing_queued_events := False\<rparr>) cs"
    using y(2) by (simp add: failed_outcome_def)
  ultimately show ?thesis by blast
qed

lemma resuspends_give_up:
  assumes f: "always_fails env"
  shows "su_inv k s \<Longrightarrow> su_state s = WAITING_TO_RESUSPEND \<Longrightarrow> IsRunning (su_resuspend_timer s) \<Longrightarrow>
    \<not> dr_enabled (su_dark_resume s) \<Longrightarrow> int n = su_max_retries s - su_current_num_attempts s \<Longrightarrow>
    \<exists>t cs. run_events su_step s (replicate (Suc n) (env, SuResuspendTimer)) = Some t \<and>
      su_calls t = su_calls s @ cs \<and> length (filter is_attempt cs) = Suc n \<and>
      su_state t = SHUTTING_DOWN \<and> SuShutDownForFailedSuspend \<in> set cs"
proof (induction n arbitrary: s)
  case 0
  let ?s = "s\<lparr>su_resuspend_timer := None\<rparr>"
  have dr: "dr_inv (su_dark_resume ?s)" "loop_idle ?s"
    using 0(1) by (auto simp: su_inv_def su_core_def su_core_at_def loop_idle_def)
  obtain t cs where "HandleEvent env READY_TO_RESUSPEND ?s = Some t" "failed_outcome ?s t cs"
    using HandleEvent_fails [OF f dr(1) _ _ dr(2)] 0 by (auto simp: awaited_def)
  with 0 show ?case
    by (intro exI [of _ t] exI [of _ cs])
      (auto simp: failed_outcome_def TriggerResuspendTimeout_def)
next
  case (Suc n)
  let ?s = "s\<lparr>su_resuspend_timer := None\<rparr>"
  have dr: "dr_inv (su_dark_resume ?s)" "loop_idle ?s"
    using Suc.prems(1) by (auto simp: su_inv_def su_core_def su_core_at_def loop_idle_def)
  obtain t cs where t: "HandleEvent env READY_TO_RESUSPEND ?s = Some t" "failed_outcome ?s t cs"
    using HandleEvent_fails [OF f dr(1) _ _ dr(2)] Suc.prems by (auto simp: awaited_def)
  then have step: "su_step s (env, SuResuspendTimer) = Some t"
    using Suc.prems(3) by (simp add: TriggerResuspendTimeout_def)
  have inv: "su_inv k t" by (rule sum.step_inv [OF Suc.prems(1) step])
  have lt: "su_current_num_attempts s < su_max_retries s" using Suc.prems(5) by simp
  obtain u ds where "run_events su_step t (replicate (Suc n) (env, SuResuspendTimer)) = Some u"
    "su_calls u = su_calls t @ ds" "length (filter is_attempt ds) = Suc n"
    "su_state u = SHUTTING_DOWN" "SuShutDownForFailedSuspend \<in> set ds"
    using Suc.IH [OF inv] t(2) lt Suc.prems(4,5) by (auto simp: failed_outcome_def)
  with step t(2) show ?case
    by (intro exI [of _ u] exI [of _ "cs @ ds"]) (auto simp: failed_outcome_def)
qed

text \<open>
  C13. Repeated failures end in a shutdown after exactly the configured number of attempts:
  when every attempt fails, a request whose delays are ready makes one attempt and then one
  more for each of the \<^verbatim>\<open>max_retries_\<close> firings of the resuspend timer, and with the last one
  the system is shut down for failed suspend. (Dark resume is disabled.)
\<close>

theorem failed_suspends_give_up:
  assumes "su_Init p n m announced (Suspender (dr_Init denv DarkResume)) = Some s"
    and "run_events su_step s es = Some t"
    and "su_state t = WAITING_FOR_SUSPEND_DELAYS"
    and "sdc_notify_observers_timer (su_suspend_delay_controller t) =
      Some (su_suspend_request_id t)"
    and "\<not> dr_enabled (su_dark_resume t)" "su_max_retries t = int r" "always_fails env"
  shows "\<exists>u cs. run_events su_step t ((env, SuNotifyTimer REGULAR) #
      replicate r (env, SuResuspendTimer)) = Some u \<and>
    su_calls u = su_calls t @ cs \<and> length (filter is_attempt cs) = r + 1 \<and>
    su_state u = SHUTTING_DOWN \<and> SuShutDownForFailedSuspend \<in> set cs"
proof -
  have inv: "su_inv (su_calls s) t" by (rule su_reachable_inv [OF assms(1,2)])
  have a0: "su_current_num_attempts t = 0" "dr_inv (su_dark_resume t)"
    using inv assms(3) by (auto simp: su_inv_def su_core_def su_core_at_def)
  let ?t = "t\<lparr>su_suspend_delay_controller :=
    snd (NotifyObservers (su_suspend_delay_controller t))\<rparr>"
  have ready: "OnReadyForSuspend env REGULAR (su_suspend_request_id t) ?t =
      HandleEvent env SUSPEND_DELAYS_READY ?t" "loop_idle ?t"
    using OnReady_regular [OF inv assms(4), of env] by (simp_all add: ready_for_def)
  obtain u cs where u: "HandleEvent env SUSPEND_DELAYS_READY ?t = Some u" "failed_outcome ?t u cs"
    using HandleEvent_fails [OF assms(7) _ _ _ ready(2)] a0 assms(3,5) by (auto simp: awaited_def)
  have step: "su_step t (env, SuNotifyTimer REGULAR) = Some u"
    using assms(4) ready(1) u(1) by (simp add: fire_notify_def NotifyObservers_def)
  have inv': "su_inv (su_calls s) u" by (rule sum.step_inv [OF inv step])
  show ?thesis
  proof (cases r)
    case 0
    with step u(2) a0 assms(6) show ?thesis
      by (intro exI [of _ u] exI [of _ cs]) (auto simp: failed_outcome_def)
  next
    case (Suc l)
    then obtain w ds where "run_events su_step u (replicate r (env, SuResuspendTimer)) = Some w"
      "su_calls w = su_calls u @ ds" "length (filter is_attempt ds) = r"
      "su_state w = SHUTTING_DOWN" "SuShutDownForFailedSuspend \<in> set ds"
      using resuspends_give_up [OF assms(7) inv', of l] u(2) a0 assms(5,6)
      by (auto simp: failed_outcome_def)
    with step u(2) show ?thesis
      by (intro exI [of _ w] exI [of _ "cs @ ds"]) (auto simp: failed_outcome_def)
  qed
qed

definition example_ready_events :: "(su_env \<times> su_event) list" where
  "example_ready_events = example_su_events @
     [(example_su_env FAILURE, SuReadiness REGULAR (Some (65537, 65537)))]"

definition example_ready :: suspender where
  "example_ready = the (run_events su_step example_suspender example_ready_events)"

theorem failed_suspends_give_up_witness:
  "\<exists>u cs. run_events su_step example_ready ((example_su_env FAILURE, SuNotifyTimer REGULAR) #
      replicate 2 (example_su_env FAILURE, SuResuspendTimer)) = Some u \<and>
    su_calls u = su_calls example_ready @ cs \<and> length (filter is_attempt cs) = 2 + 1 \<and>
    su_state u = SHUTTING_DOWN \<and> SuShutDownForFailedSuspend \<in> set cs"
proof (rule failed_suspends_give_up [OF example_suspender, where es = example_ready_events])
  show "always_fails (example_su_env FAILURE)"
    using example_daemon_like by (simp add: always_fails_def example_su_env_def)
qed code_simp+

end
