(* ===== verification/Prefs_Store.thy ===== *)
theory Prefs_Store
  imports Powerd_Prelude "HOL-Library.List_Lexorder" "HOL-Library.Char_ord"
begin

text \<open>
  Preferences (\<^verbatim>\<open>src/power_manager/common/prefs.{h,cc}\<close>) and their in-memory stand-in
  (\<^verbatim>\<open>src/power_manager/common/fake_prefs.{h,cc}\<close>).

  A preference is a file; the directories of \<^verbatim>\<open>pref_paths_\<close> are searched in order, and a
  value that was set but not written yet replaces the file in the first one. What comes from
  libchrome is in \<open>libs\<close>: path operations, whitespace trimming, the text conversions (a
  parser returns its success flag and the value it stores, which it does also on failure) and
  \<^verbatim>\<open>WriteFile()\<close>. The file system the process sees is the field \<open>p_files\<close>; watchers and
  observers are the names watched and the names reported.
\<close>

section \<open>State\<close>

type_synonym files = "string \<Rightarrow> string option"

record libs =
  lib_Append :: "string \<Rightarrow> string \<Rightarrow> string"
  lib_BaseName :: "string \<Rightarrow> string"
  lib_TrimTrailing :: "string \<Rightarrow> string"
  lib_StringToInt64 :: "string \<Rightarrow> bool \<times> int"
  lib_StringToDouble :: "string \<Rightarrow> bool \<times> rat"
  lib_Int64ToString :: "int \<Rightarrow> string"
  lib_DoubleToString :: "rat \<Rightarrow> string"
  lib_WriteFile :: "string \<Rightarrow> string \<Rightarrow> files \<Rightarrow> bool \<times> files"

record prefs_store =
  p_files :: files
  p_notified :: "string list"
  p_pref_paths :: "string list"
  p_file_watchers :: "(string \<times> unit) list"
  p_write_prefs_timer :: OneShotTimer
  p_prefs_to_write :: "(string \<times> string) list"
  p_last_write_time :: TimeTicks
  p_write_interval :: TimeDelta

definition kDefaultWriteIntervalMs :: int where
  "kDefaultWriteIntervalMs = 1000"

definition Prefs :: "files \<Rightarrow> prefs_store" where
  "Prefs fs = \<lparr>p_files = fs, p_notified = [], p_pref_paths = [], p_file_watchers = [],
     p_write_prefs_timer = None, p_prefs_to_write = [], p_last_write_time = 0,
     p_write_interval = FromMilliseconds kDefaultWriteIntervalMs\<rparr>"

text \<open>\<^verbatim>\<open>CHECK(!pref_paths.empty())\<close>; the result of \<^verbatim>\<open>Watch()\<close> is passed on.\<close>

definition p_Init :: "bool \<Rightarrow> string list \<Rightarrow> prefs_store \<Rightarrow> (bool \<times> prefs_store) option" where
  "p_Init watched pref_paths p =
     (if pref_paths = [] then None else Some (watched, p\<lparr>p_pref_paths := pref_paths\<rparr>))"

section \<open>Reading\<close>

definition read_pref_file ::
  "libs \<Rightarrow> prefs_store \<Rightarrow> string \<Rightarrow> bool \<Rightarrow> string \<Rightarrow> string option" where
  "read_pref_file L p name is_first dir =
     (case (if is_first then map_of (p_prefs_to_write p) name else None) of
        Some buf \<Rightarrow> Some buf
      | None \<Rightarrow> p_files p (lib_Append L dir name))"

fun read_pref_paths ::
  "libs \<Rightarrow> prefs_store \<Rightarrow> string \<Rightarrow> bool \<Rightarrow> bool \<Rightarrow> string list \<Rightarrow> (string \<times> string) list" where
  "read_pref_paths L p name read_all is_first [] = []"
| "read_pref_paths L p name read_all is_first (dir # dirs) =
     (case read_pref_file L p name is_first dir of
        None \<Rightarrow> read_pref_paths L p name read_all False dirs
      | Some buf \<Rightarrow> (lib_Append L dir name, lib_TrimTrailing L buf) #
          (if read_all then read_pref_paths L p name read_all False dirs else []))"

definition GetPrefStrings ::
  "libs \<Rightarrow> string \<Rightarrow> bool \<Rightarrow> prefs_store \<Rightarrow> (string \<times> string) list" where
  "GetPrefStrings L name read_all p = read_pref_paths L p name read_all True (p_pref_paths p)"

definition p_GetString :: "libs \<Rightarrow> string \<Rightarrow> string \<Rightarrow> prefs_store \<Rightarrow> bool \<times> string" where
  "p_GetString L name buf p =
     (case GetPrefStrings L name False p of [] \<Rightarrow> (False, buf) | r # _ \<Rightarrow> (True, snd r))"

text \<open>The loop of the numeric getters: each attempt stores what the parser stores.\<close>

fun parse_results :: "(string \<Rightarrow> bool \<times> 'a) \<Rightarrow> 'a \<Rightarrow> (string \<times> string) list \<Rightarrow> bool \<times> 'a" where
  "parse_results parse v [] = (False, v)"
| "parse_results parse v (r # rs) =
     (case parse (snd r) of
        (True, w) \<Rightarrow> (True, w)
      | (False, w) \<Rightarrow> parse_results parse w rs)"

definition p_GetInt64 :: "libs \<Rightarrow> string \<Rightarrow> int \<Rightarrow> prefs_store \<Rightarrow> bool \<times> int" where
  "p_GetInt64 L name v p = parse_results (lib_StringToInt64 L) v (GetPrefStrings L name True p)"

definition p_GetDouble :: "libs \<Rightarrow> string \<Rightarrow> rat \<Rightarrow> prefs_store \<Rightarrow> bool \<times> rat" where
  "p_GetDouble L name v p = parse_results (lib_StringToDouble L) v (GetPrefStrings L name True p)"

definition p_GetBool :: "libs \<Rightarrow> string \<Rightarrow> bool \<Rightarrow> prefs_store \<Rightarrow> bool \<times> bool" where
  "p_GetBool L name v p =
     (case p_GetInt64 L name 0 p of (False, _) \<Rightarrow> (False, v) | (True, i) \<Rightarrow> (True, i \<noteq> 0))"

section \<open>Writing\<close>

text \<open>
  A failed \<^verbatim>\<open>WriteFile()\<close> is only logged: the value is dropped with the others. \<open>now\<close> is
  the clock at \<^verbatim>\<open>ScheduleWrite()\<close> and \<open>now'\<close> the clock after the files are written.
\<close>

definition write_pref :: "libs \<Rightarrow> string \<Rightarrow> string \<times> string \<Rightarrow> files \<Rightarrow> files" where
  "write_pref L dir = (\<lambda>(name, value) fs. snd (lib_WriteFile L (lib_Append L dir name) value fs))"

definition WritePrefs :: "libs \<Rightarrow> TimeTicks \<Rightarrow> prefs_store \<Rightarrow> prefs_store option" where
  "WritePrefs L now' p =
     (case p_pref_paths p of
        [] \<Rightarrow> None
      | dir # _ \<Rightarrow> Some (p\<lparr>p_files := fold (write_pref L dir) (p_prefs_to_write p) (p_files p),
          p_prefs_to_write := [], p_last_write_time := now'\<rparr>))"

definition ScheduleWrite ::
  "libs \<Rightarrow> TimeTicks \<times> TimeTicks \<Rightarrow> prefs_store \<Rightarrow> prefs_store option" where
  "ScheduleWrite L = (\<lambda>(now, now') p.
     let time_since_last_write = now - p_last_write_time p in
     if p_last_write_time p = 0 \<or> time_since_last_write \<ge> p_write_interval p
     then WritePrefs L now' p
     else if \<not> IsRunning (p_write_prefs_timer p)
     then Some (p\<lparr>p_write_prefs_timer := Some (p_write_interval p - time_since_last_write)\<rparr>)
     else Some p)"

definition p_SetString ::
  "libs \<Rightarrow> TimeTicks \<times> TimeTicks \<Rightarrow> string \<Rightarrow> string \<Rightarrow> prefs_store \<Rightarrow> prefs_store option" where
  "p_SetString L clk name value p =
     ScheduleWrite L clk (p\<lparr>p_prefs_to_write := map_assign name value (p_prefs_to_write p)\<rparr>)"

definition p_SetInt64 ::
  "libs \<Rightarrow> TimeTicks \<times> TimeTicks \<Rightarrow> string \<Rightarrow> int \<Rightarrow> prefs_store \<Rightarrow> prefs_store option" where
  "p_SetInt64 L clk name value p =
     ScheduleWrite L clk (p\<lparr>p_prefs_to_write :=
       map_assign name (lib_Int64ToString L value) (p_prefs_to_write p)\<rparr>)"

definition p_SetDouble ::
  "libs \<Rightarrow> TimeTicks \<times> TimeTicks \<Rightarrow> string \<Rightarrow> rat \<Rightarrow> prefs_store \<Rightarrow> prefs_store option" where
  "p_SetDouble L clk name value p =
     ScheduleWrite L clk (p\<lparr>p_prefs_to_write :=
       map_assign name (lib_DoubleToString L value) (p_prefs_to_write p)\<rparr>)"

definition TriggerWriteTimeout :: "libs \<Rightarrow> TimeTicks \<Rightarrow> prefs_store \<Rightarrow> prefs_store option" where
  "TriggerWriteTimeout L now' p =
     (if IsRunning (p_write_prefs_timer p)
      then WritePrefs L now' (p\<lparr>p_write_prefs_timer := None\<rparr>) else Some p)"

definition p_destroy :: "libs \<Rightarrow> TimeTicks \<Rightarrow> prefs_store \<Rightarrow> prefs_store option" where
  "p_destroy L now' p =
     (if IsRunning (p_write_prefs_timer p) then WritePrefs L now' p else Some p)"

section \<open>Watching\<close>

text \<open>
  \<open>listing\<close> is what the file enumerator returns for the directory and \<open>watch\<close> the result of
  \<^verbatim>\<open>Watch()\<close> for a path. \<^verbatim>\<open>current_prefs\<close> is an ordered set.
\<close>

definition p_notify :: "string \<Rightarrow> prefs_store \<Rightarrow> prefs_store" where
  "p_notify name p = p\<lparr>p_notified := p_notified p @ [name]\<rparr>"

definition start_watching ::
  "libs \<Rightarrow> (string \<Rightarrow> bool) \<Rightarrow> string \<Rightarrow> string \<Rightarrow> prefs_store \<Rightarrow> prefs_store" where
  "start_watching L watch dir name p = p_notify name
     (if watch (lib_Append L dir name)
      then p\<lparr>p_file_watchers := map_insert name () (p_file_watchers p)\<rparr> else p)"

definition stop_watching :: "string \<Rightarrow> prefs_store \<Rightarrow> prefs_store" where
  "stop_watching name p = p_notify name
     (p\<lparr>p_file_watchers := map_erase name (p_file_watchers p)\<rparr>)"

definition UpdateFileWatchers ::
  "libs \<Rightarrow> (string \<Rightarrow> bool) \<Rightarrow> string list \<Rightarrow> string \<Rightarrow> prefs_store \<Rightarrow> prefs_store" where
  "UpdateFileWatchers L watch listing dir p =
     (let current_prefs = sorted_list_of_set (set (map (lib_BaseName L) listing));
          added_prefs = filter (\<lambda>n. \<not> map_count n (p_file_watchers p)) current_prefs;
          removed_prefs = filter (\<lambda>n. n \<notin> set current_prefs) (map fst (p_file_watchers p))
      in fold stop_watching removed_prefs (fold (start_watching L watch dir) added_prefs p))"

text \<open>\<^verbatim>\<open>pref_paths_[0]\<close> of an empty vector is undefined behaviour: \<open>None\<close>.\<close>

definition HandleFileChanged ::
  "libs \<Rightarrow> (string \<Rightarrow> bool) \<Rightarrow> string list \<Rightarrow> string \<Rightarrow> bool \<Rightarrow> prefs_store \<Rightarrow> prefs_store option"
  where
  "HandleFileChanged L watch listing path error p =
     (if error then Some p
      else case p_pref_paths p of
        [] \<Rightarrow> None
      | dir # _ \<Rightarrow> Some (if path = dir then UpdateFileWatchers L watch listing path p
                          else p_notify (lib_BaseName L path) p))"

section \<open>The in-memory stand-in\<close>

record fake_prefs =
  fp_notified :: "string list"
  fp_int64_prefs :: "(string \<times> int) list"
  fp_double_prefs :: "(string \<times> rat) list"
  fp_string_prefs :: "(string \<times> string) list"

definition FakePrefs :: fake_prefs where
  "FakePrefs = \<lparr>fp_notified = [], fp_int64_prefs = [], fp_double_prefs = [], fp_string_prefs = []\<rparr>"

definition Unset :: "string \<Rightarrow> fake_prefs \<Rightarrow> fake_prefs" where
  "Unset name f = f\<lparr>fp_int64_prefs := map_erase name (fp_int64_prefs f),
     fp_double_prefs := map_erase name (fp_double_prefs f),
     fp_string_prefs := map_erase name (fp_string_prefs f)\<rparr>"

definition fp_NotifyObservers :: "string \<Rightarrow> fake_prefs \<Rightarrow> fake_prefs" where
  "fp_NotifyObservers name f = f\<lparr>fp_notified := fp_notified f @ [name]\<rparr>"

definition fp_lookup :: "'v \<Rightarrow> ('k \<times> 'v) list \<Rightarrow> 'k \<Rightarrow> bool \<times> 'v" where
  "fp_lookup old m name = (case map_of m name of None \<Rightarrow> (False, old) | Some v \<Rightarrow> (True, v))"

definition fp_GetString :: "string \<Rightarrow> string \<Rightarrow> fake_prefs \<Rightarrow> bool \<times> string" where
  "fp_GetString name v f = fp_lookup v (fp_string_prefs f) name"

definition fp_GetInt64 :: "string \<Rightarrow> int \<Rightarrow> fake_prefs \<Rightarrow> bool \<times> int" where
  "fp_GetInt64 name v f = fp_lookup v (fp_int64_prefs f) name"

definition fp_GetDouble :: "string \<Rightarrow> rat \<Rightarrow> fake_prefs \<Rightarrow> bool \<times> rat" where
  "fp_GetDouble name v f = fp_lookup v (fp_double_prefs f) name"

definition fp_GetBool :: "string \<Rightarrow> bool \<Rightarrow> fake_prefs \<Rightarrow> bool \<times> bool" where
  "fp_GetBool name v f =
     (case fp_GetInt64 name 0 f of (False, _) \<Rightarrow> (False, v) | (True, i) \<Rightarrow> (True, i \<noteq> 0))"

definition fp_SetString :: "string \<Rightarrow> string \<Rightarrow> fake_prefs \<Rightarrow> fake_prefs" where
  "fp_SetString name value f = (let g = Unset name f in
     g\<lparr>fp_string_prefs := map_assign name value (fp_string_prefs g)\<rparr>)"

definition fp_SetInt64 :: "string \<Rightarrow> int \<Rightarrow> fake_prefs \<Rightarrow> fake_prefs" where
  "fp_SetInt64 name value f = (let g = Unset name f in
     g\<lparr>fp_int64_prefs := map_assign name value (fp_int64_prefs g)\<rparr>)"

definition fp_SetDouble :: "string \<Rightarrow> rat \<Rightarrow> fake_prefs \<Rightarrow> fake_prefs" where
  "fp_SetDouble name value f = (let g = Unset name f in
     g\<lparr>fp_double_prefs := map_assign name value (fp_double_prefs g)\<rparr>)"

end
