(* ===== verification/Prefs_Proofs.thy ===== *)
theory Prefs_Proofs
  imports Prefs_Store
begin

text \<open>
  What the preference stores promise: a value that was set is read back, whether or not it
  has reached the disk yet (the class comment of \<^verbatim>\<open>PrefsInterface\<close>), pending values always
  have a write scheduled, and the set of watched files follows the directory.
\<close>

section \<open>The interface\<close>

text \<open>
  A store of integers, as the clients of \<^verbatim>\<open>PrefsInterface\<close> use it: \<open>ok\<close> holds of the states
  and \<open>name\<close> of the preference names the laws are promised for; \<open>'t\<close> is what a call reads
  besides its arguments.
\<close>

locale int_prefs =
  fixes set_int :: "'t \<Rightarrow> string \<Rightarrow> int \<Rightarrow> 's \<Rightarrow> 's"
    and get_int :: "'s \<Rightarrow> string \<Rightarrow> int option"
    and ok :: "'s \<Rightarrow> bool"
    and name :: "string \<Rightarrow> bool"
  assumes set_ok: "ok s \<Longrightarrow> name n \<Longrightarrow> ok (set_int t n v s)"
    and get_set: "ok s \<Longrightarrow> name n \<Longrightarrow> name m \<Longrightarrow>
      get_int (set_int t n v s) m = (if m = n then Some v else get_int s m)"
begin

lemma last_write_wins:
  "ok s \<Longrightarrow> \<forall>(t, n, v) \<in> set ws. name n \<Longrightarrow> name m \<Longrightarrow>
     get_int (fold (\<lambda>(t, n, v). set_int t n v) ws s) m =
     (case map_of (rev (map snd ws)) m of Some v \<Rightarrow> Some v | None \<Rightarrow> get_int s m)"
proof (induction ws arbitrary: s)
  case (Cons w ws)
  obtain t n v where w: "w = (t, n, v)" by (cases w)
  then have n: "name n" using Cons.prems(2) by simp
  have "get_int (fold (\<lambda>(t, n, v). set_int t n v) ws (set_int t n v s)) m =
      (case map_of (rev (map snd ws)) m of Some v \<Rightarrow> Some v | None \<Rightarrow> get_int (set_int t n v s) m)"
    using Cons.prems by (intro Cons.IH set_ok [OF _ n]) auto
  with get_set [OF Cons.prems(1) n Cons.prems(3), of t v] show ?case
    by (simp add: w map_add_def split: option.splits)
qed simp

end

section \<open>The stand-in\<close>

definition found :: "bool \<times> 'a \<Rightarrow> 'a option" where
  "found r = (if fst r then Some (snd r) else None)"

lemma fp_lookup_found [simp]: "found (fp_lookup v m n) = map_of m n"
  by (simp add: fp_lookup_def found_def split: option.splits)

interpretation fake: int_prefs "\<lambda>_ n v. fp_SetInt64 n v" "\<lambda>f n. found (fp_GetInt64 n 0 f)"
  "\<lambda>_. True" "\<lambda>_. True"
  by unfold_locales
    (auto simp: fp_GetInt64_def fp_SetInt64_def Unset_def map_assign_facts map_erase_facts)

section \<open>What libchrome promises\<close>

definition is_name :: "string \<Rightarrow> bool" where
  "is_name n \<longleftrightarrow> n \<noteq> [] \<and> CHR ''/'' \<notin> set n"

text \<open>Files of different names, or in different directories of the list, are different files.\<close>

definition path_laws :: "libs \<Rightarrow> string list \<Rightarrow> bool" where
  "path_laws L dirs \<longleftrightarrow> dirs \<noteq> [] \<and> distinct dirs \<and>
     (\<forall>d \<in> set dirs. \<forall>e \<in> set dirs. \<forall>m n. is_name m \<longrightarrow> is_name n \<longrightarrow>
        lib_Append L d m = lib_Append L e n \<longrightarrow> d = e \<and> m = n)"

definition writes_succeed :: "libs \<Rightarrow> bool" where
  "writes_succeed L \<longleftrightarrow> (\<forall>path v fs. lib_WriteFile L path v fs = (True, fs(path \<mapsto> v)))"

definition int64_text_laws :: "libs \<Rightarrow> bool" where
  "int64_text_laws L \<longleftrightarrow>
     (\<forall>v. lib_StringToInt64 L (lib_TrimTrailing L (lib_Int64ToString L v)) = (True, v))"

lemma path_lawsD:
  "path_laws L dirs \<Longrightarrow> d \<in> set dirs \<Longrightarrow> e \<in> set dirs \<Longrightarrow> is_name m \<Longrightarrow> is_name n \<Longrightarrow>
     lib_Append L d m = lib_Append L e n \<longleftrightarrow> d = e \<and> m = n"
  by (auto simp: path_laws_def)

section \<open>Values before they are written\<close>

text \<open>The text of a preference in the first directory, pending or on disk.\<close>

definition front :: "libs \<Rightarrow> prefs_store \<Rightarrow> string \<Rightarrow> string option" where
  "front L p name =
     (if is_name name then read_pref_file L p name True (hd (p_pref_paths p)) else None)"

definition pending_ok :: "libs \<Rightarrow> prefs_store \<Rightarrow> bool" where
  "pending_ok L p \<longleftrightarrow> path_laws L (p_pref_paths p) \<and> distinct (map fst (p_prefs_to_write p)) \<and>
     (\<forall>n \<in> fst ` set (p_prefs_to_write p). is_name n)"

definition scheduled :: "prefs_store \<Rightarrow> bool" where
  "scheduled p \<longleftrightarrow> (p_prefs_to_write p \<noteq> [] \<longrightarrow> IsRunning (p_write_prefs_timer p))"

text \<open>What a store shows of the directories after the first.\<close>

definition same_rest :: "libs \<Rightarrow> prefs_store \<Rightarrow> prefs_store \<Rightarrow> bool" where
  "same_rest L p q \<longleftrightarrow> p_pref_paths q = p_pref_paths p \<and>
     (\<forall>d \<in> set (tl (p_pref_paths p)). \<forall>n. is_name n \<longrightarrow>
        p_files q (lib_Append L d n) = p_files p (lib_Append L d n))"

lemma same_rest_refl [simp]: "same_rest L p p"
  by (simp add: same_rest_def)

lemma same_rest_trans [trans]: "same_rest L p q \<Longrightarrow> same_rest L q r \<Longrightarrow> same_rest L p r"
  by (simp add: same_rest_def)

lemma write_pref_at:
  assumes "writes_succeed L" "path_laws L dirs" "dir \<in> set dirs" "d \<in> set dirs" "is_name m" "is_name n"
  shows "write_pref L dir (m, v) fs (lib_Append L d n) =
    (if d = dir \<and> n = m then Some v else fs (lib_Append L d n))"
  using assms(1) path_lawsD [OF assms(2,4,3,6,5)] by (simp add: write_pref_def writes_succeed_def)

lemma fold_write_pref:
  assumes L: "writes_succeed L" "path_laws L dirs" "dir \<in> set dirs" "d \<in> set dirs" "is_name n"
  shows "distinct (map fst ws) \<Longrightarrow> \<forall>m \<in> fst ` set ws. is_name m \<Longrightarrow>
    fold (write_pref L dir) ws fs (lib_Append L d n) =
    (case (if d = dir then map_of ws n else None) of Some v \<Rightarrow> Some v
     | None \<Rightarrow> fs (lib_Append L d n))"
proof (induction ws arbitrary: fs)
  case (Cons w ws)
  obtain m v where w: "w = (m, v)" by (cases w)
  then have "is_name m" "map_of ws m = None" using Cons.prems by (simp_all add: map_of_eq_None_iff)
  with Cons.IH [of "write_pref L dir w fs"] Cons.prems write_pref_at [OF L(1-4), of m n v fs] L(5)
  show ?case by (cases "map_of ws n") (auto simp: w)
qed simp

lemma WritePrefs_front:
  assumes "writes_succeed L" "pending_ok L p"
  shows "\<exists>q. WritePrefs L now' p = Some q \<and> front L q = front L p \<and> same_rest L p q \<and>
    p_prefs_to_write q = [] \<and> p_write_prefs_timer q = p_write_prefs_timer p"
proof -
  have pl: "path_laws L (p_pref_paths p)" and ws: "distinct (map fst (p_prefs_to_write p))"
    "\<forall>m \<in> fst ` set (p_prefs_to_write p). is_name m"
    using assms(2) by (auto simp: pending_ok_def)
  obtain dir ds where ds: "p_pref_paths p = dir # ds"
    using pl by (cases "p_pref_paths p") (auto simp: path_laws_def)
  have "fold (write_pref L dir) (p_prefs_to_write p) (p_files p) (lib_Append L d n) =
      (case (if d = dir then map_of (p_prefs_to_write p) n else None) of Some v \<Rightarrow> Some v
       | None \<Rightarrow> p_files p (lib_Append L d n))" if "d \<in> set (dir # ds)" "is_name n" for d n
    using fold_write_pref [OF assms(1) pl _ _ that(2) ws] that(1) ds by auto
  moreover have "dir \<notin> set ds" using pl by (simp add: path_laws_def ds)
  ultimately show ?thesis
    by (auto simp: WritePrefs_def front_def read_pref_file_def same_rest_def ds fun_eq_iff)
qed

lemma ScheduleWrite_front:
  assumes "writes_succeed L" "pending_ok L p"
  shows "\<exists>q. ScheduleWrite L clk p = Some q \<and> front L q = front L p \<and> same_rest L p q \<and>
    pending_ok L q \<and> scheduled q"
proof (cases clk)
  case (Pair now now')
  show ?thesis
  proof (cases "p_last_write_time p = 0 \<or> now - p_last_write_time p \<ge> p_write_interval p")
    case True
    with WritePrefs_front [OF assms] obtain q where q: "ScheduleWrite L clk p = Some q"
      "front L q = front L p" "p_prefs_to_write q = []" "same_rest L p q"
      by (auto simp: Pair ScheduleWrite_def Let_def)
    then have "pending_ok L q" "scheduled q"
      using assms(2) by (simp_all add: pending_ok_def scheduled_def same_rest_def)
    with q show ?thesis by blast
  next
    case False
    then show ?thesis using assms(2)
      by (simp add: Pair ScheduleWrite_def Let_def pending_ok_def scheduled_def same_rest_def
        front_def read_pref_file_def fun_eq_iff split: option.split)
  qed
qed

lemma set_front:
  assumes "writes_succeed L" "pending_ok L p" "is_name n"
  shows "\<exists>q. ScheduleWrite L clk (p\<lparr>p_prefs_to_write := map_assign n v (p_prefs_to_write p)\<rparr>) = Some q \<and>
    front L q = (front L p)(n \<mapsto> v) \<and> same_rest L p q \<and> pending_ok L q \<and> scheduled q"
proof -
  define r where "r = p\<lparr>p_prefs_to_write := map_assign n v (p_prefs_to_write p)\<rparr>"
  have "pending_ok L r" using assms(2,3)
    by (auto simp: r_def pending_ok_def map_assign_facts)
  moreover have "front L r = (front L p)(n \<mapsto> v)" "same_rest L p r" using assms(3)
    by (auto simp: r_def front_def read_pref_file_def same_rest_def map_assign_facts fun_eq_iff
      split: option.split)
  ultimately show ?thesis
    using ScheduleWrite_front [OF assms(1), of r clk] same_rest_trans by (auto simp: r_def [symmetric])
qed

lemma timer_front:
  assumes "writes_succeed L" "pending_ok L p" "scheduled p"
  shows "\<exists>q. TriggerWriteTimeout L now' p = Some q \<and> front L q = front L p \<and> same_rest L p q \<and>
    pending_ok L q \<and> p_prefs_to_write q = []"
proof (cases "IsRunning (p_write_prefs_timer p)")
  case True
  define r where "r = p\<lparr>p_write_prefs_timer := None\<rparr>"
  have r: "pending_ok L r" "front L r = front L p" "same_rest L p r"
    using assms(2) by (auto simp: r_def pending_ok_def front_def read_pref_file_def same_rest_def
      fun_eq_iff split: option.split)
  from WritePrefs_front [OF assms(1) r(1), of now'] obtain q where
    q: "WritePrefs L now' r = Some q" "front L q = front L r" "same_rest L r q" "p_prefs_to_write q = []"
    by blast
  then have "pending_ok L q" using r(1) by (simp add: pending_ok_def same_rest_def)
  with q r True same_rest_trans [OF r(3) q(3)] show ?thesis
    by (simp add: TriggerWriteTimeout_def r_def)
next
  case False
  then show ?thesis using assms(2,3) by (auto simp: TriggerWriteTimeout_def scheduled_def)
qed

section \<open>Refinement of a map\<close>

text \<open>
  The operations on the values, as the event loop runs them: the setters and the write timer.
\<close>

datatype p_event = PSetString string string | PSetInt64 string int | PSetDouble string rat
  | PWriteTimer

fun p_step :: "libs \<Rightarrow> prefs_store \<Rightarrow> (TimeTicks \<times> TimeTicks) \<times> p_event \<Rightarrow> prefs_store option" where
  "p_step L p (clk, PSetString n v) = p_SetString L clk n v p"
| "p_step L p (clk, PSetInt64 n v) = p_SetInt64 L clk n v p"
| "p_step L p (clk, PSetDouble n v) = p_SetDouble L clk n v p"
| "p_step L p (clk, PWriteTimer) = TriggerWriteTimeout L (snd clk) p"

text \<open>The specification: a finite map of texts, and the text each setter stores.\<close>

fun spec_step :: "libs \<Rightarrow> p_event \<Rightarrow> (string \<Rightarrow> string option) \<Rightarrow> string \<Rightarrow> string option" where
  "spec_step L (PSetString n v) m = m(n \<mapsto> v)"
| "spec_step L (PSetInt64 n v) m = m(n \<mapsto> lib_Int64ToString L v)"
| "spec_step L (PSetDouble n v) m = m(n \<mapsto> lib_DoubleToString L v)"
| "spec_step L PWriteTimer m = m"

fun names_ok :: "p_event \<Rightarrow> bool" where
  "names_ok (PSetString n v) = is_name n"
| "names_ok (PSetInt64 n v) = is_name n"
| "names_ok (PSetDouble n v) = is_name n"
| "names_ok PWriteTimer = True"

lemmas set_defs = p_SetString_def p_SetInt64_def p_SetDouble_def

lemma p_step_refines:
  assumes "writes_succeed L" "pending_ok L p" "scheduled p" "names_ok (snd e)"
  shows "\<exists>q. p_step L p e = Some q \<and> front L q = spec_step L (snd e) (front L p) \<and>
    pending_ok L q \<and> scheduled q"
proof -
  obtain clk ev where e: "e = (clk, ev)" by (cases e)
  show ?thesis
  proof (cases ev)
    case PWriteTimer
    with timer_front [OF assms(1-3), of "snd clk"] show ?thesis by (auto simp: e scheduled_def)
  next
    case (PSetString n v)
    with set_front [OF assms(1,2), of n clk v] assms(4) show ?thesis by (auto simp: e set_defs)
  next
    case (PSetInt64 n v)
    with set_front [OF assms(1,2), of n clk "lib_Int64ToString L v"] assms(4) show ?thesis
      by (auto simp: e set_defs)
  next
    case (PSetDouble n v)
    with set_front [OF assms(1,2), of n clk "lib_DoubleToString L v"] assms(4) show ?thesis
      by (auto simp: e set_defs)
  qed
qed

definition p_inv :: "libs \<Rightarrow> prefs_store \<Rightarrow> bool" where
  "p_inv L p \<longleftrightarrow> writes_succeed L \<and> pending_ok L p \<and> scheduled p"

interpretation pm: refining_machine "p_step L" "p_inv L" "\<lambda>e. names_ok (snd e)" "front L"
  "\<lambda>e. spec_step L (snd e)" for L
proof
  fix p q and e :: "(TimeTicks \<times> TimeTicks) \<times> p_event"
  assume inv: "p_inv L p" and e: "names_ok (snd e)"
  note step = p_step_refines [OF _ _ _ e, of L p]
  show "\<exists>q. p_step L p e = Some q \<and> p_inv L q" using step inv by (auto simp: p_inv_def)
  show "front L q = spec_step L (snd e) (front L p)" if "p_step L p e = Some q"
    using step inv that by (auto simp: p_inv_def)
qed

lemma GetString_front:
  assumes "pending_ok L p" "front L p n = Some v"
  shows "p_GetString L n old p = (True, lib_TrimTrailing L v)"
  using assms by (cases "p_pref_paths p")
    (auto simp: p_GetString_def GetPrefStrings_def front_def pending_ok_def path_laws_def split: if_splits)


text \<open>An example of the libraries, for the witnesses: integers are written in unary.\<close>

definition example_libs :: libs where
  "example_libs = \<lparr>lib_Append = (\<lambda>d n. d @ CHR ''/'' # n), lib_BaseName = (\<lambda>s. s),
     lib_TrimTrailing = (\<lambda>s. s),
     lib_StringToInt64 = (\<lambda>s. (s \<noteq> [] \<and> hd s \<in> {CHR ''-'', CHR ''+''},
       if s \<noteq> [] \<and> hd s = CHR ''-'' then - int (length (tl s)) else int (length (tl s)))),
     lib_StringToDouble = (\<lambda>s. (True, of_nat (length s))),
     lib_Int64ToString = (\<lambda>i. (if i < 0 then CHR ''-'' else CHR ''+'') # replicate (nat \<bar>i\<bar>) CHR ''1''),
     lib_DoubleToString = (\<lambda>r. replicate (nat \<lfloor>r\<rfloor>) CHR ''1''),
     lib_WriteFile = (\<lambda>path v fs. (True, fs(path \<mapsto> v)))\<rparr>"

lemma example_append:
  assumes "is_name m" "is_name n" "d @ CHR ''/'' # m = e @ CHR ''/'' # n"
  shows "d = e \<and> m = n"
proof -
  have "takeWhile (\<lambda>c. c \<noteq> CHR ''/'') (rev (x @ CHR ''/'' # k)) = rev k" if "is_name k" for x k
    using that by (auto simp: is_name_def takeWhile_append)
  from this [OF assms(1), of d] this [OF assms(2), of e] assms(3) have "rev m = rev n" by metis
  with assms(3) show ?thesis by simp
qed

lemma example_libs_laws:
  "path_laws example_libs [''/var'', ''/usr'']" "writes_succeed example_libs"
  "int64_text_laws example_libs"
proof -
  have "lib_Append example_libs = (\<lambda>d n. d @ CHR ''/'' # n)" by (simp add: example_libs_def)
  then show "path_laws example_libs [''/var'', ''/usr'']"
    unfolding path_laws_def using example_append by (intro conjI ballI allI impI) (simp, simp, metis+)
qed (simp_all add: writes_succeed_def int64_text_laws_def example_libs_def)

definition example_store :: prefs_store where
  "example_store = (Prefs (\<lambda>_. None))\<lparr>p_pref_paths := [''/var'', ''/usr'']\<rparr>"

lemma example_store_ok: "pending_ok example_libs example_store" "scheduled example_store"
  using example_libs_laws(1) by (simp_all add: pending_ok_def scheduled_def example_store_def Prefs_def)

definition example_p_events :: "((TimeTicks \<times> TimeTicks) \<times> p_event) list" where
  "example_p_events = [((5000000, 5000001), PSetString ''a'' ''x''),
     ((5000002, 5000003), PSetInt64 ''a'' 3), ((5000004, 5000005), PSetString ''b'' ''y'')]"


section \<open>Integers\<close>

text \<open>
  The store as its integer clients see it, with the libraries as part of the state. A setter
  that aborted would leave no store; on the states of \<open>store_ok\<close> none does.
\<close>

definition store_ok :: "libs \<times> prefs_store \<Rightarrow> bool" where
  "store_ok = (\<lambda>(L, p). writes_succeed L \<and> int64_text_laws L \<and> pending_ok L p \<and> scheduled p)"

definition store_set ::
  "TimeTicks \<times> TimeTicks \<Rightarrow> string \<Rightarrow> int \<Rightarrow> libs \<times> prefs_store \<Rightarrow> libs \<times> prefs_store" where
  "store_set clk n v = (\<lambda>(L, p). (L, the (p_SetInt64 L clk n v p)))"

definition store_get :: "libs \<times> prefs_store \<Rightarrow> string \<Rightarrow> int option" where
  "store_get = (\<lambda>(L, p) n. found (p_GetInt64 L n 0 p))"

lemma read_rest:
  "\<forall>d \<in> set ds. p_files q (lib_Append L d n) = p_files p (lib_Append L d n) \<Longrightarrow>
     read_pref_paths L q n read_all False ds = read_pref_paths L p n read_all False ds"
  by (induction ds) (cases read_all; simp add: read_pref_file_def split: option.split)+

lemma GetPrefStrings_same:
  assumes "is_name n" "front L q n = front L p n" "same_rest L p q"
  shows "GetPrefStrings L n read_all q = GetPrefStrings L n read_all p"
  using assms read_rest [of "tl (p_pref_paths p)" q L n p read_all]
  by (cases "p_pref_paths p")
    (auto simp: GetPrefStrings_def front_def same_rest_def split: option.split)

lemma GetInt64_front:
  assumes "pending_ok L p" "front L p n = Some v" "lib_StringToInt64 L (lib_TrimTrailing L v) = (True, i)"
  shows "p_GetInt64 L n old p = (True, i)"
  using assms by (cases "p_pref_paths p")
    (auto simp: p_GetInt64_def GetPrefStrings_def front_def pending_ok_def path_laws_def split: if_splits)

interpretation store: int_prefs store_set store_get store_ok is_name
proof
  fix s t n m v
  assume ok: "store_ok s" and n: "is_name n"
  obtain L p where s: "s = (L, p)" by (cases s)
  then obtain q where q: "store_set t n v s = (L, q)" "front L q = (front L p)(n \<mapsto> lib_Int64ToString L v)"
    "same_rest L p q" "pending_ok L q" "scheduled q"
    using ok set_front [OF _ _ n, of L p t "lib_Int64ToString L v"] by (auto simp: store_ok_def store_set_def p_SetInt64_def)
  then show "store_ok (store_set t n v s)" using ok by (simp add: store_ok_def s)
  assume m: "is_name m"
  show "store_get (store_set t n v s) m = (if m = n then Some v else store_get s m)"
  proof (cases "m = n")
    case True
    with q GetInt64_front [of L q n "lib_Int64ToString L v" v 0] ok show ?thesis
      by (simp add: store_get_def store_ok_def s int64_text_laws_def found_def)
  next
    case False
    with q GetPrefStrings_same [OF m, of L q p True] show ?thesis
      by (simp add: store_get_def p_GetInt64_def s)
  qed
qed


definition example_writes :: "((TimeTicks \<times> TimeTicks) \<times> string \<times> int) list" where
  "example_writes = [((1, 2), ''a'', 7), ((3, 4), ''b'', 8), ((5, 6), ''a'', -9)]"


section \<open>Watched files\<close>

lemma fold_start_watching:
  "distinct (map fst (p_file_watchers p)) \<Longrightarrow>
   fst ` set (p_file_watchers (fold (start_watching L watch dir) ns p)) =
     fst ` set (p_file_watchers p) \<union> {n \<in> set ns. watch (lib_Append L dir n)} \<and>
   p_notified (fold (start_watching L watch dir) ns p) = p_notified p @ ns"
  by (induction ns arbitrary: p)
    (auto simp: start_watching_def p_notify_def map_insert_facts)

lemma fold_stop_watching:
  "fst ` set (p_file_watchers (fold stop_watching ns p)) = fst ` set (p_file_watchers p) - set ns \<and>
   p_notified (fold stop_watching ns p) = p_notified p @ ns"
  by (induction ns arbitrary: p) (auto simp: stop_watching_def p_notify_def map_erase_facts)

text \<open>
  A rescan reports every file that appeared or disappeared, each once, and then watches
  exactly the current files it could watch or was already watching.
\<close>

lemma UpdateFileWatchers_correct:
  fixes L listing
  defines "cur \<equiv> lib_BaseName L ` set listing"
  assumes "distinct (map fst (p_file_watchers p))"
  shows "\<exists>news. p_notified (UpdateFileWatchers L watch listing dir p) = p_notified p @ news \<and>
      distinct news \<and> set news = (cur - fst ` set (p_file_watchers p)) \<union> (fst ` set (p_file_watchers p) - cur)"
    and "fst ` set (p_file_watchers (UpdateFileWatchers L watch listing dir p)) =
      {n \<in> cur. n \<in> fst ` set (p_file_watchers p) \<or> watch (lib_Append L dir n)}"
  using assms(2) fold_start_watching [OF assms(2), of L watch dir]
  by (auto simp: UpdateFileWatchers_def Let_def fold_stop_watching cur_def)

end
