(* ===== verification/Input_Events.thy ===== *)
theory Input_Events
  imports Powerd_Prelude
begin

text \<open>
  \<^verbatim>\<open>InputEventHandler\<close> (\<^verbatim>\<open>src/power_manager/powerd/policy/input_event_handler.{h,cc}\<close>)
  turns lid, tablet-mode, power-button and hover events into calls of its delegate and D-Bus
  signals, and watches for Chrome's acknowledgment of power-button presses.

  \<open>ieh_calls\<close> is the trace of delegate calls and emitted \<^verbatim>\<open>InputEvent\<close> signals, each with
  the timestamp it carries. \<open>now\<close> is what the clock shows.
\<close>

section \<open>State\<close>

datatype InputEventType = TYPE_POWER_BUTTON_DOWN | TYPE_POWER_BUTTON_UP | TYPE_LID_OPEN
  | TYPE_LID_CLOSED | TYPE_TABLET_MODE_ON | TYPE_TABLET_MODE_OFF

datatype ieh_call = IehHandleLidClosed | IehHandleLidOpened | IehHandlePowerButtonEvent ButtonState
  | IehHandleHoverStateChange bool | IehHandleTabletModeChange TabletMode
  | IehShutDownForPowerButtonWithNoDisplay | IehHandleMissingPowerButtonAcknowledgment
  | IehReportPowerButtonAcknowledgmentDelay TimeDelta | IehEmitInputEvent InputEventType TimeTicks

record input_event_handler =
  ieh_calls :: "ieh_call list"
  ieh_only_has_external_display :: bool
  ieh_lid_state :: LidState
  ieh_tablet_mode :: TabletMode
  ieh_expected_power_button_acknowledgment_timestamp :: TimeTicks
  ieh_power_button_acknowledgment_timer :: OneShotTimer

definition kPowerButtonAcknowledgmentTimeoutMs :: int where
  "kPowerButtonAcknowledgmentTimeoutMs = 2000"

definition InputEventHandler :: input_event_handler where
  "InputEventHandler = \<lparr>ieh_calls = [], ieh_only_has_external_display = False,
     ieh_lid_state = LID_NOT_PRESENT, ieh_tablet_mode = TABLET_UNSUPPORTED,
     ieh_expected_power_button_acknowledgment_timestamp = 0,
     ieh_power_button_acknowledgment_timer = None\<rparr>"

definition ieh_record :: "ieh_call \<Rightarrow> input_event_handler \<Rightarrow> input_event_handler" where
  "ieh_record c h = h\<lparr>ieh_calls := ieh_calls h @ [c]\<rparr>"

section \<open>Operations\<close>

text \<open>\<open>lid\<close> and \<open>tablet\<close> are the answers of the input watcher.\<close>

definition ieh_Init ::
  "prefs \<Rightarrow> LidState \<Rightarrow> TabletMode \<Rightarrow> input_event_handler \<Rightarrow> input_event_handler" where
  "ieh_Init prefs lid tablet h =
     (let h1 = h\<lparr>ieh_only_has_external_display :=
            get_or (pref_bool prefs ''external_display_only'') (ieh_only_has_external_display h)\<rparr>;
          h2 = (if pref_bool prefs ''use_lid'' = Some True then h1\<lparr>ieh_lid_state := lid\<rparr> else h1)
      in h2\<lparr>ieh_tablet_mode := tablet\<rparr>)"

definition HandlePowerButtonAcknowledgmentTimeout :: "input_event_handler \<Rightarrow> input_event_handler" where
  "HandlePowerButtonAcknowledgmentTimeout h =
     (ieh_record IehHandleMissingPowerButtonAcknowledgment
        (ieh_record (IehReportPowerButtonAcknowledgmentDelay
           (FromMilliseconds kPowerButtonAcknowledgmentTimeoutMs)) h))
       \<lparr>ieh_expected_power_button_acknowledgment_timestamp := 0\<rparr>"

definition TriggerPowerButtonAcknowledgmentTimeout :: "input_event_handler \<Rightarrow> input_event_handler" where
  "TriggerPowerButtonAcknowledgmentTimeout h =
     (if IsRunning (ieh_power_button_acknowledgment_timer h)
      then HandlePowerButtonAcknowledgmentTimeout (h\<lparr>ieh_power_button_acknowledgment_timer := None\<rparr>)
      else h)"

definition HandlePowerButtonAcknowledgment ::
  "TimeTicks \<Rightarrow> TimeTicks \<Rightarrow> input_event_handler \<Rightarrow> input_event_handler" where
  "HandlePowerButtonAcknowledgment now timestamp h =
     (if timestamp = ieh_expected_power_button_acknowledgment_timestamp h
      then (ieh_record (IehReportPowerButtonAcknowledgmentDelay
              (now - ieh_expected_power_button_acknowledgment_timestamp h)) h)
             \<lparr>ieh_expected_power_button_acknowledgment_timestamp := 0,
              ieh_power_button_acknowledgment_timer := None\<rparr>
      else h)"

definition OnLidEvent :: "TimeTicks \<Rightarrow> LidState \<Rightarrow> input_event_handler \<Rightarrow> input_event_handler" where
  "OnLidEvent now state h0 =
     (let h = h0\<lparr>ieh_lid_state := state\<rparr> in
      case state of
        LID_CLOSED \<Rightarrow> ieh_record (IehEmitInputEvent TYPE_LID_CLOSED now) (ieh_record IehHandleLidClosed h)
      | LID_OPEN \<Rightarrow> ieh_record (IehEmitInputEvent TYPE_LID_OPEN now) (ieh_record IehHandleLidOpened h)
      | LID_NOT_PRESENT \<Rightarrow> h)"

definition OnTabletModeEvent ::
  "TimeTicks \<Rightarrow> TabletMode \<Rightarrow> input_event_handler \<Rightarrow> input_event_handler" where
  "OnTabletModeEvent now mode h =
     ieh_record (IehEmitInputEvent (if mode = TABLET_ON then TYPE_TABLET_MODE_ON else TYPE_TABLET_MODE_OFF) now)
       (ieh_record (IehHandleTabletModeChange mode) (h\<lparr>ieh_tablet_mode := mode\<rparr>))"

definition note_power_button ::
  "TimeTicks \<Rightarrow> ButtonState \<Rightarrow> input_event_handler \<Rightarrow> input_event_handler" where
  "note_power_button now state h =
     (let h1 = ieh_record (IehEmitInputEvent
            (if state = BUTTON_DOWN then TYPE_POWER_BUTTON_DOWN else TYPE_POWER_BUTTON_UP) now) h
      in if state = BUTTON_DOWN
         then h1\<lparr>ieh_expected_power_button_acknowledgment_timestamp := now,
                 ieh_power_button_acknowledgment_timer :=
                   Some (FromMilliseconds kPowerButtonAcknowledgmentTimeoutMs)\<rparr>
         else h1\<lparr>ieh_expected_power_button_acknowledgment_timestamp := 0,
                 ieh_power_button_acknowledgment_timer := None\<rparr>)"

definition OnPowerButtonEvent ::
  "TimeTicks \<Rightarrow> bool \<Rightarrow> ButtonState \<Rightarrow> input_event_handler \<Rightarrow> input_event_handler" where
  "OnPowerButtonEvent now displays_empty state h =
     (if state = BUTTON_DOWN \<and> ieh_only_has_external_display h \<and> displays_empty
      then ieh_record IehShutDownForPowerButtonWithNoDisplay h
      else ieh_record (IehHandlePowerButtonEvent state)
             (if state \<noteq> BUTTON_REPEAT then note_power_button now state h else h))"

definition OnHoverStateChange :: "bool \<Rightarrow> input_event_handler \<Rightarrow> input_event_handler" where
  "OnHoverStateChange hovering h = ieh_record (IehHandleHoverStateChange hovering) h"

section \<open>Power-button presses\<close>

datatype ieh_event = IehAcknowledgment TimeTicks | IehTimeout | IehLid LidState | IehTablet TabletMode
  | IehButton bool ButtonState | IehHover bool

fun ieh_step :: "input_event_handler \<Rightarrow> TimeTicks \<times> ieh_event \<Rightarrow> input_event_handler option" where
  "ieh_step h (now, IehAcknowledgment ts) = Some (HandlePowerButtonAcknowledgment now ts h)"
| "ieh_step h (now, IehTimeout) = Some (TriggerPowerButtonAcknowledgmentTimeout h)"
| "ieh_step h (now, IehLid s) = Some (OnLidEvent now s h)"
| "ieh_step h (now, IehTablet m) = Some (OnTabletModeEvent now m h)"
| "ieh_step h (now, IehButton no_display s) = Some (OnPowerButtonEvent now no_display s h)"
| "ieh_step h (now, IehHover b) = Some (OnHoverStateChange b h)"

text \<open>
  The press that waits for its acknowledgment, replayed from the trace: a reported delay or a
  release settles it. \<open>None\<close> is a trace that reports without a press to report on.
\<close>

fun awaiting :: "TimeTicks option \<Rightarrow> ieh_call list \<Rightarrow> TimeTicks option option" where
  "awaiting p [] = Some p"
| "awaiting p (c # cs) =
     (case c of
        IehEmitInputEvent TYPE_POWER_BUTTON_DOWN t \<Rightarrow> awaiting (Some t) cs
      | IehEmitInputEvent TYPE_POWER_BUTTON_UP t \<Rightarrow> awaiting None cs
      | IehReportPowerButtonAcknowledgmentDelay d \<Rightarrow>
          (if p = None then None else awaiting None cs)
      | _ \<Rightarrow> awaiting p cs)"

lemma awaiting_snoc:
  "awaiting p cs = Some q \<Longrightarrow> awaiting p (cs @ ds) = awaiting q ds"
  by (induction cs arbitrary: p)
    (auto split: ieh_call.splits InputEventType.splits if_splits)

definition ieh_pending :: "input_event_handler \<Rightarrow> TimeTicks option" where
  "ieh_pending h = (if IsRunning (ieh_power_button_acknowledgment_timer h)
     then Some (ieh_expected_power_button_acknowledgment_timestamp h) else None)"

definition ieh_inv :: "input_event_handler \<Rightarrow> bool" where
  "ieh_inv h \<longleftrightarrow> awaiting None (ieh_calls h) = Some (ieh_pending h) \<and>
     (IsRunning (ieh_power_button_acknowledgment_timer h) \<longleftrightarrow>
        ieh_expected_power_button_acknowledgment_timestamp h \<noteq> 0)"

text \<open>The clock runs and a timestamp that is acknowledged is not the null one.\<close>

fun proper :: "TimeTicks \<times> ieh_event \<Rightarrow> bool" where
  "proper (now, ev) \<longleftrightarrow> now \<noteq> 0 \<and> ev \<noteq> IehAcknowledgment 0"

lemmas ieh_defs = HandlePowerButtonAcknowledgment_def TriggerPowerButtonAcknowledgmentTimeout_def
  HandlePowerButtonAcknowledgmentTimeout_def OnLidEvent_def OnTabletModeEvent_def
  note_power_button_def OnPowerButtonEvent_def OnHoverStateChange_def ieh_record_def

lemma ieh_step_inv:
  assumes "ieh_inv h" "proper e" "ieh_step h e = Some h'"
  shows "ieh_inv h'"
proof -
  obtain now ev where e: "e = (now, ev)" by (cases e)
  have a: "awaiting None (ieh_calls h @ ds) = awaiting (ieh_pending h) ds" for ds
    using assms(1) awaiting_snoc by (simp add: ieh_inv_def)
  show ?thesis
    using assms a by (cases ev)
      (auto simp: e ieh_defs ieh_inv_def ieh_pending_def Let_def split: LidState.splits if_splits)
qed

interpretation ieh: guarded_machine ieh_step ieh_inv proper
proof
  fix h e
  show "\<exists>h'. ieh_step h e = Some h' \<and> ieh_inv h'" if "ieh_inv h" "proper e"
    using ieh_step_inv [OF that] by (cases e; cases "snd e") auto
qed


definition example_ieh_prefs :: prefs where
  "example_ieh_prefs = \<lparr>pref_string = (\<lambda>_. None), pref_int64 = (\<lambda>_. None),
     pref_bool = (\<lambda>n. if n = ''use_lid'' then Some True else None)\<rparr>"

definition example_ieh_events :: "(TimeTicks \<times> ieh_event) list" where
  "example_ieh_events = [(10, IehLid LID_OPEN), (20, IehButton False BUTTON_DOWN),
     (30, IehAcknowledgment 20), (40, IehButton False BUTTON_UP), (50, IehButton False BUTTON_DOWN),
     (60, IehTimeout), (70, IehButton False BUTTON_DOWN)]"


text \<open>
  The null timestamp is the value of an unset expectation: acknowledging it when no press is
  pending is accepted, and reports the time since the clock's origin as a delay.
\<close>

lemma null_acknowledgment_reported:
  "HandlePowerButtonAcknowledgment now 0 InputEventHandler =
     InputEventHandler\<lparr>ieh_calls := [IehReportPowerButtonAcknowledgmentDelay now]\<rparr>"
  by (simp add: HandlePowerButtonAcknowledgment_def InputEventHandler_def ieh_record_def)

text \<open>
  With no display attached to a device that has only external ones, a press shuts down and
  does nothing else; every other button event is passed on.
\<close>

lemma OnPowerButtonEvent_calls:
  "\<exists>cs. ieh_calls (OnPowerButtonEvent now no_display state h) = ieh_calls h @ cs \<and>
     (if state = BUTTON_DOWN \<and> ieh_only_has_external_display h \<and> no_display
      then cs = [IehShutDownForPowerButtonWithNoDisplay]
      else last cs = IehHandlePowerButtonEvent state \<and> IehShutDownForPowerButtonWithNoDisplay \<notin> set cs)"
  by (auto simp: ieh_defs Let_def)

end
