(* ===== verification/Udev_Devices.thy ===== *)
theory Udev_Devices
  imports Powerd_Prelude "HOL-Library.List_Lexorder" "HOL-Library.Char_ord"
begin

text \<open>
  \<^verbatim>\<open>TaggedDevice\<close> (\<^verbatim>\<open>src/power_manager/powerd/system/tagged_device.{h,cc}\<close>) and
  \<^verbatim>\<open>Udev\<close> (\<^verbatim>\<open>src/power_manager/powerd/system/udev.{h,cc}\<close>): the devices that udev rules
  tagged for powerd, their sysfs attributes, and the observers of udev events.

  libudev is the record \<open>udev_env\<close>. \<open>ue_chain\<close> gives, for a syspath, the device and its
  parents from the bottom up (empty if the device cannot be opened), which makes the walk to
  the first parent with an attribute a recursion on a list. \<open>ud_sysattrs\<close> holds the attribute
  values that were successfully set. Observers are numbered.
\<close>

section \<open>Tagged devices\<close>

record tagged_device =
  td_syspath :: string
  td_tags :: "string set"

text \<open>\<open>tokens\<close> is \<^verbatim>\<open>base::StringTokenizer\<close>: the text and the delimiters to the tokens.\<close>

type_synonym tokenizer = "string \<Rightarrow> string \<Rightarrow> string list"

definition TaggedDevice :: "tokenizer \<Rightarrow> string \<Rightarrow> string \<Rightarrow> tagged_device" where
  "TaggedDevice tokens syspath tags = \<lparr>td_syspath = syspath, td_tags = set (tokens tags '' '')\<rparr>"

definition HasTag :: "tagged_device \<Rightarrow> string \<Rightarrow> bool" where
  "HasTag d tag \<longleftrightarrow> tag \<in> td_tags d"

section \<open>Udev\<close>

datatype UdevAction = UDEV_ADD | UDEV_REMOVE | UDEV_CHANGE | UDEV_ONLINE | UDEV_OFFLINE | UDEV_UNKNOWN

definition StrToAction :: "string option \<Rightarrow> UdevAction" where
  "StrToAction s =
     (case s of
        None \<Rightarrow> UDEV_UNKNOWN
      | Some a \<Rightarrow> if a = ''add'' then UDEV_ADD else if a = ''remove'' then UDEV_REMOVE
          else if a = ''change'' then UDEV_CHANGE else if a = ''online'' then UDEV_ONLINE
          else if a = ''offline'' then UDEV_OFFLINE else UDEV_UNKNOWN)"

record udev_node =
  un_syspath :: string
  un_sysattr :: "string \<Rightarrow> string option"
  un_devtype :: "string option"

record udev_env =
  ue_tokens :: tokenizer
  ue_chain :: "string \<Rightarrow> udev_node list"
  ue_set_sysattr_ok :: "string \<Rightarrow> string \<Rightarrow> string \<Rightarrow> bool"

record udev_event =
  uv_subsystem :: "string option"
  uv_sysname :: "string option"
  uv_action :: "string option"
  uv_has_powerd_tag :: bool
  uv_syspath :: string
  uv_tags :: "string option"

record udev =
  ud_initialized :: bool
  ud_subsystem_observers :: "(string \<times> nat list) list"
  ud_tagged_device_observers :: "nat list"
  ud_tagged_devices :: "(string \<times> tagged_device) list"
  ud_sysattrs :: "string \<times> string \<Rightarrow> string option"
  ud_notified :: "(nat \<times> string \<times> string \<times> UdevAction) list"

definition Udev :: udev where
  "Udev = \<lparr>ud_initialized = False, ud_subsystem_observers = [], ud_tagged_device_observers = [],
     ud_tagged_devices = [], ud_sysattrs = (\<lambda>_. None), ud_notified = []\<rparr>"

text \<open>
  Enumeration: \<open>None\<close> is a failing udev call; an entry is the syspath, whether the device
  could be opened, and its \<^verbatim>\<open>POWERD_TAGS\<close>.
\<close>

definition add_enumerated :: "udev_env \<Rightarrow> string \<times> bool \<times> string option \<Rightarrow> udev \<Rightarrow> udev" where
  "add_enumerated env = (\<lambda>(syspath, opened, tags) u.
     if opened
     then u\<lparr>ud_tagged_devices := map_assign syspath
              (TaggedDevice (ue_tokens env) syspath (get_or tags [])) (ud_tagged_devices u)\<rparr>
     else u)"

definition EnumerateTaggedDevices ::
  "udev_env \<Rightarrow> (string \<times> bool \<times> string option) list option \<Rightarrow> udev \<Rightarrow> bool \<times> udev" where
  "EnumerateTaggedDevices env entries u =
     (case entries of
        None \<Rightarrow> (False, u)
      | Some es \<Rightarrow> (True, fold (add_enumerated env) es (u\<lparr>ud_tagged_devices := []\<rparr>)))"

text \<open>\<open>have_udev\<close>, \<open>have_monitor\<close> and \<open>watching\<close> are the outcomes of the three calls that can fail.\<close>

definition ud_Init ::
  "udev_env \<Rightarrow> bool \<Rightarrow> bool \<Rightarrow> bool \<Rightarrow> (string \<times> bool \<times> string option) list option \<Rightarrow> udev \<Rightarrow> bool \<times> udev"
  where
  "ud_Init env have_udev have_monitor watching entries u0 =
     (let u = u0\<lparr>ud_initialized := have_udev\<rparr> in
      if \<not> have_udev \<or> \<not> have_monitor \<or> \<not> watching then (False, u)
      else (True, snd (EnumerateTaggedDevices env entries u)))"

definition AddSubsystemObserver :: "string \<Rightarrow> nat \<Rightarrow> udev \<Rightarrow> udev option" where
  "AddSubsystemObserver subsystem observer u =
     (if \<not> ud_initialized u then None
      else Some (u\<lparr>ud_subsystem_observers := map_assign subsystem
        (get_or (map_of (ud_subsystem_observers u) subsystem) [] @ [observer])
        (ud_subsystem_observers u)\<rparr>))"

definition RemoveSubsystemObserver :: "string \<Rightarrow> nat \<Rightarrow> udev \<Rightarrow> udev" where
  "RemoveSubsystemObserver subsystem observer u =
     (case map_of (ud_subsystem_observers u) subsystem of
        None \<Rightarrow> u
      | Some os \<Rightarrow> u\<lparr>ud_subsystem_observers := map_assign subsystem (remove1 observer os)
                      (ud_subsystem_observers u)\<rparr>)"

definition AddTaggedDeviceObserver :: "nat \<Rightarrow> udev \<Rightarrow> udev" where
  "AddTaggedDeviceObserver observer u =
     u\<lparr>ud_tagged_device_observers := ud_tagged_device_observers u @ [observer]\<rparr>"

definition RemoveTaggedDeviceObserver :: "nat \<Rightarrow> udev \<Rightarrow> udev" where
  "RemoveTaggedDeviceObserver observer u =
     u\<lparr>ud_tagged_device_observers := remove1 observer (ud_tagged_device_observers u)\<rparr>"

definition GetTaggedDevices :: "udev \<Rightarrow> tagged_device list" where
  "GetTaggedDevices u = map snd (ud_tagged_devices u)"

definition GetSysattr :: "udev_env \<Rightarrow> string \<Rightarrow> string \<Rightarrow> udev \<Rightarrow> string option" where
  "GetSysattr env syspath sysattr u =
     (case ue_chain env syspath of
        [] \<Rightarrow> None
      | dev # _ \<Rightarrow> (case ud_sysattrs u (un_syspath dev, sysattr) of
                      Some v \<Rightarrow> Some v | None \<Rightarrow> un_sysattr dev sysattr))"

definition SetSysattr :: "udev_env \<Rightarrow> string \<Rightarrow> string \<Rightarrow> string \<Rightarrow> udev \<Rightarrow> bool \<times> udev" where
  "SetSysattr env syspath sysattr value u =
     (if ue_chain env syspath = [] \<or> \<not> ue_set_sysattr_ok env syspath sysattr value then (False, u)
      else (True, u\<lparr>ud_sysattrs := (ud_sysattrs u)((syspath, sysattr) \<mapsto> value)\<rparr>))"

fun find_in_chain :: "string \<Rightarrow> string \<Rightarrow> udev_node list \<Rightarrow> string option" where
  "find_in_chain sysattr stop_at_devtype [] = None"
| "find_in_chain sysattr stop_at_devtype (parent # chain) =
     (if un_sysattr parent sysattr \<noteq> None then Some (un_syspath parent)
      else if un_devtype parent = Some stop_at_devtype then None
      else find_in_chain sysattr stop_at_devtype chain)"

definition FindParentWithSysattr :: "udev_env \<Rightarrow> string \<Rightarrow> string \<Rightarrow> string \<Rightarrow> string option" where
  "FindParentWithSysattr env syspath sysattr stop_at_devtype =
     find_in_chain sysattr stop_at_devtype (ue_chain env syspath)"

definition HandleSubsystemEvent :: "UdevAction \<Rightarrow> udev_event \<Rightarrow> udev \<Rightarrow> udev" where
  "HandleSubsystemEvent action ev u =
     (case uv_subsystem ev of
        None \<Rightarrow> u
      | Some subsystem \<Rightarrow>
          (case map_of (ud_subsystem_observers u) subsystem of
             None \<Rightarrow> u
           | Some os \<Rightarrow> u\<lparr>ud_notified := ud_notified u @
               map (\<lambda>ob. (ob, subsystem, get_or (uv_sysname ev) [], action)) os\<rparr>))"

text \<open>
  The two operations that change the device map; the notification of the tagged-device
  observers is made by the component that observes (\<^verbatim>\<open>InputDeviceController\<close>). Reading
  \<^verbatim>\<open>tagged_devices_[syspath]\<close> in the removal adds an entry that is erased right after.
\<close>

definition TaggedDeviceChanged :: "udev_env \<Rightarrow> string \<Rightarrow> string \<Rightarrow> udev \<Rightarrow> tagged_device \<times> udev" where
  "TaggedDeviceChanged env syspath tags u =
     (let device = TaggedDevice (ue_tokens env) syspath tags
      in (device, u\<lparr>ud_tagged_devices := map_assign syspath device (ud_tagged_devices u)\<rparr>))"

definition TaggedDeviceRemoved :: "string \<Rightarrow> udev \<Rightarrow> tagged_device \<times> udev" where
  "TaggedDeviceRemoved syspath u =
     (get_or (map_of (ud_tagged_devices u) syspath) \<lparr>td_syspath = [], td_tags = {}\<rparr>,
      u\<lparr>ud_tagged_devices := map_erase syspath (ud_tagged_devices u)\<rparr>)"

datatype tagged_change = NoChange | Changed tagged_device | Removed tagged_device

definition HandleTaggedDevice :: "udev_env \<Rightarrow> UdevAction \<Rightarrow> udev_event \<Rightarrow> udev \<Rightarrow> tagged_change \<times> udev" where
  "HandleTaggedDevice env action ev u =
     (if \<not> uv_has_powerd_tag ev then (NoChange, u)
      else if action = UDEV_ADD \<or> action = UDEV_CHANGE
      then map_prod Changed (\<lambda>v. v) (TaggedDeviceChanged env (uv_syspath ev) (get_or (uv_tags ev) []) u)
      else if action = UDEV_REMOVE
      then map_prod Removed (\<lambda>v. v) (TaggedDeviceRemoved (uv_syspath ev) u)
      else (NoChange, u))"

definition OnFileCanReadWithoutBlocking ::
  "udev_env \<Rightarrow> udev_event option \<Rightarrow> udev \<Rightarrow> tagged_change \<times> udev" where
  "OnFileCanReadWithoutBlocking env received u =
     (case received of
        None \<Rightarrow> (NoChange, u)
      | Some ev \<Rightarrow> let action = StrToAction (uv_action ev)
                    in HandleTaggedDevice env action ev (HandleSubsystemEvent action ev u))"

section \<open>The device map\<close>

text \<open>Every entry of the map is stored under the syspath of its device.\<close>

definition ud_inv :: "udev \<Rightarrow> bool" where
  "ud_inv u \<longleftrightarrow> distinct (map fst (ud_tagged_devices u)) \<and> sorted (map fst (ud_tagged_devices u)) \<and>
     (\<forall>(k, d) \<in> set (ud_tagged_devices u). td_syspath d = k)"

lemma set_map_erase: "set (map_erase k m) = {e \<in> set m. fst e \<noteq> k}"
  by (auto simp: map_erase_def)

lemma set_map_assign: "set (map_assign k v m) = insert (k, v) {e \<in> set m. fst e \<noteq> k}"
  by (auto simp: map_assign_def map_insert_def map_erase_facts set_insort_key set_map_erase)

lemma ud_inv_assign:
  "ud_inv u \<Longrightarrow> td_syspath d = k \<Longrightarrow>
     ud_inv (u\<lparr>ud_tagged_devices := map_assign k d (ud_tagged_devices u)\<rparr>)"
  by (auto simp: ud_inv_def map_assign_facts set_map_assign)

lemma ud_inv_erase:
  "ud_inv u \<Longrightarrow> ud_inv (u\<lparr>ud_tagged_devices := map_erase k (ud_tagged_devices u)\<rparr>)"
  by (auto simp: ud_inv_def map_erase_facts set_map_erase)

lemma EnumerateTaggedDevices_inv:
  assumes "ud_inv u"
  shows "ud_inv (snd (EnumerateTaggedDevices env entries u))"
proof -
  have "ud_inv v \<Longrightarrow> ud_inv (fold (add_enumerated env) es v)" for es v
    by (induction es arbitrary: v)
      (auto simp: add_enumerated_def ud_inv_assign TaggedDevice_def split: prod.splits)
  moreover have "ud_inv (u\<lparr>ud_tagged_devices := []\<rparr>)" by (simp add: ud_inv_def)
  ultimately show ?thesis using assms by (simp add: EnumerateTaggedDevices_def split: option.split)
qed

lemma find_in_chain_first:
  "find_in_chain a stop chain = Some r \<Longrightarrow>
     \<exists>xs n ys. chain = xs @ n # ys \<and> un_syspath n = r \<and> un_sysattr n a \<noteq> None \<and>
       (\<forall>x \<in> set xs. un_sysattr x a = None \<and> un_devtype x \<noteq> Some stop)"
proof (induction chain)
  case (Cons p chain)
  show ?case
  proof (cases "un_sysattr p a = None")
    case True
    with Cons obtain xs n ys where "chain = xs @ n # ys" "un_syspath n = r" "un_sysattr n a \<noteq> None"
      "\<forall>x \<in> set xs. un_sysattr x a = None \<and> un_devtype x \<noteq> Some stop" "un_devtype p \<noteq> Some stop"
      by (auto split: if_splits)
    with True show ?thesis by (intro exI [of _ "p # xs"]) auto
  qed (use Cons.prems in \<open>intro exI [of _ "[]"]; auto\<close>)
qed simp

end
