(* ===== verification/Wakeup_Helpers.thy ===== *)
theory Wakeup_Helpers
  imports Udev_Devices
begin

text \<open>
  The two helpers through which wakeups are configured besides sysfs:
  \<^verbatim>\<open>AcpiWakeupHelper\<close> (\<^verbatim>\<open>src/power_manager/powerd/system/acpi_wakeup_helper.{h,cc}\<close>) reads
  and toggles \<^verbatim>\<open>/proc/acpi/wakeup\<close>, and \<^verbatim>\<open>EcWakeupHelper\<close>
  (\<^verbatim>\<open>src/power_manager/powerd/system/ec_wakeup_helper.{h,cc}\<close>) sets the wake angle of the
  embedded controller.

  The kernel's side of \<^verbatim>\<open>/proc/acpi/wakeup\<close> is the current text (\<open>None\<close> if it cannot be
  read) and the effect of a write on it.
\<close>

section \<open>ACPI\<close>

record acpi_env =
  ae_tokens :: tokenizer
  ae_Exists :: bool
  ae_Write :: "string \<Rightarrow> string option \<Rightarrow> bool \<times> string option"

record acpi_wakeup_helper =
  aw_contents :: "string option"
  aw_writes :: "string list"

definition acpi_IsSupported :: "acpi_env \<Rightarrow> bool" where
  "acpi_IsSupported env = ae_Exists env"

fun find_state :: "string list \<Rightarrow> bool option" where
  "find_state [] = None"
| "find_state (part # parts) =
     (if part = ''enabled'' then Some True
      else if part = ''disabled'' then Some False
      else find_state parts)"

text \<open>The first line whose first token is the device decides, also when it names no state.\<close>

fun find_device :: "tokenizer \<Rightarrow> string \<Rightarrow> string list \<Rightarrow> bool option" where
  "find_device tokens device_name [] = None"
| "find_device tokens device_name (line # lines) =
     (case tokens line [CHR 0x09, CHR '' '', CHR ''*''] of
        [] \<Rightarrow> find_device tokens device_name lines
      | part # parts \<Rightarrow> if part \<noteq> device_name then find_device tokens device_name lines
                         else find_state parts)"

definition GetWakeupEnabled :: "acpi_env \<Rightarrow> string \<Rightarrow> acpi_wakeup_helper \<Rightarrow> bool option" where
  "GetWakeupEnabled env device_name w =
     (case aw_contents w of
        None \<Rightarrow> None
      | Some contents \<Rightarrow> find_device (ae_tokens env) device_name (ae_tokens env contents [CHR 0x0A]))"

definition ToggleWakeupEnabled ::
  "acpi_env \<Rightarrow> string \<Rightarrow> acpi_wakeup_helper \<Rightarrow> bool \<times> acpi_wakeup_helper" where
  "ToggleWakeupEnabled env device_name w =
     (case ae_Write env device_name (aw_contents w) of (written, contents) \<Rightarrow>
        (written, w\<lparr>aw_contents := contents, aw_writes := aw_writes w @ [device_name]\<rparr>))"

definition SetWakeupEnabled ::
  "acpi_env \<Rightarrow> string \<Rightarrow> bool \<Rightarrow> acpi_wakeup_helper \<Rightarrow> bool \<times> acpi_wakeup_helper" where
  "SetWakeupEnabled env device_name enabled w =
     (case GetWakeupEnabled env device_name w of
        None \<Rightarrow> (False, w)
      | Some readback \<Rightarrow>
          if readback = enabled then (True, w)
          else case ToggleWakeupEnabled env device_name w of
                 (False, v) \<Rightarrow> (False, v)
               | (True, v) \<Rightarrow> (GetWakeupEnabled env device_name v = Some enabled, v))"

text \<open>
  The kernel toggles exactly the device that is written, leaving the others alone.
\<close>

definition acpi_kernel :: "acpi_env \<Rightarrow> bool" where
  "acpi_kernel env \<longleftrightarrow> (\<forall>w name b. GetWakeupEnabled env name w = Some b \<longrightarrow>
     fst (ToggleWakeupEnabled env name w) \<and>
     GetWakeupEnabled env name (snd (ToggleWakeupEnabled env name w)) = Some (\<not> b) \<and>
     (\<forall>other. other \<noteq> name \<longrightarrow>
        GetWakeupEnabled env other (snd (ToggleWakeupEnabled env name w)) =
        GetWakeupEnabled env other w))"

lemma acpi_kernelD:
  assumes "acpi_kernel env" "GetWakeupEnabled env name w = Some b" "ToggleWakeupEnabled env name w = (r, v)"
  shows "r" "GetWakeupEnabled env name v = Some (\<not> b)"
    "other \<noteq> name \<Longrightarrow> GetWakeupEnabled env other v = GetWakeupEnabled env other w"
  using assms(1) [unfolded acpi_kernel_def, rule_format, OF assms(2)] assms(3) by simp_all

lemma SetWakeupEnabled_readback:
  "fst (SetWakeupEnabled env name enabled w) \<Longrightarrow>
     GetWakeupEnabled env name (snd (SetWakeupEnabled env name enabled w)) = Some enabled"
  by (auto simp: SetWakeupEnabled_def split: option.splits prod.splits bool.splits if_splits)

lemma SetWakeupEnabled_other:
  "acpi_kernel env \<Longrightarrow> other \<noteq> name \<Longrightarrow>
     GetWakeupEnabled env other (snd (SetWakeupEnabled env name enabled w)) =
     GetWakeupEnabled env other w"
  by (auto simp: SetWakeupEnabled_def split: option.split prod.split bool.split dest: acpi_kernelD(3))

lemma SetWakeupEnabled_known:
  assumes "acpi_kernel env" "GetWakeupEnabled env name w = Some b"
  shows "fst (SetWakeupEnabled env name enabled w)"
    and "aw_writes (snd (SetWakeupEnabled env name enabled w)) =
      aw_writes w @ (if b = enabled then [] else [name])"
proof -
  obtain r v where t: "ToggleWakeupEnabled env name w = (r, v)" by (cases "ToggleWakeupEnabled env name w")
  note kernel = acpi_kernelD [OF assms t]
  moreover have "aw_writes v = aw_writes w @ [name]"
    using t by (auto simp: ToggleWakeupEnabled_def split: prod.splits)
  ultimately show "fst (SetWakeupEnabled env name enabled w)"
    "aw_writes (snd (SetWakeupEnabled env name enabled w)) =
      aw_writes w @ (if b = enabled then [] else [name])"
    using assms(2) t by (auto simp: SetWakeupEnabled_def)
qed

lemma SetWakeupEnabled_unknown:
  "GetWakeupEnabled env name w = None \<Longrightarrow> SetWakeupEnabled env name enabled w = (False, w)"
  by (simp add: SetWakeupEnabled_def)

section \<open>Embedded controller\<close>

record ec_env =
  ee_PathExists :: "string \<Rightarrow> bool"
  ee_IsLink :: "string \<Rightarrow> bool"
  ee_ReadSymbolicLink :: "string \<Rightarrow> string option"
  ee_BaseName :: "string \<Rightarrow> string"
  ee_Append :: "string \<Rightarrow> string \<Rightarrow> string"
  ee_WriteFile :: "string \<Rightarrow> string \<Rightarrow> bool"

record ec_wakeup_helper =
  ew_supported :: bool
  ew_sysfs_node :: string
  ew_cached_wake_angle :: int
  ew_writes :: "(string \<times> string) list"

definition k318SysfsPath :: string where
  "k318SysfsPath = ''/sys/class/chromeos/cros_ec/kb_wake_angle''"

definition k314IioLinkPath :: string where
  "k314IioLinkPath = ''/dev/cros-ec-accel/0''"

definition k314IioSysfsPath :: string where
  "k314IioSysfsPath = ''/sys/bus/iio/devices''"

definition k314AccelNodeName :: string where
  "k314AccelNodeName = ''in_angl_offset''"

definition EcWakeupHelper :: "ec_env \<Rightarrow> ec_wakeup_helper" where
  "EcWakeupHelper env =
     (let w = \<lparr>ew_supported = False, ew_sysfs_node = [], ew_cached_wake_angle = -1, ew_writes = []\<rparr>
      in if ee_PathExists env k318SysfsPath
         then w\<lparr>ew_sysfs_node := k318SysfsPath, ew_supported := True\<rparr>
         else if ee_IsLink env k314IioLinkPath
         then (case ee_ReadSymbolicLink env k314IioLinkPath of
                 None \<Rightarrow> w
               | Some iio_dev_path \<Rightarrow>
                   let node = ee_Append env (ee_Append env k314IioSysfsPath (ee_BaseName env iio_dev_path))
                                k314AccelNodeName
                   in w\<lparr>ew_sysfs_node := node, ew_supported := ee_PathExists env node\<rparr>)
         else w)"

definition ec_IsSupported :: "ec_wakeup_helper \<Rightarrow> bool" where
  "ec_IsSupported w = ew_supported w"

text \<open>\<^verbatim>\<open>base::IntToString()\<close> is only used on the two angles.\<close>

definition AllowWakeupAsTablet :: "ec_env \<Rightarrow> bool \<Rightarrow> ec_wakeup_helper \<Rightarrow> bool \<times> ec_wakeup_helper" where
  "AllowWakeupAsTablet env enabled w =
     (let new_wake_angle = (if enabled then 360 else 180);
          str = (if enabled then ''360'' else ''180'')
      in if new_wake_angle = ew_cached_wake_angle w then (True, w)
         else if \<not> ee_WriteFile env (ew_sysfs_node w) str then (False, w)
         else (True, w\<lparr>ew_cached_wake_angle := new_wake_angle,
                       ew_writes := ew_writes w @ [(ew_sysfs_node w, str)]\<rparr>))"

text \<open>The cached angle is what was last written, so a call that succeeds leaves that angle set.\<close>

definition ec_inv :: "ec_wakeup_helper \<Rightarrow> bool" where
  "ec_inv w \<longleftrightarrow> (if ew_writes w = [] then ew_cached_wake_angle w = -1
     else last (ew_writes w) = (ew_sysfs_node w,
       if ew_cached_wake_angle w = 360 then ''360'' else ''180'') \<and> ew_cached_wake_angle w \<in> {180, 360})"

lemma EcWakeupHelper_inv: "ec_inv (EcWakeupHelper env)"
  by (auto simp: EcWakeupHelper_def ec_inv_def Let_def split: option.splits)

lemma AllowWakeupAsTablet_inv: "ec_inv w \<Longrightarrow> ec_inv (snd (AllowWakeupAsTablet env enabled w))"
  by (auto simp: AllowWakeupAsTablet_def ec_inv_def Let_def split: if_splits)

lemma AllowWakeupAsTablet_sets:
  "ec_inv w \<Longrightarrow> fst (AllowWakeupAsTablet env enabled w) \<Longrightarrow>
     ew_cached_wake_angle (snd (AllowWakeupAsTablet env enabled w)) = (if enabled then 360 else 180)"
  by (auto simp: AllowWakeupAsTablet_def Let_def split: if_splits)

end
