(* ===== verification/Input_Devices.thy ===== *)
theory Input_Devices
  imports Wakeup_Helpers
begin

text \<open>
  \<^verbatim>\<open>InputDeviceController\<close>
  (\<^verbatim>\<open>src/power_manager/powerd/policy/input_device_controller.{h,cc}\<close>): inhibits input devices
  and enables their wakeups according to the mode the system is in, which follows from the
  lid, tablet mode, display mode and the panel backlight.

  The controller holds the components it drives: the \<^verbatim>\<open>Udev\<close> object and the two wakeup
  helpers. Their environments are the fields of \<open>idc_env\<close>. \<^verbatim>\<open>brightness_percent\<close> is only
  compared with zero.
\<close>

section \<open>Tags and modes\<close>

datatype IdcMode = MODE_CLOSED | MODE_DOCKED | MODE_DISPLAY_OFF | MODE_LAPTOP | MODE_TABLET

fun IsUsableInMode :: "tagged_device \<Rightarrow> IdcMode \<Rightarrow> bool" where
  "IsUsableInMode d MODE_CLOSED = False"
| "IsUsableInMode d MODE_DOCKED = HasTag d ''usable_when_docked''"
| "IsUsableInMode d MODE_DISPLAY_OFF = HasTag d ''usable_when_display_off''"
| "IsUsableInMode d MODE_LAPTOP = HasTag d ''usable_when_laptop''"
| "IsUsableInMode d MODE_TABLET = HasTag d ''usable_when_tablet''"

definition HasModeWakeupTags :: "tagged_device \<Rightarrow> bool" where
  "HasModeWakeupTags d \<longleftrightarrow> HasTag d ''wakeup_when_docked'' \<or> HasTag d ''wakeup_when_display_off'' \<or>
     HasTag d ''wakeup_when_laptop'' \<or> HasTag d ''wakeup_when_tablet''"

fun IsWakeupEnabledInMode :: "tagged_device \<Rightarrow> IdcMode \<Rightarrow> bool" where
  "IsWakeupEnabledInMode d MODE_CLOSED = False"
| "IsWakeupEnabledInMode d MODE_DOCKED = HasTag d ''wakeup_when_docked''"
| "IsWakeupEnabledInMode d MODE_DISPLAY_OFF = HasTag d ''wakeup_when_display_off''"
| "IsWakeupEnabledInMode d MODE_LAPTOP = HasTag d ''wakeup_when_laptop''"
| "IsWakeupEnabledInMode d MODE_TABLET = HasTag d ''wakeup_when_tablet''"

definition kPowerWakeup :: string where
  "kPowerWakeup = ''power/wakeup''"

definition kEnabled :: string where
  "kEnabled = ''enabled''"

definition kDisabled :: string where
  "kDisabled = ''disabled''"

definition kUSBDevice :: string where
  "kUSBDevice = ''usb_device''"

definition kInhibited :: string where
  "kInhibited = ''inhibited''"

section \<open>State\<close>

record idc_env =
  ie_udev :: udev_env
  ie_acpi :: acpi_env
  ie_ec :: ec_env

record input_device_controller =
  idc_udev :: udev
  idc_acpi :: acpi_wakeup_helper
  idc_ec :: ec_wakeup_helper
  idc_lid_state :: LidState
  idc_tablet_mode :: TabletMode
  idc_display_mode :: DisplayMode
  idc_allow_docked_mode :: bool
  idc_backlight_enabled :: bool
  idc_mode :: IdcMode
  idc_initialized :: bool

definition InputDeviceController ::
  "udev \<Rightarrow> acpi_wakeup_helper \<Rightarrow> ec_wakeup_helper \<Rightarrow> input_device_controller" where
  "InputDeviceController udev acpi ec = \<lparr>idc_udev = udev, idc_acpi = acpi, idc_ec = ec,
     idc_lid_state = LID_OPEN, idc_tablet_mode = TABLET_OFF, idc_display_mode = DISPLAY_NORMAL,
     idc_allow_docked_mode = False, idc_backlight_enabled = False, idc_mode = MODE_LAPTOP,
     idc_initialized = False\<rparr>"

section \<open>Operations\<close>

definition SetWakeupFromS3 ::
  "idc_env \<Rightarrow> tagged_device \<Rightarrow> bool \<Rightarrow> input_device_controller \<Rightarrow> input_device_controller" where
  "SetWakeupFromS3 env device enabled c =
     (case FindParentWithSysattr (ie_udev env) (td_syspath device) kPowerWakeup kUSBDevice of
        None \<Rightarrow> c
      | Some parent_syspath \<Rightarrow> c\<lparr>idc_udev := snd (SetSysattr (ie_udev env) parent_syspath kPowerWakeup
          (if enabled then kEnabled else kDisabled) (idc_udev c))\<rparr>)"

definition ConfigureInhibit ::
  "idc_env \<Rightarrow> tagged_device \<Rightarrow> input_device_controller \<Rightarrow> input_device_controller" where
  "ConfigureInhibit env device c =
     (if \<not> HasTag device ''inhibit'' then c
      else let inhibit = \<not> IsUsableInMode device (idc_mode c)
           in c\<lparr>idc_udev := snd (SetSysattr (ie_udev env) (td_syspath device) kInhibited
                (if inhibit then ''1'' else ''0'') (idc_udev c))\<rparr>)"

definition wakeup_wanted :: "tagged_device \<Rightarrow> IdcMode \<Rightarrow> bool" where
  "wakeup_wanted device mode =
     (if HasTag device ''wakeup_disabled'' then False
      else if HasTag device ''wakeup_only_when_usable'' then IsUsableInMode device mode
      else if HasModeWakeupTags device then IsWakeupEnabledInMode device mode
      else True)"

definition ConfigureWakeup ::
  "idc_env \<Rightarrow> tagged_device \<Rightarrow> input_device_controller \<Rightarrow> input_device_controller" where
  "ConfigureWakeup env device c =
     (if \<not> HasTag device ''wakeup'' then c
      else SetWakeupFromS3 env device (wakeup_wanted device (idc_mode c)) c)"

definition ConfigureEcWakeup :: "idc_env \<Rightarrow> input_device_controller \<Rightarrow> input_device_controller" where
  "ConfigureEcWakeup env c =
     (if \<not> ec_IsSupported (idc_ec c) then c
      else c\<lparr>idc_ec := snd (AllowWakeupAsTablet (ie_ec env) (idc_mode c = MODE_DISPLAY_OFF) (idc_ec c))\<rparr>)"

definition ConfigureAcpiWakeup :: "idc_env \<Rightarrow> input_device_controller \<Rightarrow> input_device_controller" where
  "ConfigureAcpiWakeup env c =
     (if \<not> acpi_IsSupported (ie_acpi env) then c
      else c\<lparr>idc_acpi := snd (SetWakeupEnabled (ie_acpi env) ''TSCR'' False
        (snd (SetWakeupEnabled (ie_acpi env) ''TPAD'' (idc_mode c = MODE_LAPTOP) (idc_acpi c))))\<rparr>)"

definition GetMode :: "input_device_controller \<Rightarrow> IdcMode" where
  "GetMode c =
     (if idc_allow_docked_mode c \<and> idc_display_mode c = DISPLAY_PRESENTATION \<and>
         idc_lid_state c = LID_CLOSED
      then MODE_DOCKED
      else if \<not> idc_backlight_enabled c \<and> idc_display_mode c = DISPLAY_PRESENTATION \<and>
         idc_lid_state c = LID_OPEN
      then MODE_DISPLAY_OFF
      else if idc_tablet_mode c = TABLET_ON then MODE_TABLET
      else if idc_lid_state c = LID_CLOSED then MODE_CLOSED
      else MODE_LAPTOP)"

definition UpdatePolicy :: "idc_env \<Rightarrow> input_device_controller \<Rightarrow> input_device_controller" where
  "UpdatePolicy env c =
     (let new_mode = GetMode c in
      if idc_initialized c \<and> idc_mode c = new_mode then c
      else let c1 = c\<lparr>idc_mode := new_mode\<rparr>;
               devices = GetTaggedDevices (idc_udev c1)
           in ConfigureEcWakeup env (ConfigureAcpiWakeup env
                (fold (ConfigureWakeup env) devices (fold (ConfigureInhibit env) devices c1))))"

text \<open>\<open>observer\<close> is the number under which the controller registers with udev.\<close>

definition idc_Init ::
  "idc_env \<Rightarrow> nat \<Rightarrow> LidState \<Rightarrow> TabletMode \<Rightarrow> DisplayMode \<Rightarrow> prefs \<Rightarrow>
   input_device_controller \<Rightarrow> input_device_controller" where
  "idc_Init env observer lid_state tablet_mode display_mode prefs c0 =
     (let c = c0\<lparr>idc_udev := AddTaggedDeviceObserver observer (idc_udev c0),
                 idc_lid_state := lid_state, idc_tablet_mode := tablet_mode,
                 idc_display_mode := display_mode, idc_backlight_enabled := True,
                 idc_allow_docked_mode :=
                   get_or (pref_bool prefs ''allow_docked_mode'') (idc_allow_docked_mode c0)\<rparr>
      in (UpdatePolicy env c)\<lparr>idc_initialized := True\<rparr>)"

definition SetLidState :: "idc_env \<Rightarrow> LidState \<Rightarrow> input_device_controller \<Rightarrow> input_device_controller" where
  "SetLidState env lid_state c = UpdatePolicy env (c\<lparr>idc_lid_state := lid_state\<rparr>)"

definition SetTabletMode :: "idc_env \<Rightarrow> TabletMode \<Rightarrow> input_device_controller \<Rightarrow> input_device_controller" where
  "SetTabletMode env tablet_mode c = UpdatePolicy env (c\<lparr>idc_tablet_mode := tablet_mode\<rparr>)"

definition SetDisplayMode :: "idc_env \<Rightarrow> DisplayMode \<Rightarrow> input_device_controller \<Rightarrow> input_device_controller" where
  "SetDisplayMode env display_mode c = UpdatePolicy env (c\<lparr>idc_display_mode := display_mode\<rparr>)"

definition idc_OnBrightnessChange ::
  "idc_env \<Rightarrow> rat \<Rightarrow> bool \<Rightarrow> input_device_controller \<Rightarrow> input_device_controller" where
  "idc_OnBrightnessChange env brightness_percent user_initiated c =
     (if brightness_percent = 0 \<and> \<not> user_initiated then c
      else UpdatePolicy env (c\<lparr>idc_backlight_enabled := brightness_percent \<noteq> 0\<rparr>))"

definition OnTaggedDeviceChanged ::
  "idc_env \<Rightarrow> tagged_device \<Rightarrow> input_device_controller \<Rightarrow> input_device_controller" where
  "OnTaggedDeviceChanged env device c = ConfigureWakeup env device (ConfigureInhibit env device c)"

definition OnTaggedDeviceRemoved ::
  "tagged_device \<Rightarrow> input_device_controller \<Rightarrow> input_device_controller" where
  "OnTaggedDeviceRemoved device c = c"

text \<open>A udev event, with the notification of the controller as its tagged-device observer.\<close>

definition idc_udev_event ::
  "idc_env \<Rightarrow> udev_event option \<Rightarrow> input_device_controller \<Rightarrow> input_device_controller" where
  "idc_udev_event env received c =
     (case OnFileCanReadWithoutBlocking (ie_udev env) received (idc_udev c) of (change, u) \<Rightarrow>
        let d = c\<lparr>idc_udev := u\<rparr> in
        case change of NoChange \<Rightarrow> d
        | Changed device \<Rightarrow> OnTaggedDeviceChanged env device d
        | Removed device \<Rightarrow> OnTaggedDeviceRemoved device d)"

end
