(* ===== verification/Input_Devices_Proofs.thy ===== *)
theory Input_Devices_Proofs
  imports Input_Devices
begin

text \<open>
  The controller keeps every known device configured for the current mode. A device counts
  as configurable where libudev can open it and the attribute can be written.
\<close>

section \<open>Attributes\<close>

definition writable :: "idc_env \<Rightarrow> string \<Rightarrow> string \<Rightarrow> bool" where
  "writable env p a \<longleftrightarrow> ue_chain (ie_udev env) p \<noteq> [] \<and> (\<forall>v. ue_set_sysattr_ok (ie_udev env) p a v)"

abbreviation attrs :: "input_device_controller \<Rightarrow> string \<times> string \<Rightarrow> string option" where
  "attrs c \<equiv> ud_sysattrs (idc_udev c)"

abbreviation wakeup_parent :: "idc_env \<Rightarrow> tagged_device \<Rightarrow> string option" where
  "wakeup_parent env d \<equiv> FindParentWithSysattr (ie_udev env) (td_syspath d) kPowerWakeup kUSBDevice"

definition inhibit_ok :: "idc_env \<Rightarrow> IdcMode \<Rightarrow> (string \<times> string \<Rightarrow> string option) \<Rightarrow> tagged_device \<Rightarrow> bool"
  where
  "inhibit_ok env mode att d \<longleftrightarrow>
     (HasTag d ''inhibit'' \<and> writable env (td_syspath d) kInhibited \<longrightarrow>
        att (td_syspath d, kInhibited) = Some (if IsUsableInMode d mode then ''0'' else ''1''))"

definition wakeup_ok :: "idc_env \<Rightarrow> IdcMode \<Rightarrow> (string \<times> string \<Rightarrow> string option) \<Rightarrow> tagged_device \<Rightarrow> bool"
  where
  "wakeup_ok env mode att d \<longleftrightarrow>
     (\<forall>r. HasTag d ''wakeup'' \<and> wakeup_parent env d = Some r \<and> writable env r kPowerWakeup \<longrightarrow>
        att (r, kPowerWakeup) = Some (if wakeup_wanted d mode then kEnabled else kDisabled))"

text \<open>No two devices share the parent through which their wakeup is set.\<close>

definition own_wakeup_parents :: "idc_env \<Rightarrow> bool" where
  "own_wakeup_parents env \<longleftrightarrow>
     (\<forall>d e r. wakeup_parent env d = Some r \<longrightarrow> wakeup_parent env e = Some r \<longrightarrow> td_syspath d = td_syspath e)"

text \<open>Configuring a device only changes attributes.\<close>

definition attrs_only :: "input_device_controller \<Rightarrow> input_device_controller \<Rightarrow> bool" where
  "attrs_only c d \<longleftrightarrow> (\<exists>att. d = c\<lparr>idc_udev := (idc_udev c)\<lparr>ud_sysattrs := att\<rparr>\<rparr>)"

lemma attrs_only_refl [simp]: "attrs_only c c"
  unfolding attrs_only_def by (rule exI [of _ "attrs c"]) simp

lemma attrs_only_trans [trans]: "attrs_only c d \<Longrightarrow> attrs_only d e \<Longrightarrow> attrs_only c e"
  by (auto simp: attrs_only_def)

lemma GetMode_updates [simp]:
  "GetMode (c\<lparr>idc_mode := x\<rparr>) = GetMode c" "GetMode (c\<lparr>idc_initialized := b\<rparr>) = GetMode c"
  "GetMode (c\<lparr>idc_udev := u\<rparr>) = GetMode c" "GetMode (c\<lparr>idc_acpi := a\<rparr>) = GetMode c"
  "GetMode (c\<lparr>idc_ec := e\<rparr>) = GetMode c"
  by (simp_all add: GetMode_def)

lemma attrs_onlyD:
  assumes "attrs_only c d"
  shows "idc_mode d = idc_mode c" "ud_tagged_devices (idc_udev d) = ud_tagged_devices (idc_udev c)"
    "GetMode d = GetMode c" "idc_initialized d = idc_initialized c" "idc_acpi d = idc_acpi c"
    "idc_ec d = idc_ec c" "ud_inv (idc_udev d) = ud_inv (idc_udev c)"
  using assms by (auto simp: attrs_only_def ud_inv_def)

lemma SetSysattr_shape: "\<exists>att. snd (SetSysattr env p a v u) = u\<lparr>ud_sysattrs := att\<rparr>"
proof (cases "ue_chain env p = [] \<or> \<not> ue_set_sysattr_ok env p a v")
  case True
  then show ?thesis by (intro exI [of _ "ud_sysattrs u"]) (auto simp: SetSysattr_def)
qed (auto simp: SetSysattr_def)

lemma ConfigureInhibit_attrs_only: "attrs_only c (ConfigureInhibit env d c)"
  using SetSysattr_shape [of "ie_udev env" "td_syspath d" kInhibited
      "if IsUsableInMode d (idc_mode c) then ''0'' else ''1''" "idc_udev c"]
  by (auto simp: ConfigureInhibit_def Let_def attrs_only_def intro: exI [of _ "attrs c"])

lemma ConfigureWakeup_attrs_only: "attrs_only c (ConfigureWakeup env d c)"
proof (cases "wakeup_parent env d")
  case None
  then show ?thesis by (simp add: ConfigureWakeup_def SetWakeupFromS3_def)
next
  case (Some r)
  show ?thesis
    using SetSysattr_shape [of "ie_udev env" r kPowerWakeup
        "if wakeup_wanted d (idc_mode c) then kEnabled else kDisabled" "idc_udev c"]
    by (auto simp: Some ConfigureWakeup_def SetWakeupFromS3_def attrs_only_def intro: exI [of _ "attrs c"])
qed

lemma fold_attrs_only:
  "(\<And>x c. attrs_only c (f x c)) \<Longrightarrow> attrs_only c (fold f xs c)"
  by (induction xs arbitrary: c) (auto intro: attrs_only_trans)

lemma folds_attrs_only:
  "attrs_only c (fold (ConfigureInhibit env) ds c)" "attrs_only c (fold (ConfigureWakeup env) ds c)"
  by (rule fold_attrs_only, rule ConfigureInhibit_attrs_only)
    (rule fold_attrs_only, rule ConfigureWakeup_attrs_only)

lemma ConfigureInhibit_sets: "inhibit_ok env (idc_mode c) (attrs (ConfigureInhibit env d c)) d"
  by (auto simp: inhibit_ok_def ConfigureInhibit_def Let_def SetSysattr_def writable_def)

lemma ConfigureInhibit_keeps:
  "inhibit_ok env m (attrs c) e \<Longrightarrow> td_syspath e \<noteq> td_syspath d \<Longrightarrow>
     inhibit_ok env m (attrs (ConfigureInhibit env d c)) e"
  "wakeup_ok env m (attrs c) e \<Longrightarrow> wakeup_ok env m (attrs (ConfigureInhibit env d c)) e"
  by (auto simp: inhibit_ok_def wakeup_ok_def ConfigureInhibit_def Let_def SetSysattr_def
    kInhibited_def kPowerWakeup_def)

lemma ConfigureWakeup_sets: "wakeup_ok env (idc_mode c) (attrs (ConfigureWakeup env d c)) d"
  by (auto simp: wakeup_ok_def ConfigureWakeup_def SetWakeupFromS3_def SetSysattr_def writable_def)

lemma ConfigureWakeup_keeps:
  assumes "own_wakeup_parents env"
  shows "wakeup_ok env m (attrs c) e \<Longrightarrow> td_syspath e \<noteq> td_syspath d \<Longrightarrow>
      wakeup_ok env m (attrs (ConfigureWakeup env d c)) e"
    and "inhibit_ok env m (attrs c) e \<Longrightarrow> inhibit_ok env m (attrs (ConfigureWakeup env d c)) e"
  using assms by (auto simp: inhibit_ok_def wakeup_ok_def ConfigureWakeup_def SetWakeupFromS3_def
    SetSysattr_def kInhibited_def kPowerWakeup_def own_wakeup_parents_def split: option.split)

section \<open>All devices\<close>

text \<open>
  A loop that sets \<open>P\<close> for the device it handles and keeps it for the others sets it for all.
\<close>

lemma fold_sets_all:
  assumes sets: "\<And>c d. P (f d c) d"
    and keeps: "\<And>c d e. P c e \<Longrightarrow> td_syspath e \<noteq> td_syspath d \<Longrightarrow> P (f d c) e"
  shows "distinct (map td_syspath ds) \<Longrightarrow>
    (\<forall>e \<in> set ds. P (fold f ds c) e) \<and>
    (\<forall>e. P c e \<longrightarrow> td_syspath e \<notin> td_syspath ` set ds \<longrightarrow> P (fold f ds c) e)"
proof (induction ds arbitrary: c)
  case (Cons d ds)
  then have "(\<forall>e \<in> set ds. P (fold f ds (f d c)) e) \<and>
    (\<forall>e. P (f d c) e \<longrightarrow> td_syspath e \<notin> td_syspath ` set ds \<longrightarrow> P (fold f ds (f d c)) e)" by simp
  with sets [of d c] keeps [of c _ d] Cons.prems show ?case by auto
qed simp

lemma fold_keeps_all: "(\<And>c d. P c e \<Longrightarrow> P (f d c) e) \<Longrightarrow> P c e \<Longrightarrow> P (fold f ds c) e"
  by (induction ds arbitrary: c) auto

lemma fold_inhibit_sets:
  assumes "distinct (map td_syspath ds)" "d \<in> set ds"
  shows "inhibit_ok env (idc_mode c) (attrs (fold (ConfigureInhibit env) ds c)) d"
  using fold_sets_all [of "\<lambda>c d. inhibit_ok env (idc_mode c) (attrs c) d" "ConfigureInhibit env" ds c]
    assms ConfigureInhibit_sets ConfigureInhibit_keeps(1)
    attrs_onlyD(1) [OF ConfigureInhibit_attrs_only]
    attrs_onlyD(1) [OF folds_attrs_only(1) [where c = c and env = env and ds = ds]]
  by simp

lemma fold_wakeup_sets:
  assumes "own_wakeup_parents env" "distinct (map td_syspath ds)" "d \<in> set ds"
  shows "wakeup_ok env (idc_mode c) (attrs (fold (ConfigureWakeup env) ds c)) d"
  using fold_sets_all [of "\<lambda>c d. wakeup_ok env (idc_mode c) (attrs c) d" "ConfigureWakeup env" ds c]
    assms ConfigureWakeup_sets ConfigureWakeup_keeps(1) [OF assms(1)]
    attrs_onlyD(1) [OF ConfigureWakeup_attrs_only]
    attrs_onlyD(1) [OF folds_attrs_only(2) [where c = c and env = env and ds = ds]]
  by simp

section \<open>The invariant\<close>

definition acpi_ok :: "idc_env \<Rightarrow> IdcMode \<Rightarrow> acpi_wakeup_helper \<Rightarrow> bool" where
  "acpi_ok env mode w \<longleftrightarrow> (acpi_IsSupported (ie_acpi env) \<longrightarrow>
     GetWakeupEnabled (ie_acpi env) ''TPAD'' w \<in> {None, Some (mode = MODE_LAPTOP)} \<and>
     GetWakeupEnabled (ie_acpi env) ''TSCR'' w \<in> {None, Some False})"

definition ec_ok :: "idc_env \<Rightarrow> IdcMode \<Rightarrow> ec_wakeup_helper \<Rightarrow> bool" where
  "ec_ok env mode w \<longleftrightarrow> ec_inv w \<and>
     (ec_IsSupported w \<and> (\<forall>v. ee_WriteFile (ie_ec env) (ew_sysfs_node w) v) \<longrightarrow>
        ew_cached_wake_angle w = (if mode = MODE_DISPLAY_OFF then 360 else 180))"

definition devices_ok :: "idc_env \<Rightarrow> input_device_controller \<Rightarrow> bool" where
  "devices_ok env c \<longleftrightarrow> (\<forall>d \<in> set (GetTaggedDevices (idc_udev c)).
     inhibit_ok env (idc_mode c) (attrs c) d \<and> wakeup_ok env (idc_mode c) (attrs c) d)"

definition idc_inv :: "idc_env \<Rightarrow> input_device_controller \<Rightarrow> bool" where
  "idc_inv env c \<longleftrightarrow> idc_initialized c \<and> ud_inv (idc_udev c) \<and> idc_mode c = GetMode c \<and>
     devices_ok env c \<and> acpi_ok env (idc_mode c) (idc_acpi c) \<and> ec_ok env (idc_mode c) (idc_ec c)"

lemma distinct_syspaths:
  assumes "ud_inv u"
  shows "distinct (map td_syspath (GetTaggedDevices u))"
proof -
  have "map td_syspath (GetTaggedDevices u) = map fst (ud_tagged_devices u)"
    using assms by (auto simp: GetTaggedDevices_def ud_inv_def)
  then show ?thesis using assms by (simp add: ud_inv_def)
qed

lemma SetWakeupEnabled_result:
  assumes "acpi_kernel env"
  shows "GetWakeupEnabled env name (snd (SetWakeupEnabled env name b w)) \<in> {None, Some b}"
proof (cases "GetWakeupEnabled env name w")
  case None
  then show ?thesis by (simp add: SetWakeupEnabled_unknown)
next
  case (Some a)
  show ?thesis by (simp add: SetWakeupEnabled_readback [OF SetWakeupEnabled_known(1) [OF assms Some]])
qed

lemma ConfigureAcpiWakeup_sets:
  assumes "acpi_kernel (ie_acpi env)"
  shows "acpi_ok env (idc_mode c) (idc_acpi (ConfigureAcpiWakeup env c))"
  using SetWakeupEnabled_result [OF assms] SetWakeupEnabled_other [OF assms, of "''TPAD''" "''TSCR''"]
  by (auto simp: acpi_ok_def ConfigureAcpiWakeup_def)

lemma ConfigureEcWakeup_sets:
  assumes "ec_inv (idc_ec c)"
  shows "ec_ok env (idc_mode c) (idc_ec (ConfigureEcWakeup env c))"
  using assms AllowWakeupAsTablet_inv
  by (auto simp: ec_ok_def ConfigureEcWakeup_def AllowWakeupAsTablet_def ec_inv_def ec_IsSupported_def
    Let_def split: if_splits)

lemma Configure_frames:
  "idc_udev (ConfigureAcpiWakeup env c) = idc_udev c" "idc_ec (ConfigureAcpiWakeup env c) = idc_ec c"
  "idc_mode (ConfigureAcpiWakeup env c) = idc_mode c" "GetMode (ConfigureAcpiWakeup env c) = GetMode c"
  "idc_initialized (ConfigureAcpiWakeup env c) = idc_initialized c"
  "idc_udev (ConfigureEcWakeup env c) = idc_udev c" "idc_acpi (ConfigureEcWakeup env c) = idc_acpi c"
  "idc_mode (ConfigureEcWakeup env c) = idc_mode c" "GetMode (ConfigureEcWakeup env c) = GetMode c"
  "idc_initialized (ConfigureEcWakeup env c) = idc_initialized c"
  by (simp_all add: ConfigureAcpiWakeup_def ConfigureEcWakeup_def)

text \<open>The part of the invariant that does not depend on the mode.\<close>

definition idc_base :: "idc_env \<Rightarrow> input_device_controller \<Rightarrow> bool" where
  "idc_base env c \<longleftrightarrow> own_wakeup_parents env \<and> acpi_kernel (ie_acpi env) \<and>
     ud_inv (idc_udev c) \<and> ec_inv (idc_ec c)"

lemma reconfigure_inv:
  assumes base: "idc_base env c"
  defines "ds \<equiv> GetTaggedDevices (idc_udev c)"
  defines "m \<equiv> c\<lparr>idc_mode := GetMode c\<rparr>"
  defines "w \<equiv> fold (ConfigureWakeup env) ds (fold (ConfigureInhibit env) ds m)"
  defines "f \<equiv> ConfigureEcWakeup env (ConfigureAcpiWakeup env w)"
  shows "idc_inv env (f\<lparr>idc_initialized := True\<rparr>)"
proof -
  let ?i = "fold (ConfigureInhibit env) ds m"
  have own: "own_wakeup_parents env" and ds: "distinct (map td_syspath ds)"
    using base distinct_syspaths by (auto simp: idc_base_def ds_def)
  have i: "attrs_only m ?i" and iw: "attrs_only ?i w" by (simp_all add: w_def folds_attrs_only)
  note mw = attrs_onlyD [OF attrs_only_trans [OF i iw]]
  have "inhibit_ok env (GetMode c) (attrs w) d \<and> wakeup_ok env (GetMode c) (attrs w) d"
    if "d \<in> set ds" for d
  proof -
    have "inhibit_ok env (GetMode c) (attrs ?i) d"
      using fold_inhibit_sets [OF ds that, of env m] by (simp add: m_def)
    moreover have "inhibit_ok env (GetMode c) (attrs x) d \<Longrightarrow>
        inhibit_ok env (GetMode c) (attrs (fold (ConfigureWakeup env) ds x)) d" for x
      by (rule fold_keeps_all [where P = "\<lambda>x. inhibit_ok env (GetMode c) (attrs x)"])
        (rule ConfigureWakeup_keeps(2) [OF own])
    moreover have "wakeup_ok env (GetMode c) (attrs w) d"
      using fold_wakeup_sets [OF own ds that, of ?i] attrs_onlyD(1) [OF i] by (simp add: w_def m_def)
    ultimately show ?thesis by (simp add: w_def)
  qed
  moreover have "GetTaggedDevices (idc_udev f) = ds" "attrs f = attrs w" "idc_mode f = GetMode c"
    "GetMode f = GetMode c" "ud_inv (idc_udev f)"
    using base mw by (simp_all add: f_def Configure_frames GetTaggedDevices_def ds_def m_def idc_base_def)
  moreover have "acpi_ok env (GetMode c) (idc_acpi f)" "ec_ok env (GetMode c) (idc_ec f)"
    using ConfigureAcpiWakeup_sets [of env w] ConfigureEcWakeup_sets [of "ConfigureAcpiWakeup env w" env]
      base mw by (simp_all add: f_def Configure_frames m_def idc_base_def)
  ultimately show ?thesis by (simp add: idc_inv_def devices_ok_def)
qed

lemma idc_inv_base:
  "own_wakeup_parents env \<Longrightarrow> acpi_kernel (ie_acpi env) \<Longrightarrow> idc_inv env c \<Longrightarrow> idc_base env c"
  by (simp add: idc_inv_def idc_base_def ec_ok_def)

lemma UpdatePolicy_inv:
  assumes "idc_base env c" "idc_initialized c" "devices_ok env c"
    "acpi_ok env (idc_mode c) (idc_acpi c)" "ec_ok env (idc_mode c) (idc_ec c)"
  shows "idc_inv env (UpdatePolicy env c)"
proof (cases "idc_mode c = GetMode c")
  case True
  with assms show ?thesis by (simp add: UpdatePolicy_def idc_inv_def idc_base_def Let_def)
next
  case False
  let ?f = "UpdatePolicy env c"
  let ?ds = "GetTaggedDevices (idc_udev c)" and ?m = "c\<lparr>idc_mode := GetMode c\<rparr>"
  have f: "?f = ConfigureEcWakeup env (ConfigureAcpiWakeup env
      (fold (ConfigureWakeup env) ?ds (fold (ConfigureInhibit env) ?ds ?m)))"
    using False assms(2) by (simp add: UpdatePolicy_def Let_def)
  have "idc_initialized (fold (ConfigureWakeup env) ?ds (fold (ConfigureInhibit env) ?ds ?m))"
    using attrs_onlyD(4) [OF attrs_only_trans [OF folds_attrs_only]] assms(2) by simp
  then have "?f\<lparr>idc_initialized := True\<rparr> = ?f" by (simp add: f Configure_frames)
  with reconfigure_inv [OF assms(1)] show ?thesis unfolding f by simp
qed

lemma idc_Init_inv:
  assumes "own_wakeup_parents env" "acpi_kernel (ie_acpi env)" "ud_inv u" "ec_inv ec"
  shows "idc_inv env (idc_Init env ob lid tablet display prefs (InputDeviceController u acpi ec))"
proof -
  define c where "c = (InputDeviceController u acpi ec)\<lparr>idc_udev := AddTaggedDeviceObserver ob u,
    idc_lid_state := lid, idc_tablet_mode := tablet, idc_display_mode := display,
    idc_backlight_enabled := True,
    idc_allow_docked_mode := get_or (pref_bool prefs ''allow_docked_mode'') False\<rparr>"
  have "idc_base env c" using assms
    by (simp add: idc_base_def c_def InputDeviceController_def AddTaggedDeviceObserver_def ud_inv_def)
  moreover have "\<not> idc_initialized c" by (simp add: c_def InputDeviceController_def)
  moreover have "idc_Init env ob lid tablet display prefs (InputDeviceController u acpi ec) =
      (UpdatePolicy env c)\<lparr>idc_initialized := True\<rparr>"
    by (simp add: idc_Init_def c_def InputDeviceController_def Let_def)
  ultimately show ?thesis using reconfigure_inv [of env c] by (simp add: UpdatePolicy_def Let_def)
qed

lemma devices_ok_updates [simp]:
  "devices_ok env (c\<lparr>idc_lid_state := l\<rparr>) = devices_ok env c"
  "devices_ok env (c\<lparr>idc_tablet_mode := t\<rparr>) = devices_ok env c"
  "devices_ok env (c\<lparr>idc_display_mode := d\<rparr>) = devices_ok env c"
  "devices_ok env (c\<lparr>idc_backlight_enabled := b\<rparr>) = devices_ok env c"
  by (simp_all add: devices_ok_def)

lemma set_inputs_inv:
  assumes "own_wakeup_parents env" "acpi_kernel (ie_acpi env)" "idc_inv env c"
  shows "idc_inv env (SetLidState env l c)" "idc_inv env (SetTabletMode env t c)"
    "idc_inv env (SetDisplayMode env d c)" "idc_inv env (idc_OnBrightnessChange env b user c)"
proof -
  note base = idc_inv_base [OF assms]
  have parts: "idc_initialized c" "devices_ok env c" "acpi_ok env (idc_mode c) (idc_acpi c)"
    "ec_ok env (idc_mode c) (idc_ec c)" using assms(3) by (auto simp: idc_inv_def)
  have update: "idc_inv env (UpdatePolicy env c')"
    if "idc_base env c'" "idc_initialized c'" "devices_ok env c'" "idc_mode c' = idc_mode c"
      "idc_acpi c' = idc_acpi c" "idc_ec c' = idc_ec c" for c'
    using that parts by (intro UpdatePolicy_inv) simp_all
  show "idc_inv env (SetLidState env l c)" "idc_inv env (SetTabletMode env t c)"
    "idc_inv env (SetDisplayMode env d c)" "idc_inv env (idc_OnBrightnessChange env b user c)"
    unfolding SetLidState_def SetTabletMode_def SetDisplayMode_def idc_OnBrightnessChange_def
    using base parts assms(3) by (simp_all add: update idc_base_def)
qed

lemma HandleSubsystemEvent_frame:
  "ud_tagged_devices (HandleSubsystemEvent a ev u) = ud_tagged_devices u"
  "ud_sysattrs (HandleSubsystemEvent a ev u) = ud_sysattrs u"
  by (auto simp: HandleSubsystemEvent_def split: option.splits)

lemma device_changed_inv:
  assumes own: "own_wakeup_parents env" and inv: "idc_inv env c"
    and u: "ud_tagged_devices u = map_assign (td_syspath d) d (ud_tagged_devices (idc_udev c))"
      "ud_sysattrs u = attrs c"
  shows "idc_inv env (OnTaggedDeviceChanged env d (c\<lparr>idc_udev := u\<rparr>))"
proof -
  let ?c = "c\<lparr>idc_udev := u\<rparr>"
  let ?i = "ConfigureInhibit env d ?c" and ?w = "OnTaggedDeviceChanged env d ?c"
  have i: "attrs_only ?c ?i" and w: "attrs_only ?i ?w"
    by (simp_all add: OnTaggedDeviceChanged_def ConfigureInhibit_attrs_only ConfigureWakeup_attrs_only)
  note cw = attrs_onlyD [OF attrs_only_trans [OF i w]]
  have di: "devices_ok env c" "ud_inv (idc_udev c)" using inv by (auto simp: idc_inv_def)
  have keys: "e = d \<or> (e \<in> set (GetTaggedDevices (idc_udev c)) \<and> td_syspath e \<noteq> td_syspath d)"
    if "e \<in> set (GetTaggedDevices u)" for e
    using that di(2) by (auto simp: GetTaggedDevices_def u(1) set_map_assign ud_inv_def)
  have "inhibit_ok env (idc_mode c) (attrs ?w) e \<and> wakeup_ok env (idc_mode c) (attrs ?w) e"
    if "e \<in> set (GetTaggedDevices u)" for e
  proof (cases "e = d")
    case True
    then show ?thesis
      using ConfigureInhibit_sets [of env ?c d] ConfigureWakeup_sets [of env ?i d] attrs_onlyD(1) [OF i]
      by (simp add: OnTaggedDeviceChanged_def ConfigureWakeup_keeps(2) [OF own])
  next
    case False
    with keys [OF that] di(1) have "inhibit_ok env (idc_mode c) (attrs ?c) e"
      "wakeup_ok env (idc_mode c) (attrs ?c) e" "td_syspath e \<noteq> td_syspath d"
      by (auto simp: devices_ok_def u(2))
    then show ?thesis
      by (simp add: OnTaggedDeviceChanged_def ConfigureInhibit_keeps ConfigureWakeup_keeps [OF own])
  qed
  moreover have "ud_inv u" using ud_inv_assign [OF di(2), of d] by (simp add: ud_inv_def u(1))
  ultimately show ?thesis
    using inv cw by (auto simp: idc_inv_def devices_ok_def GetTaggedDevices_def)
qed

lemma udev_event_inv:
  assumes own: "own_wakeup_parents env" and inv: "idc_inv env c"
  shows "idc_inv env (idc_udev_event env ev c)"
proof -
  obtain change u where r: "OnFileCanReadWithoutBlocking (ie_udev env) ev (idc_udev c) = (change, u)"
    by (cases "OnFileCanReadWithoutBlocking (ie_udev env) ev (idc_udev c)")
  note defs = OnFileCanReadWithoutBlocking_def HandleTaggedDevice_def TaggedDeviceChanged_def
    TaggedDeviceRemoved_def HandleSubsystemEvent_frame
  have attr: "ud_sysattrs u = attrs c"
    using r by (auto simp: defs Let_def split: option.splits if_splits)
  show ?thesis
  proof (cases change)
    case NoChange
    with r have "ud_tagged_devices u = ud_tagged_devices (idc_udev c)"
      by (auto simp: defs Let_def split: option.splits if_splits)
    with inv attr r NoChange show ?thesis
      by (auto simp: idc_udev_event_def idc_inv_def devices_ok_def GetTaggedDevices_def ud_inv_def)
  next
    case (Changed d)
    with r have "ud_tagged_devices u = map_assign (td_syspath d) d (ud_tagged_devices (idc_udev c))"
      by (auto simp: defs Let_def TaggedDevice_def split: option.splits if_splits)
    from device_changed_inv [OF own inv this attr] r Changed show ?thesis
      by (simp add: idc_udev_event_def Let_def)
  next
    case (Removed d)
    with r obtain k where "ud_tagged_devices u = map_erase k (ud_tagged_devices (idc_udev c))"
      by (auto simp: defs Let_def split: option.splits if_splits)
    moreover from this have "ud_inv u" using inv ud_inv_erase [of "idc_udev c" k]
      by (simp add: idc_inv_def ud_inv_def)
    ultimately show ?thesis using inv attr r Removed
      by (auto simp: idc_udev_event_def idc_inv_def devices_ok_def GetTaggedDevices_def
        OnTaggedDeviceRemoved_def set_map_erase)
  qed
qed

section \<open>Runs\<close>

datatype idc_event = IdcLid LidState | IdcTablet TabletMode | IdcDisplay DisplayMode
  | IdcBrightness rat bool | IdcUdev "udev_event option"

fun idc_step :: "idc_env \<Rightarrow> input_device_controller \<Rightarrow> idc_event \<Rightarrow> input_device_controller option" where
  "idc_step env c (IdcLid l) = Some (SetLidState env l c)"
| "idc_step env c (IdcTablet t) = Some (SetTabletMode env t c)"
| "idc_step env c (IdcDisplay d) = Some (SetDisplayMode env d c)"
| "idc_step env c (IdcBrightness b user) = Some (idc_OnBrightnessChange env b user c)"
| "idc_step env c (IdcUdev ev) = Some (idc_udev_event env ev c)"

interpretation idc: total_event_machine "idc_step env"
  "\<lambda>c. own_wakeup_parents env \<and> acpi_kernel (ie_acpi env) \<and> idc_inv env c" for env
proof
  fix c d e
  show "own_wakeup_parents env \<and> acpi_kernel (ie_acpi env) \<and> idc_inv env d"
    if "own_wakeup_parents env \<and> acpi_kernel (ie_acpi env) \<and> idc_inv env c" "idc_step env c e = Some d"
    using that by (cases e) (auto simp: set_inputs_inv udev_event_inv)
  show "\<exists>d. idc_step env c e = Some d" by (cases e) auto
qed


text \<open>
  An example environment: each device carries its own wakeup attribute, and the ACPI file has
  one character per device.
\<close>

definition example_node :: "string \<Rightarrow> udev_node" where
  "example_node p = \<lparr>un_syspath = p, un_sysattr = (\<lambda>a. Some []), un_devtype = None\<rparr>"

fun example_words :: "string \<Rightarrow> string list" where
  "example_words [] = [[]]"
| "example_words (c # s) = (if c = CHR '' '' then [] # example_words s
     else (c # hd (example_words s)) # tl (example_words s))"

fun example_acpi_tokens :: "string \<Rightarrow> string \<Rightarrow> string list" where
  "example_acpi_tokens text delims =
     (case text of
        [a, b] \<Rightarrow>
          if delims = [CHR 0x0A] then [[CHR ''P'', a], [CHR ''S'', b]]
          else [if a = CHR ''P'' then ''TPAD'' else ''TSCR'', if b = CHR ''1'' then ''enabled'' else ''disabled'']
      | _ \<Rightarrow> [])"

definition example_flip :: "char \<Rightarrow> char" where
  "example_flip c = (if c = CHR ''1'' then CHR ''0'' else CHR ''1'')"

fun example_acpi_write :: "string \<Rightarrow> string option \<Rightarrow> bool \<times> string option" where
  "example_acpi_write name (Some [a, b]) =
     (True, Some (if name = ''TPAD'' then [example_flip a, b] else [a, example_flip b]))"
| "example_acpi_write name contents = (False, contents)"

definition example_idc_env :: idc_env where
  "example_idc_env = \<lparr>
     ie_udev = \<lparr>ue_tokens = (\<lambda>text _. example_words text), ue_chain = (\<lambda>p. [example_node p]),
       ue_set_sysattr_ok = (\<lambda>_ _ _. True)\<rparr>,
     ie_acpi = \<lparr>ae_tokens = example_acpi_tokens, ae_Exists = True, ae_Write = example_acpi_write\<rparr>,
     ie_ec = \<lparr>ee_PathExists = (\<lambda>p. p = k318SysfsPath), ee_IsLink = (\<lambda>_. False),
       ee_ReadSymbolicLink = (\<lambda>_. None), ee_BaseName = (\<lambda>p. p), ee_Append = (\<lambda>p n. p @ n),
       ee_WriteFile = (\<lambda>_ _. True)\<rparr>\<rparr>"

lemma example_acpi_get:
  "GetWakeupEnabled (ie_acpi example_idc_env) name w =
     (case aw_contents w of
        Some [a, b] \<Rightarrow> if name = ''TPAD'' then Some (a = CHR ''1'')
                       else if name = ''TSCR'' then Some (b = CHR ''1'') else None
      | _ \<Rightarrow> None)"
  by (auto simp: GetWakeupEnabled_def example_idc_env_def split: option.splits list.splits)

lemma example_acpi_kernel: "acpi_kernel (ie_acpi example_idc_env)"
proof -
  have "ae_Write (ie_acpi example_idc_env) = example_acpi_write" by (simp add: example_idc_env_def)
  then show ?thesis
    unfolding acpi_kernel_def
    by (auto simp: example_acpi_get ToggleWakeupEnabled_def example_flip_def
      split: option.splits list.splits if_splits)
qed

lemma example_own_parents: "own_wakeup_parents example_idc_env"
  by (simp add: own_wakeup_parents_def FindParentWithSysattr_def example_idc_env_def example_node_def)

definition example_idc_entries :: "(string \<times> bool \<times> string option) list option" where
  "example_idc_entries = Some [(''/sys/touchpad'', True, Some ''inhibit usable_when_laptop wakeup'')]"

definition example_idc_events :: "idc_event list" where
  "example_idc_events = [IdcLid LID_CLOSED,
     IdcUdev (Some \<lparr>uv_subsystem = Some ''input'', uv_sysname = None, uv_action = Some ''add'',
       uv_has_powerd_tag = True, uv_syspath = ''/sys/keyboard'',
       uv_tags = Some ''inhibit usable_when_laptop''\<rparr>),
     IdcLid LID_OPEN, IdcTablet TABLET_ON]"


end
