(* ===== verification/Backlight_Common.thy ===== *)
theory Backlight_Common
  imports Powerd_Prelude
begin

text \<open>
  What the backlight classes share: the enumerations of
  \<^verbatim>\<open>src/power_manager/powerd/policy/backlight_controller.h\<close>, the constants of
  \<^verbatim>\<open>src/power_manager/common/power_constants.cc\<close>, \<^verbatim>\<open>util::ClampPercent()\<close> and \<^verbatim>\<open>lround()\<close>.

  Brightness percentages are doubles in the code. They are exact numbers here (\<open>rat\<close>, or
  \<open>real\<close> where a square root is taken): floating-point rounding is not modelled.
\<close>

datatype BrightnessChangeCause = AUTOMATED | USER_INITIATED

datatype Transition = INSTANT | FAST | SLOW

definition kEpsilon :: "'a::linordered_field" where
  "kEpsilon = 1 / 1000"

definition kFastBacklightTransitionMs :: int where
  "kFastBacklightTransitionMs = 200"

definition kSlowBacklightTransitionMs :: int where
  "kSlowBacklightTransitionMs = 2000"

fun GetTransitionDuration :: "Transition \<Rightarrow> TimeDelta" where
  "GetTransitionDuration INSTANT = 0"
| "GetTransitionDuration FAST = FromMilliseconds kFastBacklightTransitionMs"
| "GetTransitionDuration SLOW = FromMilliseconds kSlowBacklightTransitionMs"

definition ClampPercent :: "'a::linordered_field \<Rightarrow> 'a" where
  "ClampPercent percent = max 0 (min 100 percent)"

text \<open>\<^verbatim>\<open>lround()\<close> rounds to the nearest integer, halves away from zero.\<close>

definition lround :: "'a::floor_ceiling \<Rightarrow> int" where
  "lround x = (if x < 0 then - \<lfloor>- x + 1 / 2\<rfloor> else \<lfloor>x + 1 / 2\<rfloor>)"

lemma ClampPercent_bounds [simp]: "0 \<le> ClampPercent p" "ClampPercent p \<le> 100"
  by (simp_all add: ClampPercent_def)

lemma ClampPercent_id: "0 \<le> p \<Longrightarrow> p \<le> 100 \<Longrightarrow> ClampPercent p = p"
  by (simp add: ClampPercent_def)

lemma lround_of_int [simp]: "lround (of_int n) = n"
proof -
  have "\<lfloor>of_int m + 1 / 2 :: 'a\<rfloor> = m" for m by (simp add: floor_eq_iff)
  from this [of n] this [of "- n"] show ?thesis by (simp add: lround_def)
qed

lemma lround_mono: "x \<le> y \<Longrightarrow> lround x \<le> lround y"
proof -
  assume xy: "x \<le> y"
  consider "0 \<le> x" | "y < 0" | "x < 0" "0 \<le> y" by linarith
  then show ?thesis
  proof cases
    case 1
    with xy show ?thesis by (simp add: lround_def floor_mono)
  next
    case 2
    with xy have "\<lfloor>- y + 1 / 2\<rfloor> \<le> \<lfloor>- x + 1 / 2\<rfloor>" by (intro floor_mono) simp
    with 2 xy show ?thesis by (simp add: lround_def)
  next
    case 3
    define k l where "k = \<lfloor>- x + 1 / 2\<rfloor>" and "l = \<lfloor>y + 1 / 2\<rfloor>"
    have "0 \<le> k" "0 \<le> l" using 3 by (simp_all add: k_def l_def le_floor_iff)
    moreover have "lround x = - k" "lround y = l"
      using 3 unfolding lround_def k_def l_def by auto
    ultimately show ?thesis by linarith
  qed
qed

lemma lround_between: "of_int a \<le> x \<Longrightarrow> x \<le> of_int b \<Longrightarrow> a \<le> lround x \<and> lround x \<le> b"
  using lround_mono [of "of_int a" x] lround_mono [of x "of_int b"] by simp

lemma lround_close:
  fixes x :: "'a::floor_ceiling"
  shows "\<bar>of_int (lround x) - x\<bar> \<le> 1 / 2"
proof (cases "x < 0")
  case True
  define k where "k = \<lfloor>- x + 1 / 2\<rfloor>"
  have "of_int k \<le> - x + 1 / 2" "- x + 1 / 2 < of_int k + 1"
    using floor_correct [of "- x + 1 / 2"] unfolding k_def by (simp_all only: of_int_add of_int_1)
  moreover have "lround x = - k" using True by (simp only: lround_def k_def if_True)
  ultimately show ?thesis unfolding abs_le_iff by auto
next
  case False
  define k where "k = \<lfloor>x + 1 / 2\<rfloor>"
  have "of_int k \<le> x + 1 / 2" "x + 1 / 2 < of_int k + 1"
    using floor_correct [of "x + 1 / 2"] unfolding k_def by (simp_all only: of_int_add of_int_1)
  moreover have "lround x = k" using False by (simp only: lround_def k_def if_False)
  ultimately show ?thesis unfolding abs_le_iff by auto
qed

text \<open>
  The search for the step nearest to a percentage, as both the ambient light handler and the
  keyboard controller write it: the first index with a strictly smaller distance wins.
\<close>

fun nearest_from :: "'a::linordered_field \<Rightarrow> nat \<Rightarrow> (nat \<times> 'a) option \<Rightarrow> 'a list \<Rightarrow> nat option" where
  "nearest_from percent i best [] = map_option fst best"
| "nearest_from percent i best (x # xs) =
     nearest_from percent (Suc i)
       (case best of
          None \<Rightarrow> Some (i, \<bar>percent - x\<bar>)
        | Some (j, delta) \<Rightarrow> if \<bar>percent - x\<bar> < delta then Some (i, \<bar>percent - x\<bar>) else best) xs"

definition nearest :: "'a::linordered_field \<Rightarrow> 'a list \<Rightarrow> nat option" where
  "nearest percent xs = nearest_from percent 0 None xs"

lemma nearest_from_correct:
  assumes "case best of None \<Rightarrow> ys = [] | Some (j, d) \<Rightarrow>
      j < length ys \<and> d = \<bar>p - ys ! j\<bar> \<and> (\<forall>k < length ys. d \<le> \<bar>p - ys ! k\<bar>)"
    and "ys @ xs \<noteq> []"
  shows "\<exists>j. nearest_from p (length ys) best xs = Some j \<and> j < length (ys @ xs) \<and>
    (\<forall>k < length (ys @ xs). \<bar>p - (ys @ xs) ! j\<bar> \<le> \<bar>p - (ys @ xs) ! k\<bar>)"
  using assms
proof (induction xs arbitrary: ys best)
  case Nil
  then show ?case by (auto split: option.splits)
next
  case (Cons x xs)
  define b where "b = (case best of None \<Rightarrow> Some (length ys, \<bar>p - x\<bar>)
    | Some (j, delta) \<Rightarrow> if \<bar>p - x\<bar> < delta then Some (length ys, \<bar>p - x\<bar>) else best)"
  have "case b of None \<Rightarrow> ys @ [x] = [] | Some (j, d) \<Rightarrow> j < length (ys @ [x]) \<and>
      d = \<bar>p - (ys @ [x]) ! j\<bar> \<and> (\<forall>k < length (ys @ [x]). d \<le> \<bar>p - (ys @ [x]) ! k\<bar>)"
    using Cons.prems(1) by (auto simp: b_def nth_append less_Suc_eq split: option.splits)
  from Cons.IH [OF this] show ?case by (simp add: b_def)
qed

lemma nearest_correct:
  "xs \<noteq> [] \<Longrightarrow> \<exists>j. nearest p xs = Some j \<and> j < length xs \<and> (\<forall>k < length xs. \<bar>p - xs ! j\<bar> \<le> \<bar>p - xs ! k\<bar>)"
  using nearest_from_correct [where best = None and ys = "[]" and p = p and xs = xs] by (simp add: nearest_def)

lemma nearest_Nil [simp]: "nearest p [] = None"
  by (simp add: nearest_def)

end
