(* ===== verification/Sysfs_Backlight.thy ===== *)
theory Sysfs_Backlight
  imports Backlight_Common
begin

text \<open>
  \<^verbatim>\<open>InternalBacklight\<close> (\<^verbatim>\<open>src/power_manager/powerd/system/internal_backlight.{h,cc}\<close>): a
  panel or keyboard backlight in sysfs, with animated transitions between levels.

  \<open>sb_env\<close> holds what the file system and libchrome answer; \<open>sb_writes\<close> is the sequence of
  successful writes, as path and level. \<^verbatim>\<open>transition_timer_\<close> is a repeating timer: it keeps
  running until it is stopped. The fraction of a transition is the exact quotient of the two
  durations.
\<close>

section \<open>State\<close>

record sb_env =
  sbe_Append :: "string \<Rightarrow> string \<Rightarrow> string"
  sbe_is_hidden :: "string \<Rightarrow> bool"
  sbe_PathExists :: "string \<Rightarrow> bool"
  sbe_access :: "string \<Rightarrow> bool"
  sbe_ReadFileToString :: "string \<Rightarrow> string option"
  sbe_TrimTrailing :: "string \<Rightarrow> string"
  sbe_StringToInt64 :: "string \<Rightarrow> bool \<times> int"
  sbe_WriteFile :: "string \<Rightarrow> int \<Rightarrow> bool"
  sbe_now :: TimeTicks

record sysfs_backlight =
  sb_writes :: "(string \<times> int) list"
  sb_actual_brightness_path :: string
  sb_brightness_path :: string
  sb_max_brightness_path :: string
  sb_resume_brightness_path :: string
  sb_bl_power_path :: string
  sb_max_brightness_level :: int
  sb_current_brightness_level :: int
  sb_transition_timer :: bool
  sb_transition_timer_start_time :: TimeTicks
  sb_transition_start_time :: TimeTicks
  sb_transition_end_time :: TimeTicks
  sb_transition_start_level :: int
  sb_transition_end_level :: int

definition kTransitionIntervalMs :: int where
  "kTransitionIntervalMs = 20"

definition InternalBacklight :: sysfs_backlight where
  "InternalBacklight = \<lparr>sb_writes = [], sb_actual_brightness_path = [], sb_brightness_path = [],
     sb_max_brightness_path = [], sb_resume_brightness_path = [], sb_bl_power_path = [],
     sb_max_brightness_level = 0, sb_current_brightness_level = 0, sb_transition_timer = False,
     sb_transition_timer_start_time = 0, sb_transition_start_time = 0, sb_transition_end_time = 0,
     sb_transition_start_level = 0, sb_transition_end_level = 0\<rparr>"

section \<open>Setup\<close>

text \<open>The result and the value stored in \<^verbatim>\<open>*level\<close>, which is left alone if the read fails.\<close>

definition ReadBrightnessLevelFromFile :: "sb_env \<Rightarrow> string \<Rightarrow> int \<Rightarrow> bool \<times> int" where
  "ReadBrightnessLevelFromFile env path level =
     (case sbe_ReadFileToString env path of
        None \<Rightarrow> (False, level)
      | Some level_str \<Rightarrow> sbe_StringToInt64 env (sbe_TrimTrailing env level_str))"

definition sb_WriteFile :: "sb_env \<Rightarrow> string \<Rightarrow> int \<Rightarrow> sysfs_backlight \<Rightarrow> bool \<times> sysfs_backlight" where
  "sb_WriteFile env path value b =
     (if sbe_WriteFile env path value then (True, b\<lparr>sb_writes := sb_writes b @ [(path, value)]\<rparr>)
      else (False, b))"

definition use_device :: "sb_env \<Rightarrow> string \<Rightarrow> int \<Rightarrow> sysfs_backlight \<Rightarrow> sysfs_backlight" where
  "use_device env device_path max_level b =
     (let brightness = sbe_Append env device_path ''brightness'';
          actual = sbe_Append env device_path ''actual_brightness'';
          power = sbe_Append env device_path ''bl_power'';
          b1 = b\<lparr>sb_brightness_path := brightness,
                 sb_max_brightness_path := sbe_Append env device_path ''max_brightness'',
                 sb_max_brightness_level := max_level,
                 sb_actual_brightness_path := (if sbe_PathExists env actual then actual else brightness),
                 sb_resume_brightness_path := sbe_Append env device_path ''resume_brightness''\<rparr>
      in if sbe_PathExists env power then b1\<lparr>sb_bl_power_path := power\<rparr> else b1)"

definition try_device :: "sb_env \<Rightarrow> string \<Rightarrow> sysfs_backlight \<Rightarrow> sysfs_backlight" where
  "try_device env device_path b =
     (let max_path = sbe_Append env device_path ''max_brightness'' in
      if sbe_is_hidden env device_path then b
      else if \<not> sbe_PathExists env max_path then b
      else if \<not> sbe_access env (sbe_Append env device_path ''brightness'') then b
      else case ReadBrightnessLevelFromFile env max_path 0 of
             (False, _) \<Rightarrow> b
           | (True, max_level) \<Rightarrow>
               if max_level \<le> sb_max_brightness_level b then b
               else use_device env device_path max_level b)"

text \<open>\<open>devices\<close> is what the directory enumerator returns.\<close>

definition sb_Init :: "sb_env \<Rightarrow> string list \<Rightarrow> sysfs_backlight \<Rightarrow> bool \<times> sysfs_backlight" where
  "sb_Init env devices b0 =
     (let b = fold (try_device env) devices b0 in
      if sb_max_brightness_level b \<le> 0 then (False, b)
      else (True, b\<lparr>sb_current_brightness_level :=
        snd (ReadBrightnessLevelFromFile env (sb_actual_brightness_path b)
               (sb_current_brightness_level b))\<rparr>))"

section \<open>Levels and transitions\<close>

definition GetMaxBrightnessLevel :: "sysfs_backlight \<Rightarrow> int" where
  "GetMaxBrightnessLevel b = sb_max_brightness_level b"

definition GetCurrentBrightnessLevel :: "sysfs_backlight \<Rightarrow> int" where
  "GetCurrentBrightnessLevel b = sb_current_brightness_level b"

definition TransitionInProgress :: "sysfs_backlight \<Rightarrow> bool" where
  "TransitionInProgress b = sb_transition_timer b"

text \<open>\<^verbatim>\<open>FB_BLANK_UNBLANK\<close> is 0 and \<^verbatim>\<open>FB_BLANK_POWERDOWN\<close> is 4.\<close>

definition set_bl_power :: "sb_env \<Rightarrow> int \<Rightarrow> sysfs_backlight \<Rightarrow> sysfs_backlight" where
  "set_bl_power env value b =
     (if sb_current_brightness_level b = 0 \<and> sb_bl_power_path b \<noteq> []
      then snd (sb_WriteFile env (sb_bl_power_path b) value b) else b)"

definition WriteBrightness :: "sb_env \<Rightarrow> int \<Rightarrow> sysfs_backlight \<Rightarrow> bool \<times> sysfs_backlight" where
  "WriteBrightness env new_level b =
     (case sb_WriteFile env (sb_brightness_path b) new_level (set_bl_power env 0 b) of
        (False, b1) \<Rightarrow> (False, b1)
      | (True, b1) \<Rightarrow> (True, set_bl_power env 4 (b1\<lparr>sb_current_brightness_level := new_level\<rparr>)))"

definition CancelTransition :: "sysfs_backlight \<Rightarrow> sysfs_backlight" where
  "CancelTransition b = b\<lparr>sb_transition_timer := False, sb_transition_start_time := 0,
     sb_transition_end_time := 0, sb_transition_start_level := sb_current_brightness_level b,
     sb_transition_end_level := sb_current_brightness_level b\<rparr>"

definition SetBrightnessLevel ::
  "sb_env \<Rightarrow> int \<Rightarrow> TimeDelta \<Rightarrow> sysfs_backlight \<Rightarrow> bool \<times> sysfs_backlight" where
  "SetBrightnessLevel env level interval b =
     (if sb_brightness_path b = [] then (False, b)
      else if level = sb_current_brightness_level b then (True, CancelTransition b)
      else if InMilliseconds interval \<le> kTransitionIntervalMs
      then WriteBrightness env level (CancelTransition b)
      else let b1 = b\<lparr>sb_transition_start_time := sbe_now env,
                      sb_transition_end_time := sbe_now env + interval,
                      sb_transition_start_level := sb_current_brightness_level b,
                      sb_transition_end_level := level\<rparr>
           in (True, if sb_transition_timer b1 then b1
                     else b1\<lparr>sb_transition_timer := True,
                             sb_transition_timer_start_time := sb_transition_start_time b1\<rparr>))"

definition SetResumeBrightnessLevel :: "sb_env \<Rightarrow> int \<Rightarrow> sysfs_backlight \<Rightarrow> bool \<times> sysfs_backlight" where
  "SetResumeBrightnessLevel env level b =
     (if sb_resume_brightness_path b = [] then (False, b)
      else sb_WriteFile env (sb_resume_brightness_path b) level b)"

definition transition_level :: "TimeTicks \<Rightarrow> sysfs_backlight \<Rightarrow> int" where
  "transition_level now b =
     (let transition_fraction = rat_of_int (now - sb_transition_start_time b) /
            rat_of_int (sb_transition_end_time b - sb_transition_start_time b)
      in sb_transition_start_level b + lround (transition_fraction *
           rat_of_int (sb_transition_end_level b - sb_transition_start_level b)))"

definition HandleTransitionTimeout :: "sb_env \<Rightarrow> sysfs_backlight \<Rightarrow> sysfs_backlight" where
  "HandleTransitionTimeout env b =
     (let (new_level, b1) =
        (if sbe_now env \<ge> sb_transition_end_time b
         then (sb_transition_end_level b, b\<lparr>sb_transition_timer := False\<rparr>)
         else (transition_level (sbe_now env) b, b))
      in if new_level = sb_current_brightness_level b1 then b1
         else snd (WriteBrightness env new_level b1))"

text \<open>The timer as the message loop fires it.\<close>

definition fire_transition :: "sb_env \<Rightarrow> sysfs_backlight \<Rightarrow> sysfs_backlight" where
  "fire_transition env b = (if sb_transition_timer b then HandleTransitionTimeout env b else b)"

section \<open>The level a backlight is heading for\<close>

definition sb_target :: "sysfs_backlight \<Rightarrow> int" where
  "sb_target b = (if sb_transition_timer b then sb_transition_end_level b
     else sb_current_brightness_level b)"

definition writes_ok :: "sb_env \<Rightarrow> bool" where
  "writes_ok env \<longleftrightarrow> (\<forall>path v. sbe_WriteFile env path v)"

definition between :: "int \<Rightarrow> int \<Rightarrow> int \<Rightarrow> bool" where
  "between a x b \<longleftrightarrow> (a \<le> x \<and> x \<le> b) \<or> (b \<le> x \<and> x \<le> a)"

definition sb_inv :: "sysfs_backlight \<Rightarrow> bool" where
  "sb_inv b \<longleftrightarrow> sb_brightness_path b \<noteq> [] \<and>
     (sb_transition_timer b \<longrightarrow> sb_transition_start_time b < sb_transition_end_time b \<and>
        between (sb_transition_start_level b) (sb_current_brightness_level b) (sb_transition_end_level b))"

lemma set_bl_power_frame [simp]:
  "sb_brightness_path (set_bl_power env v b) = sb_brightness_path b"
  "sb_current_brightness_level (set_bl_power env v b) = sb_current_brightness_level b"
  "sb_max_brightness_level (set_bl_power env v b) = sb_max_brightness_level b"
  "sb_transition_timer (set_bl_power env v b) = sb_transition_timer b"
  "sb_transition_start_time (set_bl_power env v b) = sb_transition_start_time b"
  "sb_transition_end_time (set_bl_power env v b) = sb_transition_end_time b"
  "sb_transition_start_level (set_bl_power env v b) = sb_transition_start_level b"
  "sb_transition_end_level (set_bl_power env v b) = sb_transition_end_level b"
  by (simp_all add: set_bl_power_def sb_WriteFile_def)

lemma WriteBrightness_ok:
  assumes "writes_ok env"
  shows "fst (WriteBrightness env l b)"
    "sb_current_brightness_level (snd (WriteBrightness env l b)) = l"
    "sb_brightness_path (snd (WriteBrightness env l b)) = sb_brightness_path b"
    "sb_max_brightness_level (snd (WriteBrightness env l b)) = sb_max_brightness_level b"
    "sb_transition_timer (snd (WriteBrightness env l b)) = sb_transition_timer b"
    "sb_transition_start_time (snd (WriteBrightness env l b)) = sb_transition_start_time b"
    "sb_transition_end_time (snd (WriteBrightness env l b)) = sb_transition_end_time b"
    "sb_transition_start_level (snd (WriteBrightness env l b)) = sb_transition_start_level b"
    "sb_transition_end_level (snd (WriteBrightness env l b)) = sb_transition_end_level b"
  using assms by (simp_all add: WriteBrightness_def sb_WriteFile_def writes_ok_def)

lemma SetBrightnessLevel_ok:
  assumes "writes_ok env" "sb_inv b"
  shows "fst (SetBrightnessLevel env l i b)" "sb_inv (snd (SetBrightnessLevel env l i b))"
    "sb_target (snd (SetBrightnessLevel env l i b)) = l"
    "sb_max_brightness_level (snd (SetBrightnessLevel env l i b)) = sb_max_brightness_level b"
proof -
  have "0 < i" if "kTransitionIntervalMs < InMilliseconds i"
  proof (rule ccontr)
    assume "\<not> 0 < i"
    moreover have "0 \<le> \<bar>i\<bar> div 1000" by simp
    ultimately show False using that
      by (cases "i = 0") (simp_all add: InMilliseconds_def kTransitionIntervalMs_def sgn_if)
  qed
  then show "fst (SetBrightnessLevel env l i b)" "sb_inv (snd (SetBrightnessLevel env l i b))"
    "sb_target (snd (SetBrightnessLevel env l i b)) = l"
    "sb_max_brightness_level (snd (SetBrightnessLevel env l i b)) = sb_max_brightness_level b"
    using assms by (auto simp: SetBrightnessLevel_def sb_inv_def sb_target_def CancelTransition_def
      Let_def between_def WriteBrightness_ok)
qed

lemma transition_level_between:
  assumes "sb_transition_start_time b \<le> now" "now \<le> sb_transition_end_time b"
    "sb_transition_start_time b < sb_transition_end_time b"
  shows "between (sb_transition_start_level b) (transition_level now b) (sb_transition_end_level b)"
proof -
  define f :: rat where "f = rat_of_int (now - sb_transition_start_time b) /
    rat_of_int (sb_transition_end_time b - sb_transition_start_time b)"
  define d where "d = sb_transition_end_level b - sb_transition_start_level b"
  have f: "0 \<le> f" "f \<le> 1" using assms by (simp_all add: f_def field_simps)
  have "between 0 (lround (f * rat_of_int d)) d"
  proof (cases "0 \<le> d")
    case True
    with f have "rat_of_int 0 \<le> f * rat_of_int d" "f * rat_of_int d \<le> rat_of_int d"
      by (simp_all add: mult_left_le_one_le)
    from lround_between [OF this] show ?thesis by (simp add: between_def)
  next
    case False
    with f have "rat_of_int d \<le> f * rat_of_int d" "f * rat_of_int d \<le> rat_of_int 0"
      by (simp_all add: mult_nonneg_nonpos mult_le_cancel_right2 field_simps)
    from lround_between [OF this] show ?thesis by (simp add: between_def)
  qed
  moreover have "transition_level now b = sb_transition_start_level b + lround (f * rat_of_int d)"
    by (simp only: transition_level_def f_def d_def Let_def)
  moreover have "sb_transition_end_level b = sb_transition_start_level b + d" by (simp add: d_def)
  ultimately show ?thesis by (auto simp: between_def)
qed

lemma transition_level_mono:
  assumes "sb_transition_start_time b \<le> t" "t \<le> u" "u \<le> sb_transition_end_time b"
    "sb_transition_start_time b < sb_transition_end_time b"
  shows "between (transition_level t b) (transition_level u b) (sb_transition_end_level b)"
proof -
  define q :: "int \<Rightarrow> rat" where "q = (\<lambda>now. rat_of_int (now - sb_transition_start_time b) /
    rat_of_int (sb_transition_end_time b - sb_transition_start_time b))"
  define d where "d = sb_transition_end_level b - sb_transition_start_level b"
  have level: "transition_level now b = sb_transition_start_level b + lround (q now * rat_of_int d)" for now
    by (simp only: transition_level_def q_def d_def Let_def)
  have le: "q t \<le> q u" using assms(2,4) by (simp add: q_def divide_right_mono)
  have tu: "between (sb_transition_start_level b) (transition_level t b) (sb_transition_end_level b)"
    "between (sb_transition_start_level b) (transition_level u b) (sb_transition_end_level b)"
    using assms by (simp_all add: transition_level_between)
  show ?thesis
  proof (cases "0 \<le> d")
    case True
    then have "q t * rat_of_int d \<le> q u * rat_of_int d" using le by (simp add: mult_right_mono)
    from lround_mono [OF this] tu True show ?thesis by (auto simp: level d_def between_def)
  next
    case False
    then have "q u * rat_of_int d \<le> q t * rat_of_int d" using le by (simp add: mult_right_mono_neg)
    from lround_mono [OF this] tu False show ?thesis by (auto simp: level d_def between_def)
  qed
qed

text \<open>
  What holds of a running transition at time \<open>t\<close>: the level shown does not pass a level that
  is still to come.
\<close>

definition sb_inv_at :: "TimeTicks \<Rightarrow> sysfs_backlight \<Rightarrow> bool" where
  "sb_inv_at t b \<longleftrightarrow> sb_inv b \<and>
     (sb_transition_timer b \<longrightarrow> sb_transition_start_time b \<le> t \<and>
        (\<forall>u. t \<le> u \<longrightarrow> u \<le> sb_transition_end_time b \<longrightarrow>
           between (sb_current_brightness_level b) (transition_level u b) (sb_transition_end_level b)))"

lemma SetBrightnessLevel_inv_at:
  assumes "writes_ok env" "sb_inv b"
  shows "sb_inv_at (sbe_now env) (snd (SetBrightnessLevel env l i b))"
proof -
  let ?c = "snd (SetBrightnessLevel env l i b)"
  have "sb_transition_timer ?c \<Longrightarrow> sb_transition_start_time ?c = sbe_now env \<and>
      sb_transition_start_level ?c = sb_current_brightness_level ?c"
    using assms by (auto simp: SetBrightnessLevel_def CancelTransition_def Let_def WriteBrightness_ok
      sb_inv_def split: if_splits)
  then show ?thesis
    using SetBrightnessLevel_ok(2) [OF assms, of l i] transition_level_between [of ?c]
    by (auto simp: sb_inv_at_def sb_inv_def)
qed

lemma transition_level_frame:
  "sb_transition_start_time c = sb_transition_start_time b \<Longrightarrow>
   sb_transition_end_time c = sb_transition_end_time b \<Longrightarrow>
   sb_transition_start_level c = sb_transition_start_level b \<Longrightarrow>
   sb_transition_end_level c = sb_transition_end_level b \<Longrightarrow> transition_level u c = transition_level u b"
  by (simp add: transition_level_def)

lemma fire_transition_step:
  assumes "writes_ok env" "sb_inv_at t b" "t \<le> sbe_now env"
  defines "c \<equiv> fire_transition env b"
  shows "sb_inv_at (sbe_now env) c" "sb_target c = sb_target b"
    "between (sb_current_brightness_level b) (sb_current_brightness_level c) (sb_target b)"
    "sb_transition_timer c \<longleftrightarrow> sb_transition_timer b \<and> sbe_now env < sb_transition_end_time b"
    "sb_transition_end_time c = sb_transition_end_time b"
proof -
  have "sb_inv_at (sbe_now env) c \<and> sb_target c = sb_target b \<and>
    between (sb_current_brightness_level b) (sb_current_brightness_level c) (sb_target b) \<and>
    (sb_transition_timer c \<longleftrightarrow> sb_transition_timer b \<and> sbe_now env < sb_transition_end_time b) \<and>
    sb_transition_end_time c = sb_transition_end_time b"
  proof (cases "sb_transition_timer b")
    case False
    then show ?thesis using assms by (auto simp: fire_transition_def sb_inv_at_def between_def sb_target_def)
  next
    case timer: True
    have inv: "sb_inv b" "sb_transition_start_time b \<le> t" using assms(2) timer by (auto simp: sb_inv_at_def)
    show ?thesis
    proof (cases "sb_transition_end_time b \<le> sbe_now env")
      case True
      then show ?thesis using timer inv assms(1)
        by (auto simp: c_def fire_transition_def HandleTransitionTimeout_def WriteBrightness_ok
          sb_inv_at_def sb_inv_def sb_target_def between_def)
    next
      case False
      let ?l = "transition_level (sbe_now env) b"
      have c: "sb_current_brightness_level c = ?l" "sb_transition_timer c"
        "sb_transition_start_time c = sb_transition_start_time b"
        "sb_transition_end_time c = sb_transition_end_time b"
        "sb_transition_start_level c = sb_transition_start_level b"
        "sb_transition_end_level c = sb_transition_end_level b" "sb_brightness_path c = sb_brightness_path b"
        using False timer assms(1)
        by (simp_all add: c_def fire_transition_def HandleTransitionTimeout_def WriteBrightness_ok)
      have l: "between (sb_current_brightness_level b) ?l (sb_transition_end_level b)"
        "between (sb_transition_start_level b) ?l (sb_transition_end_level b)"
        using assms(2,3) timer False inv transition_level_between [of b "sbe_now env"]
        by (auto simp: sb_inv_at_def sb_inv_def)
      have "between ?l (transition_level u b) (sb_transition_end_level b)"
        if "sbe_now env \<le> u" "u \<le> sb_transition_end_time b" for u
        using transition_level_mono [of b "sbe_now env" u] that inv timer assms(3) by (simp add: sb_inv_def)
      with c l inv timer False assms(3) show ?thesis
        by (simp add: sb_inv_at_def sb_inv_def sb_target_def transition_level_frame [of c b])
    qed
  qed
  then show "sb_inv_at (sbe_now env) c" "sb_target c = sb_target b"
    "between (sb_current_brightness_level b) (sb_current_brightness_level c) (sb_target b)"
    "sb_transition_timer c \<longleftrightarrow> sb_transition_timer b \<and> sbe_now env < sb_transition_end_time b"
    "sb_transition_end_time c = sb_transition_end_time b" by blast+
qed

text \<open>Timeouts at the given times.\<close>

definition run_transition :: "sb_env \<Rightarrow> TimeTicks list \<Rightarrow> sysfs_backlight \<Rightarrow> sysfs_backlight" where
  "run_transition env ts b = fold (\<lambda>t. fire_transition (env\<lparr>sbe_now := t\<rparr>)) ts b"

lemma between_trans: "between a x z \<Longrightarrow> between x y z \<Longrightarrow> between a y z"
  by (auto simp: between_def)

lemma between_refl [simp]: "between x x z" "between z x x"
  by (auto simp: between_def)

lemma run_transition_steps:
  assumes "writes_ok env"
  shows "sb_inv_at t b \<Longrightarrow> sorted (t # ts) \<Longrightarrow>
    sb_inv_at (last (t # ts)) (run_transition env ts b) \<and>
    sb_target (run_transition env ts b) = sb_target b \<and>
    between (sb_current_brightness_level b) (sb_current_brightness_level (run_transition env ts b))
      (sb_target b) \<and>
    (sb_transition_timer (run_transition env ts b) \<longleftrightarrow>
       sb_transition_timer b \<and> (\<forall>u \<in> set ts. u < sb_transition_end_time b))"
proof (induction ts arbitrary: t b)
  case (Cons u ts)
  let ?c = "fire_transition (env\<lparr>sbe_now := u\<rparr>) b"
  have ok: "writes_ok (env\<lparr>sbe_now := u\<rparr>)" using assms by (simp add: writes_ok_def)
  note step = fire_transition_step [OF ok Cons.prems(1)]
  have "sb_inv_at (last (u # ts)) (run_transition env ts ?c) \<and>
    sb_target (run_transition env ts ?c) = sb_target ?c \<and>
    between (sb_current_brightness_level ?c) (sb_current_brightness_level (run_transition env ts ?c))
      (sb_target ?c) \<and>
    (sb_transition_timer (run_transition env ts ?c) \<longleftrightarrow>
       sb_transition_timer ?c \<and> (\<forall>v \<in> set ts. v < sb_transition_end_time ?c))"
    using step Cons.prems(2) by (intro Cons.IH) simp_all
  then show ?case using step Cons.prems(2) by (auto simp: run_transition_def intro: between_trans)
qed (simp add: run_transition_def)


definition example_sb_env :: sb_env where
  "example_sb_env = \<lparr>sbe_Append = (\<lambda>d n. d @ CHR ''/'' # n), sbe_is_hidden = (\<lambda>_. False),
     sbe_PathExists = (\<lambda>_. True), sbe_access = (\<lambda>_. True),
     sbe_ReadFileToString = (\<lambda>p. Some p), sbe_TrimTrailing = (\<lambda>s. s),
     sbe_StringToInt64 = (\<lambda>s. (True, int (length s))), sbe_WriteFile = (\<lambda>_ _. True), sbe_now = 1000\<rparr>"

definition example_backlight :: sysfs_backlight where
  "example_backlight = snd (sb_Init example_sb_env [''/sys/panel''] InternalBacklight)"

lemma example_writes_ok: "writes_ok example_sb_env"
  by (simp add: writes_ok_def example_sb_env_def)

lemma example_backlight_inv: "sb_inv example_backlight"
  by code_simp


section \<open>The device as the controllers see it\<close>

text \<open>
  \<^verbatim>\<open>BacklightInterface\<close>: a successful request makes the requested level the one the device
  is heading for, and the passing of time does not change it.
\<close>

locale backlight_device =
  fixes set_level :: "'e \<Rightarrow> int \<Rightarrow> TimeDelta \<Rightarrow> 'b \<Rightarrow> bool \<times> 'b"
    and in_progress :: "'b \<Rightarrow> bool"
    and tick :: "'e \<Rightarrow> 'b \<Rightarrow> 'b"
    and target :: "'b \<Rightarrow> int"
    and works :: "'e \<Rightarrow> bool"
    and ok :: "'b \<Rightarrow> bool"
  assumes set_level: "works e \<Longrightarrow> ok b \<Longrightarrow>
      fst (set_level e l i b) \<and> ok (snd (set_level e l i b)) \<and> target (snd (set_level e l i b)) = l"
    and tick: "works e \<Longrightarrow> ok b \<Longrightarrow> ok (tick e b) \<and> target (tick e b) = target b"
begin

text \<open>
  The controllers' common way of applying a level: nothing is sent when the cached level is
  the requested one and no transition is running. The cached level follows the target.
\<close>

lemma cached_level_tracks:
  fixes l
  assumes "works e" "ok b" "cached = target b"
  defines "skip \<equiv> l = cached \<and> \<not> in_progress b"
  shows "(if skip then cached else if fst (set_level e l i b) then l else cached) =
      target (if skip then b else snd (set_level e l i b))"
    and "ok (if skip then b else snd (set_level e l i b))"
    and "target (if skip then b else snd (set_level e l i b)) = l"
  using set_level [OF assms(1,2), of l i] assms(2,3) by (auto simp: skip_def)

end

lemma device_target:
  assumes "writes_ok env" "sb_brightness_path b \<noteq> []"
  shows "fst (SetBrightnessLevel env l i b)" "sb_target (snd (SetBrightnessLevel env l i b)) = l"
    "sb_brightness_path (snd (SetBrightnessLevel env l i b)) = sb_brightness_path b"
    "sb_target (fire_transition env b) = sb_target b"
    "sb_brightness_path (fire_transition env b) = sb_brightness_path b"
  using assms by (auto simp: SetBrightnessLevel_def CancelTransition_def fire_transition_def
    HandleTransitionTimeout_def sb_target_def Let_def WriteBrightness_ok)

interpretation sysfs: backlight_device SetBrightnessLevel TransitionInProgress fire_transition sb_target
  writes_ok "\<lambda>b. sb_brightness_path b \<noteq> []"
  by unfold_locales (simp_all add: device_target)

end
