(* ===== verification/Ambient_Light.thy ===== *)
theory Ambient_Light
  imports Backlight_Common
begin

text \<open>
  \<^verbatim>\<open>AmbientLightHandler\<close>
  (\<^verbatim>\<open>src/power_manager/powerd/policy/ambient_light_handler.{h,cc}\<close>): picks a brightness step
  from the readings of an ambient light sensor, with hysteresis.

  The call of the delegate that an operation makes (at most one) is returned with the new
  state; the delegates do not call back. A failed \<^verbatim>\<open>CHECK\<close> and \<^verbatim>\<open>LOG(FATAL)\<close> are \<open>None\<close>.
  Strings are split and parsed by the functions of \<open>alh_libs\<close>.
\<close>

section \<open>State\<close>

datatype AlhCause = AMBIENT_LIGHT | POWER_SOURCE

datatype HysteresisState = HS_STABLE | HS_DECREASING | HS_INCREASING | HS_IMMEDIATE

record brightness_step =
  bs_ac_target_percent :: real
  bs_battery_target_percent :: real
  bs_decrease_lux_threshold :: int
  bs_increase_lux_threshold :: int

record alh_libs =
  al_SplitLines :: "string \<Rightarrow> string list"
  al_SplitSpaces :: "string \<Rightarrow> string list"
  al_StringToDouble :: "string \<Rightarrow> real option"
  al_StringToInt :: "string \<Rightarrow> int option"

record ambient_light_handler =
  alh_power_source :: PowerSource
  alh_lux_level :: int
  alh_hysteresis_state :: HysteresisState
  alh_hysteresis_count :: int
  alh_steps :: "brightness_step list"
  alh_step_index :: nat
  alh_sent_initial_adjustment :: bool

type_synonym alh_call = "(real \<times> AlhCause) option"

definition kHysteresisThreshold :: int where
  "kHysteresisThreshold = 2"

definition AmbientLightHandler :: ambient_light_handler where
  "AmbientLightHandler = \<lparr>alh_power_source = AC, alh_lux_level = 0,
     alh_hysteresis_state = HS_IMMEDIATE, alh_hysteresis_count = 0, alh_steps = [],
     alh_step_index = 0, alh_sent_initial_adjustment = False\<rparr>"

section \<open>Setup\<close>

definition parse_step :: "alh_libs \<Rightarrow> string \<Rightarrow> brightness_step option" where
  "parse_step L line =
     (case al_SplitSpaces L line of
        [a, d, i] \<Rightarrow>
          (case (al_StringToDouble L a, al_StringToInt L d, al_StringToInt L i) of
             (Some ac, Some dec, Some inc) \<Rightarrow>
               Some \<lparr>bs_ac_target_percent = ac, bs_battery_target_percent = ac,
                     bs_decrease_lux_threshold = dec, bs_increase_lux_threshold = inc\<rparr>
           | _ \<Rightarrow> None)
      | [a, b, d, i] \<Rightarrow>
          (case (al_StringToDouble L a, al_StringToDouble L b, al_StringToInt L d, al_StringToInt L i) of
             (Some ac, Some battery, Some dec, Some inc) \<Rightarrow>
               Some \<lparr>bs_ac_target_percent = ac, bs_battery_target_percent = battery,
                     bs_decrease_lux_threshold = dec, bs_increase_lux_threshold = inc\<rparr>
           | _ \<Rightarrow> None)
      | _ \<Rightarrow> None)"

fun parse_steps :: "alh_libs \<Rightarrow> string list \<Rightarrow> brightness_step list option" where
  "parse_steps L [] = Some []"
| "parse_steps L (line # lines) =
     (case parse_step L line of
        None \<Rightarrow> None
      | Some s \<Rightarrow> map_option ((#) s) (parse_steps L lines))"

text \<open>Both thresholds are nonnegative where the midpoint is taken; C++ division truncates.\<close>

definition synthetic_lux :: "brightness_step \<Rightarrow> int" where
  "synthetic_lux s =
     (let dec = bs_decrease_lux_threshold s; inc = bs_increase_lux_threshold s in
      if dec \<ge> 0 \<and> inc \<ge> 0 then dec + sgn (inc - dec) * (\<bar>inc - dec\<bar> div 2)
      else if dec \<ge> 0 then dec
      else if inc \<ge> 0 then inc
      else 0)"

definition alh_Init ::
  "alh_libs \<Rightarrow> string \<Rightarrow> real \<Rightarrow> ambient_light_handler \<Rightarrow> ambient_light_handler option" where
  "alh_Init L steps_pref_value initial_brightness_percent h =
     (case parse_steps L (al_SplitLines L steps_pref_value) of
        None \<Rightarrow> None
      | Some new_steps \<Rightarrow>
          let steps = alh_steps h @ new_steps in
          if steps = [] \<or> bs_decrease_lux_threshold (hd steps) \<noteq> -1 \<or>
             bs_increase_lux_threshold (last steps) \<noteq> -1
          then None
          else case nearest initial_brightness_percent (map bs_ac_target_percent steps) of
                 None \<Rightarrow> None
               | Some i \<Rightarrow> Some (h\<lparr>alh_steps := steps, alh_step_index := i,
                                 alh_lux_level := synthetic_lux (steps ! i)\<rparr>))"

section \<open>Adjustments\<close>

definition GetTargetPercent :: "ambient_light_handler \<Rightarrow> real option" where
  "GetTargetPercent h =
     (if alh_step_index h < length (alh_steps h)
      then let s = alh_steps h ! alh_step_index h
           in Some (if alh_power_source h = AC then bs_ac_target_percent s else bs_battery_target_percent s)
      else None)"

definition alh_HandlePowerSourceChange ::
  "PowerSource \<Rightarrow> ambient_light_handler \<Rightarrow> (alh_call \<times> ambient_light_handler) option" where
  "alh_HandlePowerSourceChange source h =
     (if source = alh_power_source h then Some (None, h)
      else let h1 = h\<lparr>alh_power_source := source\<rparr> in
           case (GetTargetPercent h, GetTargetPercent h1) of
             (Some old_percent, Some new_percent) \<Rightarrow>
               Some (if new_percent \<noteq> old_percent \<and> alh_sent_initial_adjustment h1
                     then Some (new_percent, POWER_SOURCE) else None, h1)
           | _ \<Rightarrow> None)"

text \<open>The two loops over the steps; running off an end fails the \<^verbatim>\<open>CHECK\<close> that follows them.\<close>

fun walk_up :: "int \<Rightarrow> nat \<Rightarrow> brightness_step list \<Rightarrow> nat option" where
  "walk_up lux i [] = None"
| "walk_up lux i (s # rest) =
     (if lux < bs_increase_lux_threshold s \<or> bs_increase_lux_threshold s = -1 then Some i
      else walk_up lux (Suc i) rest)"

fun walk_down :: "int \<Rightarrow> nat \<Rightarrow> brightness_step list \<Rightarrow> nat option" where
  "walk_down lux 0 steps =
     (if lux > bs_decrease_lux_threshold (steps ! 0) \<or> bs_decrease_lux_threshold (steps ! 0) = -1
      then Some 0 else None)"
| "walk_down lux (Suc i) steps =
     (if lux > bs_decrease_lux_threshold (steps ! Suc i) \<or>
         bs_decrease_lux_threshold (steps ! Suc i) = -1
      then Some (Suc i) else walk_down lux i steps)"

definition note_direction :: "int \<Rightarrow> ambient_light_handler \<Rightarrow> ambient_light_handler" where
  "note_direction new_lux h =
     (if new_lux > alh_lux_level h
      then (if alh_hysteresis_state h \<notin> {HS_IMMEDIATE, HS_INCREASING}
            then h\<lparr>alh_hysteresis_state := HS_INCREASING, alh_hysteresis_count := 0\<rparr> else h)
      else if new_lux < alh_lux_level h
      then (if alh_hysteresis_state h \<notin> {HS_IMMEDIATE, HS_DECREASING}
            then h\<lparr>alh_hysteresis_state := HS_DECREASING, alh_hysteresis_count := 0\<rparr> else h)
      else h)"

definition find_step :: "int \<Rightarrow> ambient_light_handler \<Rightarrow> nat option" where
  "find_step new_lux h =
     (let i = alh_step_index h; steps = alh_steps h in
      if length steps \<le> i then None
      else if new_lux > alh_lux_level h then walk_up new_lux i (drop i steps)
      else if new_lux < alh_lux_level h then walk_down new_lux i steps
      else Some i)"

text \<open>\<open>lux\<close> is what the sensor reports.\<close>

definition OnAmbientLightUpdated ::
  "int \<Rightarrow> ambient_light_handler \<Rightarrow> (alh_call \<times> ambient_light_handler) option" where
  "OnAmbientLightUpdated new_lux h =
     (if new_lux < 0 then Some (None, h)
      else if alh_hysteresis_state h \<noteq> HS_IMMEDIATE \<and> new_lux = alh_lux_level h
      then Some (None, h\<lparr>alh_hysteresis_state := HS_STABLE\<rparr>)
      else let h1 = note_direction new_lux h in
      case find_step new_lux h of
        None \<Rightarrow> None
      | Some new_step_index \<Rightarrow>
          if alh_hysteresis_state h1 = HS_IMMEDIATE
          then let h2 = h1\<lparr>alh_step_index := new_step_index, alh_lux_level := new_lux,
                            alh_hysteresis_state := HS_STABLE, alh_hysteresis_count := 0\<rparr>
               in map_option (\<lambda>target. (Some (target, AMBIENT_LIGHT),
                    h2\<lparr>alh_sent_initial_adjustment := True\<rparr>)) (GetTargetPercent h2)
          else if alh_step_index h1 = new_step_index then Some (None, h1)
          else let h3 = h1\<lparr>alh_hysteresis_count := alh_hysteresis_count h1 + 1\<rparr> in
               if alh_hysteresis_count h3 \<ge> kHysteresisThreshold
               then let h4 = h3\<lparr>alh_step_index := new_step_index, alh_lux_level := new_lux,
                                 alh_hysteresis_count := 1\<rparr>
                    in map_option (\<lambda>target. (Some (target, AMBIENT_LIGHT),
                         h4\<lparr>alh_sent_initial_adjustment := True\<rparr>)) (GetTargetPercent h4)
               else Some (None, h3))"

section \<open>The handler never falls off its steps\<close>

definition steps_ok :: "brightness_step list \<Rightarrow> bool" where
  "steps_ok steps \<longleftrightarrow> steps \<noteq> [] \<and> bs_decrease_lux_threshold (hd steps) = -1 \<and>
     bs_increase_lux_threshold (last steps) = -1"

definition alh_inv :: "ambient_light_handler \<Rightarrow> bool" where
  "alh_inv h \<longleftrightarrow> steps_ok (alh_steps h) \<and> alh_step_index h < length (alh_steps h)"

lemma walk_up_correct:
  assumes "xs \<noteq> []" "bs_increase_lux_threshold (last xs) = -1"
  shows "\<exists>k < length xs. walk_up lux i xs = Some (i + k) \<and>
    (lux < bs_increase_lux_threshold (xs ! k) \<or> bs_increase_lux_threshold (xs ! k) = -1) \<and>
    (\<forall>j < k. bs_increase_lux_threshold (xs ! j) \<noteq> -1 \<and> bs_increase_lux_threshold (xs ! j) \<le> lux)"
  using assms
proof (induction lux i xs rule: walk_up.induct)
  case (2 lux i s rest)
  show ?case
  proof (cases "lux < bs_increase_lux_threshold s \<or> bs_increase_lux_threshold s = -1")
    case False
    with "2.prems" have "rest \<noteq> []" by auto
    with "2.IH" [OF False] "2.prems" obtain k where k: "k < length rest"
      "walk_up lux (Suc i) rest = Some (Suc i + k)"
      "lux < bs_increase_lux_threshold (rest ! k) \<or> bs_increase_lux_threshold (rest ! k) = -1"
      "\<forall>j < k. bs_increase_lux_threshold (rest ! j) \<noteq> -1 \<and> bs_increase_lux_threshold (rest ! j) \<le> lux"
      by auto
    then show ?thesis using False by (intro exI [of _ "Suc k"]) (auto simp: nth_Cons split: nat.splits)
  qed auto
qed simp

lemma walk_down_correct:
  assumes "steps \<noteq> []" "bs_decrease_lux_threshold (hd steps) = -1"
  shows "\<exists>k \<le> i. walk_down lux i steps = Some k \<and>
    (lux > bs_decrease_lux_threshold (steps ! k) \<or> bs_decrease_lux_threshold (steps ! k) = -1) \<and>
    (\<forall>j \<in> {k<..i}. bs_decrease_lux_threshold (steps ! j) \<noteq> -1 \<and> lux \<le> bs_decrease_lux_threshold (steps ! j))"
  using assms
proof (induction lux i steps rule: walk_down.induct)
  case (1 lux steps)
  then show ?case by (simp add: hd_conv_nth)
next
  case (2 lux i steps)
  show ?case
  proof (cases "lux > bs_decrease_lux_threshold (steps ! Suc i) \<or> bs_decrease_lux_threshold (steps ! Suc i) = -1")
    case True
    then show ?thesis by (intro exI [of _ "Suc i"]) simp
  next
    case False
    with 2 show ?thesis by (auto simp: le_Suc_eq not_less)
  qed
qed

text \<open>\<open>find_step\<close> takes the nearest step, in the direction of the reading, whose range admits it.\<close>

lemma find_step_up:
  assumes "alh_inv h" "lux > alh_lux_level h"
  shows "\<exists>k \<ge> alh_step_index h. find_step lux h = Some k \<and> k < length (alh_steps h) \<and>
    (lux < bs_increase_lux_threshold (alh_steps h ! k) \<or> bs_increase_lux_threshold (alh_steps h ! k) = -1) \<and>
    (\<forall>j \<in> {alh_step_index h..<k}. bs_increase_lux_threshold (alh_steps h ! j) \<le> lux)"
proof -
  define i where "i = alh_step_index h"
  define xs where "xs = drop i (alh_steps h)"
  have i: "i < length (alh_steps h)" using assms by (simp add: alh_inv_def i_def)
  then have "xs \<noteq> []" "bs_increase_lux_threshold (last xs) = -1"
    using assms by (auto simp: alh_inv_def steps_ok_def xs_def)
  from walk_up_correct [OF this, of lux i] obtain k where k: "k < length xs"
    "walk_up lux i xs = Some (i + k)"
    "lux < bs_increase_lux_threshold (xs ! k) \<or> bs_increase_lux_threshold (xs ! k) = -1"
    "\<forall>j < k. bs_increase_lux_threshold (xs ! j) \<noteq> -1 \<and> bs_increase_lux_threshold (xs ! j) \<le> lux"
    by auto
  have "bs_increase_lux_threshold (alh_steps h ! j) \<le> lux" if "j \<in> {i..<i + k}" for j
    using k(4) [rule_format, of "j - i"] that i k(1) by (auto simp: xs_def)
  with k i assms show ?thesis
    by (intro exI [of _ "i + k"]) (auto simp: find_step_def xs_def i_def Let_def)
qed

lemma find_step_down:
  assumes "alh_inv h" "lux < alh_lux_level h"
  shows "\<exists>k \<le> alh_step_index h. find_step lux h = Some k \<and> k < length (alh_steps h) \<and>
    (lux > bs_decrease_lux_threshold (alh_steps h ! k) \<or> bs_decrease_lux_threshold (alh_steps h ! k) = -1) \<and>
    (\<forall>j \<in> {k<..alh_step_index h}. lux \<le> bs_decrease_lux_threshold (alh_steps h ! j))"
  using walk_down_correct [of "alh_steps h" "alh_step_index h" lux] assms
  by (force simp: find_step_def alh_inv_def steps_ok_def Let_def)

lemma find_step_Some: "alh_inv h \<Longrightarrow> \<exists>k < length (alh_steps h). find_step lux h = Some k"
  using find_step_up [of h lux] find_step_down [of h lux]
  by (cases lux "alh_lux_level h" rule: linorder_cases) (auto simp: find_step_def alh_inv_def Let_def)

lemma GetTargetPercent_Some [simp]: "alh_step_index h < length (alh_steps h) \<Longrightarrow>
  GetTargetPercent h = Some (if alh_power_source h = AC then bs_ac_target_percent (alh_steps h ! alh_step_index h)
    else bs_battery_target_percent (alh_steps h ! alh_step_index h))"
  by (simp add: GetTargetPercent_def Let_def)

lemma note_direction_frame [simp]:
  "alh_steps (note_direction l h) = alh_steps h" "alh_step_index (note_direction l h) = alh_step_index h"
  "alh_lux_level (note_direction l h) = alh_lux_level h"
  "alh_power_source (note_direction l h) = alh_power_source h"
  "alh_hysteresis_state (note_direction l h) = HS_IMMEDIATE \<longleftrightarrow> alh_hysteresis_state h = HS_IMMEDIATE"
  by (auto simp: note_direction_def)

lemma alh_Init_inv: "alh_Init L v p h = Some h' \<Longrightarrow> alh_inv h'"
  using nearest_correct [of "map bs_ac_target_percent (alh_steps h')" p]
  by (auto simp: alh_Init_def alh_inv_def steps_ok_def Let_def split: option.splits if_splits)

datatype alh_event = AlhLight int | AlhPower PowerSource

fun alh_step :: "ambient_light_handler \<Rightarrow> alh_event \<Rightarrow> ambient_light_handler option" where
  "alh_step h (AlhLight lux) = map_option snd (OnAmbientLightUpdated lux h)"
| "alh_step h (AlhPower src) = map_option snd (alh_HandlePowerSourceChange src h)"

lemma OnAmbientLightUpdated_inv:
  "alh_inv h \<Longrightarrow> \<exists>c h'. OnAmbientLightUpdated lux h = Some (c, h') \<and> alh_inv h' \<and> alh_steps h' = alh_steps h \<and>
     (c \<noteq> None \<longrightarrow> (\<exists>p. c = Some (p, AMBIENT_LIGHT) \<and> GetTargetPercent h' = Some p))"
  using find_step_Some [of h lux] by (auto simp: OnAmbientLightUpdated_def alh_inv_def Let_def)

lemma alh_HandlePowerSourceChange_inv:
  "alh_inv h \<Longrightarrow> \<exists>c h'. alh_HandlePowerSourceChange src h = Some (c, h') \<and> alh_inv h' \<and>
     alh_steps h' = alh_steps h \<and> (c \<noteq> None \<longrightarrow> (\<exists>p. c = Some (p, POWER_SOURCE) \<and> GetTargetPercent h' = Some p))"
  by (auto simp: alh_HandlePowerSourceChange_def alh_inv_def Let_def)

lemma alh_step_inv: "alh_inv h \<Longrightarrow> \<exists>t. alh_step h e = Some t \<and> alh_inv t \<and> alh_steps t = alh_steps h"
proof (cases e)
  case (AlhLight lux)
  then show "alh_inv h \<Longrightarrow> ?thesis" using OnAmbientLightUpdated_inv [of h lux] by force
next
  case (AlhPower src)
  then show "alh_inv h \<Longrightarrow> ?thesis" using alh_HandlePowerSourceChange_inv [of h src] by force
qed

interpretation alh: total_event_machine alh_step alh_inv
  using alh_step_inv by unfold_locales (metis option.inject)+

section \<open>Hysteresis\<close>

text \<open>The direction of a reading that would move the handler off its step.\<close>

definition crossing :: "HysteresisState \<Rightarrow> int \<Rightarrow> ambient_light_handler \<Rightarrow> bool" where
  "crossing d lux h \<longleftrightarrow> 0 \<le> lux \<and> find_step lux h \<noteq> Some (alh_step_index h) \<and>
     (d = HS_INCREASING \<and> lux > alh_lux_level h \<or> d = HS_DECREASING \<and> lux < alh_lux_level h)"

lemma first_crossing:
  assumes "alh_inv h" "alh_hysteresis_state h \<notin> {HS_IMMEDIATE, d}" "crossing d lux h"
  shows "OnAmbientLightUpdated lux h = Some (None, h\<lparr>alh_hysteresis_state := d, alh_hysteresis_count := 1\<rparr>)"
  using assms find_step_Some [of h lux]
  by (auto simp: OnAmbientLightUpdated_def crossing_def note_direction_def kHysteresisThreshold_def Let_def)

lemma first_reading_other_direction:
  assumes "alh_inv h" "alh_hysteresis_state h \<noteq> HS_IMMEDIATE"
    "lux > alh_lux_level h \<Longrightarrow> alh_hysteresis_state h \<noteq> HS_INCREASING"
    "lux < alh_lux_level h \<Longrightarrow> alh_hysteresis_state h \<noteq> HS_DECREASING"
  shows "\<exists>h'. OnAmbientLightUpdated lux h = Some (None, h') \<and>
    alh_step_index h' = alh_step_index h \<and> alh_lux_level h' = alh_lux_level h"
  using assms find_step_Some [of h lux]
  by (cases lux "alh_lux_level h" rule: linorder_cases)
    (auto simp: OnAmbientLightUpdated_def note_direction_def kHysteresisThreshold_def Let_def)

lemma second_crossing:
  assumes "alh_inv h" "alh_hysteresis_state h = d" "alh_hysteresis_count h = 1" "crossing d lux h"
  shows "\<exists>k h'. find_step lux h = Some k \<and> k < length (alh_steps h) \<and>
    OnAmbientLightUpdated lux h = Some (Some (the (GetTargetPercent h'), AMBIENT_LIGHT), h') \<and>
    alh_step_index h' = k \<and> alh_lux_level h' = lux \<and> alh_steps h' = alh_steps h \<and>
    alh_power_source h' = alh_power_source h"
  using assms find_step_Some [of h lux]
  by (auto simp: OnAmbientLightUpdated_def crossing_def note_direction_def kHysteresisThreshold_def Let_def)

text \<open>The step that a reading admits, in either direction.\<close>

definition admits_step :: "HysteresisState \<Rightarrow> int \<Rightarrow> ambient_light_handler \<Rightarrow> nat \<Rightarrow> bool" where
  "admits_step d lux h k \<longleftrightarrow> k < length (alh_steps h) \<and>
     (if d = HS_INCREASING
      then alh_step_index h < k \<and>
        (lux < bs_increase_lux_threshold (alh_steps h ! k) \<or> bs_increase_lux_threshold (alh_steps h ! k) = -1) \<and>
        (\<forall>j \<in> {alh_step_index h..<k}. bs_increase_lux_threshold (alh_steps h ! j) \<le> lux)
      else k < alh_step_index h \<and>
        (lux > bs_decrease_lux_threshold (alh_steps h ! k) \<or> bs_decrease_lux_threshold (alh_steps h ! k) = -1) \<and>
        (\<forall>j \<in> {k<..alh_step_index h}. lux \<le> bs_decrease_lux_threshold (alh_steps h ! j)))"

lemma crossing_admits:
  assumes "alh_inv h" "crossing d lux h" "find_step lux h = Some k"
  shows "admits_step d lux h k"
proof (cases "d = HS_INCREASING")
  case True
  with assms find_step_up [of h lux] show ?thesis by (force simp: admits_step_def crossing_def)
next
  case False
  with assms find_step_down [of h lux] show ?thesis by (force simp: admits_step_def crossing_def)
qed

lemma two_crossings_adjust:
  assumes "alh_inv h" "alh_hysteresis_state h \<notin> {HS_IMMEDIATE, d}" "crossing d lux1 h" "crossing d lux2 h"
  shows "\<exists>h1 h2. OnAmbientLightUpdated lux1 h = Some (None, h1) \<and>
    OnAmbientLightUpdated lux2 h1 = Some (Some (the (GetTargetPercent h2), AMBIENT_LIGHT), h2) \<and>
    admits_step d lux2 h (alh_step_index h2) \<and> alh_lux_level h2 = lux2"
proof -
  define h1 where "h1 = h\<lparr>alh_hysteresis_state := d, alh_hysteresis_count := 1\<rparr>"
  have 1: "OnAmbientLightUpdated lux1 h = Some (None, h1)"
    unfolding h1_def by (rule first_crossing [OF assms(1-3)])
  have eqs: "alh_inv h1 = alh_inv h" "crossing d lux2 h1 = crossing d lux2 h"
    "admits_step d lux2 h1 = admits_step d lux2 h"
    by (simp_all add: h1_def alh_inv_def crossing_def find_step_def admits_step_def fun_eq_iff Let_def)
  obtain k h2 where 2: "find_step lux2 h1 = Some k" "alh_step_index h2 = k"
    "OnAmbientLightUpdated lux2 h1 = Some (Some (the (GetTargetPercent h2), AMBIENT_LIGHT), h2)"
    "alh_lux_level h2 = lux2"
    using second_crossing [of h1 d lux2] assms by (auto simp: eqs) (auto simp: h1_def)
  moreover from this have "admits_step d lux2 h k"
    using crossing_admits [of h1 d lux2 k] assms by (simp add: eqs)
  ultimately show ?thesis using 1 by blast
qed


text \<open>The steps of the example in \<^verbatim>\<open>ambient_light_handler.h\<close>, at the bottom step.\<close>

definition example_steps :: "brightness_step list" where
  "example_steps =
     [\<lparr>bs_ac_target_percent = 50, bs_battery_target_percent = 40,
       bs_decrease_lux_threshold = -1, bs_increase_lux_threshold = 100\<rparr>,
      \<lparr>bs_ac_target_percent = 75, bs_battery_target_percent = 60,
       bs_decrease_lux_threshold = 80, bs_increase_lux_threshold = 220\<rparr>,
      \<lparr>bs_ac_target_percent = 100, bs_battery_target_percent = 80,
       bs_decrease_lux_threshold = 200, bs_increase_lux_threshold = -1\<rparr>]"

definition example_alh :: ambient_light_handler where
  "example_alh = AmbientLightHandler\<lparr>alh_steps := example_steps, alh_lux_level := 25,
     alh_hysteresis_state := HS_STABLE, alh_sent_initial_adjustment := True\<rparr>"

lemmas example_alh_defs = example_alh_def example_steps_def AmbientLightHandler_def


text \<open>
  The header says that a higher step is used when the light level \<^emph>\<open>increases above\<close> the
  threshold and a lower one when it \<^emph>\<open>drops below\<close>; the loops also leave a step at the
  threshold itself.
\<close>

lemma reading_at_threshold_moves:
  "find_step 100 example_alh = Some 1"
  "find_step 80 (example_alh\<lparr>alh_step_index := 1, alh_lux_level := 150\<rparr>) = Some 0"
  by (simp_all add: find_step_def example_alh_defs)

text \<open>
  C26. The handler never runs off its table of steps. Whatever the steps preference holds,
  \<^verbatim>\<open>Init()\<close> aborts the process or leaves a state from which no sequence of sensor
  readings and power source changes fails a \<^verbatim>\<open>CHECK\<close>, the step index stays within the
  table, and every percentage handed to the delegate is the target
  of the current step for the current power source.
\<close>

theorem ambient_light_in_range:
  assumes "alh_Init L pref_value initial_percent AmbientLightHandler = Some h"
  shows "\<exists>t. run_events alh_step h es = Some t \<and> alh_step_index t < length (alh_steps t) \<and>
    (\<exists>c t'. OnAmbientLightUpdated lux t = Some (c, t') \<and>
       (c = None \<or> c = Some (the (GetTargetPercent t'), AMBIENT_LIGHT))) \<and>
    (\<exists>c t'. alh_HandlePowerSourceChange src t = Some (c, t') \<and>
       (c = None \<or> c = Some (the (GetTargetPercent t'), POWER_SOURCE)))"
proof -
  from alh.run_total [OF alh_Init_inv [OF assms], of es] obtain t where
    t: "run_events alh_step h es = Some t" "alh_inv t" by blast
  then show ?thesis
    using OnAmbientLightUpdated_inv [OF t(2), of lux] alh_HandlePowerSourceChange_inv [OF t(2), of src]
    by (fastforce simp: alh_inv_def)
qed

definition example_alh_libs :: alh_libs where
  "example_alh_libs = \<lparr>al_SplitLines = (\<lambda>s. [''50'', ''100'']),
     al_SplitSpaces = (\<lambda>l. if l = ''50'' then [''50'', ''-1'', ''100''] else [''100'', ''80'', ''-1'']),
     al_StringToDouble = (\<lambda>w. Some (if w = ''50'' then 50 else 100)),
     al_StringToInt = (\<lambda>w. Some (if w = ''-1'' then -1 else if w = ''80'' then 80 else 100))\<rparr>"

theorem ambient_light_in_range_witness:
  "\<exists>h t. alh_Init example_alh_libs ''50 -1 100'' 90 AmbientLightHandler = Some h \<and> alh_step_index h = 1 \<and>
     run_events alh_step h [AlhLight 10, AlhPower BATTERY, AlhLight 500] = Some t \<and>
     alh_step_index t < length (alh_steps t)"
proof -
  have "\<exists>h. alh_Init example_alh_libs ''50 -1 100'' 90 AmbientLightHandler = Some h \<and> alh_step_index h = 1"
    by (simp add: alh_Init_def example_alh_libs_def AmbientLightHandler_def parse_step_def nearest_def)
  then show ?thesis
    using ambient_light_in_range [of example_alh_libs "''50 -1 100''" 90 _ "[AlhLight 10, AlhPower BATTERY, AlhLight 500]"]
    by blast
qed

end
