(* ===== verification/Keyboard_Backlight.thy ===== *)
theory Keyboard_Backlight
  imports Sysfs_Backlight Ambient_Light
begin

text \<open>
  \<^verbatim>\<open>KeyboardBacklightController\<close>
  (\<^verbatim>\<open>src/power_manager/powerd/policy/keyboard_backlight_controller.{h,cc}\<close>), composed with the
  models of the sysfs device it drives and of its ambient light handler.

  \<open>kb_env\<close> is what one event sees of the outside: the device files, the clock (read once per
  event) and the parsers of libchrome. The calls of the observers are the trace
  \<open>kb_notified\<close>. A failed \<^verbatim>\<open>CHECK\<close>, \<^verbatim>\<open>LOG(FATAL)\<close> and an index outside of
  \<^verbatim>\<open>user_steps_\<close> are \<open>None\<close>.
\<close>

section \<open>State\<close>

record kb_env =
  kbe_backlight :: sb_env
  kbe_now :: TimeTicks
  kbe_libs :: alh_libs

record keyboard_backlight =
  kb_backlight :: sysfs_backlight
  kb_ambient_light_handler :: "ambient_light_handler option"
  kb_notified :: "(real \<times> BrightnessChangeCause) list"
  kb_supports_hover :: bool
  kb_turn_on_for_user_activity :: bool
  kb_session_state :: SessionState
  kb_tablet_mode :: TabletMode
  kb_dimmed_for_inactivity :: bool
  kb_off_for_inactivity :: bool
  kb_suspended :: bool
  kb_shutting_down :: bool
  kb_docked :: bool
  kb_forced_off :: bool
  kb_hovering :: bool
  kb_fullscreen_video_playing :: bool
  kb_max_level :: int
  kb_current_level :: int
  kb_user_step_index :: int
  kb_user_steps :: "real list"
  kb_automated_percent :: real
  kb_last_hover_time :: TimeTicks
  kb_last_user_activity_time :: TimeTicks
  kb_keep_on_delay :: TimeDelta
  kb_keep_on_during_video_delay :: TimeDelta
  kb_turn_off_timer :: OneShotTimer
  kb_video_timer :: OneShotTimer
  kb_num_als_adjustments :: int
  kb_num_user_adjustments :: int
  kb_display_brightness_is_zero :: bool

definition kVideoTimeoutIntervalMs :: int where
  "kVideoTimeoutIntervalMs = 7000"

definition kDimPercent :: real where
  "kDimPercent = 10"

definition KeyboardBacklightController :: "sysfs_backlight \<Rightarrow> keyboard_backlight" where
  "KeyboardBacklightController backlight = \<lparr>kb_backlight = backlight,
     kb_ambient_light_handler = None, kb_notified = [], kb_supports_hover = False,
     kb_turn_on_for_user_activity = False, kb_session_state = SESSION_STOPPED,
     kb_tablet_mode = TABLET_UNSUPPORTED, kb_dimmed_for_inactivity = False,
     kb_off_for_inactivity = False, kb_suspended = False, kb_shutting_down = False,
     kb_docked = False, kb_forced_off = False, kb_hovering = False,
     kb_fullscreen_video_playing = False, kb_max_level = 0, kb_current_level = 0,
     kb_user_step_index = -1, kb_user_steps = [], kb_automated_percent = 100,
     kb_last_hover_time = 0, kb_last_user_activity_time = 0, kb_keep_on_delay = 0,
     kb_keep_on_during_video_delay = 0, kb_turn_off_timer = None, kb_video_timer = None,
     kb_num_als_adjustments = 0, kb_num_user_adjustments = 0,
     kb_display_brightness_is_zero = False\<rparr>"

section \<open>Levels and percentages\<close>

definition kb_PercentToLevel :: "keyboard_backlight \<Rightarrow> real \<Rightarrow> int" where
  "kb_PercentToLevel s percent =
     (if kb_max_level s = 0 then -1
      else lround (real_of_int (kb_max_level s) * max (min percent 100) 0 / 100))"

definition kb_LevelToPercent :: "keyboard_backlight \<Rightarrow> int \<Rightarrow> real" where
  "kb_LevelToPercent s level =
     (if kb_max_level s = 0 then -1
      else real_of_int (max (min level (kb_max_level s)) 0) * 100 / real_of_int (kb_max_level s))"

section \<open>Applying the state\<close>

definition ApplyBrightnessPercent ::
  "kb_env \<Rightarrow> real \<Rightarrow> Transition \<Rightarrow> BrightnessChangeCause \<Rightarrow> keyboard_backlight \<Rightarrow>
   bool \<times> keyboard_backlight" where
  "ApplyBrightnessPercent env percent transition cause s =
     (let level = kb_PercentToLevel s percent in
      if level = kb_current_level s \<and> \<not> TransitionInProgress (kb_backlight s) then (False, s)
      else case SetBrightnessLevel (kbe_backlight env) level (GetTransitionDuration transition)
             (kb_backlight s) of
             (False, b) \<Rightarrow> (False, s\<lparr>kb_backlight := b\<rparr>)
           | (True, b) \<Rightarrow> (True, s\<lparr>kb_backlight := b, kb_current_level := level,
                               kb_notified := kb_notified s @ [(percent, cause)]\<rparr>))"

definition kb_delay :: "keyboard_backlight \<Rightarrow> TimeDelta" where
  "kb_delay s = (if kb_fullscreen_video_playing s then kb_keep_on_during_video_delay s
                 else kb_keep_on_delay s)"

definition RecentlyHoveringOrUserActive :: "kb_env \<Rightarrow> keyboard_backlight \<Rightarrow> bool" where
  "RecentlyHoveringOrUserActive env s =
     (kb_hovering s \<or>
      (kb_last_hover_time s \<noteq> 0 \<and> kbe_now env - kb_last_hover_time s < kb_delay s) \<or>
      (kb_last_user_activity_time s \<noteq> 0 \<and>
       kbe_now env - kb_last_user_activity_time s < kb_delay s))"

definition kb_forced :: "keyboard_backlight \<Rightarrow> bool" where
  "kb_forced s \<longleftrightarrow> kb_forced_off s \<or> kb_shutting_down s \<or> kb_docked s \<or> kb_suspended s \<or>
     kb_tablet_mode s = TABLET_ON"

text \<open>The percentage that \<^verbatim>\<open>UpdateState()\<close> applies.\<close>

definition kb_percent :: "kb_env \<Rightarrow> keyboard_backlight \<Rightarrow> real option" where
  "kb_percent env s =
     (if kb_forced s then Some 0
      else if kb_user_step_index s \<noteq> -1
      then (if 0 \<le> kb_user_step_index s \<and> kb_user_step_index s < int (length (kb_user_steps s))
            then let percent = kb_user_steps s ! nat (kb_user_step_index s) in
                 Some (if (kb_off_for_inactivity s \<or> kb_dimmed_for_inactivity s) \<and> \<not> kb_hovering s
                       then (if kb_off_for_inactivity s then 0 else min kDimPercent percent)
                       else percent)
            else None)
      else if kb_supports_hover s \<or> kb_turn_on_for_user_activity s
      then Some (if RecentlyHoveringOrUserActive env s then kb_automated_percent s else 0)
      else if kb_fullscreen_video_playing s \<or> kb_display_brightness_is_zero s \<or>
              kb_off_for_inactivity s
      then Some 0
      else if kb_dimmed_for_inactivity s then Some (min kDimPercent (kb_automated_percent s))
      else Some (kb_automated_percent s))"

definition kb_UpdateState ::
  "kb_env \<Rightarrow> Transition \<Rightarrow> BrightnessChangeCause \<Rightarrow> keyboard_backlight \<Rightarrow>
   (bool \<times> keyboard_backlight) option" where
  "kb_UpdateState env transition cause s =
     map_option (\<lambda>percent. ApplyBrightnessPercent env percent transition cause s) (kb_percent env s)"

text \<open>A caller of \<^verbatim>\<open>UpdateState()\<close> that ignores the result.\<close>

definition kb_update ::
  "kb_env \<Rightarrow> Transition \<Rightarrow> BrightnessChangeCause \<Rightarrow> keyboard_backlight \<Rightarrow> keyboard_backlight option"
  where
  "kb_update env transition cause s = map_option snd (kb_UpdateState env transition cause s)"

definition UpdateTurnOffTimer :: "kb_env \<Rightarrow> keyboard_backlight \<Rightarrow> keyboard_backlight" where
  "UpdateTurnOffTimer env s0 =
     (if \<not> kb_supports_hover s0 \<and> \<not> kb_turn_on_for_user_activity s0 then s0
      else let s = s0\<lparr>kb_turn_off_timer := None\<rparr> in
      if kb_hovering s then s
      else let timeout_start = max (kb_last_hover_time s) (kb_last_user_activity_time s) in
      if timeout_start = 0 then s
      else let remaining_delay = kb_delay s - (kbe_now env - timeout_start) in
      if remaining_delay \<le> 0 then s
      else s\<lparr>kb_turn_off_timer := Some remaining_delay\<rparr>)"

section \<open>Setup\<close>

fun parse_user_steps :: "alh_libs \<Rightarrow> string list \<Rightarrow> real list option" where
  "parse_user_steps L [] = Some []"
| "parse_user_steps L (line # lines) =
     (case al_StringToDouble L line of
        None \<Rightarrow> None
      | Some new_step \<Rightarrow> map_option ((#) (ClampPercent new_step)) (parse_user_steps L lines))"

text \<open>
  \<open>have_sensor\<close> tells whether an ambient light sensor was passed. \<open>GetDouble name old\<close> is the
  value that \<^verbatim>\<open>GetDouble()\<close> leaves in its out parameter.
\<close>

definition kb_init_brightness ::
  "kb_env \<Rightarrow> prefs \<Rightarrow> (string \<Rightarrow> real \<Rightarrow> real) \<Rightarrow> bool \<Rightarrow> keyboard_backlight \<Rightarrow> keyboard_backlight option"
  where
  "kb_init_brightness env prefs GetDouble have_sensor s =
     (if have_sensor
      then case pref_string prefs ''keyboard_backlight_als_steps'' of
             None \<Rightarrow> None
           | Some pref_value \<Rightarrow>
               map_option (\<lambda>h. s\<lparr>kb_ambient_light_handler := Some h\<rparr>)
                 (alh_Init (kbe_libs env) pref_value (kb_LevelToPercent s (kb_current_level s))
                    AmbientLightHandler)
      else kb_update env SLOW AUTOMATED (s\<lparr>kb_automated_percent :=
             GetDouble ''keyboard_backlight_no_als_brightness'' (last (kb_user_steps s))\<rparr>))"

definition kb_Init ::
  "kb_env \<Rightarrow> prefs \<Rightarrow> (string \<Rightarrow> real \<Rightarrow> real) \<Rightarrow> bool \<Rightarrow> TabletMode \<Rightarrow> keyboard_backlight \<Rightarrow>
   keyboard_backlight option" where
  "kb_Init env prefs GetDouble have_sensor initial_tablet_mode s0 =
     (case (pref_int64 prefs ''keyboard_backlight_keep_on_ms'',
            pref_int64 prefs ''keyboard_backlight_keep_on_during_video_ms'',
            pref_string prefs ''keyboard_backlight_user_steps'') of
        (Some keep_on_ms, Some video_ms, Some input_str) \<Rightarrow>
          (case parse_user_steps (kbe_libs env) (al_SplitLines (kbe_libs env) input_str) of
             None \<Rightarrow> None
           | Some steps \<Rightarrow>
               if kb_user_steps s0 @ steps = [] then None
               else kb_init_brightness env prefs GetDouble have_sensor
                 (s0\<lparr>kb_tablet_mode := initial_tablet_mode,
                     kb_supports_hover := get_or (pref_bool prefs ''detect_hover'') (kb_supports_hover s0),
                     kb_turn_on_for_user_activity :=
                       get_or (pref_bool prefs ''keyboard_backlight_turn_on_for_user_activity'')
                         (kb_turn_on_for_user_activity s0),
                     kb_keep_on_delay := FromMilliseconds keep_on_ms,
                     kb_keep_on_during_video_delay := FromMilliseconds video_ms,
                     kb_max_level := GetMaxBrightnessLevel (kb_backlight s0),
                     kb_current_level := GetCurrentBrightnessLevel (kb_backlight s0),
                     kb_user_steps := kb_user_steps s0 @ steps\<rparr>))
      | _ \<Rightarrow> None)"

section \<open>Events\<close>

definition kb_HandleSessionStateChange :: "SessionState \<Rightarrow> keyboard_backlight \<Rightarrow> keyboard_backlight" where
  "kb_HandleSessionStateChange state s =
     (let s1 = s\<lparr>kb_session_state := state\<rparr> in
      if state = SESSION_STARTED
      then s1\<lparr>kb_num_als_adjustments := 0, kb_num_user_adjustments := 0\<rparr> else s1)"

definition kb_HandleUserActivity :: "kb_env \<Rightarrow> keyboard_backlight \<Rightarrow> keyboard_backlight option" where
  "kb_HandleUserActivity env s =
     kb_update env FAST AUTOMATED
       (UpdateTurnOffTimer env (s\<lparr>kb_last_user_activity_time := kbe_now env\<rparr>))"

definition kb_HandleVideoActivity ::
  "kb_env \<Rightarrow> bool \<Rightarrow> keyboard_backlight \<Rightarrow> keyboard_backlight option" where
  "kb_HandleVideoActivity env is_fullscreen0 s =
     (let is_fullscreen = (is_fullscreen0 \<and> kb_session_state s \<noteq> SESSION_STOPPED) in
      map_option (\<lambda>s1. s1\<lparr>kb_video_timer :=
          (if is_fullscreen then Some (FromMilliseconds kVideoTimeoutIntervalMs) else None)\<rparr>)
        (if is_fullscreen \<noteq> kb_fullscreen_video_playing s
         then kb_update env SLOW AUTOMATED (s\<lparr>kb_fullscreen_video_playing := is_fullscreen\<rparr>)
         else Some s))"

definition kb_HandleHoverStateChange ::
  "kb_env \<Rightarrow> bool \<Rightarrow> keyboard_backlight \<Rightarrow> keyboard_backlight option" where
  "kb_HandleHoverStateChange env hovering s =
     (if \<not> kb_supports_hover s \<or> hovering = kb_hovering s then Some s
      else let s1 = s\<lparr>kb_hovering := hovering, kb_turn_off_timer := None\<rparr>;
               s2 = (if \<not> hovering
                     then UpdateTurnOffTimer env (s1\<lparr>kb_last_hover_time := kbe_now env\<rparr>)
                     else s1\<lparr>kb_last_hover_time := 0\<rparr>)
           in kb_update env (if hovering then FAST else SLOW) AUTOMATED s2)"

definition kb_HandleTabletModeChange ::
  "kb_env \<Rightarrow> TabletMode \<Rightarrow> keyboard_backlight \<Rightarrow> keyboard_backlight option" where
  "kb_HandleTabletModeChange env mode s =
     (if mode = kb_tablet_mode s then Some s
      else kb_update env FAST AUTOMATED (s\<lparr>kb_tablet_mode := mode\<rparr>))"

definition kb_SetDimmedForInactivity ::
  "kb_env \<Rightarrow> bool \<Rightarrow> keyboard_backlight \<Rightarrow> keyboard_backlight option" where
  "kb_SetDimmedForInactivity env dimmed s =
     (if dimmed = kb_dimmed_for_inactivity s then Some s
      else kb_update env SLOW AUTOMATED (s\<lparr>kb_dimmed_for_inactivity := dimmed\<rparr>))"

definition kb_SetOffForInactivity ::
  "kb_env \<Rightarrow> bool \<Rightarrow> keyboard_backlight \<Rightarrow> keyboard_backlight option" where
  "kb_SetOffForInactivity env off s =
     (if off = kb_off_for_inactivity s then Some s
      else kb_update env SLOW AUTOMATED (s\<lparr>kb_off_for_inactivity := off\<rparr>))"

definition kb_SetSuspended :: "kb_env \<Rightarrow> bool \<Rightarrow> keyboard_backlight \<Rightarrow> keyboard_backlight option" where
  "kb_SetSuspended env suspended s =
     (if suspended = kb_suspended s then Some s
      else kb_update env (if suspended then INSTANT else FAST) AUTOMATED (s\<lparr>kb_suspended := suspended\<rparr>))"

definition kb_SetShuttingDown :: "kb_env \<Rightarrow> bool \<Rightarrow> keyboard_backlight \<Rightarrow> keyboard_backlight option" where
  "kb_SetShuttingDown env shutting_down s =
     (if shutting_down = kb_shutting_down s then Some s
      else kb_update env INSTANT AUTOMATED (s\<lparr>kb_shutting_down := shutting_down\<rparr>))"

definition kb_SetDocked :: "kb_env \<Rightarrow> bool \<Rightarrow> keyboard_backlight \<Rightarrow> keyboard_backlight option" where
  "kb_SetDocked env docked s =
     (if docked = kb_docked s then Some s
      else kb_update env INSTANT AUTOMATED (s\<lparr>kb_docked := docked\<rparr>))"

definition kb_SetForcedOff :: "kb_env \<Rightarrow> bool \<Rightarrow> keyboard_backlight \<Rightarrow> keyboard_backlight option" where
  "kb_SetForcedOff env forced_off s =
     (if forced_off = kb_forced_off s then Some s
      else kb_update env INSTANT AUTOMATED (s\<lparr>kb_forced_off := forced_off\<rparr>))"

definition kb_GetForcedOff :: "keyboard_backlight \<Rightarrow> bool" where
  "kb_GetForcedOff s = kb_forced_off s"

definition kb_GetBrightnessPercent :: "keyboard_backlight \<Rightarrow> bool \<times> real" where
  "kb_GetBrightnessPercent s =
     (let percent = kb_LevelToPercent s (kb_current_level s) in (percent \<ge> 0, percent))"

definition InitUserStepIndex :: "keyboard_backlight \<Rightarrow> keyboard_backlight option" where
  "InitUserStepIndex s =
     (if kb_user_step_index s \<noteq> -1 then Some s
      else map_option (\<lambda>i. s\<lparr>kb_user_step_index := int i\<rparr>)
             (nearest (kb_LevelToPercent s (kb_current_level s)) (kb_user_steps s)))"

definition kb_IncreaseUserBrightness ::
  "kb_env \<Rightarrow> keyboard_backlight \<Rightarrow> (bool \<times> keyboard_backlight) option" where
  "kb_IncreaseUserBrightness env s =
     (case InitUserStepIndex s of
        None \<Rightarrow> None
      | Some s1 \<Rightarrow> kb_UpdateState env FAST USER_INITIATED
          (s1\<lparr>kb_user_step_index := (if kb_user_step_index s1 < int (length (kb_user_steps s1)) - 1
                                      then kb_user_step_index s1 + 1 else kb_user_step_index s1),
              kb_num_user_adjustments := kb_num_user_adjustments s1 + 1\<rparr>))"

definition kb_DecreaseUserBrightness ::
  "kb_env \<Rightarrow> bool \<Rightarrow> keyboard_backlight \<Rightarrow> (bool \<times> keyboard_backlight) option" where
  "kb_DecreaseUserBrightness env allow_off s =
     (case InitUserStepIndex s of
        None \<Rightarrow> None
      | Some s1 \<Rightarrow> kb_UpdateState env FAST USER_INITIATED
          (s1\<lparr>kb_user_step_index := (if kb_user_step_index s1 > (if allow_off then 0 else 1)
                                      then kb_user_step_index s1 - 1 else kb_user_step_index s1),
              kb_num_user_adjustments := kb_num_user_adjustments s1 + 1\<rparr>))"

definition kb_SetBrightnessPercentForAmbientLight ::
  "kb_env \<Rightarrow> real \<Rightarrow> AlhCause \<Rightarrow> keyboard_backlight \<Rightarrow> keyboard_backlight option" where
  "kb_SetBrightnessPercentForAmbientLight env brightness_percent cause s =
     map_option (\<lambda>(changed, s1). if changed \<and> cause = AMBIENT_LIGHT
                   then s1\<lparr>kb_num_als_adjustments := kb_num_als_adjustments s1 + 1\<rparr> else s1)
       (kb_UpdateState env (if cause = AMBIENT_LIGHT then SLOW else FAST) AUTOMATED
          (s\<lparr>kb_automated_percent := brightness_percent\<rparr>))"

definition kb_OnBrightnessChange ::
  "kb_env \<Rightarrow> real \<Rightarrow> BrightnessChangeCause \<Rightarrow> keyboard_backlight \<Rightarrow> keyboard_backlight option" where
  "kb_OnBrightnessChange env brightness_percent cause s =
     (let zero = (brightness_percent \<le> kEpsilon) in
      if zero \<noteq> kb_display_brightness_is_zero s
      then kb_update env SLOW cause (s\<lparr>kb_display_brightness_is_zero := zero\<rparr>) else Some s)"

definition HandleVideoTimeout :: "kb_env \<Rightarrow> keyboard_backlight \<Rightarrow> keyboard_backlight option" where
  "HandleVideoTimeout env s =
     map_option (UpdateTurnOffTimer env)
       (kb_update env FAST AUTOMATED (s\<lparr>kb_fullscreen_video_playing := False\<rparr>))"

text \<open>The two timers as the message loop fires them.\<close>

definition TriggerTurnOffTimeout :: "kb_env \<Rightarrow> keyboard_backlight \<Rightarrow> keyboard_backlight option" where
  "TriggerTurnOffTimeout env s =
     (if IsRunning (kb_turn_off_timer s)
      then kb_update env SLOW AUTOMATED (s\<lparr>kb_turn_off_timer := None\<rparr>) else Some s)"

definition TriggerVideoTimeout :: "kb_env \<Rightarrow> keyboard_backlight \<Rightarrow> keyboard_backlight option" where
  "TriggerVideoTimeout env s =
     (if IsRunning (kb_video_timer s) then HandleVideoTimeout env (s\<lparr>kb_video_timer := None\<rparr>)
      else Some s)"

text \<open>A reading of the sensor, through the ambient light handler.\<close>

definition kb_light_reading :: "kb_env \<Rightarrow> int \<Rightarrow> keyboard_backlight \<Rightarrow> keyboard_backlight option" where
  "kb_light_reading env lux s =
     (case kb_ambient_light_handler s of
        None \<Rightarrow> Some s
      | Some h \<Rightarrow>
          (case OnAmbientLightUpdated lux h of
             None \<Rightarrow> None
           | Some (None, h') \<Rightarrow> Some (s\<lparr>kb_ambient_light_handler := Some h'\<rparr>)
           | Some (Some (percent, cause), h') \<Rightarrow>
               kb_SetBrightnessPercentForAmbientLight env percent cause
                 (s\<lparr>kb_ambient_light_handler := Some h'\<rparr>)))"

end
