(* ===== verification/Keyboard_Backlight_Proofs.thy ===== *)
theory Keyboard_Backlight_Proofs
  imports Keyboard_Backlight
begin

text \<open>
  Correctness of the keyboard backlight controller: it never fails a \<^verbatim>\<open>CHECK\<close> once it is
  set up, its cached level is the level the device is heading for, the light is out
  whenever one of the overriding conditions holds, and activity lights the keyboard for
  exactly the configured time.
\<close>

section \<open>Levels\<close>

lemma kb_PercentToLevel_0: "kb_max_level s \<noteq> 0 \<Longrightarrow> kb_PercentToLevel s 0 = 0"
  using lround_of_int [of 0, where 'a = real] by (simp add: kb_PercentToLevel_def)

lemma kb_level_roundtrip:
  assumes "0 < kb_max_level s" "0 \<le> level" "level \<le> kb_max_level s"
  shows "kb_PercentToLevel s (kb_LevelToPercent s level) = level"
proof -
  have "kb_LevelToPercent s level = of_int level * 100 / of_int (kb_max_level s)"
    using assms by (simp add: kb_LevelToPercent_def)
  moreover have "0 \<le> of_int level * 100 / real_of_int (kb_max_level s)"
    "of_int level * 100 / real_of_int (kb_max_level s) \<le> 100"
    using assms by (simp_all add: field_simps)
  ultimately show ?thesis using assms lround_of_int [of level, where 'a = real]
    by (simp add: kb_PercentToLevel_def)
qed

section \<open>Invariant\<close>

definition kb_device_ok :: "keyboard_backlight \<Rightarrow> bool" where
  "kb_device_ok s \<longleftrightarrow> sb_brightness_path (kb_backlight s) \<noteq> [] \<and> 0 < kb_max_level s \<and>
     kb_current_level s = sb_target (kb_backlight s)"

definition kb_table_ok :: "keyboard_backlight \<Rightarrow> bool" where
  "kb_table_ok s \<longleftrightarrow> kb_user_steps s \<noteq> [] \<and> -1 \<le> kb_user_step_index s \<and>
     kb_user_step_index s < int (length (kb_user_steps s)) \<and>
     (\<forall>h. kb_ambient_light_handler s = Some h \<longrightarrow> alh_inv h)"

definition kb_inv :: "keyboard_backlight \<Rightarrow> bool" where
  "kb_inv s \<longleftrightarrow> kb_device_ok s \<and> kb_table_ok s \<and> (kb_forced s \<longrightarrow> kb_current_level s = 0)"

text \<open>Neither half of the invariant depends on the fields that the handlers set.\<close>

lemma kb_device_ok_frame [simp]:
  "kb_device_ok (s\<lparr>kb_ambient_light_handler := x0\<rparr>) = kb_device_ok s"
  "kb_device_ok (s\<lparr>kb_notified := x1\<rparr>) = kb_device_ok s"
  "kb_device_ok (s\<lparr>kb_supports_hover := x2\<rparr>) = kb_device_ok s"
  "kb_device_ok (s\<lparr>kb_turn_on_for_user_activity := x3\<rparr>) = kb_device_ok s"
  "kb_device_ok (s\<lparr>kb_session_state := x4\<rparr>) = kb_device_ok s"
  "kb_device_ok (s\<lparr>kb_tablet_mode := x5\<rparr>) = kb_device_ok s"
  "kb_device_ok (s\<lparr>kb_dimmed_for_inactivity := x6\<rparr>) = kb_device_ok s"
  "kb_device_ok (s\<lparr>kb_off_for_inactivity := x7\<rparr>) = kb_device_ok s"
  "kb_device_ok (s\<lparr>kb_suspended := x8\<rparr>) = kb_device_ok s"
  "kb_device_ok (s\<lparr>kb_shutting_down := x9\<rparr>) = kb_device_ok s"
  "kb_device_ok (s\<lparr>kb_docked := x10\<rparr>) = kb_device_ok s"
  "kb_device_ok (s\<lparr>kb_forced_off := x11\<rparr>) = kb_device_ok s"
  "kb_device_ok (s\<lparr>kb_hovering := x12\<rparr>) = kb_device_ok s"
  "kb_device_ok (s\<lparr>kb_fullscreen_video_playing := x13\<rparr>) = kb_device_ok s"
  "kb_device_ok (s\<lparr>kb_user_step_index := x14\<rparr>) = kb_device_ok s"
  "kb_device_ok (s\<lparr>kb_user_steps := x15\<rparr>) = kb_device_ok s"
  "kb_device_ok (s\<lparr>kb_automated_percent := x16\<rparr>) = kb_device_ok s"
  "kb_device_ok (s\<lparr>kb_last_hover_time := x17\<rparr>) = kb_device_ok s"
  "kb_device_ok (s\<lparr>kb_last_user_activity_time := x18\<rparr>) = kb_device_ok s"
  "kb_device_ok (s\<lparr>kb_keep_on_delay := x19\<rparr>) = kb_device_ok s"
  "kb_device_ok (s\<lparr>kb_keep_on_during_video_delay := x20\<rparr>) = kb_device_ok s"
  "kb_device_ok (s\<lparr>kb_turn_off_timer := x21\<rparr>) = kb_device_ok s"
  "kb_device_ok (s\<lparr>kb_video_timer := x22\<rparr>) = kb_device_ok s"
  "kb_device_ok (s\<lparr>kb_num_als_adjustments := x23\<rparr>) = kb_device_ok s"
  "kb_device_ok (s\<lparr>kb_num_user_adjustments := x24\<rparr>) = kb_device_ok s"
  "kb_device_ok (s\<lparr>kb_display_brightness_is_zero := x25\<rparr>) = kb_device_ok s"
  by (simp_all add: kb_device_ok_def)

lemma kb_table_ok_frame [simp]:
  "kb_table_ok (s\<lparr>kb_notified := x0\<rparr>) = kb_table_ok s"
  "kb_table_ok (s\<lparr>kb_supports_hover := x1\<rparr>) = kb_table_ok s"
  "kb_table_ok (s\<lparr>kb_turn_on_for_user_activity := x2\<rparr>) = kb_table_ok s"
  "kb_table_ok (s\<lparr>kb_session_state := x3\<rparr>) = kb_table_ok s"
  "kb_table_ok (s\<lparr>kb_tablet_mode := x4\<rparr>) = kb_table_ok s"
  "kb_table_ok (s\<lparr>kb_dimmed_for_inactivity := x5\<rparr>) = kb_table_ok s"
  "kb_table_ok (s\<lparr>kb_off_for_inactivity := x6\<rparr>) = kb_table_ok s"
  "kb_table_ok (s\<lparr>kb_suspended := x7\<rparr>) = kb_table_ok s"
  "kb_table_ok (s\<lparr>kb_shutting_down := x8\<rparr>) = kb_table_ok s"
  "kb_table_ok (s\<lparr>kb_docked := x9\<rparr>) = kb_table_ok s"
  "kb_table_ok (s\<lparr>kb_forced_off := x10\<rparr>) = kb_table_ok s"
  "kb_table_ok (s\<lparr>kb_hovering := x11\<rparr>) = kb_table_ok s"
  "kb_table_ok (s\<lparr>kb_fullscreen_video_playing := x12\<rparr>) = kb_table_ok s"
  "kb_table_ok (s\<lparr>kb_automated_percent := x13\<rparr>) = kb_table_ok s"
  "kb_table_ok (s\<lparr>kb_last_hover_time := x14\<rparr>) = kb_table_ok s"
  "kb_table_ok (s\<lparr>kb_last_user_activity_time := x15\<rparr>) = kb_table_ok s"
  "kb_table_ok (s\<lparr>kb_keep_on_delay := x16\<rparr>) = kb_table_ok s"
  "kb_table_ok (s\<lparr>kb_keep_on_during_video_delay := x17\<rparr>) = kb_table_ok s"
  "kb_table_ok (s\<lparr>kb_turn_off_timer := x18\<rparr>) = kb_table_ok s"
  "kb_table_ok (s\<lparr>kb_video_timer := x19\<rparr>) = kb_table_ok s"
  "kb_table_ok (s\<lparr>kb_num_als_adjustments := x20\<rparr>) = kb_table_ok s"
  "kb_table_ok (s\<lparr>kb_num_user_adjustments := x21\<rparr>) = kb_table_ok s"
  "kb_table_ok (s\<lparr>kb_display_brightness_is_zero := x22\<rparr>) = kb_table_ok s"
  "kb_table_ok (s\<lparr>kb_backlight := x23\<rparr>) = kb_table_ok s"
  "kb_table_ok (s\<lparr>kb_current_level := x24\<rparr>) = kb_table_ok s"
  by (simp_all add: kb_table_ok_def)

lemma kb_inv_frame [simp]:
  "kb_inv (s\<lparr>kb_video_timer := x0\<rparr>) = kb_inv s"
  "kb_inv (s\<lparr>kb_turn_off_timer := x1\<rparr>) = kb_inv s"
  "kb_inv (s\<lparr>kb_num_als_adjustments := x2\<rparr>) = kb_inv s"
  "kb_inv (s\<lparr>kb_num_user_adjustments := x3\<rparr>) = kb_inv s"
  "kb_inv (s\<lparr>kb_session_state := x4\<rparr>) = kb_inv s"
  by (simp_all add: kb_inv_def kb_forced_def)

text \<open>Two states that agree on everything but the device and the level it was last sent.\<close>

definition kb_same :: "keyboard_backlight \<Rightarrow> keyboard_backlight \<Rightarrow> bool" where
  "kb_same s t \<longleftrightarrow> (\<exists>b l n. t = s\<lparr>kb_backlight := b, kb_current_level := l, kb_notified := n\<rparr>)"

lemma kb_same_frame:
  assumes "kb_same s t"
  shows "kb_table_ok t = kb_table_ok s" "kb_forced t = kb_forced s" "kb_max_level t = kb_max_level s"
    "kb_turn_off_timer t = kb_turn_off_timer s"
proof -
  from assms obtain b l n where "t = s\<lparr>kb_backlight := b, kb_current_level := l, kb_notified := n\<rparr>"
    by (auto simp: kb_same_def)
  then show "kb_table_ok t = kb_table_ok s" "kb_forced t = kb_forced s" "kb_max_level t = kb_max_level s"
    "kb_turn_off_timer t = kb_turn_off_timer s"
    by (simp_all add: kb_table_ok_def kb_forced_def)
qed

lemma kb_same_refl [simp]: "kb_same s s"
  unfolding kb_same_def
  by (rule exI [of _ "kb_backlight s"], rule exI [of _ "kb_current_level s"], rule exI [of _ "kb_notified s"]) simp

lemma ApplyBrightnessPercent_ok:
  assumes "writes_ok (kbe_backlight env)" "kb_device_ok s"
  shows "\<exists>r t. ApplyBrightnessPercent env percent tr c s = (r, t) \<and> kb_device_ok t \<and> kb_same s t \<and>
    kb_current_level t = kb_PercentToLevel s percent"
proof -
  define l where "l = kb_PercentToLevel s percent"
  have path: "sb_brightness_path (kb_backlight s) \<noteq> []" and max: "0 < kb_max_level s"
    and cached: "kb_current_level s = sb_target (kb_backlight s)"
    using assms(2) by (simp_all add: kb_device_ok_def)
  obtain r b where b: "SetBrightnessLevel (kbe_backlight env) l (GetTransitionDuration tr) (kb_backlight s) = (r, b)"
    by (cases "SetBrightnessLevel (kbe_backlight env) l (GetTransitionDuration tr) (kb_backlight s)")
  note tracks = sysfs.cached_level_tracks [OF assms(1) path cached, of l "GetTransitionDuration tr", unfolded b]
  show ?thesis
  proof (cases "l = kb_current_level s \<and> \<not> TransitionInProgress (kb_backlight s)")
    case True
    then show ?thesis using assms(2) by (auto simp: ApplyBrightnessPercent_def simp flip: l_def)
  next
    case False
    moreover from False tracks have "r" "sb_brightness_path b \<noteq> []" "sb_target b = l"
      using sysfs.set_level [OF assms(1) path, of l "GetTransitionDuration tr"] by (auto simp: b)
    ultimately show ?thesis using max b
      by (auto simp: ApplyBrightnessPercent_def kb_device_ok_def kb_same_def Let_def simp flip: l_def)
  qed
qed

lemma kb_percent_Some: "kb_table_ok s \<Longrightarrow> \<exists>p. kb_percent env s = Some p"
  by (auto simp: kb_percent_def kb_table_ok_def Let_def)

lemma kb_UpdateState_ok:
  assumes "writes_ok (kbe_backlight env)" "kb_device_ok s" "kb_table_ok s"
  shows "\<exists>r t. kb_UpdateState env tr c s = Some (r, t) \<and> kb_inv t \<and> kb_same s t \<and>
    kb_current_level t = kb_PercentToLevel s (the (kb_percent env s))"
proof -
  obtain p where p: "kb_percent env s = Some p" using kb_percent_Some [OF assms(3)] by blast
  obtain r t where t: "ApplyBrightnessPercent env p tr c s = (r, t)" "kb_device_ok t" "kb_same s t"
    "kb_current_level t = kb_PercentToLevel s p"
    using ApplyBrightnessPercent_ok [OF assms(1,2)] by blast
  have "kb_forced s \<Longrightarrow> p = 0" using p by (simp add: kb_percent_def)
  moreover have "kb_max_level s \<noteq> 0" using assms(2) by (simp add: kb_device_ok_def)
  ultimately have "kb_inv t" using t assms(3) by (auto simp: kb_inv_def kb_same_frame kb_PercentToLevel_0)
  with t p show ?thesis by (simp add: kb_UpdateState_def)
qed

lemma kb_update_ok:
  assumes "writes_ok (kbe_backlight env)" "kb_device_ok s" "kb_table_ok s"
  shows "\<exists>t. kb_update env tr c s = Some t \<and> kb_inv t \<and> kb_same s t \<and>
    kb_current_level t = kb_PercentToLevel s (the (kb_percent env s))"
  using kb_UpdateState_ok [OF assms] by (force simp: kb_update_def)

section \<open>The controller as an event machine\<close>

datatype kb_event = KbSession SessionState | KbUserActivity | KbVideo bool | KbHover bool
  | KbTabletMode TabletMode | KbDimmed bool | KbOff bool | KbSuspended bool | KbShuttingDown bool
  | KbDocked bool | KbForcedOff bool | KbIncrease | KbDecrease bool | KbLight int
  | KbDisplayBrightness real BrightnessChangeCause | KbTurnOffTimeout | KbVideoTimeout | KbTransition

fun kb_step :: "keyboard_backlight \<Rightarrow> kb_env \<times> kb_event \<Rightarrow> keyboard_backlight option" where
  "kb_step s (env, KbSession state) = Some (kb_HandleSessionStateChange state s)"
| "kb_step s (env, KbUserActivity) = kb_HandleUserActivity env s"
| "kb_step s (env, KbVideo fullscreen) = kb_HandleVideoActivity env fullscreen s"
| "kb_step s (env, KbHover hovering) = kb_HandleHoverStateChange env hovering s"
| "kb_step s (env, KbTabletMode mode) = kb_HandleTabletModeChange env mode s"
| "kb_step s (env, KbDimmed b) = kb_SetDimmedForInactivity env b s"
| "kb_step s (env, KbOff b) = kb_SetOffForInactivity env b s"
| "kb_step s (env, KbSuspended b) = kb_SetSuspended env b s"
| "kb_step s (env, KbShuttingDown b) = kb_SetShuttingDown env b s"
| "kb_step s (env, KbDocked b) = kb_SetDocked env b s"
| "kb_step s (env, KbForcedOff b) = kb_SetForcedOff env b s"
| "kb_step s (env, KbIncrease) = map_option snd (kb_IncreaseUserBrightness env s)"
| "kb_step s (env, KbDecrease allow_off) = map_option snd (kb_DecreaseUserBrightness env allow_off s)"
| "kb_step s (env, KbLight lux) = kb_light_reading env lux s"
| "kb_step s (env, KbDisplayBrightness percent cause) = kb_OnBrightnessChange env percent cause s"
| "kb_step s (env, KbTurnOffTimeout) = TriggerTurnOffTimeout env s"
| "kb_step s (env, KbVideoTimeout) = TriggerVideoTimeout env s"
| "kb_step s (env, KbTransition) =
     Some (s\<lparr>kb_backlight := fire_transition (kbe_backlight env) (kb_backlight s)\<rparr>)"

definition kb_legal :: "kb_env \<times> kb_event \<Rightarrow> bool" where
  "kb_legal = (\<lambda>(env, e). writes_ok (kbe_backlight env))"

text \<open>Handlers change only fields that neither part of the invariant mentions, then apply.\<close>

lemma kb_update_inv:
  "writes_ok (kbe_backlight env) \<Longrightarrow> kb_device_ok s \<Longrightarrow> kb_table_ok s \<Longrightarrow>
     \<exists>t. kb_update env tr c s = Some t \<and> kb_inv t"
  using kb_update_ok by blast

lemma kb_UpdateTurnOffTimer_frame [simp]:
  "kb_device_ok (UpdateTurnOffTimer env s) = kb_device_ok s"
  "kb_table_ok (UpdateTurnOffTimer env s) = kb_table_ok s"
  "kb_inv (UpdateTurnOffTimer env s) = kb_inv s"
  by (simp_all add: UpdateTurnOffTimer_def Let_def)

lemma kb_invD: "kb_inv s \<Longrightarrow> kb_device_ok s" "kb_inv s \<Longrightarrow> kb_table_ok s"
  by (simp_all add: kb_inv_def)

lemma InitUserStepIndex_ok:
  assumes "kb_device_ok s" "kb_table_ok s"
  shows "\<exists>t. InitUserStepIndex s = Some t \<and> kb_device_ok t \<and> kb_table_ok t \<and> 0 \<le> kb_user_step_index t"
  using assms nearest_correct [of "kb_user_steps s" "kb_LevelToPercent s (kb_current_level s)"]
  by (auto simp: InitUserStepIndex_def kb_device_ok_def kb_table_ok_def)

lemma kb_UpdateState_inv:
  "writes_ok (kbe_backlight env) \<Longrightarrow> kb_device_ok s \<Longrightarrow> kb_table_ok s \<Longrightarrow>
     \<exists>r t. kb_UpdateState env tr c s = Some (r, t) \<and> kb_inv t"
  using kb_UpdateState_ok by blast

lemma kb_user_steps_inv:
  assumes "writes_ok (kbe_backlight env)" "kb_inv s"
  shows "\<exists>r t. kb_IncreaseUserBrightness env s = Some (r, t) \<and> kb_inv t"
    "\<exists>r t. kb_DecreaseUserBrightness env allow_off s = Some (r, t) \<and> kb_inv t"
proof -
  obtain t where t: "InitUserStepIndex s = Some t" "kb_device_ok t" "kb_table_ok t" "0 \<le> kb_user_step_index t"
    using InitUserStepIndex_ok kb_invD [OF assms(2)] by blast
  have "kb_table_ok (t\<lparr>kb_user_step_index := i\<rparr>)"
    if "0 \<le> i" "i < int (length (kb_user_steps t))" for i
    using t(3) that by (simp add: kb_table_ok_def)
  then show "\<exists>r t. kb_IncreaseUserBrightness env s = Some (r, t) \<and> kb_inv t"
    "\<exists>r t. kb_DecreaseUserBrightness env allow_off s = Some (r, t) \<and> kb_inv t"
    using t assms(1) kb_invD(2)
    by (auto simp: kb_IncreaseUserBrightness_def kb_DecreaseUserBrightness_def
      intro!: kb_UpdateState_inv) (auto simp: kb_table_ok_def)
qed

lemma kb_light_reading_inv:
  assumes "writes_ok (kbe_backlight env)" "kb_inv s"
  shows "\<exists>t. kb_light_reading env lux s = Some t \<and> kb_inv t"
proof (cases "kb_ambient_light_handler s")
  case None
  with assms show ?thesis by (simp add: kb_light_reading_def)
next
  case (Some h)
  then have "alh_inv h" using assms(2) by (simp add: kb_inv_def kb_table_ok_def)
  then obtain c h' where h': "OnAmbientLightUpdated lux h = Some (c, h')" "alh_inv h'"
    using OnAmbientLightUpdated_inv by blast
  have ok: "kb_device_ok (s\<lparr>kb_ambient_light_handler := Some h', kb_automated_percent := p\<rparr>)"
    "kb_table_ok (s\<lparr>kb_ambient_light_handler := Some h', kb_automated_percent := p\<rparr>)"
    "kb_inv (s\<lparr>kb_ambient_light_handler := Some h'\<rparr>)" for p
    using assms(2) h'(2) by (auto simp: kb_inv_def kb_table_ok_def kb_forced_def)
  show ?thesis
  proof (cases c)
    case None
    with Some h' ok(3) show ?thesis by (simp add: kb_light_reading_def)
  next
    fix a assume c: "c = Some a"
    obtain p cause where a: "a = (p, cause)" by (cases a)
    obtain r t where "kb_UpdateState env (if cause = AMBIENT_LIGHT then SLOW else FAST) AUTOMATED
        (s\<lparr>kb_ambient_light_handler := Some h', kb_automated_percent := p\<rparr>) = Some (r, t)" "kb_inv t"
      using kb_UpdateState_inv [OF assms(1) ok(1,2)] by blast
    with Some h' show ?thesis
      by (auto simp: kb_light_reading_def kb_SetBrightnessPercentForAmbientLight_def c a)
  qed
qed

lemma kb_handlers_inv:
  assumes "kb_inv s" "writes_ok (kbe_backlight env)"
  shows "kb_inv (kb_HandleSessionStateChange state s)"
    "\<exists>t. kb_HandleUserActivity env s = Some t \<and> kb_inv t"
    "\<exists>t. kb_HandleHoverStateChange env b s = Some t \<and> kb_inv t"
    "\<exists>t. kb_HandleTabletModeChange env m s = Some t \<and> kb_inv t"
    "\<exists>t. kb_SetDimmedForInactivity env b s = Some t \<and> kb_inv t"
    "\<exists>t. kb_SetOffForInactivity env b s = Some t \<and> kb_inv t"
    "\<exists>t. kb_SetSuspended env b s = Some t \<and> kb_inv t"
    "\<exists>t. kb_SetShuttingDown env b s = Some t \<and> kb_inv t"
    "\<exists>t. kb_SetDocked env b s = Some t \<and> kb_inv t"
    "\<exists>t. kb_SetForcedOff env b s = Some t \<and> kb_inv t"
    "\<exists>t. kb_OnBrightnessChange env p c s = Some t \<and> kb_inv t"
    "\<exists>t. TriggerTurnOffTimeout env s = Some t \<and> kb_inv t"
  using assms kb_invD [OF assms(1)]
  by (auto simp: kb_HandleSessionStateChange_def kb_HandleUserActivity_def kb_HandleHoverStateChange_def
    kb_HandleTabletModeChange_def kb_SetDimmedForInactivity_def kb_SetOffForInactivity_def
    kb_SetSuspended_def kb_SetShuttingDown_def kb_SetDocked_def kb_SetForcedOff_def
    kb_OnBrightnessChange_def TriggerTurnOffTimeout_def Let_def intro!: kb_update_inv)

lemma kb_step_inv:
  assumes "kb_inv s" "writes_ok (kbe_backlight env)"
  shows "\<exists>t. kb_step s (env, e) = Some t \<and> kb_inv t"
proof -
  note ok = kb_invD [OF assms(1)]
  show ?thesis
  proof (cases e)
  case KbIncrease
  with kb_user_steps_inv(1) [OF assms(2,1)] show ?thesis by auto
next
  case (KbDecrease allow_off)
  with kb_user_steps_inv(2) [OF assms(2,1), of allow_off] show ?thesis by auto
next
  case (KbLight lux)
  with kb_light_reading_inv [OF assms(2,1)] show ?thesis by simp
next
  case KbTransition
  with assms show ?thesis
    using sysfs.tick [OF assms(2), of "kb_backlight s"]
    by (auto simp: kb_inv_def kb_device_ok_def kb_forced_def)
next
  case (KbVideo fullscreen)
  define f where "f \<longleftrightarrow> fullscreen \<and> kb_session_state s \<noteq> SESSION_STOPPED"
  obtain t where t: "(if f \<noteq> kb_fullscreen_video_playing s
      then kb_update env SLOW AUTOMATED (s\<lparr>kb_fullscreen_video_playing := f\<rparr>) else Some s) = Some t" "kb_inv t"
    using assms ok kb_update_inv [OF assms(2), of "s\<lparr>kb_fullscreen_video_playing := f\<rparr>" SLOW AUTOMATED]
    by (cases "f \<noteq> kb_fullscreen_video_playing s") auto
  then have "kb_step s (env, e) = Some (t\<lparr>kb_video_timer :=
      (if f then Some (FromMilliseconds kVideoTimeoutIntervalMs) else None)\<rparr>)"
    unfolding KbVideo kb_step.simps kb_HandleVideoActivity_def Let_def f_def [symmetric] t(1) by simp
  with t(2) show ?thesis by simp
next
  case KbVideoTimeout
  obtain t where "kb_update env FAST AUTOMATED (s\<lparr>kb_video_timer := None, kb_fullscreen_video_playing := False\<rparr>) =
      Some t" "kb_inv t"
    using ok kb_update_inv [OF assms(2), of "s\<lparr>kb_video_timer := None, kb_fullscreen_video_playing := False\<rparr>"
      FAST AUTOMATED] by auto
  then show ?thesis using assms(1)
    by (cases "IsRunning (kb_video_timer s)")
      (simp_all add: KbVideoTimeout TriggerVideoTimeout_def HandleVideoTimeout_def)
  qed (simp_all add: kb_handlers_inv [OF assms])
qed

interpretation keyboard: guarded_machine kb_step kb_inv kb_legal
  by unfold_locales (use kb_step_inv in \<open>fastforce simp: kb_legal_def\<close>)

lemma kb_Init_inv:
  assumes "kb_Init env prefs GetDouble have_sensor mode (KeyboardBacklightController b) = Some s"
    and "writes_ok (kbe_backlight env)"
    and "sb_brightness_path b \<noteq> []" "0 < sb_max_brightness_level b" "\<not> sb_transition_timer b"
    and "have_sensor \<longrightarrow> mode \<noteq> TABLET_ON"
  shows "kb_inv s"
proof -
  define s0 where "s0 = KeyboardBacklightController b"
  obtain keep_on video steps where steps: "kb_user_steps s0 @ steps \<noteq> []"
    and init: "kb_init_brightness env prefs GetDouble have_sensor
       (s0\<lparr>kb_tablet_mode := mode,
           kb_supports_hover := get_or (pref_bool prefs ''detect_hover'') (kb_supports_hover s0),
           kb_turn_on_for_user_activity :=
             get_or (pref_bool prefs ''keyboard_backlight_turn_on_for_user_activity'')
               (kb_turn_on_for_user_activity s0),
           kb_keep_on_delay := keep_on, kb_keep_on_during_video_delay := video,
           kb_max_level := GetMaxBrightnessLevel (kb_backlight s0),
           kb_current_level := GetCurrentBrightnessLevel (kb_backlight s0),
           kb_user_steps := kb_user_steps s0 @ steps\<rparr>) = Some s" (is "kb_init_brightness _ _ _ _ ?s1 = _")
    using assms(1) unfolding kb_Init_def s0_def [symmetric] by (auto split: option.splits if_splits)
  define s1 where "s1 = ?s1"
  have s1: "kb_init_brightness env prefs GetDouble have_sensor s1 = Some s"
    using init by (simp only: s1_def)
  have "kb_device_ok s1" "kb_table_ok s1" "have_sensor \<Longrightarrow> \<not> kb_forced s1"
    using assms(3-6) steps
    by (auto simp: s1_def s0_def KeyboardBacklightController_def kb_device_ok_def kb_table_ok_def kb_forced_def
      GetMaxBrightnessLevel_def GetCurrentBrightnessLevel_def sb_target_def)
  note s1 = s1 this
  show ?thesis
  proof (cases have_sensor)
    case True
    with s1 obtain h where "alh_inv h" "s = s1\<lparr>kb_ambient_light_handler := Some h\<rparr>"
      by (auto simp: kb_init_brightness_def split: option.splits dest: alh_Init_inv)
    with True s1 show ?thesis by (auto simp: kb_inv_def kb_table_ok_def kb_forced_def)
  next
    case False
    with s1 kb_update_inv [OF assms(2), of "s1\<lparr>kb_automated_percent :=
        GetDouble ''keyboard_backlight_no_als_brightness'' (last (kb_user_steps s1))\<rparr>" SLOW AUTOMATED]
    show ?thesis by (auto simp: kb_init_brightness_def)
  qed
qed


definition example_kb_prefs :: prefs where
  "example_kb_prefs = \<lparr>pref_string = (\<lambda>_. Some ''0 100''),
     pref_int64 = (\<lambda>n. Some (if n = ''keyboard_backlight_keep_on_ms'' then 30000 else 3000)),
     pref_bool = (\<lambda>n. Some True)\<rparr>"

definition example_kb_libs :: alh_libs where
  "example_kb_libs = \<lparr>al_SplitLines = (\<lambda>_. [''0'', ''100'']), al_SplitSpaces = (\<lambda>s. [s]),
     al_StringToDouble = (\<lambda>w. Some (if w = ''0'' then 0 else 100)), al_StringToInt = (\<lambda>w. Some 0)\<rparr>"

definition example_kb_env :: "int \<Rightarrow> kb_env" where
  "example_kb_env seconds = \<lparr>kbe_backlight = example_sb_env\<lparr>sbe_now := FromSeconds seconds\<rparr>,
     kbe_now = FromSeconds seconds, kbe_libs = example_kb_libs\<rparr>"

lemma example_kb_env_ok [simp]: "writes_ok (kbe_backlight (example_kb_env t))" "kb_legal (example_kb_env t, e)"
  by (simp_all add: example_kb_env_def writes_ok_def example_sb_env_def kb_legal_def)

definition example_device :: sysfs_backlight where
  "example_device = InternalBacklight\<lparr>sb_brightness_path := ''kbd/brightness'', sb_max_brightness_level := 100\<rparr>"

definition example_keyboard :: "keyboard_backlight option" where
  "example_keyboard = kb_Init (example_kb_env 1) example_kb_prefs (\<lambda>_ old. old) False TABLET_OFF
     (KeyboardBacklightController example_device)"


section \<open>The light goes on with activity and out when it is over\<close>

text \<open>The state after user activity, before the backlight is updated.\<close>

lemma user_activity_timer:
  assumes "kb_supports_hover s \<or> kb_turn_on_for_user_activity s" "\<not> kb_hovering s"
    and "kb_last_hover_time s \<le> kbe_now env" "0 < kbe_now env" "0 < kb_delay s"
  shows "UpdateTurnOffTimer env (s\<lparr>kb_last_user_activity_time := kbe_now env\<rparr>) =
    s\<lparr>kb_last_user_activity_time := kbe_now env, kb_turn_off_timer := Some (kb_delay s)\<rparr>"
proof -
  have "max (kb_last_hover_time s) (kbe_now env) = kbe_now env" using assms(3) by simp
  moreover have "kb_delay (s\<lparr>kb_last_user_activity_time := a, kb_turn_off_timer := b\<rparr>) = kb_delay s" for a b
    by (simp add: kb_delay_def)
  ultimately show ?thesis using assms(1,2,4,5)
    by (cases "kb_supports_hover s") (simp_all add: UpdateTurnOffTimer_def Let_def)
qed

lemma kb_percent_automatic:
  assumes "\<not> kb_forced s" "kb_user_step_index s = -1" "kb_supports_hover s \<or> kb_turn_on_for_user_activity s"
  shows "kb_percent env s = Some (if RecentlyHoveringOrUserActive env s then kb_automated_percent s else 0)"
  using assms by (auto simp: kb_percent_def)

text \<open>
  C28. On a keyboard that is lit for user activity, activity lights it and the light goes out
  by itself. If the user has set no step and no overriding condition holds, activity sets the
  automated brightness and arms the turn-off timer with exactly the configured delay; when
  that timer fires, at any time from then on, the light goes out.
\<close>

theorem activity_lights_then_darkens:
  assumes "kb_inv s" "\<not> kb_forced s" "kb_user_step_index s = -1"
    and "kb_supports_hover s \<or> kb_turn_on_for_user_activity s" "\<not> kb_hovering s"
    and "kb_last_hover_time s \<le> kbe_now env" "0 < kbe_now env" "0 < kb_delay s"
    and "writes_ok (kbe_backlight env)" "writes_ok (kbe_backlight later)"
    and "kbe_now env + kb_delay s \<le> kbe_now later"
  shows "\<exists>t u. kb_HandleUserActivity env s = Some t \<and>
    sb_target (kb_backlight t) = kb_PercentToLevel s (kb_automated_percent s) \<and>
    kb_turn_off_timer t = Some (kb_delay s) \<and>
    TriggerTurnOffTimeout later t = Some u \<and> sb_target (kb_backlight u) = 0"
proof -
  define s1 where "s1 = s\<lparr>kb_last_user_activity_time := kbe_now env, kb_turn_off_timer := Some (kb_delay s)\<rparr>"
  have ok: "kb_device_ok s1" "kb_table_ok s1" using kb_invD [OF assms(1)] by (simp_all add: s1_def)
  have auto: "\<not> kb_forced s1" "kb_user_step_index s1 = -1" "kb_supports_hover s1 \<or> kb_turn_on_for_user_activity s1"
    using assms(2-4) by (simp_all add: s1_def kb_forced_def)
  have recent: "RecentlyHoveringOrUserActive env s1" using assms(7,8)
    by (auto simp: RecentlyHoveringOrUserActive_def kb_delay_def s1_def split: if_splits)
  obtain t where t: "kb_update env FAST AUTOMATED s1 = Some t" "kb_inv t" "kb_same s1 t"
    "kb_current_level t = kb_PercentToLevel s1 (the (kb_percent env s1))"
    using kb_update_ok [OF assms(9) ok] by blast
  obtain b l n where same: "t = s1\<lparr>kb_backlight := b, kb_current_level := l, kb_notified := n\<rparr>"
    using t(3) by (auto simp: kb_same_def)
  have s1: "kb_PercentToLevel s1 = kb_PercentToLevel s" "kb_automated_percent s1 = kb_automated_percent s"
    by (simp_all add: s1_def kb_PercentToLevel_def fun_eq_iff)
  define t1 where "t1 = t\<lparr>kb_turn_off_timer := None\<rparr>"
  have ok1: "kb_device_ok t1" "kb_table_ok t1" using kb_invD [OF t(2)] by (simp_all add: t1_def)
  have auto1: "\<not> kb_forced t1" "kb_user_step_index t1 = -1" "kb_supports_hover t1 \<or> kb_turn_on_for_user_activity t1"
    using auto by (simp_all add: t1_def same kb_forced_def)
  have over: "\<not> RecentlyHoveringOrUserActive later t1" using assms(5-8,11)
    by (auto simp: RecentlyHoveringOrUserActive_def kb_delay_def t1_def same s1_def split: if_splits)
  obtain u where u: "kb_update later SLOW AUTOMATED t1 = Some u" "kb_inv u"
    "kb_current_level u = kb_PercentToLevel t1 (the (kb_percent later t1))"
    using kb_update_ok [OF assms(10) ok1] by blast
  have "kb_turn_off_timer t = Some (kb_delay s)" by (simp add: same s1_def)
  moreover have "sb_target (kb_backlight t) = kb_PercentToLevel s (kb_automated_percent s)"
    using t(2,4) kb_percent_automatic [OF auto, of env] recent s1
    by (simp add: kb_inv_def kb_device_ok_def)
  moreover have "sb_target (kb_backlight u) = 0"
    using u(2,3) kb_percent_automatic [OF auto1, of later] over ok1(1)
    by (simp add: kb_inv_def kb_device_ok_def kb_PercentToLevel_0)
  moreover have "kb_HandleUserActivity env s = Some t"
    using t(1) user_activity_timer [OF assms(4-8)] by (simp add: kb_HandleUserActivity_def s1_def)
  ultimately show ?thesis using u(1) by (simp add: TriggerTurnOffTimeout_def t1_def)
qed

definition example_kb :: keyboard_backlight where
  "example_kb = (KeyboardBacklightController example_device)\<lparr>kb_max_level := 100, kb_user_steps := [0, 100],
     kb_turn_on_for_user_activity := True, kb_session_state := SESSION_STARTED,
     kb_keep_on_delay := FromSeconds 30, kb_keep_on_during_video_delay := FromSeconds 3\<rparr>"

lemmas example_kb_defs = example_kb_def KeyboardBacklightController_def example_device_def InternalBacklight_def

lemma example_kb_ok: "kb_inv example_kb"
  by (simp add: kb_inv_def kb_device_ok_def kb_table_ok_def kb_forced_def sb_target_def example_kb_defs)

theorem activity_lights_then_darkens_witness:
  "\<exists>t u. kb_HandleUserActivity (example_kb_env 10) example_kb = Some t \<and>
    sb_target (kb_backlight t) = kb_PercentToLevel example_kb (kb_automated_percent example_kb) \<and>
    kb_turn_off_timer t = Some (kb_delay example_kb) \<and>
    TriggerTurnOffTimeout (example_kb_env 40) t = Some u \<and> sb_target (kb_backlight u) = 0"
  by (rule activity_lights_then_darkens)
    (simp_all add: example_kb_ok, simp_all add: example_kb_defs kb_forced_def kb_delay_def example_kb_env_def FromSeconds_def)

section \<open>The end of a fullscreen video\<close>

text \<open>
  \<^verbatim>\<open>HandleVideoActivity()\<close> switches between the two delays and updates the backlight, but
  unlike \<^verbatim>\<open>HandleVideoTimeout()\<close> it does not update the turn-off timer. With the default
  preferences, take user activity at 10 s during a fullscreen video: the timer turns the
  light out at 13 s. When the video leaves fullscreen at 20 s the longer delay applies again
  and the light goes back on, with no timer left that would turn it out.
\<close>

definition video_events :: "(kb_env \<times> kb_event) list" where
  "video_events = [(example_kb_env 9, KbVideo True), (example_kb_env 10, KbUserActivity),
     (example_kb_env 13, KbTurnOffTimeout), (example_kb_env 20, KbVideo False)]"

lemma video_end_leaves_light_on:
  "map_option (\<lambda>t. (sb_target (kb_backlight t), kb_turn_off_timer t, kb_video_timer t))
     (run_events kb_step example_kb video_events) = Some (100, None, None)"
  by code_simp

end
