(* ===== verification/External_Display.thy ===== *)
theory External_Display
  imports Backlight_Common
begin

unbundle bit_operations_syntax

text \<open>
  \<^verbatim>\<open>ExternalDisplay\<close>
  (\<^verbatim>\<open>src/power_manager/powerd/system/display/external_display.{h,cc}\<close>): the brightness of an
  external display, read and written with DDC/CI messages on its I2C bus.

  Bytes are \<open>8 word\<close>, levels \<open>16 word\<close>. \<open>ed_env\<close> is what one event sees of the outside: the
  clock (read once per event), whether a message can be sent, and the bytes that the driver
  stores in the buffer of a read (\<open>None\<close> when the call fails). \<open>ed_ops\<close> is the trace of I2C
  operations with their times, \<open>ed_timer_start\<close> the time at which the timer was last started.
  Histogram samples and the file descriptor of the real delegate are not modelled.
\<close>

section \<open>Messages\<close>

type_synonym byte = "8 word"

datatype ReceiveResult = RR_IOCTL_FAILED | RR_BAD_CHECKSUM | RR_BAD_ADDRESS | RR_BAD_LENGTH
  | RR_BAD_COMMAND | RR_BAD_RESULT | RR_BAD_INDEX | RR_ZERO_MAX_VALUE

definition kDdcHostAddress :: byte where
  "kDdcHostAddress = 0x51"

definition kDdcDisplayAddress :: byte where
  "kDdcDisplayAddress = 0x6e"

definition kDdcVirtualHostAddress :: byte where
  "kDdcVirtualHostAddress = 0x50"

definition kDdcMessageBodyLengthMask :: byte where
  "kDdcMessageBodyLengthMask = 0x80"

definition kDdcGetCommand :: byte where
  "kDdcGetCommand = 0x01"

definition kDdcGetReplyCommand :: byte where
  "kDdcGetReplyCommand = 0x02"

definition kDdcSetCommand :: byte where
  "kDdcSetCommand = 0x03"

definition kDdcBrightnessIndex :: byte where
  "kDdcBrightnessIndex = 0x10"

definition kDdcSetDelayMs :: int where
  "kDdcSetDelayMs = 50"

definition kDdcGetDelayMs :: int where
  "kDdcGetDelayMs = 40"

definition kCachedBrightnessValidMs :: int where
  "kCachedBrightnessValidMs = 3000"

text \<open>The loops that compute a checksum.\<close>

definition checksum :: "byte \<Rightarrow> byte list \<Rightarrow> byte" where
  "checksum start bytes = fold (\<lambda>b c. c XOR b) bytes start"

text \<open>The bytes that \<^verbatim>\<open>SendMessage()\<close> puts on the bus.\<close>

definition ddc_message :: "byte list \<Rightarrow> byte list" where
  "ddc_message body =
     (let front = kDdcHostAddress # (kDdcMessageBodyLengthMask OR of_nat (length body)) # body
      in front @ [checksum kDdcDisplayAddress front])"

text \<open>
  \<^verbatim>\<open>ReceiveMessage()\<close> for a body of \<open>n\<close> bytes; \<open>received\<close> gives the byte stored at each
  position of the buffer.
\<close>

definition ReceiveMessage :: "(nat \<Rightarrow> byte) option \<Rightarrow> nat \<Rightarrow> ReceiveResult + byte list" where
  "ReceiveMessage received n =
     (case received of
        None \<Rightarrow> Inl RR_IOCTL_FAILED
      | Some buf \<Rightarrow>
          let message = map buf [0..<n + 3] in
          if last message \<noteq> checksum kDdcVirtualHostAddress (butlast message) then Inl RR_BAD_CHECKSUM
          else if message ! 0 \<noteq> kDdcDisplayAddress then Inl RR_BAD_ADDRESS
          else if unat (message ! 1 AND NOT kDdcMessageBodyLengthMask) \<noteq> n then Inl RR_BAD_LENGTH
          else Inr (take n (drop 2 message)))"

section \<open>State\<close>

datatype EdState = ED_IDLE | ED_WAITING_FOR_REPLY

datatype ed_op = EdSend TimeTicks "byte list" bool | EdReceive TimeTicks

record ed_env =
  ede_now :: TimeTicks
  ede_send_ok :: "byte list \<Rightarrow> bool"
  ede_received :: "(nat \<Rightarrow> byte) option"

record external_display =
  ed_ops :: "ed_op list"
  ed_state :: EdState
  ed_current_brightness_percent :: rat
  ed_max_brightness_level :: "16 word"
  ed_last_brightness_update_time :: TimeTicks
  ed_pending_brightness_adjustment_percent :: rat
  ed_timer :: OneShotTimer
  ed_timer_start :: TimeTicks

definition ExternalDisplay :: external_display where
  "ExternalDisplay = \<lparr>ed_ops = [], ed_state = ED_IDLE, ed_current_brightness_percent = 0,
     ed_max_brightness_level = 0, ed_last_brightness_update_time = 0,
     ed_pending_brightness_adjustment_percent = 0, ed_timer = None, ed_timer_start = 0\<rparr>"

definition BrightnessPercentToLevel :: "external_display \<Rightarrow> rat \<Rightarrow> 16 word" where
  "BrightnessPercentToLevel d percent =
     word_of_int (lround (percent * rat_of_int (uint (ed_max_brightness_level d)) / 100))"

definition HaveCachedBrightness :: "ed_env \<Rightarrow> external_display \<Rightarrow> bool" where
  "HaveCachedBrightness env d =
     (ed_max_brightness_level d > 0 \<and> ed_last_brightness_update_time d \<noteq> 0 \<and>
      InMilliseconds (ede_now env - ed_last_brightness_update_time d) \<le> kCachedBrightnessValidMs)"

definition HavePendingBrightnessAdjustment :: "external_display \<Rightarrow> bool" where
  "HavePendingBrightnessAdjustment d =
     (ed_pending_brightness_adjustment_percent d < - kEpsilon \<or>
      ed_pending_brightness_adjustment_percent d > kEpsilon)"

definition StartTimer :: "ed_env \<Rightarrow> TimeDelta \<Rightarrow> external_display \<Rightarrow> external_display" where
  "StartTimer env delay d = d\<lparr>ed_timer := Some delay, ed_timer_start := ede_now env\<rparr>"

section \<open>The two requests and the reply\<close>

definition SendMessage :: "ed_env \<Rightarrow> byte list \<Rightarrow> external_display \<Rightarrow> bool \<times> external_display" where
  "SendMessage env body d =
     (let message = ddc_message body; sent = ede_send_ok env message
      in (sent, d\<lparr>ed_ops := ed_ops d @ [EdSend (ede_now env) message sent]\<rparr>))"

definition RequestBrightness :: "ed_env \<Rightarrow> external_display \<Rightarrow> bool \<times> external_display" where
  "RequestBrightness env d = SendMessage env [kDdcGetCommand, kDdcBrightnessIndex] d"

definition level_of_bytes :: "byte \<Rightarrow> byte \<Rightarrow> 16 word" where
  "level_of_bytes high low = push_bit 8 (ucast high) + ucast low"

text \<open>The body of a reply: the maximum and the current level, or the reason to ignore it.\<close>

definition parse_reply :: "byte list \<Rightarrow> ReceiveResult + 16 word \<times> 16 word" where
  "parse_reply message =
     (if message ! 0 \<noteq> kDdcGetReplyCommand then Inl RR_BAD_COMMAND
      else if message ! 1 \<noteq> 0 then Inl RR_BAD_RESULT
      else if message ! 2 \<noteq> kDdcBrightnessIndex then Inl RR_BAD_INDEX
      else let max_level = level_of_bytes (message ! 4) (message ! 5) in
           if max_level = 0 then Inl RR_ZERO_MAX_VALUE
           else Inr (max_level, level_of_bytes (message ! 6) (message ! 7)))"

definition ReadBrightness :: "ed_env \<Rightarrow> external_display \<Rightarrow> bool \<times> external_display" where
  "ReadBrightness env d0 =
     (let d = d0\<lparr>ed_ops := ed_ops d0 @ [EdReceive (ede_now env)]\<rparr> in
      case ReceiveMessage (ede_received env) 8 of
        Inl _ \<Rightarrow> (False, d)
      | Inr message \<Rightarrow>
          (case parse_reply message of
             Inl _ \<Rightarrow> (False, d)
           | Inr (max_level, current_level) \<Rightarrow>
               (True, d\<lparr>ed_max_brightness_level := max_level,
                        ed_current_brightness_percent := ClampPercent
                          (rat_of_int (uint current_level) / rat_of_int (uint max_level) * 100),
                        ed_last_brightness_update_time := ede_now env\<rparr>)))"

text \<open>The body of a \<^verbatim>\<open>Set VCP Feature\<close> request.\<close>

definition set_brightness_body :: "16 word \<Rightarrow> byte list" where
  "set_brightness_body level =
     [kDdcSetCommand, kDdcBrightnessIndex, ucast (drop_bit 8 level), ucast (level AND 0xff)]"

definition ed_WriteBrightness :: "ed_env \<Rightarrow> external_display \<Rightarrow> bool \<times> external_display" where
  "ed_WriteBrightness env d =
     (let new_percent = ClampPercent
            (ed_current_brightness_percent d + ed_pending_brightness_adjustment_percent d);
          new_level = BrightnessPercentToLevel d new_percent
      in if new_level = BrightnessPercentToLevel d (ed_current_brightness_percent d)
         then (False, d\<lparr>ed_last_brightness_update_time := ede_now env\<rparr>)
         else case SendMessage env (set_brightness_body new_level) d of
                (False, d1) \<Rightarrow> (False, d1)
              | (True, d1) \<Rightarrow> (True, d1\<lparr>ed_current_brightness_percent := new_percent,
                                  ed_last_brightness_update_time := ede_now env\<rparr>))"

section \<open>The state machine\<close>

text \<open>The two ends of \<^verbatim>\<open>UpdateState()\<close>: drop the adjustment, after starting the timer if a
  message was written.\<close>

definition finish_write :: "ed_env \<Rightarrow> bool \<times> external_display \<Rightarrow> external_display" where
  "finish_write env = (\<lambda>(written, d).
     (if written then StartTimer env (FromMilliseconds kDdcSetDelayMs) d else d)
       \<lparr>ed_pending_brightness_adjustment_percent := 0\<rparr>)"

definition ed_UpdateState :: "ed_env \<Rightarrow> external_display \<Rightarrow> external_display" where
  "ed_UpdateState env d =
     (case ed_state d of
        ED_IDLE \<Rightarrow>
          if \<not> HavePendingBrightnessAdjustment d then d
          else if HaveCachedBrightness env d then finish_write env (ed_WriteBrightness env d)
          else (case RequestBrightness env d of
                  (False, d1) \<Rightarrow> d1\<lparr>ed_pending_brightness_adjustment_percent := 0\<rparr>
                | (True, d1) \<Rightarrow> StartTimer env (FromMilliseconds kDdcGetDelayMs)
                                 (d1\<lparr>ed_state := ED_WAITING_FOR_REPLY\<rparr>))
      | ED_WAITING_FOR_REPLY \<Rightarrow>
          (case ReadBrightness env (d\<lparr>ed_state := ED_IDLE\<rparr>) of
             (False, d1) \<Rightarrow> d1\<lparr>ed_pending_brightness_adjustment_percent := 0\<rparr>
           | (True, d1) \<Rightarrow>
               if HavePendingBrightnessAdjustment d1
               then finish_write env (ed_WriteBrightness env d1)
               else d1\<lparr>ed_pending_brightness_adjustment_percent := 0\<rparr>))"

definition AdjustBrightnessByPercent :: "ed_env \<Rightarrow> rat \<Rightarrow> external_display \<Rightarrow> external_display" where
  "AdjustBrightnessByPercent env percent_offset d0 =
     (let d = d0\<lparr>ed_pending_brightness_adjustment_percent :=
                   ed_pending_brightness_adjustment_percent d0 + percent_offset\<rparr>
      in if \<not> IsRunning (ed_timer d) then ed_UpdateState env d else d)"

text \<open>The timer as the message loop fires it.\<close>

definition TriggerTimeout :: "ed_env \<Rightarrow> external_display \<Rightarrow> external_display" where
  "TriggerTimeout env d =
     (if IsRunning (ed_timer d) then ed_UpdateState env (d\<lparr>ed_timer := None\<rparr>) else d)"

end
