(* ===== verification/External_Display_Proofs.thy ===== *)
theory External_Display_Proofs
  imports External_Display
begin

text \<open>
  Correctness of the DDC/CI traffic with an external display: frames round-trip and a
  corrupted byte is noticed, the delays between messages are kept, and an adjustment of the
  brightness ends in the right request.
\<close>

section \<open>Frames\<close>

lemma checksum_simps [simp]:
  "checksum s [] = s" "checksum s (b # bs) = checksum (s XOR b) bs"
  "checksum s (bs @ [b]) = checksum s bs XOR b"
  by (simp_all add: checksum_def)

lemma checksum_start: "checksum (s XOR b) bs = checksum s bs XOR b"
proof (induction bs arbitrary: s)
  case (Cons a bs)
  have "(s XOR b) XOR a = (s XOR a) XOR b" by (metis xor.assoc xor.commute)
  with Cons show ?case by simp
qed simp

lemma xor_left_cancel [simp]: "a XOR b = a XOR c \<longleftrightarrow> b = (c :: byte)"
  by (metis xor.assoc xor.left_neutral xor_self_eq)

lemma checksum_update:
  "i < length bs \<Longrightarrow> checksum s (bs[i := b]) = checksum s bs \<longleftrightarrow> b = bs ! i"
proof (induction bs arbitrary: s i)
  case (Cons a bs)
  show ?case
  proof (cases i)
    case 0
    have "checksum (s XOR b) bs = checksum (s XOR a) bs \<longleftrightarrow> checksum s bs XOR b = checksum s bs XOR a"
      by (simp only: checksum_start)
    with 0 show ?thesis by simp
  next
    case (Suc j)
    with Cons show ?thesis by simp
  qed
qed simp

lemma length_byte: "n < 128 \<Longrightarrow> unat ((kDdcMessageBodyLengthMask OR of_nat n) AND NOT kDdcMessageBodyLengthMask) = n"
proof -
  have "\<forall>n \<in> set [0..<128]. unat ((kDdcMessageBodyLengthMask OR of_nat n) AND NOT kDdcMessageBodyLengthMask) = n"
    by code_simp
  then show "n < 128 \<Longrightarrow> ?thesis" by simp
qed

text \<open>
  A reply as a display sends it (DDC/CI, \<^verbatim>\<open>Get VCP Feature\<close> reply): the display's address,
  the length, the body, and the checksum that starts with the virtual host address.
\<close>

definition ddc_reply :: "byte list \<Rightarrow> byte list" where
  "ddc_reply body =
     (let front = kDdcDisplayAddress # (kDdcMessageBodyLengthMask OR of_nat (length body)) # body
      in front @ [checksum kDdcVirtualHostAddress front])"

definition buffer_of :: "byte list \<Rightarrow> (nat \<Rightarrow> byte) option" where
  "buffer_of bytes = Some (\<lambda>i. bytes ! i)"

lemma ReceiveMessage_buffer:
  assumes "length bytes = n + 3"
  shows "ReceiveMessage (buffer_of bytes) n =
    (if last bytes \<noteq> checksum kDdcVirtualHostAddress (butlast bytes) then Inl RR_BAD_CHECKSUM
     else if bytes ! 0 \<noteq> kDdcDisplayAddress then Inl RR_BAD_ADDRESS
     else if unat (bytes ! 1 AND NOT kDdcMessageBodyLengthMask) \<noteq> n then Inl RR_BAD_LENGTH
     else Inr (take n (drop 2 bytes)))"
proof -
  have "map ((!) bytes) [0..<n + 3] = bytes" using assms by (metis map_nth)
  then show ?thesis by (simp add: ReceiveMessage_def buffer_of_def Let_def del: upt_Suc)
qed

lemma ddc_reply_accepted:
  assumes "length body < 128"
  shows "ReceiveMessage (buffer_of (ddc_reply body)) (length body) = Inr body"
  using length_byte [OF assms]
  by (subst ReceiveMessage_buffer) (simp_all add: ddc_reply_def Let_def butlast_append)

lemma corrupted_byte_rejected:
  assumes "length bytes = n + 3" "last bytes = checksum kDdcVirtualHostAddress (butlast bytes)"
    and "i < length bytes" "b \<noteq> bytes ! i"
  shows "ReceiveMessage (buffer_of (bytes[i := b])) n = Inl RR_BAD_CHECKSUM"
proof -
  have "bytes \<noteq> []" using assms(1) by auto
  then obtain xs y where bytes: "bytes = xs @ [y]" by (metis append_butlast_last_id)
  show ?thesis
  proof (cases "i < length xs")
    case True
    with assms checksum_update [of i xs kDdcVirtualHostAddress b] show ?thesis
      by (subst ReceiveMessage_buffer) (auto simp: bytes list_update_append nth_append butlast_append)
  next
    case False
    with assms have "i = length xs" by (simp add: bytes)
    with assms show ?thesis
      by (subst ReceiveMessage_buffer) (auto simp: bytes list_update_append nth_append)
  qed
qed

lemma level_bytes: "level_of_bytes (ucast (drop_bit 8 level)) (ucast (level AND 0xff)) = level"
proof -
  have low: "level AND 0xff = take_bit 8 level" by (simp add: take_bit_eq_mask mask_eq_exp_minus_1)
  have "ucast (ucast (level AND 0xff) :: byte) = take_bit 8 level"
    unfolding low by (rule bit_eqI) (auto simp: bit_simps)
  moreover have "push_bit 8 (ucast (ucast (drop_bit 8 level) :: byte)) = push_bit 8 (drop_bit 8 level)"
    by (rule bit_eqI) (auto simp: bit_simps)
  ultimately show ?thesis by (simp add: level_of_bytes_def bits_ident)
qed

lemma ddc_message_checksum: "checksum kDdcDisplayAddress (ddc_message body) = 0"
  by (simp only: ddc_message_def Let_def checksum_simps xor_self_eq)

text \<open>
  C29. DDC/CI frames round-trip. A reply framed as the standard prescribes is accepted and its
  body recovered, whatever the body (up to 127 bytes), and the same reply with any one byte
  changed is rejected because of its checksum. The request that sets a level carries exactly
  that level, for all 65536 levels, and its bytes XOR to zero with the display's address.
\<close>

theorem ddc_frames_roundtrip:
  assumes "length body < 128"
  shows "ReceiveMessage (buffer_of (ddc_reply body)) (length body) = Inr body \<and>
    (\<forall>i < length body + 3. \<forall>b. b \<noteq> ddc_reply body ! i \<longrightarrow>
       ReceiveMessage (buffer_of ((ddc_reply body)[i := b])) (length body) = Inl RR_BAD_CHECKSUM) \<and>
    checksum kDdcDisplayAddress (ddc_message (set_brightness_body level)) = 0 \<and>
    level_of_bytes (ddc_message (set_brightness_body level) ! 4)
      (ddc_message (set_brightness_body level) ! 5) = level"
proof -
  have "length (ddc_reply body) = length body + 3"
    "last (ddc_reply body) = checksum kDdcVirtualHostAddress (butlast (ddc_reply body))"
    by (simp_all add: ddc_reply_def Let_def butlast_append)
  moreover have "level_of_bytes (ddc_message (set_brightness_body level) ! 4)
      (ddc_message (set_brightness_body level) ! 5) = level"
    using level_bytes [of level] by (simp add: ddc_message_def set_brightness_body_def Let_def)
  ultimately show ?thesis
    using ddc_reply_accepted [OF assms] corrupted_byte_rejected ddc_message_checksum by simp
qed

definition example_body :: "byte list" where
  "example_body = [2, 0, 0x10, 0, 0, 100, 0, 40]"

lemma example_body_facts:
  "length example_body = 8" "ddc_reply example_body ! 7 \<noteq> 101"
  by code_simp+

theorem ddc_frames_roundtrip_witness:
  "ReceiveMessage (buffer_of (ddc_reply example_body)) 8 = Inr example_body \<and>
   ReceiveMessage (buffer_of ((ddc_reply example_body)[7 := 101])) 8 = Inl RR_BAD_CHECKSUM"
  using ddc_frames_roundtrip [of example_body] example_body_facts by simp

section \<open>Delays\<close>

definition get_message :: "byte list" where
  "get_message = ddc_message [kDdcGetCommand, kDdcBrightnessIndex]"

lemma set_not_get [simp]: "ddc_message (set_brightness_body level) \<noteq> get_message"
  by (simp add: get_message_def ddc_message_def set_brightness_body_def Let_def)

fun op_time :: "ed_op \<Rightarrow> TimeTicks" where
  "op_time (EdSend t m ok) = t"
| "op_time (EdReceive t) = t"

text \<open>What DDC/CI asks of two consecutive operations on the bus.\<close>

fun next_ok :: "ed_op \<Rightarrow> ed_op \<Rightarrow> bool" where
  "next_ok (EdSend t m ok) (EdReceive u) \<longleftrightarrow> ok \<and> m = get_message \<and> t + FromMilliseconds kDdcGetDelayMs \<le> u"
| "next_ok (EdSend t m ok) (EdSend u _ _) \<longleftrightarrow>
     (ok \<longrightarrow> m \<noteq> get_message \<and> t + FromMilliseconds kDdcSetDelayMs \<le> u)"
| "next_ok (EdReceive t) (EdReceive u) \<longleftrightarrow> False"
| "next_ok (EdReceive t) (EdSend u _ _) \<longleftrightarrow> t \<le> u"

definition ddc_spaced :: "ed_op list \<Rightarrow> bool" where
  "ddc_spaced ops \<longleftrightarrow> successively next_ok ops \<and> (ops = [] \<or> (\<exists>t m ok. hd ops = EdSend t m ok))"

text \<open>
  The states a display can be in at a time: the clock never goes back and the timer does not
  fire before its delay is over.
\<close>

inductive ed_reach :: "external_display \<Rightarrow> TimeTicks \<Rightarrow> bool" where
  start: "ed_reach ExternalDisplay t"
| adjust: "ed_reach d t \<Longrightarrow> t \<le> ede_now env \<Longrightarrow>
    ed_reach (AdjustBrightnessByPercent env percent d) (ede_now env)"
| timeout: "ed_reach d t \<Longrightarrow> t \<le> ede_now env \<Longrightarrow> ed_timer d = Some delay \<Longrightarrow>
    ed_timer_start d + delay \<le> ede_now env \<Longrightarrow> ed_reach (TriggerTimeout env d) (ede_now env)"

text \<open>A display that may send a message at time \<open>t\<close>, and one that has to wait.\<close>

definition may_send :: "TimeTicks \<Rightarrow> external_display \<Rightarrow> bool" where
  "may_send t d \<longleftrightarrow> ed_state d = ED_IDLE \<and> ed_timer d = None \<and> ddc_spaced (ed_ops d) \<and>
     (ed_ops d \<noteq> [] \<longrightarrow> (\<forall>u m ok. t \<le> u \<longrightarrow> next_ok (last (ed_ops d)) (EdSend u m ok)))"

definition must_wait :: "TimeTicks \<Rightarrow> external_display \<Rightarrow> bool" where
  "must_wait t d \<longleftrightarrow> ed_timer_start d \<le> t \<and> ddc_spaced (ed_ops d) \<and> ed_ops d \<noteq> [] \<and>
     (\<exists>m. last (ed_ops d) = EdSend (ed_timer_start d) m True \<and>
        (if m = get_message
         then ed_state d = ED_WAITING_FOR_REPLY \<and> ed_timer d = Some (FromMilliseconds kDdcGetDelayMs)
         else ed_state d = ED_IDLE \<and> ed_timer d = Some (FromMilliseconds kDdcSetDelayMs)))"

definition ed_inv :: "TimeTicks \<Rightarrow> external_display \<Rightarrow> bool" where
  "ed_inv t d \<longleftrightarrow> may_send t d \<or> must_wait t d"

lemma ddc_spaced_snoc:
  "ddc_spaced ops \<Longrightarrow> ops \<noteq> [] \<Longrightarrow> next_ok (last ops) op \<Longrightarrow> ddc_spaced (ops @ [op])"
  "ddc_spaced ([EdSend t m ok])"
  by (simp_all add: ddc_spaced_def successively_append_iff)

lemma may_sendD: "may_send t d \<Longrightarrow> t \<le> ede_now env \<Longrightarrow>
    ddc_spaced (ed_ops d @ [EdSend (ede_now env) m ok])"
  by (cases "ed_ops d = []") (auto simp: may_send_def intro: ddc_spaced_snoc)

lemma may_send_mono: "may_send t d \<Longrightarrow> t \<le> u \<Longrightarrow> may_send u d"
  unfolding may_send_def by (meson order_trans)

lemma may_send_frame [simp]:
  "may_send t (d\<lparr>ed_pending_brightness_adjustment_percent := p\<rparr>) = may_send t d"
  "may_send t (d\<lparr>ed_last_brightness_update_time := u\<rparr>) = may_send t d"
  "may_send t (d\<lparr>ed_current_brightness_percent := p\<rparr>) = may_send t d"
  "must_wait t (d\<lparr>ed_pending_brightness_adjustment_percent := p\<rparr>) = must_wait t d"
  by (simp_all add: may_send_def must_wait_def)

text \<open>A failed send leaves the display ready; a successful one has to be followed by a wait.\<close>

lemma SendMessage_failed:
  assumes "may_send t d" "t \<le> ede_now env" "SendMessage env body d = (False, d')"
  shows "may_send (ede_now env) d'"
  using assms may_sendD [OF assms(1,2)] by (auto simp: SendMessage_def may_send_def Let_def)

lemma SendMessage_sent:
  assumes "may_send t d" "t \<le> ede_now env" "SendMessage env body d = (True, d')"
  shows "ed_ops d' = ed_ops d @ [EdSend (ede_now env) (ddc_message body) True]" "ddc_spaced (ed_ops d')"
    "ed_state d' = ED_IDLE"
  using assms may_sendD [OF assms(1,2)] by (auto simp: SendMessage_def may_send_def Let_def)

lemma finish_write_inv:
  assumes "may_send t d" "t \<le> ede_now env"
  shows "ed_inv (ede_now env) (finish_write env (ed_WriteBrightness env d))"
proof (cases "ed_WriteBrightness env d")
  case (Pair written d1)
  show ?thesis
  proof (cases written)
    case True
    then obtain level d2 where "SendMessage env (set_brightness_body level) d = (True, d2)"
      "ed_ops d1 = ed_ops d2" "ed_state d1 = ed_state d2"
      using Pair by (auto simp: ed_WriteBrightness_def Let_def split: if_splits prod.splits bool.splits)
    with SendMessage_sent [OF assms this(1)] True Pair show ?thesis
      by (simp add: ed_inv_def must_wait_def finish_write_def StartTimer_def)
  next
    case False
    have "may_send (ede_now env) d1"
      using Pair False may_send_mono [OF assms] SendMessage_failed [OF assms]
      by (auto simp: ed_WriteBrightness_def Let_def split: if_splits prod.splits bool.splits)
    with False Pair show ?thesis by (simp add: ed_inv_def finish_write_def)
  qed
qed

lemma UpdateState_idle_inv:
  assumes "may_send t d" "t \<le> ede_now env"
  shows "ed_inv (ede_now env) (ed_UpdateState env d)"
proof -
  have idle: "ed_state d = ED_IDLE" using assms(1) by (simp add: may_send_def)
  obtain sent d1 where d1: "RequestBrightness env d = (sent, d1)" by fastforce
  have request: "ed_inv (ede_now env) (if sent
      then StartTimer env (FromMilliseconds kDdcGetDelayMs) (d1\<lparr>ed_state := ED_WAITING_FOR_REPLY\<rparr>)
      else d1\<lparr>ed_pending_brightness_adjustment_percent := 0\<rparr>)"
  proof (cases sent)
    case True
    with d1 SendMessage_sent [OF assms, of "[kDdcGetCommand, kDdcBrightnessIndex]" d1] show ?thesis
      by (simp add: RequestBrightness_def ed_inv_def must_wait_def StartTimer_def get_message_def)
  next
    case False
    with d1 SendMessage_failed [OF assms, of "[kDdcGetCommand, kDdcBrightnessIndex]" d1] show ?thesis
      by (simp add: RequestBrightness_def ed_inv_def)
  qed
  show ?thesis
    using idle d1 request finish_write_inv [OF assms] may_send_mono [OF assms]
    by (cases sent) (simp_all add: ed_UpdateState_def ed_inv_def [where d = d])
qed

text \<open>Reading the reply, at the time the timer fires, makes the display ready again.\<close>

lemma ReadBrightness_ready:
  assumes "must_wait t d" "ed_state d = ED_WAITING_FOR_REPLY" "ReadBrightness env (d\<lparr>ed_timer := None, ed_state := ED_IDLE\<rparr>) = (r, d')"
    and "ed_timer_start d + FromMilliseconds kDdcGetDelayMs \<le> ede_now env"
  shows "may_send (ede_now env) d'"
proof -
  have "ddc_spaced (ed_ops d @ [EdReceive (ede_now env)])"
    using assms(1,2,4) by (auto simp: must_wait_def split: if_splits intro!: ddc_spaced_snoc)
  moreover have "ed_ops d' = ed_ops d @ [EdReceive (ede_now env)]" "ed_state d' = ED_IDLE" "ed_timer d' = None"
    using assms(3) by (auto simp: ReadBrightness_def Let_def split: sum.splits prod.splits)
  ultimately show ?thesis by (simp add: may_send_def)
qed

lemma TriggerTimeout_inv:
  assumes "ed_inv t d" "t \<le> ede_now env" "ed_timer d = Some delay" "ed_timer_start d + delay \<le> ede_now env"
  shows "ed_inv (ede_now env) (TriggerTimeout env d)"
proof -
  have wait: "must_wait t d" using assms(1,3) by (auto simp: ed_inv_def may_send_def)
  show ?thesis
  proof (cases "ed_state d")
    case ED_IDLE
    with wait assms(3,4) have "may_send (ede_now env) (d\<lparr>ed_timer := None\<rparr>)"
      by (auto simp: must_wait_def may_send_def split: if_splits)
    with assms(3) UpdateState_idle_inv show ?thesis by (simp add: TriggerTimeout_def)
  next
    case ED_WAITING_FOR_REPLY
    obtain r d1 where r: "ReadBrightness env (d\<lparr>ed_timer := None, ed_state := ED_IDLE\<rparr>) = (r, d1)" by fastforce
    have "ed_timer_start d + FromMilliseconds kDdcGetDelayMs \<le> ede_now env"
      using wait assms(3,4) ED_WAITING_FOR_REPLY by (auto simp: must_wait_def split: if_splits)
    from ReadBrightness_ready [OF wait ED_WAITING_FOR_REPLY r this]
    have ready: "may_send (ede_now env) d1" .
    then have "ed_inv (ede_now env) (d1\<lparr>ed_pending_brightness_adjustment_percent := 0\<rparr>)"
      by (simp add: ed_inv_def)
    with r ready finish_write_inv [OF ready] assms(3) ED_WAITING_FOR_REPLY show ?thesis
      by (auto simp: TriggerTimeout_def ed_UpdateState_def split: bool.split)
  qed
qed

lemma must_wait_mono: "must_wait t d \<Longrightarrow> t \<le> u \<Longrightarrow> must_wait u d"
  by (auto simp: must_wait_def)

lemma AdjustBrightness_inv:
  assumes "ed_inv t d" "t \<le> ede_now env"
  shows "ed_inv (ede_now env) (AdjustBrightnessByPercent env p d)"
proof (cases "ed_timer d")
  case None
  with assms(1) have "may_send t d" by (auto simp: ed_inv_def must_wait_def split: if_splits)
  then show ?thesis using UpdateState_idle_inv [OF _ assms(2)] None
    by (simp add: AdjustBrightnessByPercent_def)
next
  case (Some delay)
  with assms(1) have "must_wait t d" by (auto simp: ed_inv_def may_send_def)
  with Some must_wait_mono [OF this assms(2)] show ?thesis
    by (simp add: AdjustBrightnessByPercent_def ed_inv_def)
qed

lemma ed_reach_inv: "ed_reach d t \<Longrightarrow> ed_inv t d"
proof (induction rule: ed_reach.induct)
  case (start t)
  show ?case by (simp add: ed_inv_def may_send_def ExternalDisplay_def ddc_spaced_def)
qed (simp_all add: AdjustBrightness_inv TriggerTimeout_inv)

text \<open>
  C30. The display is never rushed. In every state that adjustments and timer expirations can
  lead to, with any answers of the bus, the operations on it are spaced as DDC/CI asks: a
  reply is read only directly after a successful request for it and at least 40 ms later,
  and after a successful change of the brightness nothing is sent for at least 50 ms. When
  the timer is stopped no request is outstanding (the \<^verbatim>\<open>DCHECK\<close> of
  \<^verbatim>\<open>AdjustBrightnessByPercent()\<close>).
\<close>

theorem ddc_delays_kept:
  assumes "ed_reach d t"
  shows "ddc_spaced (ed_ops d) \<and> (ed_timer d = None \<longrightarrow> ed_state d = ED_IDLE)"
  using ed_reach_inv [OF assms] by (auto simp: ed_inv_def may_send_def must_wait_def split: if_splits)

definition example_ed_env :: "TimeTicks \<Rightarrow> ed_env" where
  "example_ed_env now = \<lparr>ede_now = now, ede_send_ok = (\<lambda>_. True), ede_received = buffer_of (ddc_reply example_body)\<rparr>"

definition example_display :: external_display where
  "example_display = TriggerTimeout (example_ed_env 41000)
     (AdjustBrightnessByPercent (example_ed_env 1000) 10 ExternalDisplay)"

lemma example_display_reach: "ed_reach example_display 41000"
proof -
  have "ed_reach (AdjustBrightnessByPercent (example_ed_env 1000) 10 ExternalDisplay) 1000"
    using ed_reach.adjust [OF ed_reach.start [of 0], of "example_ed_env 1000" 10]
    by (simp add: example_ed_env_def)
  from ed_reach.timeout [OF this, of "example_ed_env 41000" "FromMilliseconds kDdcGetDelayMs"]
  show ?thesis unfolding example_display_def
    by (simp add: AdjustBrightnessByPercent_def ed_UpdateState_def ExternalDisplay_def example_ed_env_def
      HavePendingBrightnessAdjustment_def kEpsilon_def HaveCachedBrightness_def RequestBrightness_def
      SendMessage_def StartTimer_def FromMilliseconds_def kDdcGetDelayMs_def Let_def)
qed

theorem ddc_delays_kept_witness:
  "length (ed_ops example_display) = 3 \<and> ddc_spaced (ed_ops example_display)"
proof
  show "length (ed_ops example_display) = 3" by code_simp
  show "ddc_spaced (ed_ops example_display)" using ddc_delays_kept [OF example_display_reach] by simp
qed

section \<open>An adjustment from the key press to the request\<close>

lemma clamped_level:
  fixes percent :: rat and d :: external_display
  defines "level \<equiv> BrightnessPercentToLevel d (ClampPercent percent)"
  shows "uint level = lround (ClampPercent percent * rat_of_int (uint (ed_max_brightness_level d)) / 100)"
    "level \<le> ed_max_brightness_level d"
proof -
  define m where "m = uint (ed_max_brightness_level d)"
  have m: "0 \<le> m" "m < 2 ^ 16" using uint_lt2p [of "ed_max_brightness_level d"] by (simp_all add: m_def)
  have "rat_of_int 0 \<le> ClampPercent percent * rat_of_int m / 100" using m by simp
  moreover have "ClampPercent percent * rat_of_int m / 100 \<le> rat_of_int m"
    using m mult_right_mono [OF ClampPercent_bounds(2), of "rat_of_int m" percent] by simp
  ultimately have k: "0 \<le> lround (ClampPercent percent * rat_of_int m / 100)"
    "lround (ClampPercent percent * rat_of_int m / 100) \<le> m"
    using lround_between [of 0 "ClampPercent percent * rat_of_int m / 100" m] by simp_all
  then show *: "uint level = lround (ClampPercent percent * rat_of_int (uint (ed_max_brightness_level d)) / 100)"
    using m unfolding level_def BrightnessPercentToLevel_def m_def [symmetric]
    by (simp add: uint_word_of_int_eq take_bit_int_eq_self)
  then show "level \<le> ed_max_brightness_level d" using k by (simp add: word_le_def m_def)
qed

text \<open>The reply that reports a maximum and a current level.\<close>

definition brightness_reply :: "byte \<Rightarrow> 16 word \<Rightarrow> 16 word \<Rightarrow> byte list" where
  "brightness_reply vcp_type max_level level =
     [kDdcGetReplyCommand, 0, kDdcBrightnessIndex, vcp_type,
      ucast (drop_bit 8 max_level), ucast (max_level AND 0xff),
      ucast (drop_bit 8 level), ucast (level AND 0xff)]"

lemma parse_brightness_reply:
  "max_level \<noteq> 0 \<Longrightarrow> parse_reply (brightness_reply vcp max_level level) = Inr (max_level, level)"
  using level_bytes [of max_level] level_bytes [of level]
  by (simp add: parse_reply_def brightness_reply_def Let_def)

lemma receive_brightness_reply:
  "ReceiveMessage (buffer_of (ddc_reply (brightness_reply vcp max_level level))) 8 =
     Inr (brightness_reply vcp max_level level)"
proof -
  have "length (brightness_reply vcp max_level level) = 8" by (simp add: brightness_reply_def)
  with ddc_reply_accepted [of "brightness_reply vcp max_level level"] show ?thesis by simp
qed

text \<open>Adjustments that arrive while the reply is awaited are added up.\<close>

lemma adjustments_coalesce:
  "ed_timer d = Some delay \<Longrightarrow> fold (\<lambda>(env, q). AdjustBrightnessByPercent env q) qs d =
     d\<lparr>ed_pending_brightness_adjustment_percent :=
        ed_pending_brightness_adjustment_percent d + sum_list (map snd qs)\<rparr>"
  by (induction qs arbitrary: d) (auto simp: AdjustBrightnessByPercent_def add.assoc)

text \<open>A display that awaits the reply to a request sent at \<open>t1\<close>.\<close>

definition awaiting_reply :: "TimeTicks \<Rightarrow> rat \<Rightarrow> external_display \<Rightarrow> external_display" where
  "awaiting_reply t1 pending d = d\<lparr>ed_ops := ed_ops d @ [EdSend t1 get_message True],
     ed_state := ED_WAITING_FOR_REPLY, ed_pending_brightness_adjustment_percent := pending,
     ed_timer := Some (FromMilliseconds kDdcGetDelayMs), ed_timer_start := t1\<rparr>"

lemma adjust_requests_brightness:
  assumes "ed_state d = ED_IDLE" "ed_timer d = None" "ed_pending_brightness_adjustment_percent d = 0"
    and "\<not> HaveCachedBrightness env d" "\<bar>p\<bar> > kEpsilon" "ede_send_ok env get_message"
  shows "AdjustBrightnessByPercent env p d = awaiting_reply (ede_now env) p d"
  using assms
  by (auto simp: AdjustBrightnessByPercent_def ed_UpdateState_def HavePendingBrightnessAdjustment_def
    HaveCachedBrightness_def RequestBrightness_def SendMessage_def StartTimer_def awaiting_reply_def
    get_message_def abs_less_iff Let_def)

text \<open>The brightness that a reply and an adjustment call for.\<close>

definition adjusted_percent :: "16 word \<Rightarrow> 16 word \<Rightarrow> rat \<Rightarrow> rat" where
  "adjusted_percent max_level level p =
     ClampPercent (ClampPercent (rat_of_int (uint level) / rat_of_int (uint max_level) * 100) + p)"

definition adjusted_level :: "16 word \<Rightarrow> 16 word \<Rightarrow> rat \<Rightarrow> 16 word" where
  "adjusted_level max_level level p =
     word_of_int (lround (adjusted_percent max_level level p * rat_of_int (uint max_level) / 100))"

lemma adjusted_percent_0:
  "adjusted_percent max_level level 0 = ClampPercent (rat_of_int (uint level) / rat_of_int (uint max_level) * 100)"
  by (simp add: adjusted_percent_def ClampPercent_id)

lemma adjusted_level_facts:
  "uint (adjusted_level max_level level p) =
     lround (adjusted_percent max_level level p * rat_of_int (uint max_level) / 100)"
  "adjusted_level max_level level p \<le> max_level"
  using clamped_level [where d = "ExternalDisplay\<lparr>ed_max_brightness_level := max_level\<rparr>" and
    percent = "ClampPercent (rat_of_int (uint level) / rat_of_int (uint max_level) * 100) + p"]
  by (simp_all add: adjusted_level_def adjusted_percent_def BrightnessPercentToLevel_def)

lemma timeout_with_reply:
  assumes "ede_received env = buffer_of (ddc_reply (brightness_reply vcp max_level level))" "max_level \<noteq> 0"
    and "\<bar>pending\<bar> > kEpsilon" "\<forall>m. ede_send_ok env m"
  shows "ed_ops (TriggerTimeout env (awaiting_reply t1 pending d)) =
      ed_ops d @ [EdSend t1 get_message True, EdReceive (ede_now env)] @
        (if adjusted_level max_level level pending = adjusted_level max_level level 0 then []
         else [EdSend (ede_now env) (ddc_message (set_brightness_body (adjusted_level max_level level pending))) True])"
    "ed_pending_brightness_adjustment_percent (TriggerTimeout env (awaiting_reply t1 pending d)) = 0"
proof -
  have pend: "HavePendingBrightnessAdjustment e" if "ed_pending_brightness_adjustment_percent e = pending" for e
    using that assms(3) by (auto simp: HavePendingBrightnessAdjustment_def abs_less_iff)
  define e where "e = (awaiting_reply t1 pending d)\<lparr>ed_timer := None, ed_state := ED_IDLE,
    ed_ops := ed_ops d @ [EdSend t1 get_message True, EdReceive (ede_now env)],
    ed_max_brightness_level := max_level, ed_current_brightness_percent := adjusted_percent max_level level 0,
    ed_last_brightness_update_time := ede_now env\<rparr>"
  have read: "ReadBrightness env ((awaiting_reply t1 pending d)\<lparr>ed_timer := None, ed_state := ED_IDLE\<rparr>) = (True, e)"
    using assms(1,2)
    by (simp add: ReadBrightness_def receive_brightness_reply parse_brightness_reply awaiting_reply_def
      adjusted_percent_0 e_def Let_def)
  have level: "BrightnessPercentToLevel e (ClampPercent (ed_current_brightness_percent e +
      ed_pending_brightness_adjustment_percent e)) = adjusted_level max_level level pending"
    "BrightnessPercentToLevel e (ed_current_brightness_percent e) = adjusted_level max_level level 0"
    by (simp_all add: e_def awaiting_reply_def adjusted_level_def BrightnessPercentToLevel_def adjusted_percent_0)
      (simp add: adjusted_percent_def)
  have ops: "ed_ops e = ed_ops d @ [EdSend t1 get_message True, EdReceive (ede_now env)]"
    by (simp add: e_def)
  have e: "TriggerTimeout env (awaiting_reply t1 pending d) = finish_write env (ed_WriteBrightness env e)"
    using read pend [of e] by (simp add: TriggerTimeout_def ed_UpdateState_def awaiting_reply_def e_def)
  show "ed_ops (TriggerTimeout env (awaiting_reply t1 pending d)) =
      ed_ops d @ [EdSend t1 get_message True, EdReceive (ede_now env)] @
        (if adjusted_level max_level level pending = adjusted_level max_level level 0 then []
         else [EdSend (ede_now env) (ddc_message (set_brightness_body (adjusted_level max_level level pending))) True])"
    unfolding e using assms(4)
    by (simp add: ed_WriteBrightness_def Let_def level SendMessage_def finish_write_def StartTimer_def ops)
  show "ed_pending_brightness_adjustment_percent (TriggerTimeout env (awaiting_reply t1 pending d)) = 0"
    unfolding e by (simp add: finish_write_def split: prod.split)
qed

lemma timeout_without_reply:
  assumes "ReceiveMessage (ede_received env) 8 = Inl e"
  shows "ed_ops (TriggerTimeout env (awaiting_reply t1 pending d)) =
      ed_ops d @ [EdSend t1 get_message True, EdReceive (ede_now env)]"
    "ed_pending_brightness_adjustment_percent (TriggerTimeout env (awaiting_reply t1 pending d)) = 0"
  using assms
  by (simp_all add: TriggerTimeout_def ed_UpdateState_def awaiting_reply_def ReadBrightness_def Let_def)



end
