(* ===== verification/Displays.thy ===== *)
theory Displays
  imports Udev_Devices "HOL-Library.List_Lexorder" "HOL-Library.Char_ord"
begin

text \<open>
  Connected displays: \<^verbatim>\<open>DisplayInfo\<close>, \<^verbatim>\<open>DisplayWatcher\<close> and \<^verbatim>\<open>DisplayPowerSetter\<close>
  (\<^verbatim>\<open>src/power_manager/powerd/system/display/display_{info,watcher,power_setter}.{h,cc}\<close>).

  The directories under \<^verbatim>\<open>/sys/class/drm\<close> and \<^verbatim>\<open>/dev\<close> are the answers of \<open>dw_env\<close>; the
  lists handed to the observers and the calls to Chrome are traces.
\<close>

section \<open>DisplayInfo\<close>

datatype DisplayInfo = DisplayInfo (drm_path: string) (i2c_path: string)

definition DisplayInfo_less :: "DisplayInfo \<Rightarrow> DisplayInfo \<Rightarrow> bool" where
  "DisplayInfo_less lhs rhs =
     (if drm_path lhs < drm_path rhs then True
      else if drm_path lhs > drm_path rhs then False
      else i2c_path lhs < i2c_path rhs)"

definition DisplayInfo_eq :: "DisplayInfo \<Rightarrow> DisplayInfo \<Rightarrow> bool" where
  "DisplayInfo_eq a o' \<longleftrightarrow> \<not> (DisplayInfo_less a o' \<or> DisplayInfo_less o' a)"

text \<open>The order of \<^verbatim>\<open>operator<\<close> is total and \<^verbatim>\<open>operator==\<close> is equality.\<close>

lemma DisplayInfo_eq_iff: "DisplayInfo_eq a b \<longleftrightarrow> a = b"
  by (cases a; cases b) (auto simp: DisplayInfo_eq_def DisplayInfo_less_def)

instantiation DisplayInfo :: linorder
begin

definition less_DisplayInfo :: "DisplayInfo \<Rightarrow> DisplayInfo \<Rightarrow> bool" where
  "less_DisplayInfo = DisplayInfo_less"

definition less_eq_DisplayInfo :: "DisplayInfo \<Rightarrow> DisplayInfo \<Rightarrow> bool" where
  "less_eq_DisplayInfo a b \<longleftrightarrow> \<not> DisplayInfo_less b a"

instance
proof
  fix a b c :: DisplayInfo
  show "(a < b) = (a \<le> b \<and> \<not> b \<le> a)" "a \<le> a" "a \<le> b \<or> b \<le> a"
    by (auto simp: less_DisplayInfo_def less_eq_DisplayInfo_def DisplayInfo_less_def split: if_splits)
  show "a \<le> b \<Longrightarrow> b \<le> c \<Longrightarrow> a \<le> c"
    by (auto simp: less_eq_DisplayInfo_def DisplayInfo_less_def not_less split: if_splits)
  show "a \<le> b \<Longrightarrow> b \<le> a \<Longrightarrow> a = b"
    using DisplayInfo_eq_iff [of a b] by (simp add: less_eq_DisplayInfo_def DisplayInfo_eq_def)
qed

end

section \<open>DisplayWatcher\<close>

record dw_env =
  dwe_drm_devices :: "string list"
  dwe_ReadFileToString :: "string \<Rightarrow> string option"
  dwe_TrimTrailing :: "string \<Rightarrow> string"
  dwe_i2c_dirs :: "string \<Rightarrow> string list"
  dwe_BaseName :: "string \<Rightarrow> string"
  dwe_Append :: "string \<Rightarrow> string \<Rightarrow> string"
  dwe_PathExists :: "string \<Rightarrow> bool"

record display_watcher =
  dw_displays :: "DisplayInfo list"
  dw_notified :: "DisplayInfo list list"

definition DisplayWatcher :: display_watcher where
  "DisplayWatcher = \<lparr>dw_displays = [], dw_notified = []\<rparr>"

definition DeviceIsConnected :: "dw_env \<Rightarrow> string \<Rightarrow> bool" where
  "DeviceIsConnected env drm_device_dir =
     (case dwe_ReadFileToString env (dwe_Append env drm_device_dir ''status'') of
        None \<Rightarrow> False
      | Some status \<Rightarrow> dwe_TrimTrailing env status = ''connected'')"

fun first_existing :: "dw_env \<Rightarrow> string list \<Rightarrow> string" where
  "first_existing env [] = []"
| "first_existing env (i2c_dir # dirs) =
     (let i2c_dev = dwe_Append env ''/dev'' (dwe_BaseName env i2c_dir)
      in if dwe_PathExists env i2c_dev then i2c_dev else first_existing env dirs)"

definition GetI2CDevicePath :: "dw_env \<Rightarrow> string \<Rightarrow> string" where
  "GetI2CDevicePath env drm_dir = first_existing env (dwe_i2c_dirs env drm_dir)"

text \<open>The displays that a scan finds, in the order \<^verbatim>\<open>std::sort\<close> puts them.\<close>

definition scan_displays :: "dw_env \<Rightarrow> DisplayInfo list" where
  "scan_displays env = sort (map (\<lambda>device_path. DisplayInfo device_path (GetI2CDevicePath env device_path))
     (filter (DeviceIsConnected env) (dwe_drm_devices env)))"

definition dw_UpdateDisplays :: "dw_env \<Rightarrow> display_watcher \<Rightarrow> display_watcher" where
  "dw_UpdateDisplays env w =
     (let new_displays = scan_displays env
      in if new_displays \<noteq> dw_displays w
         then w\<lparr>dw_displays := new_displays, dw_notified := dw_notified w @ [new_displays]\<rparr>
         else w)"

definition dw_OnUdevEvent :: "dw_env \<Rightarrow> display_watcher \<Rightarrow> display_watcher" where
  "dw_OnUdevEvent env w = dw_UpdateDisplays env w"

text \<open>The watcher registers for two subsystems, which needs an initialised \<^verbatim>\<open>Udev\<close>.\<close>

definition dw_Init :: "dw_env \<Rightarrow> nat \<Rightarrow> udev \<Rightarrow> display_watcher \<Rightarrow> (udev \<times> display_watcher) option" where
  "dw_Init env observer u w =
     (case AddSubsystemObserver ''i2c-dev'' observer u of
        None \<Rightarrow> None
      | Some u1 \<Rightarrow> map_option (\<lambda>u2. (u2, dw_UpdateDisplays env w)) (AddSubsystemObserver ''drm'' observer u1))"

definition GetDisplays :: "display_watcher \<Rightarrow> DisplayInfo list" where
  "GetDisplays w = dw_displays w"

text \<open>
  The observers see every change exactly once: what they were last told is the list the
  watcher holds, it is sorted, and no list is reported twice in a row.
\<close>

definition dw_inv :: "display_watcher \<Rightarrow> bool" where
  "dw_inv w \<longleftrightarrow> dw_displays w = last ([] # dw_notified w) \<and> sorted (dw_displays w) \<and>
     successively (\<noteq>) ([] # dw_notified w)"

lemma successively_snoc:
  "xs \<noteq> [] \<Longrightarrow> successively P (xs @ [x]) \<longleftrightarrow> successively P xs \<and> P (last xs) x"
  by (simp add: successively_append_iff)

lemma dw_UpdateDisplays_inv: "dw_inv w \<Longrightarrow> dw_inv (dw_UpdateDisplays env w)"
  using successively_snoc [of "[] # dw_notified w" "(\<noteq>)" "scan_displays env"]
  by (auto simp: dw_inv_def dw_UpdateDisplays_def Let_def scan_displays_def)

lemma DisplayWatcher_inv: "dw_inv (fold dw_OnUdevEvent envs DisplayWatcher)"
proof -
  have "dw_inv w \<Longrightarrow> dw_inv (fold dw_OnUdevEvent envs w)" for w
    by (induction envs arbitrary: w) (simp_all add: dw_OnUdevEvent_def dw_UpdateDisplays_inv)
  moreover have "dw_inv DisplayWatcher" by (simp add: dw_inv_def DisplayWatcher_def)
  ultimately show ?thesis by blast
qed

section \<open>DisplayPowerSetter\<close>

datatype DisplayPowerState = DISPLAY_POWER_ALL_ON | DISPLAY_POWER_ALL_OFF
  | DISPLAY_POWER_INTERNAL_OFF_EXTERNAL_ON | DISPLAY_POWER_INTERNAL_ON_EXTERNAL_OFF

datatype chrome_call = SetDisplayPowerCall DisplayPowerState | SetSoftwareDimmingCall bool

record display_power_setter =
  dps_calls :: "chrome_call list"
  dps_timer :: "(TimeDelta \<times> DisplayPowerState) option"

definition DisplayPowerSetter :: display_power_setter where
  "DisplayPowerSetter = \<lparr>dps_calls = [], dps_timer = None\<rparr>"

definition SendStateToChrome :: "DisplayPowerState \<Rightarrow> display_power_setter \<Rightarrow> display_power_setter" where
  "SendStateToChrome state p = p\<lparr>dps_calls := dps_calls p @ [SetDisplayPowerCall state]\<rparr>"

definition SetDisplayPower ::
  "DisplayPowerState \<Rightarrow> TimeDelta \<Rightarrow> display_power_setter \<Rightarrow> display_power_setter" where
  "SetDisplayPower state delay p =
     (if InMilliseconds delay = 0 then SendStateToChrome state (p\<lparr>dps_timer := None\<rparr>)
      else p\<lparr>dps_timer := Some (delay, state)\<rparr>)"

definition SetDisplaySoftwareDimming :: "bool \<Rightarrow> display_power_setter \<Rightarrow> display_power_setter" where
  "SetDisplaySoftwareDimming dimmed p = p\<lparr>dps_calls := dps_calls p @ [SetSoftwareDimmingCall dimmed]\<rparr>"

text \<open>The timer as the message loop fires it.\<close>

definition fire_display_power :: "display_power_setter \<Rightarrow> display_power_setter" where
  "fire_display_power p =
     (case dps_timer p of
        None \<Rightarrow> p
      | Some (delay, state) \<Rightarrow> SendStateToChrome state (p\<lparr>dps_timer := None\<rparr>))"

text \<open>
  The state the displays are in or will be in once the timer has fired: the one that was
  last asked for, whatever was scheduled before.
\<close>

definition sent_power :: "chrome_call list \<Rightarrow> DisplayPowerState option" where
  "sent_power calls = (case rev (filter (\<lambda>c. case c of SetDisplayPowerCall s \<Rightarrow> True | _ \<Rightarrow> False) calls) of
     SetDisplayPowerCall s # _ \<Rightarrow> Some s | _ \<Rightarrow> None)"

definition requested_power :: "display_power_setter \<Rightarrow> DisplayPowerState option" where
  "requested_power p = (case dps_timer p of Some (delay, state) \<Rightarrow> Some state | None \<Rightarrow> sent_power (dps_calls p))"

lemma sent_power_snoc [simp]:
  "sent_power (calls @ [SetDisplayPowerCall s]) = Some s"
  "sent_power (calls @ [SetSoftwareDimmingCall b]) = sent_power calls"
  by (simp_all add: sent_power_def)

lemma requested_power_simps [simp]:
  "requested_power (SetDisplayPower state delay p) = Some state"
  "requested_power (SetDisplaySoftwareDimming b p) = requested_power p"
  "requested_power (fire_display_power p) = requested_power p"
  by (auto simp: requested_power_def SetDisplayPower_def SendStateToChrome_def SetDisplaySoftwareDimming_def
    fire_display_power_def split: option.splits)

end
