(* ===== verification/External_Backlight.thy ===== *)
theory External_Backlight
  imports External_Display_Proofs Displays
begin

text \<open>
  \<^verbatim>\<open>ExternalBacklightController\<close>
  (\<^verbatim>\<open>src/power_manager/powerd/policy/external_backlight_controller.{h,cc}\<close>), composed with the
  models of the displays it adjusts and of the object that switches display power.

  \<open>eb_env\<close> gives the environment of every display (by DRM path) and tells whether the I2C
  device of a new display can be opened. Observer calls are the trace \<open>eb_notified\<close>.
\<close>

section \<open>State and operations\<close>

definition kBrightnessAdjustmentPercent :: rat where
  "kBrightnessAdjustmentPercent = 5"

record eb_env =
  ebe_display :: "string \<Rightarrow> ed_env"
  ebe_delegate_Init :: "string \<Rightarrow> bool"

record external_backlight =
  eb_display_power_setter :: display_power_setter
  eb_notified :: "(rat \<times> BrightnessChangeCause) list"
  eb_dimmed_for_inactivity :: bool
  eb_off_for_inactivity :: bool
  eb_suspended :: bool
  eb_shutting_down :: bool
  eb_forced_off :: bool
  eb_currently_off :: bool
  eb_external_displays :: "(string \<times> external_display) list"
  eb_num_brightness_adjustments_in_session :: int

definition ExternalBacklightController :: external_backlight where
  "ExternalBacklightController = \<lparr>eb_display_power_setter = DisplayPowerSetter, eb_notified = [],
     eb_dimmed_for_inactivity = False, eb_off_for_inactivity = False, eb_suspended = False,
     eb_shutting_down = False, eb_forced_off = False, eb_currently_off = False,
     eb_external_displays = [], eb_num_brightness_adjustments_in_session = 0\<rparr>"

definition eb_NotifyObservers :: "external_backlight \<Rightarrow> external_backlight" where
  "eb_NotifyObservers s =
     s\<lparr>eb_notified := eb_notified s @ [(if eb_currently_off s then 0 else 100, AUTOMATED)]\<rparr>"

definition eb_power_state :: "external_backlight \<Rightarrow> DisplayPowerState" where
  "eb_power_state s = (if eb_currently_off s then DISPLAY_POWER_ALL_OFF else DISPLAY_POWER_ALL_ON)"

definition UpdateScreenPowerState :: "external_backlight \<Rightarrow> external_backlight" where
  "UpdateScreenPowerState s =
     (let should_turn_off = eb_off_for_inactivity s \<or> eb_suspended s \<or> eb_shutting_down s \<or> eb_forced_off s
      in if should_turn_off \<noteq> eb_currently_off s
         then let s1 = s\<lparr>eb_currently_off := should_turn_off\<rparr>
              in eb_NotifyObservers (s1\<lparr>eb_display_power_setter :=
                   SetDisplayPower (eb_power_state s1) 0 (eb_display_power_setter s1)\<rparr>)
         else s)"

text \<open>One display of the list: kept if it is known, opened otherwise.\<close>

definition add_display ::
  "eb_env \<Rightarrow> (string \<times> external_display) list \<Rightarrow> DisplayInfo \<Rightarrow>
   (string \<times> external_display) list \<Rightarrow> (string \<times> external_display) list" where
  "add_display env known info updated =
     (if i2c_path info = [] then updated
      else case map_of known (drm_path info) of
             Some display \<Rightarrow> map_assign (drm_path info) display updated
           | None \<Rightarrow> if ebe_delegate_Init env (i2c_path info)
                     then map_assign (drm_path info) ExternalDisplay updated else updated)"

definition eb_UpdateDisplays :: "eb_env \<Rightarrow> DisplayInfo list \<Rightarrow> external_backlight \<Rightarrow> external_backlight" where
  "eb_UpdateDisplays env displays s =
     s\<lparr>eb_external_displays := fold (add_display env (eb_external_displays s)) displays []\<rparr>"

definition eb_Init :: "eb_env \<Rightarrow> display_watcher \<Rightarrow> external_backlight \<Rightarrow> external_backlight" where
  "eb_Init env watcher s = eb_UpdateDisplays env (GetDisplays watcher) s"

definition eb_OnDisplaysChanged :: "eb_env \<Rightarrow> DisplayInfo list \<Rightarrow> external_backlight \<Rightarrow> external_backlight" where
  "eb_OnDisplaysChanged env displays s = eb_UpdateDisplays env displays s"

definition eb_AdjustBrightnessByPercent :: "eb_env \<Rightarrow> rat \<Rightarrow> external_backlight \<Rightarrow> external_backlight" where
  "eb_AdjustBrightnessByPercent env percent_offset s =
     s\<lparr>eb_external_displays := map (\<lambda>(path, display).
         (path, AdjustBrightnessByPercent (ebe_display env path) percent_offset display))
       (eb_external_displays s)\<rparr>"

definition eb_HandleSessionStateChange :: "SessionState \<Rightarrow> external_backlight \<Rightarrow> external_backlight" where
  "eb_HandleSessionStateChange state s =
     (if state = SESSION_STARTED then s\<lparr>eb_num_brightness_adjustments_in_session := 0\<rparr> else s)"

definition eb_HandleChromeStart :: "external_backlight \<Rightarrow> external_backlight" where
  "eb_HandleChromeStart s =
     eb_NotifyObservers (s\<lparr>eb_display_power_setter :=
       SetDisplayPower (eb_power_state s) 0
         (SetDisplaySoftwareDimming (eb_dimmed_for_inactivity s) (eb_display_power_setter s))\<rparr>)"

definition eb_SetDimmedForInactivity :: "bool \<Rightarrow> external_backlight \<Rightarrow> external_backlight" where
  "eb_SetDimmedForInactivity dimmed s =
     (if dimmed \<noteq> eb_dimmed_for_inactivity s
      then s\<lparr>eb_dimmed_for_inactivity := dimmed, eb_display_power_setter :=
             SetDisplaySoftwareDimming dimmed (eb_display_power_setter s)\<rparr>
      else s)"

definition eb_SetOffForInactivity :: "bool \<Rightarrow> external_backlight \<Rightarrow> external_backlight" where
  "eb_SetOffForInactivity off s =
     (if off = eb_off_for_inactivity s then s
      else UpdateScreenPowerState (s\<lparr>eb_off_for_inactivity := off\<rparr>))"

definition eb_SetSuspended :: "bool \<Rightarrow> external_backlight \<Rightarrow> external_backlight" where
  "eb_SetSuspended suspended s =
     (if suspended = eb_suspended s then s
      else UpdateScreenPowerState (s\<lparr>eb_suspended := suspended\<rparr>))"

definition eb_SetShuttingDown :: "bool \<Rightarrow> external_backlight \<Rightarrow> external_backlight" where
  "eb_SetShuttingDown shutting_down s =
     (if shutting_down = eb_shutting_down s then s
      else UpdateScreenPowerState (s\<lparr>eb_shutting_down := shutting_down\<rparr>))"

definition eb_SetForcedOff :: "bool \<Rightarrow> external_backlight \<Rightarrow> external_backlight" where
  "eb_SetForcedOff forced_off s =
     (if eb_forced_off s = forced_off then s
      else UpdateScreenPowerState (s\<lparr>eb_forced_off := forced_off\<rparr>))"

definition eb_GetForcedOff :: "external_backlight \<Rightarrow> bool" where
  "eb_GetForcedOff s = eb_forced_off s"

definition eb_IncreaseUserBrightness :: "eb_env \<Rightarrow> external_backlight \<Rightarrow> bool \<times> external_backlight" where
  "eb_IncreaseUserBrightness env s =
     (True, eb_AdjustBrightnessByPercent env kBrightnessAdjustmentPercent
        (s\<lparr>eb_num_brightness_adjustments_in_session := eb_num_brightness_adjustments_in_session s + 1\<rparr>))"

definition eb_DecreaseUserBrightness :: "eb_env \<Rightarrow> external_backlight \<Rightarrow> bool \<times> external_backlight" where
  "eb_DecreaseUserBrightness env s =
     (True, eb_AdjustBrightnessByPercent env (- kBrightnessAdjustmentPercent)
        (s\<lparr>eb_num_brightness_adjustments_in_session := eb_num_brightness_adjustments_in_session s + 1\<rparr>))"

text \<open>The timer of one display, as the message loop fires it.\<close>

definition eb_display_timeout :: "eb_env \<Rightarrow> string \<Rightarrow> external_backlight \<Rightarrow> external_backlight" where
  "eb_display_timeout env path s =
     s\<lparr>eb_external_displays := map (\<lambda>(p, display).
         (p, if p = path then TriggerTimeout (ebe_display env p) display else display))
       (eb_external_displays s)\<rparr>"

section \<open>Power state and bus traffic\<close>

datatype eb_event = EbSession SessionState | EbChromeStart | EbDimmed bool | EbOff bool | EbSuspended bool
  | EbShuttingDown bool | EbForcedOff bool | EbIncrease | EbDecrease | EbDisplays "DisplayInfo list"
  | EbTimeout string

fun eb_handle :: "external_backlight \<Rightarrow> eb_env \<Rightarrow> eb_event \<Rightarrow> external_backlight" where
  "eb_handle s env (EbSession state) = eb_HandleSessionStateChange state s"
| "eb_handle s env EbChromeStart = eb_HandleChromeStart s"
| "eb_handle s env (EbDimmed b) = eb_SetDimmedForInactivity b s"
| "eb_handle s env (EbOff b) = eb_SetOffForInactivity b s"
| "eb_handle s env (EbSuspended b) = eb_SetSuspended b s"
| "eb_handle s env (EbShuttingDown b) = eb_SetShuttingDown b s"
| "eb_handle s env (EbForcedOff b) = eb_SetForcedOff b s"
| "eb_handle s env EbIncrease = snd (eb_IncreaseUserBrightness env s)"
| "eb_handle s env EbDecrease = snd (eb_DecreaseUserBrightness env s)"
| "eb_handle s env (EbDisplays displays) = eb_OnDisplaysChanged env displays s"
| "eb_handle s env (EbTimeout path) = eb_display_timeout env path s"

text \<open>
  The clock of all displays at one event is \<open>now\<close>; a display's timer does not fire before
  its delay is over.
\<close>

definition eb_timely :: "TimeTicks \<Rightarrow> external_backlight \<Rightarrow> eb_env \<times> eb_event \<Rightarrow> bool" where
  "eb_timely now s = (\<lambda>(env, e). (\<forall>path. ede_now (ebe_display env path) = now) \<and>
     (\<forall>path d. e = EbTimeout path \<longrightarrow> (path, d) \<in> set (eb_external_displays s) \<longrightarrow>
        (\<exists>delay. ed_timer d = Some delay \<and> ed_timer_start d + delay \<le> now)))"

inductive eb_reach :: "external_backlight \<Rightarrow> TimeTicks \<Rightarrow> bool" where
  start: "eb_reach (eb_Init env watcher ExternalBacklightController) t"
| event: "eb_reach s t \<Longrightarrow> t \<le> now \<Longrightarrow> eb_timely now s (env, e) \<Longrightarrow> eb_reach (eb_handle s env e) now"

definition eb_should_be_off :: "external_backlight \<Rightarrow> bool" where
  "eb_should_be_off s \<longleftrightarrow> eb_off_for_inactivity s \<or> eb_suspended s \<or> eb_shutting_down s \<or> eb_forced_off s"

definition eb_sent :: "external_backlight \<Rightarrow> bool" where
  "eb_sent s \<longleftrightarrow> requested_power (eb_display_power_setter s) = Some (eb_power_state s) \<or>
     requested_power (eb_display_power_setter s) = None \<and> \<not> eb_currently_off s"

definition eb_power_ok :: "external_backlight \<Rightarrow> bool" where
  "eb_power_ok s \<longleftrightarrow> eb_currently_off s = eb_should_be_off s \<and> eb_sent s"

lemma eb_sent_frame [simp]:
  "eb_sent (s\<lparr>eb_off_for_inactivity := b\<rparr>) = eb_sent s" "eb_sent (s\<lparr>eb_suspended := b\<rparr>) = eb_sent s"
  "eb_sent (s\<lparr>eb_shutting_down := b\<rparr>) = eb_sent s" "eb_sent (s\<lparr>eb_forced_off := b\<rparr>) = eb_sent s"
  by (simp_all add: eb_sent_def eb_power_state_def)

lemma eb_power_ok_frame [simp]:
  "eb_power_ok (s\<lparr>eb_external_displays := ds\<rparr>) = eb_power_ok s"
  "eb_power_ok (s\<lparr>eb_num_brightness_adjustments_in_session := n\<rparr>) = eb_power_ok s"
  by (simp_all add: eb_power_ok_def eb_sent_def eb_power_state_def eb_should_be_off_def)

lemma UpdateScreenPowerState_ok: "eb_sent s \<Longrightarrow> eb_power_ok (UpdateScreenPowerState s)"
  by (simp add: UpdateScreenPowerState_def eb_NotifyObservers_def eb_power_ok_def eb_should_be_off_def
    eb_sent_def eb_power_state_def Let_def)

lemma eb_handle_power_ok:
  assumes "eb_power_ok s"
  shows "eb_power_ok (eb_handle s env e)"
proof -
  have sent: "eb_sent s" using assms by (simp add: eb_power_ok_def)
  show ?thesis
  proof (cases e)
    case EbChromeStart
    with assms show ?thesis
      by (simp add: eb_HandleChromeStart_def eb_NotifyObservers_def eb_power_ok_def eb_should_be_off_def
        eb_sent_def eb_power_state_def)
  next
    case (EbDimmed b)
    with assms show ?thesis
      by (auto simp: eb_SetDimmedForInactivity_def eb_power_ok_def eb_should_be_off_def eb_sent_def eb_power_state_def)
  qed (simp_all add: assms sent UpdateScreenPowerState_ok eb_HandleSessionStateChange_def
    eb_SetOffForInactivity_def eb_SetSuspended_def eb_SetShuttingDown_def eb_SetForcedOff_def
    eb_IncreaseUserBrightness_def eb_DecreaseUserBrightness_def eb_AdjustBrightnessByPercent_def
    eb_OnDisplaysChanged_def eb_UpdateDisplays_def eb_display_timeout_def)
qed

text \<open>Displays come only from the controller's own list or are new.\<close>

lemma map_assign_set: "distinct (map fst m) \<Longrightarrow> set (map_assign k v m) \<subseteq> insert (k, v) (set m)"
  by (auto simp: map_assign_def map_insert_def map_erase_def set_insort_key)

lemma add_displays_origin:
  assumes "distinct (map fst updated)"
    "\<forall>(p, d) \<in> set updated. d = ExternalDisplay \<or> (p, d) \<in> set known"
  shows "distinct (map fst (fold (add_display env known) infos updated)) \<and>
    (\<forall>(p, d) \<in> set (fold (add_display env known) infos updated). d = ExternalDisplay \<or> (p, d) \<in> set known)"
  using assms
proof (induction infos arbitrary: updated)
  case (Cons info infos)
  have "distinct (map fst (add_display env known info updated))"
    using Cons.prems(1) by (auto simp: add_display_def map_assign_facts split: option.split)
  moreover have "\<forall>(p, d) \<in> set (add_display env known info updated). d = ExternalDisplay \<or> (p, d) \<in> set known"
    using Cons.prems map_assign_set [OF Cons.prems(1)] map_of_SomeD [of known "drm_path info"]
    by (fastforce simp: add_display_def split: option.splits if_splits)
  ultimately show ?case using Cons.IH by simp
qed simp

definition eb_displays_ok :: "TimeTicks \<Rightarrow> external_backlight \<Rightarrow> bool" where
  "eb_displays_ok t s \<longleftrightarrow> (\<forall>(p, d) \<in> set (eb_external_displays s). \<exists>u \<le> t. ed_reach d u)"

lemma eb_UpdateDisplays_ok:
  "eb_displays_ok t s \<Longrightarrow> eb_displays_ok t (eb_UpdateDisplays env infos s)"
  using add_displays_origin [of "[]" "eb_external_displays s" env infos]
  by (fastforce simp: eb_displays_ok_def eb_UpdateDisplays_def intro: ed_reach.start)

lemma eb_displays_ok_mono: "eb_displays_ok t s \<Longrightarrow> t \<le> u \<Longrightarrow> eb_displays_ok u s"
  by (auto simp: eb_displays_ok_def dest!: bspec intro: order_trans)

lemma eb_adjust_ok:
  assumes "eb_displays_ok t s" "\<And>path. ede_now (ebe_display env path) = now" "t \<le> now"
  shows "eb_displays_ok now (eb_AdjustBrightnessByPercent env p s)"
proof -
  have "ed_reach (AdjustBrightnessByPercent (ebe_display env path) p d) now"
    if "(path, d) \<in> set (eb_external_displays s)" for path d
    using that assms ed_reach.adjust [of d _ "ebe_display env path" p]
    by (fastforce simp: eb_displays_ok_def)
  then show ?thesis by (auto simp: eb_displays_ok_def eb_AdjustBrightnessByPercent_def)
qed

lemma eb_timeout_ok:
  assumes "eb_displays_ok t s" "eb_timely now s (env, EbTimeout path)" "t \<le> now"
  shows "eb_displays_ok now (eb_display_timeout env path s)"
proof -
  have "\<exists>u \<le> now. ed_reach (if p = path then TriggerTimeout (ebe_display env p) d else d) u"
    if pd: "(p, d) \<in> set (eb_external_displays s)" for p d
  proof -
    obtain u where u: "u \<le> t" "ed_reach d u" using assms(1) pd by (auto simp: eb_displays_ok_def)
    show ?thesis
    proof (cases "p = path")
      case True
      obtain delay where "ed_timer d = Some delay" "ed_timer_start d + delay \<le> now"
        using assms(2) pd True by (auto simp: eb_timely_def)
      with ed_reach.timeout [OF u(2), of "ebe_display env p" delay] u(1) assms(2,3) True show ?thesis
        by (auto simp: eb_timely_def)
    next
      case False
      with u(2) order_trans [OF u(1) assms(3)] show ?thesis by (simp del: ex_simps) blast
    qed
  qed
  then show ?thesis by (auto simp: eb_displays_ok_def eb_display_timeout_def)
qed

lemma eb_reach_ok: "eb_reach s t \<Longrightarrow> eb_power_ok s \<and> eb_displays_ok t s"
proof (induction rule: eb_reach.induct)
  case (start env watcher t)
  have "eb_displays_ok t ExternalBacklightController"
    by (simp add: eb_displays_ok_def ExternalBacklightController_def)
  then show ?case
    by (simp add: eb_Init_def eb_UpdateDisplays_ok)
      (simp add: eb_UpdateDisplays_def eb_power_ok_def eb_sent_def eb_should_be_off_def ExternalBacklightController_def
        requested_power_def DisplayPowerSetter_def sent_power_def)
next
  case (event s t now env e)
  have clock: "\<And>path. ede_now (ebe_display env path) = now" using event.hyps(3) by (simp add: eb_timely_def)
  have ok: "eb_displays_ok now s" using event.IH eb_displays_ok_mono [OF _ event.hyps(2)] by blast
  have same: "eb_displays_ok now s'" if "eb_external_displays s' = eb_external_displays s" for s'
    using ok that by (simp add: eb_displays_ok_def)
  have "eb_displays_ok now (eb_handle s env e)"
  proof (cases e)
    case EbIncrease
    have "eb_displays_ok t (s\<lparr>eb_num_brightness_adjustments_in_session := n\<rparr>)" for n
      using event.IH by (simp add: eb_displays_ok_def)
    with EbIncrease show ?thesis
      using eb_adjust_ok [OF _ clock event.hyps(2)] by (simp add: eb_IncreaseUserBrightness_def)
  next
    case EbDecrease
    have "eb_displays_ok t (s\<lparr>eb_num_brightness_adjustments_in_session := n\<rparr>)" for n
      using event.IH by (simp add: eb_displays_ok_def)
    with EbDecrease show ?thesis
      using eb_adjust_ok [OF _ clock event.hyps(2)] by (simp add: eb_DecreaseUserBrightness_def)
  next
    case (EbDisplays displays)
    with ok show ?thesis by (simp add: eb_OnDisplaysChanged_def eb_UpdateDisplays_ok)
  next
    case (EbTimeout path)
    with eb_timeout_ok [OF conjunct2 [OF event.IH], of now env path] event.hyps(2,3) show ?thesis by simp
  qed (simp_all add: same eb_HandleSessionStateChange_def eb_HandleChromeStart_def eb_NotifyObservers_def
    eb_SetDimmedForInactivity_def eb_SetOffForInactivity_def eb_SetSuspended_def eb_SetShuttingDown_def
    eb_SetForcedOff_def UpdateScreenPowerState_def Let_def)
  with event.IH eb_handle_power_ok show ?case by blast
qed


definition example_eb_env :: "TimeTicks \<Rightarrow> eb_env" where
  "example_eb_env now = \<lparr>ebe_display = (\<lambda>_. example_ed_env now), ebe_delegate_Init = (\<lambda>_. True)\<rparr>"

definition example_eb :: external_backlight where
  "example_eb = eb_handle (eb_handle
     (eb_Init (example_eb_env 0) (DisplayWatcher\<lparr>dw_displays := [DisplayInfo ''card0'' ''i2c-1'']\<rparr>)
        ExternalBacklightController)
     (example_eb_env 1000) EbIncrease) (example_eb_env 2000) (EbForcedOff True)"

lemma example_eb_reach: "eb_reach example_eb 2000"
proof -
  have start: "eb_reach (eb_Init (example_eb_env 0)
      (DisplayWatcher\<lparr>dw_displays := [DisplayInfo ''card0'' ''i2c-1'']\<rparr>) ExternalBacklightController) 0"
    by (rule eb_reach.start)
  have key: "eb_reach (eb_handle (eb_Init (example_eb_env 0)
      (DisplayWatcher\<lparr>dw_displays := [DisplayInfo ''card0'' ''i2c-1'']\<rparr>) ExternalBacklightController)
      (example_eb_env 1000) EbIncrease) 1000"
    by (rule eb_reach.event [OF start]) (simp_all add: eb_timely_def example_eb_env_def example_ed_env_def)
  show ?thesis unfolding example_eb_def
    by (rule eb_reach.event [OF key]) (simp_all add: eb_timely_def example_eb_env_def example_ed_env_def)
qed


end
