(* ===== verification/Panel_Backlight.thy ===== *)
theory Panel_Backlight
  imports Sysfs_Backlight Ambient_Light Displays
begin

text \<open>
  \<^verbatim>\<open>InternalBacklightController\<close>
  (\<^verbatim>\<open>src/power_manager/powerd/policy/internal_backlight_controller.{h,cc}\<close>): the brightness of a
  built-in panel, composed with the models of the sysfs device it drives, of its ambient
  light handler and of the object that switches display power.

  \<open>ib_env\<close> is what one event sees of the outside: the device files, the clock (read once per
  event) and the parsers of libchrome. The calls of the observers are the trace
  \<open>ib_notified\<close>. A failed \<^verbatim>\<open>CHECK\<close> and \<^verbatim>\<open>LOG(FATAL)\<close> are \<open>None\<close>. The handlers with empty bodies
  are left out. \<^verbatim>\<open>pow()\<close> is \<open>powr\<close> on the reals, which agrees with it on nonnegative bases
  and positive exponents.
\<close>

section \<open>State\<close>

datatype UserActivityType = USER_ACTIVITY_OTHER | USER_ACTIVITY_BRIGHTNESS_UP_KEY_PRESS
  | USER_ACTIVITY_BRIGHTNESS_DOWN_KEY_PRESS | USER_ACTIVITY_VOLUME_UP_KEY_PRESS
  | USER_ACTIVITY_VOLUME_DOWN_KEY_PRESS | USER_ACTIVITY_VOLUME_MUTE_KEY_PRESS

text \<open>The fields of the policy message that the controller reads; \<open>None\<close> is an unset one.\<close>

record panel_policy =
  pp_ac_brightness_percent :: "real option"
  pp_battery_brightness_percent :: "real option"
  pp_force_nonzero_brightness_for_user_activity :: "bool option"

record ib_env =
  ibe_backlight :: sb_env
  ibe_now :: TimeTicks
  ibe_libs :: alh_libs
  ibe_SplitWords :: "string \<Rightarrow> string list"
  ibe_StringToInt64 :: "string \<Rightarrow> int option"

record panel_backlight =
  ib_backlight :: sysfs_backlight
  ib_display_power_setter :: display_power_setter
  ib_ambient_light_handler :: "ambient_light_handler option"
  ib_notified :: "(real \<times> BrightnessChangeCause) list"
  ib_power_source :: PowerSource
  ib_display_mode :: DisplayMode
  ib_dimmed_for_inactivity :: bool
  ib_off_for_inactivity :: bool
  ib_suspended :: bool
  ib_shutting_down :: bool
  ib_docked :: bool
  ib_forced_off :: bool
  ib_init_time :: TimeTicks
  ib_got_ambient_light_brightness_percent :: bool
  ib_got_power_source :: bool
  ib_already_set_initial_state :: bool
  ib_als_adjustment_count :: int
  ib_user_adjustment_count :: int
  ib_ambient_light_brightness_percent :: real
  ib_ac_explicit_brightness_percent :: real
  ib_battery_explicit_brightness_percent :: real
  ib_using_policy_brightness :: bool
  ib_force_nonzero_brightness_for_user_activity :: bool
  ib_max_level :: int
  ib_min_visible_level :: int
  ib_instant_transitions_below_min_level :: bool
  ib_use_ambient_light :: bool
  ib_step_percent :: real
  ib_dimmed_brightness_percent :: real
  ib_level_to_percent_exponent :: real
  ib_current_level :: int
  ib_display_power_state :: DisplayPowerState
  ib_turn_off_screen_timeout :: TimeDelta

definition kMaxBrightnessSteps :: int where
  "kMaxBrightnessSteps = 16"

definition kMinVisiblePercent :: real where
  "kMinVisiblePercent = 100 / real_of_int kMaxBrightnessSteps"

definition kDefaultMinVisibleBrightnessFraction :: real where
  "kDefaultMinVisibleBrightnessFraction = 65 / 10000"

definition kAmbientLightSensorTimeoutSec :: int where
  "kAmbientLightSensorTimeoutSec = 10"

definition kDimmedBrightnessFraction :: real where
  "kDimmedBrightnessFraction = 1 / 10"

definition kDefaultLevelToPercentExponent :: real where
  "kDefaultLevelToPercentExponent = 1 / 2"

definition kMinLevelsForNonLinearMapping :: int where
  "kMinLevelsForNonLinearMapping = 100"

definition InternalBacklightController :: "sysfs_backlight \<Rightarrow> panel_backlight" where
  "InternalBacklightController backlight = \<lparr>ib_backlight = backlight,
     ib_display_power_setter = DisplayPowerSetter, ib_ambient_light_handler = None,
     ib_notified = [], ib_power_source = BATTERY, ib_display_mode = DISPLAY_NORMAL,
     ib_dimmed_for_inactivity = False, ib_off_for_inactivity = False, ib_suspended = False,
     ib_shutting_down = False, ib_docked = False, ib_forced_off = False, ib_init_time = 0,
     ib_got_ambient_light_brightness_percent = False, ib_got_power_source = False,
     ib_already_set_initial_state = False, ib_als_adjustment_count = 0,
     ib_user_adjustment_count = 0, ib_ambient_light_brightness_percent = 100,
     ib_ac_explicit_brightness_percent = 100, ib_battery_explicit_brightness_percent = 100,
     ib_using_policy_brightness = False, ib_force_nonzero_brightness_for_user_activity = True,
     ib_max_level = 0, ib_min_visible_level = 0, ib_instant_transitions_below_min_level = False,
     ib_use_ambient_light = True, ib_step_percent = 1,
     ib_dimmed_brightness_percent = kDimmedBrightnessFraction * 100,
     ib_level_to_percent_exponent = kDefaultLevelToPercentExponent, ib_current_level = 0,
     ib_display_power_state = DISPLAY_POWER_ALL_ON, ib_turn_off_screen_timeout = 0\<rparr>"

section \<open>Levels and percentages\<close>

definition ClampPercentToVisibleRange :: "real \<Rightarrow> real" where
  "ClampPercentToVisibleRange percent = min 100 (max kMinVisiblePercent percent)"

definition LevelToPercent :: "panel_backlight \<Rightarrow> int \<Rightarrow> real" where
  "LevelToPercent s raw_level =
     (if raw_level < ib_min_visible_level s
      then kMinVisiblePercent * real_of_int raw_level / real_of_int (ib_min_visible_level s)
      else if ib_min_visible_level s = ib_max_level s then 100
      else let linear_fraction = real_of_int (raw_level - ib_min_visible_level s) /
                 real_of_int (ib_max_level s - ib_min_visible_level s)
           in kMinVisiblePercent + (100 - kMinVisiblePercent) *
                linear_fraction powr ib_level_to_percent_exponent s)"

definition PercentToLevel :: "panel_backlight \<Rightarrow> real \<Rightarrow> int" where
  "PercentToLevel s percent =
     (if percent < kMinVisiblePercent
      then lround (real_of_int (ib_min_visible_level s) * percent / kMinVisiblePercent)
      else if percent = 100 then ib_max_level s
      else let linear_fraction = (percent - kMinVisiblePercent) / (100 - kMinVisiblePercent)
           in lround (real_of_int (ib_min_visible_level s) +
                real_of_int (ib_max_level s - ib_min_visible_level s) *
                  linear_fraction powr (1 / ib_level_to_percent_exponent s)))"

definition SnapBrightnessPercentToNearestStep :: "panel_backlight \<Rightarrow> real \<Rightarrow> real" where
  "SnapBrightnessPercentToNearestStep s percent =
     real_of_int (lround (percent / ib_step_percent s)) * ib_step_percent s"

definition GetExplicitBrightnessPercent :: "panel_backlight \<Rightarrow> real" where
  "GetExplicitBrightnessPercent s =
     (if ib_power_source s = AC then ib_ac_explicit_brightness_percent s
      else ib_battery_explicit_brightness_percent s)"

definition GetUndimmedBrightnessPercent :: "panel_backlight \<Rightarrow> real" where
  "GetUndimmedBrightnessPercent s =
     (if ib_use_ambient_light s
      then ClampPercentToVisibleRange (ib_ambient_light_brightness_percent s)
      else let percent = GetExplicitBrightnessPercent s
           in if percent \<le> kEpsilon then 0 else ClampPercentToVisibleRange percent)"

section \<open>Applying the state\<close>

fun TransitionToTimeDelta :: "Transition \<Rightarrow> TimeDelta" where
  "TransitionToTimeDelta INSTANT = 0"
| "TransitionToTimeDelta FAST = FromMilliseconds kFastBacklightTransitionMs"
| "TransitionToTimeDelta SLOW = FromMilliseconds kSlowBacklightTransitionMs"

definition ib_transition :: "panel_backlight \<Rightarrow> int \<Rightarrow> Transition \<Rightarrow> Transition" where
  "ib_transition s level transition =
     (let starting_below_min_visible_level = ib_current_level s < ib_min_visible_level s;
          ending_below_min_visible_level = level < ib_min_visible_level s
      in if ib_instant_transitions_below_min_level s \<and>
            starting_below_min_visible_level \<noteq> ending_below_min_visible_level
         then INSTANT else transition)"

definition ib_ApplyBrightnessPercent ::
  "ib_env \<Rightarrow> real \<Rightarrow> Transition \<Rightarrow> BrightnessChangeCause \<Rightarrow> panel_backlight \<Rightarrow> bool \<times> panel_backlight"
  where
  "ib_ApplyBrightnessPercent env percent transition cause s =
     (let level = PercentToLevel s percent in
      if level = ib_current_level s \<and> \<not> TransitionInProgress (ib_backlight s) then (False, s)
      else case SetBrightnessLevel (ibe_backlight env) level
             (TransitionToTimeDelta (ib_transition s level transition)) (ib_backlight s) of
             (False, b) \<Rightarrow> (False, s\<lparr>ib_backlight := b\<rparr>)
           | (True, b) \<Rightarrow> (True, s\<lparr>ib_backlight := b, ib_current_level := level,
                               ib_notified := ib_notified s @ [(percent, cause)]\<rparr>))"

definition ApplyResumeBrightnessPercent ::
  "ib_env \<Rightarrow> real \<Rightarrow> panel_backlight \<Rightarrow> bool \<times> panel_backlight" where
  "ApplyResumeBrightnessPercent env resume_percent s =
     (let (ok, b) = SetResumeBrightnessLevel (ibe_backlight env) (PercentToLevel s resume_percent)
            (ib_backlight s)
      in (ok, s\<lparr>ib_backlight := b\<rparr>))"

definition ib_SetDisplayPower :: "DisplayPowerState \<Rightarrow> TimeDelta \<Rightarrow> panel_backlight \<Rightarrow> panel_backlight" where
  "ib_SetDisplayPower state delay s =
     (if state = ib_display_power_state s then s
      else s\<lparr>ib_display_power_setter := SetDisplayPower state delay (ib_display_power_setter s),
             ib_display_power_state := state\<rparr>)"

text \<open>\<^verbatim>\<open>UpdateState()\<close> gives up on a silent sensor before anything else.\<close>

definition give_up_on_sensor :: "ib_env \<Rightarrow> panel_backlight \<Rightarrow> panel_backlight" where
  "give_up_on_sensor env s =
     (if ib_use_ambient_light s \<and> \<not> ib_got_ambient_light_brightness_percent s \<and>
         ibe_now env - ib_init_time s \<ge> FromSeconds kAmbientLightSensorTimeoutSec
      then s\<lparr>ib_use_ambient_light := False\<rparr> else s)"

text \<open>
  What \<^verbatim>\<open>UpdateState()\<close> decides: the percentage and its transition, the percentage for
  resuming if it is to be set, and the display power with its transition if it is to be set.
\<close>

record panel_goal =
  pg_brightness_percent :: real
  pg_brightness_transition :: Transition
  pg_resume_percent :: "real option"
  pg_display_power :: "(DisplayPowerState \<times> Transition) option"

definition panel_goal_of :: "panel_backlight \<Rightarrow> panel_goal" where
  "panel_goal_of s =
     (if ib_shutting_down s \<or> ib_forced_off s
      then \<lparr>pg_brightness_percent = 0, pg_brightness_transition = INSTANT, pg_resume_percent = None,
            pg_display_power = Some (DISPLAY_POWER_ALL_OFF, INSTANT)\<rparr>
      else if ib_suspended s
      then \<lparr>pg_brightness_percent = 0, pg_brightness_transition = INSTANT,
            pg_resume_percent = Some (GetUndimmedBrightnessPercent s), pg_display_power = None\<rparr>
      else if ib_off_for_inactivity s
      then \<lparr>pg_brightness_percent = 0, pg_brightness_transition = FAST, pg_resume_percent = None,
            pg_display_power = Some (DISPLAY_POWER_ALL_OFF, FAST)\<rparr>
      else if ib_docked s
      then \<lparr>pg_brightness_percent = 0, pg_brightness_transition = INSTANT, pg_resume_percent = None,
            pg_display_power = Some (DISPLAY_POWER_INTERNAL_OFF_EXTERNAL_ON, INSTANT)\<rparr>
      else let brightness_percent = min (GetUndimmedBrightnessPercent s)
                 (if ib_dimmed_for_inactivity s then ib_dimmed_brightness_percent s else 100);
               turning_on = ib_display_power_state s \<noteq> DISPLAY_POWER_ALL_ON \<or> ib_current_level s = 0
           in \<lparr>pg_brightness_percent = brightness_percent,
               pg_brightness_transition =
                 (if turning_on then INSTANT
                  else if ib_already_set_initial_state s then FAST else SLOW),
               pg_resume_percent = None,
               pg_display_power = Some (if brightness_percent \<le> kEpsilon
                 then DISPLAY_POWER_INTERNAL_OFF_EXTERNAL_ON else DISPLAY_POWER_ALL_ON, INSTANT)\<rparr>)"

definition apply_goal :: "ib_env \<Rightarrow> panel_goal \<Rightarrow> panel_backlight \<Rightarrow> panel_backlight" where
  "apply_goal env g s =
     (let s1 = (case pg_display_power g of
                  None \<Rightarrow> s
                | Some (state, tr) \<Rightarrow> ib_SetDisplayPower state (TransitionToTimeDelta tr) s);
          s2 = snd (ib_ApplyBrightnessPercent env (pg_brightness_percent g)
                 (pg_brightness_transition g) AUTOMATED s1);
          s3 = (case pg_resume_percent g of
                  None \<Rightarrow> s2
                | Some percent \<Rightarrow> if percent \<ge> 0 then snd (ApplyResumeBrightnessPercent env percent s2) else s2)
      in s3\<lparr>ib_already_set_initial_state := True\<rparr>)"

definition ib_UpdateState :: "ib_env \<Rightarrow> panel_backlight \<Rightarrow> panel_backlight" where
  "ib_UpdateState env s0 =
     (let s = give_up_on_sensor env s0 in
      if \<not> ib_got_power_source s \<or>
         (ib_use_ambient_light s \<and> \<not> ib_got_ambient_light_brightness_percent s) then s
      else apply_goal env (panel_goal_of s) s)"

definition UpdateUndimmedBrightness ::
  "ib_env \<Rightarrow> Transition \<Rightarrow> BrightnessChangeCause \<Rightarrow> panel_backlight \<Rightarrow> bool \<times> panel_backlight" where
  "UpdateUndimmedBrightness env transition cause s0 =
     (let percent = GetUndimmedBrightnessPercent s0;
          s = (if ib_suspended s0 then snd (ApplyResumeBrightnessPercent env percent s0) else s0) in
      if ib_shutting_down s \<or> ib_suspended s \<or> ib_docked s \<or> ib_off_for_inactivity s \<or>
         ib_dimmed_for_inactivity s
      then (False, s)
      else case ib_ApplyBrightnessPercent env percent transition cause s of
             (False, s1) \<Rightarrow> (False, s1)
           | (True, s1) \<Rightarrow>
               (True, if percent \<le> kEpsilon
                      then ib_SetDisplayPower DISPLAY_POWER_INTERNAL_OFF_EXTERNAL_ON
                             (if ib_docked s1 then 0
                              else TransitionToTimeDelta transition + ib_turn_off_screen_timeout s1) s1
                      else ib_SetDisplayPower DISPLAY_POWER_ALL_ON 0 s1))"

definition explicit_percent :: "real \<Rightarrow> real" where
  "explicit_percent percent = (if percent \<le> kEpsilon then 0 else ClampPercentToVisibleRange percent)"

definition SetExplicitBrightnessPercent ::
  "ib_env \<Rightarrow> real \<Rightarrow> real \<Rightarrow> Transition \<Rightarrow> BrightnessChangeCause \<Rightarrow> panel_backlight \<Rightarrow>
   bool \<times> panel_backlight" where
  "SetExplicitBrightnessPercent env ac_percent battery_percent transition cause s =
     UpdateUndimmedBrightness env transition cause
       (s\<lparr>ib_use_ambient_light := False,
          ib_ac_explicit_brightness_percent := explicit_percent ac_percent,
          ib_battery_explicit_brightness_percent := explicit_percent battery_percent\<rparr>)"

definition EnsureUserBrightnessIsNonzero :: "ib_env \<Rightarrow> panel_backlight \<Rightarrow> panel_backlight" where
  "EnsureUserBrightnessIsNonzero env s =
     (if ib_force_nonzero_brightness_for_user_activity s \<and> ib_display_mode s = DISPLAY_NORMAL \<and>
         GetExplicitBrightnessPercent s < kMinVisiblePercent \<and> \<not> ib_using_policy_brightness s \<and>
         \<not> ib_use_ambient_light s
      then snd (SetExplicitBrightnessPercent env kMinVisiblePercent kMinVisiblePercent FAST AUTOMATED s)
      else s)"

section \<open>Setup\<close>

text \<open>The loop over the lines of a brightness preference; \<^verbatim>\<open>LOG(FATAL)\<close> follows it.\<close>

fun initial_percent_in :: "ib_env \<Rightarrow> int \<Rightarrow> string list \<Rightarrow> real option" where
  "initial_percent_in env backlight_nits [] = None"
| "initial_percent_in env backlight_nits (line # lines) =
     (let parts = ibe_SplitWords env line in
      if length parts \<noteq> 1 \<and> length parts \<noteq> 2 then None
      else case al_StringToDouble (ibe_libs env) (parts ! 0) of
             None \<Rightarrow> None
           | Some percent \<Rightarrow>
               if percent < 0 \<or> 100 < percent then None
               else if length parts = 1 then Some percent
               else case ibe_StringToInt64 env (parts ! 1) of
                      None \<Rightarrow> None
                    | Some nits \<Rightarrow> if nits = backlight_nits then Some percent
                                   else initial_percent_in env backlight_nits lines)"

definition GetInitialBrightnessPercent :: "ib_env \<Rightarrow> prefs \<Rightarrow> string \<Rightarrow> int \<Rightarrow> real option" where
  "GetInitialBrightnessPercent env prefs pref_name backlight_nits =
     (case pref_string prefs pref_name of
        None \<Rightarrow> None
      | Some pref_value \<Rightarrow>
          initial_percent_in env backlight_nits (al_SplitLines (ibe_libs env) pref_value))"

text \<open>
  The first half of \<^verbatim>\<open>Init()\<close>: the levels, and the percentage of the current level, which is
  computed with the exponent that the constructor has set.
\<close>

definition ib_init_levels :: "prefs \<Rightarrow> panel_backlight \<Rightarrow> panel_backlight" where
  "ib_init_levels prefs s =
     (let max_level = GetMaxBrightnessLevel (ib_backlight s);
          min_visible = get_or (pref_int64 prefs ''min_visible_backlight_level'')
            (lround (kDefaultMinVisibleBrightnessFraction * real_of_int max_level));
          s1 = s\<lparr>ib_max_level := max_level,
                 ib_current_level := GetCurrentBrightnessLevel (ib_backlight s),
                 ib_min_visible_level := min (max min_visible 1) max_level\<rparr>
      in s1\<lparr>ib_ambient_light_brightness_percent := LevelToPercent s1 (ib_current_level s1)\<rparr>)"

definition ib_init_sensor :: "ib_env \<Rightarrow> prefs \<Rightarrow> bool \<Rightarrow> panel_backlight \<Rightarrow> panel_backlight option" where
  "ib_init_sensor env prefs have_sensor s =
     (if have_sensor
      then case pref_string prefs ''internal_backlight_als_steps'' of
             None \<Rightarrow> None
           | Some pref_value \<Rightarrow>
               map_option (\<lambda>h. s\<lparr>ib_ambient_light_handler := Some h\<rparr>)
                 (alh_Init (ibe_libs env) pref_value (ib_ambient_light_brightness_percent s)
                    AmbientLightHandler)
      else Some (s\<lparr>ib_use_ambient_light := False\<rparr>))"

definition ib_init_steps :: "ib_env \<Rightarrow> prefs \<Rightarrow> panel_backlight \<Rightarrow> panel_backlight option" where
  "ib_init_steps env prefs s =
     (let step_percent =
            (if ib_max_level s = ib_min_visible_level s \<or> kMaxBrightnessSteps = 1 then 100
             else (100 - kMinVisiblePercent) /
                  real_of_int (min (kMaxBrightnessSteps - 1) (ib_max_level s - ib_min_visible_level s)));
          s1 = s\<lparr>ib_turn_off_screen_timeout :=
                   FromMilliseconds (get_or (pref_int64 prefs ''turn_off_screen_timeout_ms'') 0),
                 ib_step_percent := step_percent,
                 ib_level_to_percent_exponent :=
                   (if ib_max_level s \<ge> kMinLevelsForNonLinearMapping
                    then kDefaultLevelToPercentExponent else 1)\<rparr>
      in if step_percent \<le> 0 then None
         else Some (s1\<lparr>ib_dimmed_brightness_percent :=
                ClampPercentToVisibleRange (LevelToPercent s1
                  (lround (kDimmedBrightnessFraction * real_of_int (ib_max_level s1)))),
              ib_init_time := ibe_now env\<rparr>))"

definition ib_Init :: "ib_env \<Rightarrow> prefs \<Rightarrow> bool \<Rightarrow> panel_backlight \<Rightarrow> panel_backlight option" where
  "ib_Init env prefs have_sensor s0 =
     (let s = ib_init_levels prefs s0;
          max_nits = get_or (pref_int64 prefs ''internal_backlight_max_nits'') 0
      in case (GetInitialBrightnessPercent env prefs ''internal_backlight_no_als_ac_brightness'' max_nits,
               GetInitialBrightnessPercent env prefs ''internal_backlight_no_als_battery_brightness'' max_nits) of
           (Some ac, Some battery) \<Rightarrow>
             (case ib_init_sensor env prefs have_sensor
                (s\<lparr>ib_ac_explicit_brightness_percent := ac,
                   ib_battery_explicit_brightness_percent := battery,
                   ib_instant_transitions_below_min_level :=
                     get_or (pref_bool prefs ''instant_transitions_below_min_level'')
                       (ib_instant_transitions_below_min_level s)\<rparr>) of
                None \<Rightarrow> None
              | Some s1 \<Rightarrow> ib_init_steps env prefs s1)
         | _ \<Rightarrow> None)"

section \<open>Events\<close>

definition ib_SetBrightnessPercentForAmbientLight ::
  "ib_env \<Rightarrow> real \<Rightarrow> AlhCause \<Rightarrow> panel_backlight \<Rightarrow> panel_backlight" where
  "ib_SetBrightnessPercentForAmbientLight env brightness_percent cause s0 =
     (let s = s0\<lparr>ib_ambient_light_brightness_percent := brightness_percent,
                 ib_got_ambient_light_brightness_percent := True\<rparr> in
      if \<not> ib_use_ambient_light s then s
      else if \<not> ib_already_set_initial_state s then ib_UpdateState env s
      else case UpdateUndimmedBrightness env (if cause = AMBIENT_LIGHT then SLOW else FAST) AUTOMATED s of
             (changed, s1) \<Rightarrow>
               if changed \<and> cause = AMBIENT_LIGHT
               then s1\<lparr>ib_als_adjustment_count := ib_als_adjustment_count s1 + 1\<rparr> else s1)"

text \<open>The handler's call of its delegate, after the handler has changed its own state.\<close>

definition ib_from_handler ::
  "ib_env \<Rightarrow> (alh_call \<times> ambient_light_handler) option \<Rightarrow> panel_backlight \<Rightarrow> panel_backlight option" where
  "ib_from_handler env r s =
     (case r of
        None \<Rightarrow> None
      | Some (None, h) \<Rightarrow> Some (s\<lparr>ib_ambient_light_handler := Some h\<rparr>)
      | Some (Some (percent, cause), h) \<Rightarrow>
          Some (ib_SetBrightnessPercentForAmbientLight env percent cause
                  (s\<lparr>ib_ambient_light_handler := Some h\<rparr>)))"

definition ib_light_reading :: "ib_env \<Rightarrow> int \<Rightarrow> panel_backlight \<Rightarrow> panel_backlight option" where
  "ib_light_reading env lux s =
     (case ib_ambient_light_handler s of
        None \<Rightarrow> Some s
      | Some h \<Rightarrow> ib_from_handler env (OnAmbientLightUpdated lux h) s)"

definition balance_explicit :: "PowerSource \<Rightarrow> panel_backlight \<Rightarrow> panel_backlight" where
  "balance_explicit source s =
     (if \<not> ib_got_power_source s \<or>
         ib_battery_explicit_brightness_percent s \<le> ib_ac_explicit_brightness_percent s then s
      else if source = AC
      then s\<lparr>ib_ac_explicit_brightness_percent := ib_battery_explicit_brightness_percent s\<rparr>
      else s\<lparr>ib_battery_explicit_brightness_percent := ib_ac_explicit_brightness_percent s\<rparr>)"

definition ib_HandlePowerSourceChange ::
  "ib_env \<Rightarrow> PowerSource \<Rightarrow> panel_backlight \<Rightarrow> panel_backlight option" where
  "ib_HandlePowerSourceChange env source s0 =
     (if ib_got_power_source s0 \<and> ib_power_source s0 = source then Some s0
      else let s = ib_UpdateState env ((balance_explicit source s0)
                     \<lparr>ib_power_source := source, ib_got_power_source := True\<rparr>)
           in case ib_ambient_light_handler s of
                None \<Rightarrow> Some s
              | Some h \<Rightarrow> ib_from_handler env (alh_HandlePowerSourceChange source h) s)"

definition ib_HandleDisplayModeChange :: "ib_env \<Rightarrow> DisplayMode \<Rightarrow> panel_backlight \<Rightarrow> panel_backlight" where
  "ib_HandleDisplayModeChange env mode s =
     (if ib_display_mode s = mode then s
      else let s1 = s\<lparr>ib_display_mode := mode\<rparr>
           in if mode = DISPLAY_NORMAL then EnsureUserBrightnessIsNonzero env s1 else s1)"

definition ib_HandleSessionStateChange :: "ib_env \<Rightarrow> SessionState \<Rightarrow> panel_backlight \<Rightarrow> panel_backlight" where
  "ib_HandleSessionStateChange env state s =
     (let s1 = EnsureUserBrightnessIsNonzero env s in
      if state = SESSION_STARTED
      then s1\<lparr>ib_als_adjustment_count := 0, ib_user_adjustment_count := 0\<rparr> else s1)"

definition ib_HandlePowerButtonPress :: "ib_env \<Rightarrow> panel_backlight \<Rightarrow> panel_backlight" where
  "ib_HandlePowerButtonPress env s = EnsureUserBrightnessIsNonzero env s"

definition ib_HandleUserActivity :: "ib_env \<Rightarrow> UserActivityType \<Rightarrow> panel_backlight \<Rightarrow> panel_backlight" where
  "ib_HandleUserActivity env type s =
     (if type \<noteq> USER_ACTIVITY_BRIGHTNESS_UP_KEY_PRESS \<and> type \<noteq> USER_ACTIVITY_BRIGHTNESS_DOWN_KEY_PRESS \<and>
         type \<noteq> USER_ACTIVITY_VOLUME_UP_KEY_PRESS \<and> type \<noteq> USER_ACTIVITY_VOLUME_DOWN_KEY_PRESS \<and>
         type \<noteq> USER_ACTIVITY_VOLUME_MUTE_KEY_PRESS
      then EnsureUserBrightnessIsNonzero env s else s)"

definition ib_HandlePolicyChange :: "ib_env \<Rightarrow> panel_policy \<Rightarrow> panel_backlight \<Rightarrow> panel_backlight" where
  "ib_HandlePolicyChange env policy s =
     (let ac_brightness = get_or (pp_ac_brightness_percent policy) (ib_ac_explicit_brightness_percent s);
          battery_brightness = get_or (pp_battery_brightness_percent policy)
            (ib_battery_explicit_brightness_percent s);
          got_policy_brightness = pp_ac_brightness_percent policy \<noteq> None \<or>
            pp_battery_brightness_percent policy \<noteq> None;
          s1 = s\<lparr>ib_using_policy_brightness := got_policy_brightness\<rparr>;
          s2 = (if got_policy_brightness
                then snd (SetExplicitBrightnessPercent env ac_brightness battery_brightness FAST AUTOMATED s1)
                else s1)
      in s2\<lparr>ib_force_nonzero_brightness_for_user_activity :=
           get_or (pp_force_nonzero_brightness_for_user_activity policy) True\<rparr>)"

definition ib_HandleChromeStart :: "panel_backlight \<Rightarrow> panel_backlight" where
  "ib_HandleChromeStart s =
     s\<lparr>ib_display_power_setter := SetDisplayPower (ib_display_power_state s) 0 (ib_display_power_setter s)\<rparr>"

definition ib_SetDimmedForInactivity :: "ib_env \<Rightarrow> bool \<Rightarrow> panel_backlight \<Rightarrow> panel_backlight" where
  "ib_SetDimmedForInactivity env dimmed s =
     (if ib_dimmed_for_inactivity s = dimmed then s
      else ib_UpdateState env (s\<lparr>ib_dimmed_for_inactivity := dimmed\<rparr>))"

definition ib_SetOffForInactivity :: "ib_env \<Rightarrow> bool \<Rightarrow> panel_backlight \<Rightarrow> panel_backlight" where
  "ib_SetOffForInactivity env off s =
     (if ib_off_for_inactivity s = off then s
      else ib_UpdateState env (s\<lparr>ib_off_for_inactivity := off\<rparr>))"

definition ib_SetSuspended :: "ib_env \<Rightarrow> bool \<Rightarrow> panel_backlight \<Rightarrow> panel_backlight" where
  "ib_SetSuspended env suspended s =
     (if ib_suspended s = suspended then s
      else ib_UpdateState env (s\<lparr>ib_suspended := suspended\<rparr>))"

definition ib_SetShuttingDown :: "ib_env \<Rightarrow> bool \<Rightarrow> panel_backlight \<Rightarrow> panel_backlight" where
  "ib_SetShuttingDown env shutting_down s =
     (if ib_shutting_down s = shutting_down then s
      else ib_UpdateState env (s\<lparr>ib_shutting_down := shutting_down\<rparr>))"

definition ib_SetDocked :: "ib_env \<Rightarrow> bool \<Rightarrow> panel_backlight \<Rightarrow> panel_backlight" where
  "ib_SetDocked env docked s =
     (if ib_docked s = docked then s
      else ib_UpdateState env (s\<lparr>ib_docked := docked\<rparr>))"

definition ib_SetForcedOff :: "ib_env \<Rightarrow> bool \<Rightarrow> panel_backlight \<Rightarrow> panel_backlight" where
  "ib_SetForcedOff env forced_off s =
     (if ib_forced_off s = forced_off then s
      else ib_UpdateState env (s\<lparr>ib_forced_off := forced_off\<rparr>))"

definition ib_GetForcedOff :: "panel_backlight \<Rightarrow> bool" where
  "ib_GetForcedOff s = ib_forced_off s"

definition ib_GetBrightnessPercent :: "panel_backlight \<Rightarrow> bool \<times> real" where
  "ib_GetBrightnessPercent s = (True, LevelToPercent s (ib_current_level s))"

definition SetUserBrightnessPercent ::
  "ib_env \<Rightarrow> real \<Rightarrow> Transition \<Rightarrow> panel_backlight \<Rightarrow> bool \<times> panel_backlight" where
  "SetUserBrightnessPercent env percent transition s =
     SetExplicitBrightnessPercent env percent percent transition USER_INITIATED
       (s\<lparr>ib_user_adjustment_count := ib_user_adjustment_count s + 1, ib_using_policy_brightness := False\<rparr>)"

definition ib_IncreaseUserBrightness :: "ib_env \<Rightarrow> panel_backlight \<Rightarrow> bool \<times> panel_backlight" where
  "ib_IncreaseUserBrightness env s =
     (let old_percent = GetUndimmedBrightnessPercent s;
          new_percent = (if old_percent < kMinVisiblePercent - kEpsilon then kMinVisiblePercent
            else ClampPercentToVisibleRange
              (SnapBrightnessPercentToNearestStep s (old_percent + ib_step_percent s)))
      in SetUserBrightnessPercent env new_percent FAST s)"

definition ib_DecreaseUserBrightness :: "ib_env \<Rightarrow> bool \<Rightarrow> panel_backlight \<Rightarrow> bool \<times> panel_backlight" where
  "ib_DecreaseUserBrightness env allow_off s =
     (let old_percent = GetUndimmedBrightnessPercent s;
          new_percent = (if old_percent \<le> kMinVisiblePercent + kEpsilon then 0
            else ClampPercentToVisibleRange
              (SnapBrightnessPercentToNearestStep s (old_percent - ib_step_percent s)))
      in if \<not> allow_off \<and> new_percent \<le> kEpsilon
         then (False, s\<lparr>ib_user_adjustment_count := ib_user_adjustment_count s + 1\<rparr>)
         else SetUserBrightnessPercent env new_percent FAST s)"

end
