(* ===== verification/Panel_Backlight_Proofs.thy ===== *)
theory Panel_Backlight_Proofs
  imports Panel_Backlight
begin

text \<open>
  Correctness of the panel controller: levels and percentages are inverse to each other, and
  through any sequence of events the panel shows, and the displays are asked for, what the
  controller's view of the system calls for.
\<close>

section \<open>Levels and percentages\<close>

definition ib_levels_ok :: "panel_backlight \<Rightarrow> bool" where
  "ib_levels_ok s \<longleftrightarrow> 1 \<le> ib_min_visible_level s \<and> ib_min_visible_level s \<le> ib_max_level s \<and>
     0 < ib_level_to_percent_exponent s"

lemma kMinVisiblePercent_eq [simp]: "kMinVisiblePercent = 25 / 4"
  by (simp add: kMinVisiblePercent_def kMaxBrightnessSteps_def)

lemma fraction_powr:
  fixes x e :: real
  assumes "0 \<le> x" "x \<le> 1" "0 < e"
  shows "0 \<le> x powr e" "x powr e \<le> 1" "x powr e = 1 \<longleftrightarrow> x = 1" "(x powr e) powr (1 / e) = x"
proof -
  show "0 \<le> x powr e" by simp
  show "x powr e \<le> 1" using powr_mono2 [of e x 1] assms by simp
  show inv: "(x powr e) powr (1 / e) = x" using assms by (simp add: powr_powr)
  show "x powr e = 1 \<longleftrightarrow> x = 1" using inv by auto
qed

text \<open>The fraction that a percentage in the visible range stands for.\<close>

definition ib_fraction :: "panel_backlight \<Rightarrow> real \<Rightarrow> real" where
  "ib_fraction s p = ((p - 25 / 4) / (375 / 4)) powr (1 / ib_level_to_percent_exponent s)"

lemma ib_fraction_bounds:
  assumes "25 / 4 \<le> p" "p \<le> 100" "0 < ib_level_to_percent_exponent s"
  shows "0 \<le> ib_fraction s p" "ib_fraction s p \<le> 1"
  using assms fraction_powr(1,2) [of "(p - 25 / 4) / (375 / 4)" "1 / ib_level_to_percent_exponent s"]
  by (simp_all add: ib_fraction_def)

lemma PercentToLevel_visible:
  assumes "25 / 4 \<le> p"
  shows "PercentToLevel s p = (if p = 100 then ib_max_level s
    else lround (real_of_int (ib_min_visible_level s) +
      real_of_int (ib_max_level s - ib_min_visible_level s) * ib_fraction s p))"
  using assms by (simp add: PercentToLevel_def ib_fraction_def Let_def)

lemma PercentToLevel_visible_range:
  assumes "ib_levels_ok s" "25 / 4 \<le> p" "p \<le> 100"
  shows "ib_min_visible_level s \<le> PercentToLevel s p" "PercentToLevel s p \<le> ib_max_level s"
proof -
  define d where "d = real_of_int (ib_max_level s - ib_min_visible_level s)"
  have "0 \<le> d" using assms by (simp add: d_def ib_levels_ok_def)
  moreover have "0 \<le> ib_fraction s p" "ib_fraction s p \<le> 1"
    using ib_fraction_bounds [of p s] assms by (simp_all add: ib_levels_ok_def)
  ultimately have "0 \<le> d * ib_fraction s p" "d * ib_fraction s p \<le> d"
    by (simp_all add: mult_left_le)
  moreover have "real_of_int (ib_min_visible_level s) + d = real_of_int (ib_max_level s)" by (simp add: d_def)
  ultimately have "real_of_int (ib_min_visible_level s) \<le> real_of_int (ib_min_visible_level s) + d * ib_fraction s p"
    "real_of_int (ib_min_visible_level s) + d * ib_fraction s p \<le> real_of_int (ib_max_level s)"
    by linarith+
  from lround_between [OF this] assms show "ib_min_visible_level s \<le> PercentToLevel s p"
    "PercentToLevel s p \<le> ib_max_level s"
    by (simp_all add: PercentToLevel_visible ib_levels_ok_def d_def)
qed

lemma PercentToLevel_low_range:
  assumes "ib_levels_ok s" "0 \<le> p" "p < 25 / 4"
  shows "0 \<le> PercentToLevel s p" "PercentToLevel s p \<le> ib_min_visible_level s"
proof -
  have "real_of_int 0 \<le> real_of_int (ib_min_visible_level s) * p / (25 / 4)"
    "real_of_int (ib_min_visible_level s) * p / (25 / 4) \<le> real_of_int (ib_min_visible_level s)"
    using assms by (simp_all add: ib_levels_ok_def field_simps)
  from lround_between [OF this] assms show "0 \<le> PercentToLevel s p" "PercentToLevel s p \<le> ib_min_visible_level s"
    by (simp_all add: PercentToLevel_def)
qed

lemma PercentToLevel_range:
  assumes "ib_levels_ok s" "0 \<le> p" "p \<le> 100"
  shows "0 \<le> PercentToLevel s p" "PercentToLevel s p \<le> ib_max_level s"
  using PercentToLevel_visible_range [OF assms(1), of p] PercentToLevel_low_range [OF assms(1), of p] assms
  by (cases "p < 25 / 4"; simp add: ib_levels_ok_def)+

lemma PercentToLevel_0 [simp]: "PercentToLevel s 0 = 0"
  using lround_of_int [of 0, where 'a = real] by (simp add: PercentToLevel_def)

lemma PercentToLevel_mono:
  assumes "ib_levels_ok s" "0 \<le> p" "p \<le> q" "q \<le> 100"
  shows "PercentToLevel s p \<le> PercentToLevel s q"
proof -
  consider "q < 25 / 4" | "p < 25 / 4" "25 / 4 \<le> q" | "25 / 4 \<le> p" "q = 100" | "25 / 4 \<le> p" "q < 100"
    using assms by linarith
  then show ?thesis
  proof cases
    case 1
    then have "real_of_int (ib_min_visible_level s) * p / (25 / 4) \<le> real_of_int (ib_min_visible_level s) * q / (25 / 4)"
      using assms by (simp add: ib_levels_ok_def)
    from lround_mono [OF this] 1 show ?thesis using assms by (simp add: PercentToLevel_def)
  next
    case 2
    then show ?thesis
      using PercentToLevel_low_range(2) [OF assms(1,2)] PercentToLevel_visible_range(1) [OF assms(1), of q] assms
      by linarith
  next
    case 3
    then show ?thesis using PercentToLevel_visible_range(2) [OF assms(1), of p] assms
      by (simp add: PercentToLevel_visible [of 100])
  next
    case 4
    then have "ib_fraction s p \<le> ib_fraction s q" using assms
      by (auto simp: ib_fraction_def ib_levels_ok_def intro!: powr_mono2 divide_right_mono)
    then have "real_of_int (ib_min_visible_level s) + real_of_int (ib_max_level s - ib_min_visible_level s) * ib_fraction s p
        \<le> real_of_int (ib_min_visible_level s) + real_of_int (ib_max_level s - ib_min_visible_level s) * ib_fraction s q"
      using assms(1) by (intro add_left_mono mult_left_mono) (simp_all add: ib_levels_ok_def)
    from lround_mono [OF this] 4 assms(3) show ?thesis by (simp add: PercentToLevel_visible)
  qed
qed

lemma LevelToPercent_range:
  assumes "ib_levels_ok s" "0 \<le> l" "l \<le> ib_max_level s"
  shows "0 \<le> LevelToPercent s l" "LevelToPercent s l \<le> 100"
    "LevelToPercent s l < 25 / 4 \<longleftrightarrow> l < ib_min_visible_level s"
proof -
  have "0 \<le> LevelToPercent s l \<and> LevelToPercent s l \<le> 100 \<and>
    (LevelToPercent s l < 25 / 4 \<longleftrightarrow> l < ib_min_visible_level s)"
  proof (cases "l < ib_min_visible_level s \<or> ib_min_visible_level s = ib_max_level s")
    case True
    then show ?thesis using assms by (auto simp: LevelToPercent_def ib_levels_ok_def field_simps)
  next
    case False
    define x where "x = real_of_int (l - ib_min_visible_level s) /
      real_of_int (ib_max_level s - ib_min_visible_level s)"
    have "0 \<le> x" "x \<le> 1" using False assms by (simp_all add: x_def ib_levels_ok_def)
    moreover have "LevelToPercent s l = 25 / 4 + 375 / 4 * x powr ib_level_to_percent_exponent s"
      using False by (simp add: LevelToPercent_def x_def Let_def)
    ultimately show ?thesis
      using False assms fraction_powr(1,2) [of x "ib_level_to_percent_exponent s"]
      by (simp add: ib_levels_ok_def)
  qed
  then show "0 \<le> LevelToPercent s l" "LevelToPercent s l \<le> 100"
    "LevelToPercent s l < 25 / 4 \<longleftrightarrow> l < ib_min_visible_level s" by simp_all
qed

lemma level_roundtrip:
  assumes "ib_levels_ok s" "0 \<le> l" "l \<le> ib_max_level s"
  shows "PercentToLevel s (LevelToPercent s l) = l"
proof -
  consider "l < ib_min_visible_level s" | "ib_min_visible_level s \<le> l" "ib_min_visible_level s = ib_max_level s"
    | "ib_min_visible_level s \<le> l" "ib_min_visible_level s < ib_max_level s"
    using assms(1) unfolding ib_levels_ok_def by linarith
  then show ?thesis
  proof cases
    case 1
    then have "PercentToLevel s (LevelToPercent s l) = lround (real_of_int l)"
      using LevelToPercent_range(3) [OF assms] assms by (simp add: PercentToLevel_def LevelToPercent_def)
    then show ?thesis by simp
  next
    case 2
    with assms show ?thesis by (simp add: PercentToLevel_def LevelToPercent_def)
  next
    case 3
    define x where "x = real_of_int (l - ib_min_visible_level s) /
      real_of_int (ib_max_level s - ib_min_visible_level s)"
    have x: "0 \<le> x" "x \<le> 1" "x = 1 \<longleftrightarrow> l = ib_max_level s" using 3 assms by (auto simp: x_def)
    have p: "LevelToPercent s l = 25 / 4 + 375 / 4 * x powr ib_level_to_percent_exponent s"
      using 3 by (simp add: LevelToPercent_def x_def Let_def)
    have e: "0 < ib_level_to_percent_exponent s" using assms by (simp add: ib_levels_ok_def)
    note fx = fraction_powr [OF x(1,2) e]
    have "ib_fraction s (LevelToPercent s l) = x" using fx(4) by (simp add: ib_fraction_def p)
    moreover have "LevelToPercent s l = 100 \<longleftrightarrow> l = ib_max_level s" using fx(3) x(3) by (auto simp: p)
    moreover have "real_of_int (ib_min_visible_level s) +
        real_of_int (ib_max_level s - ib_min_visible_level s) * x = real_of_int l"
      using 3 by (simp add: x_def)
    moreover have "25 / 4 \<le> LevelToPercent s l" using LevelToPercent_range(3) [OF assms] 3 by simp
    ultimately show ?thesis by (simp add: PercentToLevel_visible)
  qed
qed

section \<open>The level for resuming\<close>

definition resume_level :: "sysfs_backlight \<Rightarrow> int option" where
  "resume_level b = map_of (rev (sb_writes b)) (sb_resume_brightness_path b)"

definition sb_resume_ok :: "sysfs_backlight \<Rightarrow> bool" where
  "sb_resume_ok b \<longleftrightarrow> sb_resume_brightness_path b \<noteq> [] \<and>
     sb_resume_brightness_path b \<noteq> sb_brightness_path b \<and> sb_resume_brightness_path b \<noteq> sb_bl_power_path b"

text \<open>Everything but \<^verbatim>\<open>SetResumeBrightnessLevel()\<close> leaves that file alone.\<close>

lemma sb_WriteFile_resume:
  assumes "sb_resume_ok b" "path \<noteq> sb_resume_brightness_path b"
  shows "sb_resume_ok (snd (sb_WriteFile env path v b))"
    "resume_level (snd (sb_WriteFile env path v b)) = resume_level b"
  using assms by (auto simp: sb_WriteFile_def sb_resume_ok_def resume_level_def)

lemma sb_WriteFile_paths [simp]:
  "sb_brightness_path (snd (sb_WriteFile env path v b)) = sb_brightness_path b"
  "sb_bl_power_path (snd (sb_WriteFile env path v b)) = sb_bl_power_path b"
  "sb_resume_brightness_path (snd (sb_WriteFile env path v b)) = sb_resume_brightness_path b"
  by (auto simp: sb_WriteFile_def)

lemma set_bl_power_resume:
  assumes "sb_resume_ok b"
  shows "sb_resume_ok (set_bl_power env v b)" "resume_level (set_bl_power env v b) = resume_level b"
  using assms sb_WriteFile_resume [OF assms, of "sb_bl_power_path b" env v]
  by (auto simp: set_bl_power_def sb_resume_ok_def)

lemma resume_frame [simp]:
  "sb_resume_ok (b\<lparr>sb_current_brightness_level := l\<rparr>) = sb_resume_ok b"
  "resume_level (b\<lparr>sb_current_brightness_level := l\<rparr>) = resume_level b"
  "sb_resume_ok (b\<lparr>sb_transition_timer := x1\<rparr>) = sb_resume_ok b"
  "resume_level (b\<lparr>sb_transition_timer := x1\<rparr>) = resume_level b"
  "sb_resume_ok (b\<lparr>sb_transition_timer_start_time := x2\<rparr>) = sb_resume_ok b"
  "resume_level (b\<lparr>sb_transition_timer_start_time := x2\<rparr>) = resume_level b"
  "sb_resume_ok (b\<lparr>sb_transition_start_time := x2\<rparr>) = sb_resume_ok b"
  "resume_level (b\<lparr>sb_transition_start_time := x2\<rparr>) = resume_level b"
  "sb_resume_ok (b\<lparr>sb_transition_end_time := x2\<rparr>) = sb_resume_ok b"
  "resume_level (b\<lparr>sb_transition_end_time := x2\<rparr>) = resume_level b"
  "sb_resume_ok (b\<lparr>sb_transition_start_level := x2\<rparr>) = sb_resume_ok b"
  "resume_level (b\<lparr>sb_transition_start_level := x2\<rparr>) = resume_level b"
  "sb_resume_ok (b\<lparr>sb_transition_end_level := x2\<rparr>) = sb_resume_ok b"
  "resume_level (b\<lparr>sb_transition_end_level := x2\<rparr>) = resume_level b"
  by (simp_all add: sb_resume_ok_def resume_level_def)

lemma WriteBrightness_resume:
  assumes "sb_resume_ok b"
  shows "sb_resume_ok (snd (WriteBrightness env l b))"
    "resume_level (snd (WriteBrightness env l b)) = resume_level b"
proof -
  define b0 where "b0 = set_bl_power env 0 b"
  obtain r b1 where b1: "sb_WriteFile env (sb_brightness_path b) l b0 = (r, b1)" by fastforce
  have "sb_resume_brightness_path b0 \<noteq> sb_brightness_path b0" "sb_brightness_path b0 = sb_brightness_path b"
    using set_bl_power_resume(1) [OF assms] by (simp_all add: b0_def sb_resume_ok_def)
  then have "sb_resume_ok b1" "resume_level b1 = resume_level b"
    using sb_WriteFile_resume [of b0 "sb_brightness_path b" env l] set_bl_power_resume [OF assms, of env 0] b1
    by (auto simp: b0_def)
  then show "sb_resume_ok (snd (WriteBrightness env l b))"
    "resume_level (snd (WriteBrightness env l b)) = resume_level b"
    using set_bl_power_resume [of "b1\<lparr>sb_current_brightness_level := l\<rparr>" env 4] b1
    by (auto simp: WriteBrightness_def simp flip: b0_def split: bool.splits)
qed

lemma device_resume:
  assumes "sb_resume_ok b"
  shows "sb_resume_ok (snd (SetBrightnessLevel env l i b))"
    "resume_level (snd (SetBrightnessLevel env l i b)) = resume_level b"
    "sb_resume_ok (fire_transition env b)" "resume_level (fire_transition env b) = resume_level b"
  using assms by (auto simp: SetBrightnessLevel_def CancelTransition_def fire_transition_def
    HandleTransitionTimeout_def Let_def WriteBrightness_resume)

lemma SetResumeBrightnessLevel_ok:
  assumes "writes_ok env" "sb_resume_ok b"
  shows "resume_level (snd (SetResumeBrightnessLevel env l b)) = Some l"
    "sb_resume_ok (snd (SetResumeBrightnessLevel env l b))"
    "sb_target (snd (SetResumeBrightnessLevel env l b)) = sb_target b"
    "sb_brightness_path (snd (SetResumeBrightnessLevel env l b)) = sb_brightness_path b"
  using assms by (auto simp: SetResumeBrightnessLevel_def sb_WriteFile_def writes_ok_def sb_resume_ok_def
    resume_level_def sb_target_def)

section \<open>Invariant\<close>

definition ib_device_ok :: "panel_backlight \<Rightarrow> bool" where
  "ib_device_ok s \<longleftrightarrow> sb_brightness_path (ib_backlight s) \<noteq> [] \<and> sb_resume_ok (ib_backlight s) \<and>
     ib_current_level s = sb_target (ib_backlight s)"

definition ib_table_ok :: "panel_backlight \<Rightarrow> bool" where
  "ib_table_ok s \<longleftrightarrow> ib_levels_ok s \<and> (ib_ambient_light_handler s = None \<longrightarrow> \<not> ib_use_ambient_light s) \<and> 25 / 4 \<le> ib_dimmed_brightness_percent s \<and>
     ib_dimmed_brightness_percent s \<le> 100 \<and> (\<forall>h. ib_ambient_light_handler s = Some h \<longrightarrow> alh_inv h)"

definition ib_power_sent :: "panel_backlight \<Rightarrow> bool" where
  "ib_power_sent s \<longleftrightarrow> requested_power (ib_display_power_setter s) = Some (ib_display_power_state s) \<or>
     requested_power (ib_display_power_setter s) = None \<and> ib_display_power_state s = DISPLAY_POWER_ALL_ON"

definition ib_ready :: "panel_backlight \<Rightarrow> bool" where
  "ib_ready s \<longleftrightarrow> ib_got_power_source s \<and>
     (ib_use_ambient_light s \<longrightarrow> ib_got_ambient_light_brightness_percent s)"

definition ib_ok :: "panel_backlight \<Rightarrow> bool" where
  "ib_ok s \<longleftrightarrow> ib_device_ok s \<and> ib_table_ok s \<and> ib_power_sent s \<and>
     (ib_already_set_initial_state s \<longrightarrow> ib_ready s)"

text \<open>No reason to turn the panel off other than its own brightness.\<close>

definition ib_lit :: "panel_backlight \<Rightarrow> bool" where
  "ib_lit s \<longleftrightarrow> \<not> ib_shutting_down s \<and> \<not> ib_forced_off s \<and> \<not> ib_suspended s \<and>
     \<not> ib_off_for_inactivity s \<and> \<not> ib_docked s"

text \<open>What holds whatever the brightness chosen by the user, the policy or the sensor is.\<close>

definition ib_overrides :: "panel_backlight \<Rightarrow> bool" where
  "ib_overrides s \<longleftrightarrow>
     (ib_shutting_down s \<or> ib_suspended s \<or> ib_off_for_inactivity s \<or> ib_docked s \<longrightarrow> ib_current_level s = 0) \<and>
     (ib_shutting_down s \<or> ib_off_for_inactivity s \<and> \<not> ib_suspended s \<longrightarrow>
        ib_display_power_state s = DISPLAY_POWER_ALL_OFF) \<and>
     (ib_docked s \<and> \<not> ib_shutting_down s \<and> \<not> ib_forced_off s \<and> \<not> ib_suspended s \<and>
        \<not> ib_off_for_inactivity s \<longrightarrow> ib_display_power_state s = DISPLAY_POWER_INTERNAL_OFF_EXTERNAL_ON) \<and>
     (ib_lit s \<longrightarrow> ib_display_power_state s =
        (if ib_current_level s = 0 then DISPLAY_POWER_INTERNAL_OFF_EXTERNAL_ON else DISPLAY_POWER_ALL_ON)) \<and>
     (ib_lit s \<and> ib_dimmed_for_inactivity s \<longrightarrow>
        ib_current_level s \<le> PercentToLevel s (ib_dimmed_brightness_percent s))"

definition ib_brightness_shown :: "panel_backlight \<Rightarrow> bool" where
  "ib_brightness_shown s \<longleftrightarrow>
     (ib_lit s \<and> \<not> ib_dimmed_for_inactivity s \<longrightarrow>
        ib_current_level s = PercentToLevel s (GetUndimmedBrightnessPercent s)) \<and>
     (ib_suspended s \<and> \<not> ib_shutting_down s \<and> \<not> ib_forced_off s \<longrightarrow>
        resume_level (ib_backlight s) = Some (PercentToLevel s (GetUndimmedBrightnessPercent s)))"

text \<open>Without a sensor, the state is applied as soon as the power source is known.\<close>

definition ib_started :: "panel_backlight \<Rightarrow> bool" where
  "ib_started s \<longleftrightarrow> (ib_ambient_light_handler s = None \<and> ib_got_power_source s \<longrightarrow> ib_already_set_initial_state s)"

definition ib_inv :: "panel_backlight \<Rightarrow> bool" where
  "ib_inv s \<longleftrightarrow> ib_ok s \<and> ib_started s \<and>
     (ib_already_set_initial_state s \<longrightarrow> ib_overrides s \<and> ib_brightness_shown s)"

text \<open>Percentages that \<^verbatim>\<open>UpdateState()\<close> applies are 0 or visible.\<close>

definition off_or_visible :: "real \<Rightarrow> bool" where
  "off_or_visible p \<longleftrightarrow> p = 0 \<or> 25 / 4 \<le> p \<and> p \<le> 100"

lemma GetUndimmed_visible: "off_or_visible (GetUndimmedBrightnessPercent s)"
  by (auto simp: off_or_visible_def GetUndimmedBrightnessPercent_def ClampPercentToVisibleRange_def Let_def)

lemma off_or_visible_level:
  assumes "ib_levels_ok s" "off_or_visible p"
  shows "PercentToLevel s p = 0 \<longleftrightarrow> p \<le> kEpsilon"
  using assms PercentToLevel_visible_range(1) [OF assms(1), of p]
  by (auto simp: off_or_visible_def ib_levels_ok_def kEpsilon_def)

lemma ib_Apply_ok:
  assumes "writes_ok (ibe_backlight env)" "ib_device_ok s"
  shows "\<exists>r b n. ib_ApplyBrightnessPercent env p tr c s =
      (r, s\<lparr>ib_backlight := b, ib_current_level := PercentToLevel s p, ib_notified := n\<rparr>) \<and>
    ib_device_ok (s\<lparr>ib_backlight := b, ib_current_level := PercentToLevel s p, ib_notified := n\<rparr>) \<and>
    resume_level b = resume_level (ib_backlight s) \<and> (\<not> r \<longrightarrow> PercentToLevel s p = ib_current_level s)"
proof -
  define l where "l = PercentToLevel s p"
  define i where "i = TransitionToTimeDelta (ib_transition s l tr)"
  obtain r b where b: "SetBrightnessLevel (ibe_backlight env) l i (ib_backlight s) = (r, b)" by fastforce
  have dev: "sb_brightness_path (ib_backlight s) \<noteq> []" "sb_resume_ok (ib_backlight s)"
    using assms(2) by (simp_all add: ib_device_ok_def)
  have r: "r" "sb_target b = l" "sb_brightness_path b \<noteq> []" "sb_resume_ok b"
    "resume_level b = resume_level (ib_backlight s)"
    using sysfs.set_level [OF assms(1) dev(1), of l i] device_resume(1,2) [OF dev(2), of "ibe_backlight env" l i] b
    by simp_all
  show ?thesis
  proof (cases "l = ib_current_level s \<and> \<not> TransitionInProgress (ib_backlight s)")
    case True
    then have "ib_ApplyBrightnessPercent env p tr c s = (False, s)"
      by (simp add: ib_ApplyBrightnessPercent_def l_def)
    moreover have "s = s\<lparr>ib_backlight := ib_backlight s, ib_current_level := PercentToLevel s p,
        ib_notified := ib_notified s\<rparr>" using True by (simp add: l_def)
    ultimately show ?thesis using assms(2) True l_def by metis
  next
    case False
    then have "ib_ApplyBrightnessPercent env p tr c s = (True, s\<lparr>ib_backlight := b,
        ib_current_level := PercentToLevel s p, ib_notified := ib_notified s @ [(p, c)]\<rparr>)"
      using b r(1) unfolding ib_ApplyBrightnessPercent_def i_def l_def Let_def by simp
    moreover have "ib_device_ok (s\<lparr>ib_backlight := b, ib_current_level := PercentToLevel s p,
        ib_notified := ib_notified s @ [(p, c)]\<rparr>)" using r by (simp add: ib_device_ok_def l_def)
    ultimately show ?thesis using r(5) by blast
  qed
qed

text \<open>What the conversions and the chosen percentage depend on.\<close>

lemma PercentToLevel_frame [simp]:
  "PercentToLevel (s\<lparr>ib_backlight := x1\<rparr>) = PercentToLevel s"
  "PercentToLevel (s\<lparr>ib_display_power_setter := x2\<rparr>) = PercentToLevel s"
  "PercentToLevel (s\<lparr>ib_ambient_light_handler := x3\<rparr>) = PercentToLevel s"
  "PercentToLevel (s\<lparr>ib_notified := x4\<rparr>) = PercentToLevel s"
  "PercentToLevel (s\<lparr>ib_power_source := x5\<rparr>) = PercentToLevel s"
  "PercentToLevel (s\<lparr>ib_display_mode := x6\<rparr>) = PercentToLevel s"
  "PercentToLevel (s\<lparr>ib_dimmed_for_inactivity := x7\<rparr>) = PercentToLevel s"
  "PercentToLevel (s\<lparr>ib_off_for_inactivity := x8\<rparr>) = PercentToLevel s"
  "PercentToLevel (s\<lparr>ib_suspended := x9\<rparr>) = PercentToLevel s"
  "PercentToLevel (s\<lparr>ib_shutting_down := x10\<rparr>) = PercentToLevel s"
  "PercentToLevel (s\<lparr>ib_docked := x11\<rparr>) = PercentToLevel s"
  "PercentToLevel (s\<lparr>ib_forced_off := x12\<rparr>) = PercentToLevel s"
  "PercentToLevel (s\<lparr>ib_got_ambient_light_brightness_percent := x13\<rparr>) = PercentToLevel s"
  "PercentToLevel (s\<lparr>ib_got_power_source := x14\<rparr>) = PercentToLevel s"
  "PercentToLevel (s\<lparr>ib_already_set_initial_state := x15\<rparr>) = PercentToLevel s"
  "PercentToLevel (s\<lparr>ib_als_adjustment_count := x16\<rparr>) = PercentToLevel s"
  "PercentToLevel (s\<lparr>ib_user_adjustment_count := x17\<rparr>) = PercentToLevel s"
  "PercentToLevel (s\<lparr>ib_ambient_light_brightness_percent := x18\<rparr>) = PercentToLevel s"
  "PercentToLevel (s\<lparr>ib_ac_explicit_brightness_percent := x19\<rparr>) = PercentToLevel s"
  "PercentToLevel (s\<lparr>ib_battery_explicit_brightness_percent := x20\<rparr>) = PercentToLevel s"
  "PercentToLevel (s\<lparr>ib_using_policy_brightness := x21\<rparr>) = PercentToLevel s"
  "PercentToLevel (s\<lparr>ib_force_nonzero_brightness_for_user_activity := x22\<rparr>) = PercentToLevel s"
  "PercentToLevel (s\<lparr>ib_use_ambient_light := x23\<rparr>) = PercentToLevel s"
  "PercentToLevel (s\<lparr>ib_current_level := x24\<rparr>) = PercentToLevel s"
  "PercentToLevel (s\<lparr>ib_display_power_state := x25\<rparr>) = PercentToLevel s"
  by (simp_all add: PercentToLevel_def fun_eq_iff)

lemma GetUndimmedBrightnessPercent_frame [simp]:
  "GetUndimmedBrightnessPercent (s\<lparr>ib_backlight := x26\<rparr>) = GetUndimmedBrightnessPercent s"
  "GetUndimmedBrightnessPercent (s\<lparr>ib_display_power_setter := x27\<rparr>) = GetUndimmedBrightnessPercent s"
  "GetUndimmedBrightnessPercent (s\<lparr>ib_ambient_light_handler := x28\<rparr>) = GetUndimmedBrightnessPercent s"
  "GetUndimmedBrightnessPercent (s\<lparr>ib_notified := x29\<rparr>) = GetUndimmedBrightnessPercent s"
  "GetUndimmedBrightnessPercent (s\<lparr>ib_display_mode := x30\<rparr>) = GetUndimmedBrightnessPercent s"
  "GetUndimmedBrightnessPercent (s\<lparr>ib_dimmed_for_inactivity := x31\<rparr>) = GetUndimmedBrightnessPercent s"
  "GetUndimmedBrightnessPercent (s\<lparr>ib_off_for_inactivity := x32\<rparr>) = GetUndimmedBrightnessPercent s"
  "GetUndimmedBrightnessPercent (s\<lparr>ib_suspended := x33\<rparr>) = GetUndimmedBrightnessPercent s"
  "GetUndimmedBrightnessPercent (s\<lparr>ib_shutting_down := x34\<rparr>) = GetUndimmedBrightnessPercent s"
  "GetUndimmedBrightnessPercent (s\<lparr>ib_docked := x35\<rparr>) = GetUndimmedBrightnessPercent s"
  "GetUndimmedBrightnessPercent (s\<lparr>ib_forced_off := x36\<rparr>) = GetUndimmedBrightnessPercent s"
  "GetUndimmedBrightnessPercent (s\<lparr>ib_got_ambient_light_brightness_percent := x37\<rparr>) = GetUndimmedBrightnessPercent s"
  "GetUndimmedBrightnessPercent (s\<lparr>ib_got_power_source := x38\<rparr>) = GetUndimmedBrightnessPercent s"
  "GetUndimmedBrightnessPercent (s\<lparr>ib_already_set_initial_state := x39\<rparr>) = GetUndimmedBrightnessPercent s"
  "GetUndimmedBrightnessPercent (s\<lparr>ib_als_adjustment_count := x40\<rparr>) = GetUndimmedBrightnessPercent s"
  "GetUndimmedBrightnessPercent (s\<lparr>ib_user_adjustment_count := x41\<rparr>) = GetUndimmedBrightnessPercent s"
  "GetUndimmedBrightnessPercent (s\<lparr>ib_using_policy_brightness := x42\<rparr>) = GetUndimmedBrightnessPercent s"
  "GetUndimmedBrightnessPercent (s\<lparr>ib_force_nonzero_brightness_for_user_activity := x43\<rparr>) = GetUndimmedBrightnessPercent s"
  "GetUndimmedBrightnessPercent (s\<lparr>ib_current_level := x44\<rparr>) = GetUndimmedBrightnessPercent s"
  "GetUndimmedBrightnessPercent (s\<lparr>ib_display_power_state := x45\<rparr>) = GetUndimmedBrightnessPercent s"
  by (simp_all add: GetUndimmedBrightnessPercent_def GetExplicitBrightnessPercent_def)

lemmas ib_ok_defs = ib_ok_def ib_device_ok_def ib_table_ok_def ib_power_sent_def ib_ready_def ib_levels_ok_def

lemmas ib_shown_defs = ib_overrides_def ib_brightness_shown_def ib_lit_def

lemma ib_SetDisplayPower_eq:
  "\<exists>p. ib_SetDisplayPower state delay s = s\<lparr>ib_display_power_setter := p, ib_display_power_state := state\<rparr> \<and>
     (ib_power_sent s \<longrightarrow> ib_power_sent (ib_SetDisplayPower state delay s))"
proof (cases "state = ib_display_power_state s")
  case True
  then show ?thesis by (intro exI [of _ "ib_display_power_setter s"]) (simp add: ib_SetDisplayPower_def)
qed (auto simp: ib_SetDisplayPower_def ib_power_sent_def)

lemma ApplyResume_eq:
  assumes "writes_ok (ibe_backlight env)" "ib_device_ok s"
  shows "\<exists>b. snd (ApplyResumeBrightnessPercent env p s) = s\<lparr>ib_backlight := b\<rparr> \<and>
    ib_device_ok (s\<lparr>ib_backlight := b\<rparr>) \<and> resume_level b = Some (PercentToLevel s p)"
  using assms SetResumeBrightnessLevel_ok [OF assms(1), of "ib_backlight s" "PercentToLevel s p"]
  by (auto simp: ApplyResumeBrightnessPercent_def ib_device_ok_def split_beta)

text \<open>The goal of \<^verbatim>\<open>UpdateState()\<close> is one that the invariant accepts.\<close>

definition goal_met :: "panel_goal \<Rightarrow> panel_backlight \<Rightarrow> panel_backlight \<Rightarrow> bool" where
  "goal_met g s t \<longleftrightarrow> (\<exists>b n p. t = s\<lparr>ib_backlight := b, ib_current_level := PercentToLevel s (pg_brightness_percent g),
       ib_notified := n, ib_display_power_setter := p,
       ib_display_power_state := (case pg_display_power g of None \<Rightarrow> ib_display_power_state s | Some (d, tr) \<Rightarrow> d),
       ib_already_set_initial_state := True\<rparr> \<and> ib_device_ok t \<and> ib_power_sent t \<and>
     (\<forall>q. pg_resume_percent g = Some q \<longrightarrow> 0 \<le> q \<longrightarrow> resume_level b = Some (PercentToLevel s q)))"

lemma apply_goal_met:
  assumes "writes_ok (ibe_backlight env)" "ib_device_ok s" "ib_power_sent s"
  shows "goal_met g s (apply_goal env g s)"
proof -
  define d where "d = (case pg_display_power g of None \<Rightarrow> ib_display_power_state s | Some (d, tr) \<Rightarrow> d)"
  define s1 where "s1 = (case pg_display_power g of None \<Rightarrow> s
    | Some (state, tr) \<Rightarrow> ib_SetDisplayPower state (TransitionToTimeDelta tr) s)"
  obtain p where s1: "s1 = s\<lparr>ib_display_power_setter := p, ib_display_power_state := d\<rparr>" "ib_power_sent s1"
  proof (cases "pg_display_power g")
    case None
    then show ?thesis using that [of "ib_display_power_setter s"] assms(3) by (simp add: s1_def d_def)
  next
    case (Some a)
    then show ?thesis
      using that ib_SetDisplayPower_eq [of "fst a" "TransitionToTimeDelta (snd a)" s] assms(3)
      by (auto simp: s1_def d_def split_beta)
  qed
  define s2 where "s2 = snd (ib_ApplyBrightnessPercent env (pg_brightness_percent g) (pg_brightness_transition g) AUTOMATED s1)"
  have "ib_device_ok s1" using assms(2) by (simp add: s1 ib_device_ok_def)
  from ib_Apply_ok [OF assms(1) this, of "pg_brightness_percent g" "pg_brightness_transition g" AUTOMATED]
  obtain r b n where app: "ib_ApplyBrightnessPercent env (pg_brightness_percent g) (pg_brightness_transition g) AUTOMATED s1 =
      (r, s1\<lparr>ib_backlight := b, ib_current_level := PercentToLevel s1 (pg_brightness_percent g), ib_notified := n\<rparr>)"
    "ib_device_ok (s1\<lparr>ib_backlight := b, ib_current_level := PercentToLevel s1 (pg_brightness_percent g), ib_notified := n\<rparr>)"
    by blast
  have "PercentToLevel s1 = PercentToLevel s" by (simp add: s1(1))
  with app have s2: "s2 = s1\<lparr>ib_backlight := b, ib_current_level := PercentToLevel s (pg_brightness_percent g),
      ib_notified := n\<rparr>" "ib_device_ok s2" by (simp_all add: s2_def)
  define s3 where "s3 = (case pg_resume_percent g of None \<Rightarrow> s2
    | Some q \<Rightarrow> if q \<ge> 0 then snd (ApplyResumeBrightnessPercent env q s2) else s2)"
  obtain b' where s3: "s3 = s2\<lparr>ib_backlight := b'\<rparr>" "ib_device_ok s3"
    "\<And>q. pg_resume_percent g = Some q \<Longrightarrow> 0 \<le> q \<Longrightarrow> resume_level b' = Some (PercentToLevel s q)"
  proof (cases "\<exists>q. pg_resume_percent g = Some q \<and> 0 \<le> q")
    case True
    then obtain q where q: "pg_resume_percent g = Some q" "0 \<le> q" by blast
    from ApplyResume_eq [OF assms(1) s2(2), of q] obtain b' where
      "snd (ApplyResumeBrightnessPercent env q s2) = s2\<lparr>ib_backlight := b'\<rparr>"
      "ib_device_ok (s2\<lparr>ib_backlight := b'\<rparr>)" "resume_level b' = Some (PercentToLevel s2 q)" by blast
    with q show ?thesis using that [of b'] by (simp add: s3_def s2(1) s1(1))
  next
    case False
    then have "s3 = s2" by (auto simp: s3_def split: option.splits)
    with False s2(2) show ?thesis using that [of "ib_backlight s2"] by auto
  qed
  have "apply_goal env g s = s3\<lparr>ib_already_set_initial_state := True\<rparr>"
    unfolding apply_goal_def s3_def s2_def s1_def Let_def ..
  then show ?thesis using s1 s2 s3 unfolding goal_met_def d_def
    by (intro exI [of _ b'] exI [of _ n] exI [of _ p]) (auto simp: ib_device_ok_def ib_power_sent_def)
qed

lemma panel_goal_dark: "\<not> ib_lit s \<Longrightarrow> pg_brightness_percent (panel_goal_of s) = 0"
  by (auto simp: panel_goal_of_def ib_lit_def)

lemma panel_goal_parts:
  "pg_resume_percent (panel_goal_of s) =
     (if ib_suspended s \<and> \<not> ib_shutting_down s \<and> \<not> ib_forced_off s
      then Some (GetUndimmedBrightnessPercent s) else None)"
  "pg_display_power (panel_goal_of s) =
     (if ib_shutting_down s \<or> ib_forced_off s then Some (DISPLAY_POWER_ALL_OFF, INSTANT)
      else if ib_suspended s then None
      else if ib_off_for_inactivity s then Some (DISPLAY_POWER_ALL_OFF, FAST)
      else if ib_docked s then Some (DISPLAY_POWER_INTERNAL_OFF_EXTERNAL_ON, INSTANT)
      else Some (if pg_brightness_percent (panel_goal_of s) \<le> kEpsilon
        then DISPLAY_POWER_INTERNAL_OFF_EXTERNAL_ON else DISPLAY_POWER_ALL_ON, INSTANT))"
  by (simp_all add: panel_goal_of_def Let_def)

lemma goal_met_inv:
  assumes "ib_ok s" "ib_ready s" "goal_met (panel_goal_of s) s t"
  shows "ib_inv t"
proof -
  define g where "g = panel_goal_of s"
  define p where "p = pg_brightness_percent g"
  from assms(3) obtain b n ps where t: "t = s\<lparr>ib_backlight := b, ib_current_level := PercentToLevel s p,
      ib_notified := n, ib_display_power_setter := ps,
      ib_display_power_state := (case pg_display_power g of None \<Rightarrow> ib_display_power_state s | Some (d, tr) \<Rightarrow> d),
      ib_already_set_initial_state := True\<rparr>" "ib_device_ok t" "ib_power_sent t"
    and resume: "\<And>q. pg_resume_percent g = Some q \<Longrightarrow> 0 \<le> q \<Longrightarrow> resume_level b = Some (PercentToLevel s q)"
    unfolding goal_met_def g_def [symmetric] p_def by blast
  have levels: "ib_levels_ok s" and dim: "25 / 4 \<le> ib_dimmed_brightness_percent s" "ib_dimmed_brightness_percent s \<le> 100"
    using assms(1) by (simp_all add: ib_ok_def ib_table_ok_def)
  have ok: "ib_ok t" using assms(1,2) t(2,3) unfolding ib_ok_def
    by (simp add: t(1) ib_table_ok_def ib_ready_def ib_levels_ok_def)
  have undimmed: "0 \<le> GetUndimmedBrightnessPercent s" "GetUndimmedBrightnessPercent s \<le> 100"
    using GetUndimmed_visible [of s] by (auto simp: off_or_visible_def)
  consider "ib_lit s" | "\<not> ib_lit s" by blast
  then have "ib_overrides t \<and> ib_brightness_shown t"
  proof cases
    case 1
    have "off_or_visible p" "p \<le> ib_dimmed_brightness_percent s \<or> \<not> ib_dimmed_for_inactivity s" "0 \<le> p"
      "\<not> ib_dimmed_for_inactivity s \<Longrightarrow> p = GetUndimmedBrightnessPercent s"
      using 1 GetUndimmed_visible [of s] dim
      by (auto simp: p_def g_def panel_goal_of_def ib_lit_def Let_def off_or_visible_def)
    note p = this
    have power: "pg_display_power g = Some (if p \<le> kEpsilon then DISPLAY_POWER_INTERNAL_OFF_EXTERNAL_ON
        else DISPLAY_POWER_ALL_ON, INSTANT)"
      using 1 by (simp add: p_def g_def panel_goal_of_def ib_lit_def Let_def)
    have "PercentToLevel s p \<le> PercentToLevel s (ib_dimmed_brightness_percent s)" if "ib_dimmed_for_inactivity s"
      using PercentToLevel_mono [OF levels p(3) _ dim(2)] p(2) that by simp
    with 1 p(4) off_or_visible_level [OF levels p(1)] show ?thesis
      by (simp add: t(1) power ib_shown_defs)
  next
    case 2
    then have "p = 0" by (simp add: p_def g_def panel_goal_dark)
    with 2 resume [of "GetUndimmedBrightnessPercent s"] undimmed show ?thesis
      by (auto simp: t(1) ib_shown_defs g_def panel_goal_parts)
  qed
  with ok show ?thesis by (simp add: ib_inv_def ib_started_def t(1))
qed

lemma give_up_ok: "ib_ok s \<Longrightarrow> ib_ok (give_up_on_sensor env s)"
  by (auto simp: give_up_on_sensor_def ib_ok_defs)

lemma ib_UpdateState_inv:
  assumes "writes_ok (ibe_backlight env)" "ib_ok s"
  shows "ib_inv (ib_UpdateState env s)"
proof -
  define s1 where "s1 = give_up_on_sensor env s"
  have s1: "ib_ok s1" using give_up_ok [OF assms(2)] by (simp add: s1_def)
  show ?thesis
  proof (cases "ib_ready s1")
    case True
    then have "ib_UpdateState env s = apply_goal env (panel_goal_of s1) s1"
      by (auto simp: ib_UpdateState_def s1_def ib_ready_def Let_def)
    with goal_met_inv [OF s1 True apply_goal_met [OF assms(1)]] s1 show ?thesis by (simp add: ib_ok_def)
  next
    case False
    then have "ib_UpdateState env s = s1" by (auto simp: ib_UpdateState_def s1_def ib_ready_def Let_def)
    with False s1 show ?thesis by (auto simp: ib_inv_def ib_ok_def ib_started_def ib_ready_def ib_table_ok_def)
  qed
qed

text \<open>A new brightness of the user, a policy or the sensor, in a state whose overrides hold.\<close>

lemma UpdateUndimmed_eq:
  assumes "writes_ok (ibe_backlight env)" "ib_ok s"
  obtains r b l n ps d where
    "UpdateUndimmedBrightness env tr c s = (r, s\<lparr>ib_backlight := b, ib_current_level := l, ib_notified := n,
       ib_display_power_setter := ps, ib_display_power_state := d\<rparr>)"
    "ib_device_ok (s\<lparr>ib_backlight := b, ib_current_level := l\<rparr>)"
    "ib_power_sent (s\<lparr>ib_display_power_setter := ps, ib_display_power_state := d\<rparr>)"
    "ib_suspended s \<Longrightarrow> resume_level b = Some (PercentToLevel s (GetUndimmedBrightnessPercent s))"
    "if ib_shutting_down s \<or> ib_suspended s \<or> ib_docked s \<or> ib_off_for_inactivity s \<or> ib_dimmed_for_inactivity s
     then l = ib_current_level s \<and> d = ib_display_power_state s
     else l = PercentToLevel s (GetUndimmedBrightnessPercent s) \<and>
       (l = ib_current_level s \<and> d = ib_display_power_state s \<or>
        d = (if l = 0 then DISPLAY_POWER_INTERNAL_OFF_EXTERNAL_ON else DISPLAY_POWER_ALL_ON))"
proof -
  define p where "p = GetUndimmedBrightnessPercent s"
  have dev: "ib_device_ok s" and sent: "ib_power_sent s" and levels: "ib_levels_ok s"
    using assms(2) by (simp_all add: ib_ok_def ib_table_ok_def)
  consider "ib_suspended s" | "\<not> ib_suspended s"
    "ib_shutting_down s \<or> ib_docked s \<or> ib_off_for_inactivity s \<or> ib_dimmed_for_inactivity s"
    | "\<not> (ib_shutting_down s \<or> ib_suspended s \<or> ib_docked s \<or> ib_off_for_inactivity s \<or> ib_dimmed_for_inactivity s)"
    by blast
  then show ?thesis
  proof cases
    case 1
    from ApplyResume_eq [OF assms(1) dev, of p] obtain b where
      "snd (ApplyResumeBrightnessPercent env p s) = s\<lparr>ib_backlight := b\<rparr>"
      "ib_device_ok (s\<lparr>ib_backlight := b\<rparr>)" "resume_level b = Some (PercentToLevel s p)" by blast
    with 1 show ?thesis using sent
      by (intro that [of False "ib_display_power_state s" "ib_display_power_setter s" "ib_notified s" "ib_current_level s" b])
        (simp_all add: UpdateUndimmedBrightness_def Let_def flip: p_def)
  next
    case 2
    then show ?thesis using dev sent
      by (intro that [of False "ib_display_power_state s" "ib_display_power_setter s" "ib_notified s" "ib_current_level s" "ib_backlight s"])
        (auto simp: UpdateUndimmedBrightness_def Let_def)
  next
    case 3
    from ib_Apply_ok [OF assms(1) dev, of p tr c] obtain r b n where
      app: "ib_ApplyBrightnessPercent env p tr c s =
        (r, s\<lparr>ib_backlight := b, ib_current_level := PercentToLevel s p, ib_notified := n\<rparr>)"
      "ib_device_ok (s\<lparr>ib_backlight := b, ib_current_level := PercentToLevel s p, ib_notified := n\<rparr>)"
      "\<not> r \<Longrightarrow> PercentToLevel s p = ib_current_level s" by blast
    define s1 where "s1 = s\<lparr>ib_backlight := b, ib_current_level := PercentToLevel s p, ib_notified := n\<rparr>"
    have zero: "PercentToLevel s p = 0 \<longleftrightarrow> p \<le> kEpsilon"
      using off_or_visible_level [OF levels GetUndimmed_visible] by (simp add: p_def)
    show ?thesis
    proof (cases r)
      case False
      with 3 app sent show ?thesis
        by (intro that [of False "ib_display_power_state s" "ib_display_power_setter s" n "PercentToLevel s p" b])
          (simp_all add: UpdateUndimmedBrightness_def Let_def ib_device_ok_def flip: p_def)
    next
      case True
      define d where "d = (if p \<le> kEpsilon then DISPLAY_POWER_INTERNAL_OFF_EXTERNAL_ON else DISPLAY_POWER_ALL_ON)"
      define delay where "delay = (if p \<le> kEpsilon then TransitionToTimeDelta tr + ib_turn_off_screen_timeout s else 0)"
      have "UpdateUndimmedBrightness env tr c s = (True, ib_SetDisplayPower d delay s1)"
        using 3 True app(1) by (simp add: UpdateUndimmedBrightness_def Let_def d_def delay_def s1_def flip: p_def)
      moreover have "ib_power_sent s1" using sent by (simp add: s1_def ib_power_sent_def)
      moreover from this obtain ps where ps: "ib_SetDisplayPower d delay s1 = s1\<lparr>ib_display_power_setter := ps, ib_display_power_state := d\<rparr>"
        "ib_power_sent (ib_SetDisplayPower d delay s1)"
        using ib_SetDisplayPower_eq [of d delay s1] by blast
      ultimately show ?thesis using 3 app(2) zero
        by (intro that [of True d ps n "PercentToLevel s p" b])
          (simp_all add: s1_def d_def ib_device_ok_def ib_power_sent_def flip: p_def)
    qed
  qed
qed

lemma UpdateUndimmed_inv:
  assumes "writes_ok (ibe_backlight env)" "ib_ok s" "ib_started s" "ib_already_set_initial_state s \<Longrightarrow> ib_overrides s"
  shows "ib_inv (snd (UpdateUndimmedBrightness env tr c s))"
proof -
  obtain r b l n ps d where t:
    "UpdateUndimmedBrightness env tr c s = (r, s\<lparr>ib_backlight := b, ib_current_level := l, ib_notified := n,
       ib_display_power_setter := ps, ib_display_power_state := d\<rparr>)" (is "_ = (r, ?t)")
    "ib_device_ok (s\<lparr>ib_backlight := b, ib_current_level := l\<rparr>)"
    "ib_power_sent (s\<lparr>ib_display_power_setter := ps, ib_display_power_state := d\<rparr>)"
    "ib_suspended s \<Longrightarrow> resume_level b = Some (PercentToLevel s (GetUndimmedBrightnessPercent s))"
    "if ib_shutting_down s \<or> ib_suspended s \<or> ib_docked s \<or> ib_off_for_inactivity s \<or> ib_dimmed_for_inactivity s
     then l = ib_current_level s \<and> d = ib_display_power_state s
     else l = PercentToLevel s (GetUndimmedBrightnessPercent s) \<and>
       (l = ib_current_level s \<and> d = ib_display_power_state s \<or>
        d = (if l = 0 then DISPLAY_POWER_INTERNAL_OFF_EXTERNAL_ON else DISPLAY_POWER_ALL_ON))"
    by (rule UpdateUndimmed_eq [OF assms(1,2)]) (rule that)
  have "ib_ok ?t" using t(2,3) assms(2) by (auto simp: ib_ok_defs)
  moreover have "ib_overrides ?t \<and> ib_brightness_shown ?t" if "ib_already_set_initial_state s"
    using assms(4) [OF that] t(4,5) by (auto simp: ib_shown_defs split: if_splits)
  moreover have "ib_started ?t" using assms(3) by (simp add: ib_started_def)
  ultimately show ?thesis by (simp add: t(1) ib_inv_def)
qed

lemma UpdateUndimmed_applies:
  fixes tr c
  assumes "writes_ok (ibe_backlight env)" "ib_ok s"
    and "\<not> (ib_shutting_down s \<or> ib_suspended s \<or> ib_docked s \<or> ib_off_for_inactivity s \<or> ib_dimmed_for_inactivity s)"
  defines "t \<equiv> snd (UpdateUndimmedBrightness env tr c s)"
  shows "sb_target (ib_backlight t) = PercentToLevel s (GetUndimmedBrightnessPercent s)"
    "ib_forced_off t = ib_forced_off s"
proof -
  obtain r b l n ps d where t:
    "UpdateUndimmedBrightness env tr c s = (r, s\<lparr>ib_backlight := b, ib_current_level := l, ib_notified := n,
       ib_display_power_setter := ps, ib_display_power_state := d\<rparr>)"
    "ib_device_ok (s\<lparr>ib_backlight := b, ib_current_level := l\<rparr>)"
    "if ib_shutting_down s \<or> ib_suspended s \<or> ib_docked s \<or> ib_off_for_inactivity s \<or> ib_dimmed_for_inactivity s
     then l = ib_current_level s \<and> d = ib_display_power_state s
     else l = PercentToLevel s (GetUndimmedBrightnessPercent s) \<and>
       (l = ib_current_level s \<and> d = ib_display_power_state s \<or>
        d = (if l = 0 then DISPLAY_POWER_INTERNAL_OFF_EXTERNAL_ON else DISPLAY_POWER_ALL_ON))"
    by (rule UpdateUndimmed_eq [OF assms(1,2)]) (rule that)
  have "l = PercentToLevel s (GetUndimmedBrightnessPercent s)" using t(3) assms(3) by simp
  with t(1,2) show "sb_target (ib_backlight t) = PercentToLevel s (GetUndimmedBrightnessPercent s)"
    "ib_forced_off t = ib_forced_off s" by (simp_all add: t_def ib_device_ok_def)
qed

lemma ib_invD: "ib_inv s \<Longrightarrow> ib_ok s" "ib_inv s \<Longrightarrow> ib_started s" "ib_inv s \<Longrightarrow> ib_already_set_initial_state s \<Longrightarrow> ib_overrides s"
  by (simp_all add: ib_inv_def)

lemma SetExplicit_inv:
  assumes "writes_ok (ibe_backlight env)" "ib_inv s"
  shows "ib_inv (snd (SetExplicitBrightnessPercent env ac battery tr c s))"
  unfolding SetExplicitBrightnessPercent_def
  using assms ib_invD [OF assms(2)]
  by (intro UpdateUndimmed_inv) (auto simp: ib_ok_defs ib_overrides_def ib_lit_def ib_started_def)

lemma ib_inv_frame [simp]:
  "ib_inv (s\<lparr>ib_display_mode := x1\<rparr>) = ib_inv s"
  "ib_inv (s\<lparr>ib_als_adjustment_count := x2\<rparr>) = ib_inv s"
  "ib_inv (s\<lparr>ib_user_adjustment_count := x3\<rparr>) = ib_inv s"
  "ib_inv (s\<lparr>ib_using_policy_brightness := x4\<rparr>) = ib_inv s"
  "ib_inv (s\<lparr>ib_force_nonzero_brightness_for_user_activity := x5\<rparr>) = ib_inv s"
  by (simp_all add: ib_inv_def ib_ok_defs ib_shown_defs ib_started_def)

lemma ib_user_inv:
  assumes "writes_ok (ibe_backlight env)" "ib_inv s"
  shows "ib_inv (EnsureUserBrightnessIsNonzero env s)"
    "ib_inv (snd (SetUserBrightnessPercent env p tr s))"
    "ib_inv (snd (ib_IncreaseUserBrightness env s))"
    "ib_inv (snd (ib_DecreaseUserBrightness env allow_off s))"
  using assms by (simp_all add: EnsureUserBrightnessIsNonzero_def SetUserBrightnessPercent_def
    ib_IncreaseUserBrightness_def ib_DecreaseUserBrightness_def Let_def SetExplicit_inv)

lemma ib_device_frame [simp]:
  "ib_overrides (s\<lparr>ib_backlight := x1\<rparr>) = ib_overrides s"
  "ib_overrides (s\<lparr>ib_display_power_setter := x2\<rparr>) = ib_overrides s"
  "ib_brightness_shown (s\<lparr>ib_display_power_setter := x2\<rparr>) = ib_brightness_shown s"
  "ib_overrides (s\<lparr>ib_ambient_light_handler := x3\<rparr>) = ib_overrides s"
  "ib_brightness_shown (s\<lparr>ib_ambient_light_handler := x3\<rparr>) = ib_brightness_shown s"
  "ib_device_ok (s\<lparr>ib_ambient_light_handler := x3\<rparr>) = ib_device_ok s"
  "ib_power_sent (s\<lparr>ib_ambient_light_handler := x3\<rparr>) = ib_power_sent s"
  "ib_ready (s\<lparr>ib_ambient_light_handler := x3\<rparr>) = ib_ready s"
  "ib_table_ok (s\<lparr>ib_backlight := x1\<rparr>) = ib_table_ok s"
  "ib_table_ok (s\<lparr>ib_display_power_setter := x2\<rparr>) = ib_table_ok s"
  "ib_device_ok (s\<lparr>ib_display_power_setter := x2\<rparr>) = ib_device_ok s"
  "ib_power_sent (s\<lparr>ib_backlight := x1\<rparr>) = ib_power_sent s"
  "ib_ready (s\<lparr>ib_backlight := x1\<rparr>) = ib_ready s"
  "ib_ready (s\<lparr>ib_display_power_setter := x2\<rparr>) = ib_ready s"
  "ib_started (s\<lparr>ib_backlight := x1\<rparr>) = ib_started s"
  "ib_started (s\<lparr>ib_display_power_setter := x2\<rparr>) = ib_started s"
  by (simp_all add: ib_shown_defs ib_table_ok_def ib_device_ok_def ib_power_sent_def ib_ready_def ib_levels_ok_def
    ib_started_def)

lemma ib_brightness_shown_resume:
  "resume_level b = resume_level (ib_backlight s) \<Longrightarrow> ib_brightness_shown (s\<lparr>ib_backlight := b\<rparr>) = ib_brightness_shown s"
  by (simp add: ib_brightness_shown_def ib_lit_def)

lemma ib_ambient_inv:
  assumes "writes_ok (ibe_backlight env)" "ib_inv s"
  shows "ib_inv (ib_SetBrightnessPercentForAmbientLight env p cause s)"
proof -
  define s1 where "s1 = s\<lparr>ib_ambient_light_brightness_percent := p, ib_got_ambient_light_brightness_percent := True\<rparr>"
  have s1: "ib_ok s1" "ib_started s1" "ib_already_set_initial_state s1 \<Longrightarrow> ib_overrides s1"
    using ib_invD [OF assms(2)] by (auto simp: s1_def ib_ok_defs ib_overrides_def ib_lit_def ib_started_def)
  have "ib_inv s1" if "\<not> ib_use_ambient_light s1"
  proof -
    have "GetUndimmedBrightnessPercent s1 = GetUndimmedBrightnessPercent s"
      using that by (simp add: s1_def GetUndimmedBrightnessPercent_def GetExplicitBrightnessPercent_def)
    then have "ib_brightness_shown s1 = ib_brightness_shown s" by (simp add: s1_def ib_brightness_shown_def ib_lit_def)
    with s1 assms(2) show ?thesis by (simp add: ib_inv_def s1_def)
  qed
  with ib_UpdateState_inv [OF assms(1) s1(1)] UpdateUndimmed_inv [OF assms(1) s1] show ?thesis
    unfolding ib_SetBrightnessPercentForAmbientLight_def s1_def [symmetric] by (simp add: split_beta Let_def)
qed

lemma ib_from_handler_inv:
  assumes "writes_ok (ibe_backlight env)" "ib_inv s" "alh_inv h"
  shows "\<exists>t. ib_from_handler env (Some (c, h)) s = Some t \<and> ib_inv t"
proof -
  have "ib_inv (s\<lparr>ib_ambient_light_handler := Some h\<rparr>)"
    using assms(2,3) by (simp add: ib_inv_def ib_ok_def ib_table_ok_def ib_levels_ok_def ib_started_def)
  with ib_ambient_inv [OF assms(1)] show ?thesis
    by (cases c) (auto simp: ib_from_handler_def)
qed

lemma ib_handler_inv: "ib_inv s \<Longrightarrow> ib_ambient_light_handler s = Some h \<Longrightarrow> alh_inv h"
  by (simp add: ib_inv_def ib_ok_def ib_table_ok_def)

lemma ib_light_reading_inv:
  assumes "writes_ok (ibe_backlight env)" "ib_inv s"
  shows "\<exists>t. ib_light_reading env lux s = Some t \<and> ib_inv t"
proof (cases "ib_ambient_light_handler s")
  case None
  with assms show ?thesis by (simp add: ib_light_reading_def)
next
  case (Some h)
  from OnAmbientLightUpdated_inv [OF ib_handler_inv [OF assms(2) Some], of lux] obtain c h' where
    "OnAmbientLightUpdated lux h = Some (c, h')" "alh_inv h'" by blast
  with ib_from_handler_inv [OF assms] show ?thesis by (simp add: ib_light_reading_def Some)
qed

lemma ib_HandlePowerSourceChange_inv:
  assumes "writes_ok (ibe_backlight env)" "ib_inv s"
  shows "\<exists>t. ib_HandlePowerSourceChange env source s = Some t \<and> ib_inv t"
proof (cases "ib_got_power_source s \<and> ib_power_source s = source")
  case True
  with assms show ?thesis by (simp add: ib_HandlePowerSourceChange_def)
next
  case False
  define s1 where "s1 = ib_UpdateState env
    ((balance_explicit source s)\<lparr>ib_power_source := source, ib_got_power_source := True\<rparr>)"
  have "ib_ok ((balance_explicit source s)\<lparr>ib_power_source := source, ib_got_power_source := True\<rparr>)"
    using ib_invD(1) [OF assms(2)] by (auto simp: balance_explicit_def ib_ok_defs)
  from ib_UpdateState_inv [OF assms(1) this] have s1: "ib_inv s1" by (simp add: s1_def)
  have handle: "ib_HandlePowerSourceChange env source s = (case ib_ambient_light_handler s1 of None \<Rightarrow> Some s1
      | Some h \<Rightarrow> ib_from_handler env (alh_HandlePowerSourceChange source h) s1)"
    unfolding ib_HandlePowerSourceChange_def s1_def Let_def if_not_P [OF False] ..
  show ?thesis
  proof (cases "ib_ambient_light_handler s1")
    case None
    with handle s1 show ?thesis by simp
  next
    case (Some h)
    from alh_HandlePowerSourceChange_inv [OF ib_handler_inv [OF s1 Some], of source] obtain c h' where
      "alh_HandlePowerSourceChange source h = Some (c, h')" "alh_inv h'" by blast
    with handle Some ib_from_handler_inv [OF assms(1) s1] show ?thesis by simp
  qed
qed

section \<open>The controller as an event machine\<close>

datatype ib_event = IbPowerSource PowerSource | IbDisplayMode DisplayMode | IbSession SessionState
  | IbPowerButton | IbUserActivity UserActivityType | IbPolicy panel_policy | IbChromeStart
  | IbDimmed bool | IbOff bool | IbSuspended bool | IbShuttingDown bool | IbDocked bool | IbForcedOff bool
  | IbUserBrightness real Transition | IbIncrease | IbDecrease bool | IbLight int | IbTransition | IbDisplayTimeout

fun ib_step :: "panel_backlight \<Rightarrow> ib_env \<times> ib_event \<Rightarrow> panel_backlight option" where
  "ib_step s (env, IbPowerSource source) = ib_HandlePowerSourceChange env source s"
| "ib_step s (env, IbDisplayMode mode) = Some (ib_HandleDisplayModeChange env mode s)"
| "ib_step s (env, IbSession state) = Some (ib_HandleSessionStateChange env state s)"
| "ib_step s (env, IbPowerButton) = Some (ib_HandlePowerButtonPress env s)"
| "ib_step s (env, IbUserActivity type) = Some (ib_HandleUserActivity env type s)"
| "ib_step s (env, IbPolicy policy) = Some (ib_HandlePolicyChange env policy s)"
| "ib_step s (env, IbChromeStart) = Some (ib_HandleChromeStart s)"
| "ib_step s (env, IbDimmed b) = Some (ib_SetDimmedForInactivity env b s)"
| "ib_step s (env, IbOff b) = Some (ib_SetOffForInactivity env b s)"
| "ib_step s (env, IbSuspended b) = Some (ib_SetSuspended env b s)"
| "ib_step s (env, IbShuttingDown b) = Some (ib_SetShuttingDown env b s)"
| "ib_step s (env, IbDocked b) = Some (ib_SetDocked env b s)"
| "ib_step s (env, IbForcedOff b) = Some (ib_SetForcedOff env b s)"
| "ib_step s (env, IbUserBrightness percent tr) = Some (snd (SetUserBrightnessPercent env percent tr s))"
| "ib_step s (env, IbIncrease) = Some (snd (ib_IncreaseUserBrightness env s))"
| "ib_step s (env, IbDecrease allow_off) = Some (snd (ib_DecreaseUserBrightness env allow_off s))"
| "ib_step s (env, IbLight lux) = ib_light_reading env lux s"
| "ib_step s (env, IbTransition) =
     Some (s\<lparr>ib_backlight := fire_transition (ibe_backlight env) (ib_backlight s)\<rparr>)"
| "ib_step s (env, IbDisplayTimeout) =
     Some (s\<lparr>ib_display_power_setter := fire_display_power (ib_display_power_setter s)\<rparr>)"

definition ib_legal :: "ib_env \<times> ib_event \<Rightarrow> bool" where
  "ib_legal = (\<lambda>(env, e). writes_ok (ibe_backlight env))"

text \<open>A handler that records a new condition and then calls \<^verbatim>\<open>UpdateState()\<close>.\<close>

lemma ib_conditions_inv:
  assumes "writes_ok (ibe_backlight env)" "ib_inv s"
  shows "ib_inv (ib_SetDimmedForInactivity env b s)" "ib_inv (ib_SetOffForInactivity env b s)"
    "ib_inv (ib_SetSuspended env b s)" "ib_inv (ib_SetShuttingDown env b s)"
    "ib_inv (ib_SetDocked env b s)" "ib_inv (ib_SetForcedOff env b s)"
  using assms ib_invD(1) [OF assms(2)]
  by (simp_all add: ib_SetDimmedForInactivity_def ib_SetOffForInactivity_def ib_SetSuspended_def
    ib_SetShuttingDown_def ib_SetDocked_def ib_SetForcedOff_def ib_UpdateState_inv ib_ok_defs)

lemma ib_other_inv:
  assumes "writes_ok (ibe_backlight env)" "ib_inv s"
  shows "ib_inv (ib_HandleDisplayModeChange env mode s)" "ib_inv (ib_HandleSessionStateChange env state s)"
    "ib_inv (ib_HandlePowerButtonPress env s)" "ib_inv (ib_HandleUserActivity env type s)"
    "ib_inv (ib_HandlePolicyChange env policy s)"
  using assms ib_user_inv(1) [OF assms(1)] SetExplicit_inv [OF assms(1)]
  by (simp_all add: ib_HandleDisplayModeChange_def ib_HandleSessionStateChange_def ib_HandlePowerButtonPress_def
    ib_HandleUserActivity_def ib_HandlePolicyChange_def Let_def)

lemma ib_timers_inv:
  assumes "writes_ok (ibe_backlight env)" "ib_inv s"
  shows "ib_inv (ib_HandleChromeStart s)"
    "ib_inv (s\<lparr>ib_backlight := fire_transition (ibe_backlight env) (ib_backlight s)\<rparr>)"
    "ib_inv (s\<lparr>ib_display_power_setter := fire_display_power (ib_display_power_setter s)\<rparr>)"
proof -
  have ok: "ib_ok s" and dev: "ib_device_ok s" and sent: "ib_power_sent s" using assms(2) by (simp_all add: ib_inv_def ib_ok_def)
  have "ib_device_ok (s\<lparr>ib_backlight := fire_transition (ibe_backlight env) (ib_backlight s)\<rparr>)"
    "resume_level (fire_transition (ibe_backlight env) (ib_backlight s)) = resume_level (ib_backlight s)"
    using dev sysfs.tick [OF assms(1), of "ib_backlight s"] device_resume(3,4) [of "ib_backlight s" "ibe_backlight env"]
    by (simp_all add: ib_device_ok_def)
  then show "ib_inv (s\<lparr>ib_backlight := fire_transition (ibe_backlight env) (ib_backlight s)\<rparr>)"
    using assms(2) by (simp add: ib_inv_def ib_ok_def ib_brightness_shown_resume)
  have "ib_power_sent (s\<lparr>ib_display_power_setter := SetDisplayPower (ib_display_power_state s) 0 (ib_display_power_setter s)\<rparr>)"
    "ib_power_sent (s\<lparr>ib_display_power_setter := fire_display_power (ib_display_power_setter s)\<rparr>)"
    using sent by (simp_all add: ib_power_sent_def)
  then show "ib_inv (ib_HandleChromeStart s)"
    "ib_inv (s\<lparr>ib_display_power_setter := fire_display_power (ib_display_power_setter s)\<rparr>)"
    using assms(2) by (simp_all add: ib_inv_def ib_ok_def ib_HandleChromeStart_def)
qed

interpretation panel: guarded_machine ib_step ib_inv ib_legal
proof
  fix s and e :: "ib_env \<times> ib_event"
  assume "ib_inv s" "ib_legal e"
  then show "\<exists>t. ib_step s e = Some t \<and> ib_inv t"
    using ib_HandlePowerSourceChange_inv [of "fst e" s] ib_light_reading_inv [of "fst e" s]
    by (cases "(s, e)" rule: ib_step.cases)
      (simp_all add: ib_legal_def ib_conditions_inv ib_other_inv ib_user_inv ib_timers_inv)
qed

lemma ib_init_sensor_ok:
  assumes "ib_init_sensor env prefs have_sensor s = Some t" "ib_ambient_light_handler s = None"
  shows "\<exists>h u. t = s\<lparr>ib_ambient_light_handler := h, ib_use_ambient_light := u\<rparr> \<and> (h = None \<longrightarrow> \<not> u) \<and>
    (\<forall>x. h = Some x \<longrightarrow> alh_inv x)"
proof (cases have_sensor)
  case True
  with assms obtain h where "alh_inv h" "t = s\<lparr>ib_ambient_light_handler := Some h\<rparr>"
    by (auto simp: ib_init_sensor_def split: option.splits dest: alh_Init_inv)
  then show ?thesis by (intro exI [of _ "Some h"] exI [of _ "ib_use_ambient_light s"]) simp
next
  case False
  with assms show ?thesis by (intro exI [of _ None] exI [of _ False]) (auto simp: ib_init_sensor_def)
qed

lemma ib_init_steps_ok:
  assumes "ib_init_steps env prefs s = Some t"
  shows "ib_backlight t = ib_backlight s" "ib_current_level t = ib_current_level s"
    "ib_min_visible_level t = ib_min_visible_level s" "ib_max_level t = ib_max_level s"
    "ib_display_power_setter t = ib_display_power_setter s" "ib_display_power_state t = ib_display_power_state s"
    "ib_ambient_light_handler t = ib_ambient_light_handler s" "ib_use_ambient_light t = ib_use_ambient_light s"
    "ib_already_set_initial_state t = ib_already_set_initial_state s" "ib_got_power_source t = ib_got_power_source s"
    "0 < ib_level_to_percent_exponent t" "25 / 4 \<le> ib_dimmed_brightness_percent t"
    "ib_dimmed_brightness_percent t \<le> 100"
proof -
  have clamp: "25 / 4 \<le> ClampPercentToVisibleRange p" "ClampPercentToVisibleRange p \<le> 100" for p
    by (simp_all add: ClampPercentToVisibleRange_def)
  define st where "st = (if ib_max_level s = ib_min_visible_level s \<or> kMaxBrightnessSteps = 1 then 100
    else (100 - kMinVisiblePercent) / real_of_int (min (kMaxBrightnessSteps - 1) (ib_max_level s - ib_min_visible_level s)))"
  have "\<not> st \<le> 0" using assms unfolding ib_init_steps_def Let_def st_def [symmetric] by (auto split: if_splits)
  note t = assms [unfolded ib_init_steps_def Let_def st_def [symmetric] if_not_P [OF this] option.inject, symmetric]
  show "ib_backlight t = ib_backlight s" "ib_current_level t = ib_current_level s"
    "ib_min_visible_level t = ib_min_visible_level s" "ib_max_level t = ib_max_level s"
    "ib_display_power_setter t = ib_display_power_setter s" "ib_display_power_state t = ib_display_power_state s"
    "ib_ambient_light_handler t = ib_ambient_light_handler s" "ib_use_ambient_light t = ib_use_ambient_light s"
    "ib_already_set_initial_state t = ib_already_set_initial_state s" "ib_got_power_source t = ib_got_power_source s"
    "0 < ib_level_to_percent_exponent t" "25 / 4 \<le> ib_dimmed_brightness_percent t"
    "ib_dimmed_brightness_percent t \<le> 100"
    by (simp_all add: t clamp kDefaultLevelToPercentExponent_def del: divide_le_eq_numeral1 le_divide_eq_numeral1)
qed

lemma ib_Init_inv:
  assumes "ib_Init env prefs have_sensor (InternalBacklightController b) = Some s"
    and "sb_brightness_path b \<noteq> []" "sb_resume_ok b" "0 < sb_max_brightness_level b" "\<not> sb_transition_timer b"
  shows "ib_inv s"
proof -
  define s0 where "s0 = InternalBacklightController b"
  obtain ac battery s1 where "ib_init_sensor env prefs have_sensor
      ((ib_init_levels prefs s0)\<lparr>ib_ac_explicit_brightness_percent := ac,
        ib_battery_explicit_brightness_percent := battery,
        ib_instant_transitions_below_min_level := get_or (pref_bool prefs ''instant_transitions_below_min_level'')
          (ib_instant_transitions_below_min_level (ib_init_levels prefs s0))\<rparr>) = Some s1" (is "ib_init_sensor _ _ _ ?s = _")
    and steps: "ib_init_steps env prefs s1 = Some s"
    using assms(1) unfolding ib_Init_def s0_def Let_def by (auto split: option.splits)
  define s' where "s' = ?s"
  have sensor: "ib_init_sensor env prefs have_sensor s' = Some s1" unfolding s'_def by fact
  have "1 \<le> ib_min_visible_level s1 \<and> ib_min_visible_level s1 \<le> ib_max_level s1 \<and> ib_device_ok s1 \<and>
    ib_power_sent s1 \<and> (ib_ambient_light_handler s1 = None \<longrightarrow> \<not> ib_use_ambient_light s1) \<and>
    (\<forall>h. ib_ambient_light_handler s1 = Some h \<longrightarrow> alh_inv h) \<and> \<not> ib_already_set_initial_state s1 \<and>
    \<not> ib_got_power_source s1"
  proof -
    have "ib_ambient_light_handler s' = None"
      by (simp add: s'_def s0_def ib_init_levels_def InternalBacklightController_def Let_def)
    from ib_init_sensor_ok [OF sensor this] obtain h u where
      s1: "s1 = s'\<lparr>ib_ambient_light_handler := h, ib_use_ambient_light := u\<rparr>"
      and h: "h = None \<longrightarrow> \<not> u" "\<forall>x. h = Some x \<longrightarrow> alh_inv x" by blast
    show ?thesis using assms(2-5) h unfolding s1 s'_def s0_def
      by (simp add: ib_init_levels_def InternalBacklightController_def Let_def ib_device_ok_def
        ib_power_sent_def GetMaxBrightnessLevel_def GetCurrentBrightnessLevel_def sb_target_def requested_power_def
        DisplayPowerSetter_def sent_power_def)
  qed
  with ib_init_steps_ok [OF steps] show ?thesis
    by (simp add: ib_inv_def ib_ok_def ib_table_ok_def ib_levels_ok_def ib_device_ok_def ib_power_sent_def ib_started_def)
qed

section \<open>Properties\<close>

text \<open>
  C33. The two brightness scales of the panel are inverse to each other. Whatever state the
  controller is in after it was set up on a usable device, every level between 0 and the
  maximum is turned into a percentage between 0 and 100 and that percentage back into the
  same level, with the linear as with the square-root scale; a percentage lies below the
  minimum visible one exactly if its level lies below the minimum visible level; and a
  higher percentage never gives a lower level.
\<close>

theorem panel_levels_roundtrip:
  assumes "ib_Init env prefs have_sensor (InternalBacklightController b) = Some s"
    and "sb_brightness_path b \<noteq> []" "sb_resume_ok b" "0 < sb_max_brightness_level b" "\<not> sb_transition_timer b"
    and "list_all ib_legal es" "run_events ib_step s es = Some t"
  shows "(0 \<le> level \<and> level \<le> ib_max_level t \<longrightarrow>
      PercentToLevel t (LevelToPercent t level) = level \<and>
      0 \<le> LevelToPercent t level \<and> LevelToPercent t level \<le> 100 \<and>
      (LevelToPercent t level < kMinVisiblePercent \<longleftrightarrow> level < ib_min_visible_level t)) \<and>
    (0 \<le> p \<and> p \<le> q \<and> q \<le> 100 \<longrightarrow>
      0 \<le> PercentToLevel t p \<and> PercentToLevel t p \<le> PercentToLevel t q \<and> PercentToLevel t q \<le> ib_max_level t)"
proof -
  have "ib_inv t" using panel.legal_run [OF ib_Init_inv [OF assms(1-5)] assms(6)] assms(7) by auto
  then have ok: "ib_levels_ok t" by (simp add: ib_inv_def ib_ok_def ib_table_ok_def)
  show ?thesis
    using level_roundtrip [OF ok] LevelToPercent_range [OF ok] PercentToLevel_mono [OF ok]
      PercentToLevel_range [OF ok, of p] PercentToLevel_range [OF ok, of q] by auto
qed

text \<open>
  C34. The panel and the displays follow the state of the system. Take a controller that was
  set up on a usable device and any sequence of events, with the writes to sysfs succeeding.
  No \<^verbatim>\<open>CHECK\<close> fails. The level that the controller remembers is the one the device shows or is
  heading for, and the power state it remembers is the one the displays were last asked for
  (initially they are on). Without a sensor, the state is applied as soon as the power source
  is known. From then on: while the system shuts down, is suspended, docked or inactive for
  long, the level is 0, whatever the user, a policy or the sensor ask for; the displays are off
  when it shuts down or is inactive, and only the panel is off when it is docked. With none of
  these and the panel not forced off, the level is the one of the brightness asked for (at
  most the dimmed one while the screen is dimmed), and the panel's display is on exactly if
  the level is not 0. While suspended, the level to resume with is the one asked for last.
\<close>

theorem panel_follows_state:
  assumes "ib_Init env prefs have_sensor (InternalBacklightController b) = Some s"
    and "sb_brightness_path b \<noteq> []" "sb_resume_ok b" "0 < sb_max_brightness_level b" "\<not> sb_transition_timer b"
    and "list_all ib_legal es"
  shows "\<exists>t. run_events ib_step s es = Some t \<and> ib_current_level t = sb_target (ib_backlight t) \<and>
    (requested_power (ib_display_power_setter t) = Some (ib_display_power_state t) \<or>
     requested_power (ib_display_power_setter t) = None \<and> ib_display_power_state t = DISPLAY_POWER_ALL_ON) \<and>
    (ib_ambient_light_handler t = None \<and> ib_got_power_source t \<longrightarrow> ib_already_set_initial_state t) \<and>
    (ib_already_set_initial_state t \<longrightarrow>
      (ib_shutting_down t \<or> ib_suspended t \<or> ib_off_for_inactivity t \<or> ib_docked t \<longrightarrow> ib_current_level t = 0) \<and>
      (ib_shutting_down t \<or> ib_off_for_inactivity t \<and> \<not> ib_suspended t \<longrightarrow>
        ib_display_power_state t = DISPLAY_POWER_ALL_OFF) \<and>
      (ib_docked t \<and> \<not> (ib_shutting_down t \<or> ib_forced_off t \<or> ib_suspended t \<or> ib_off_for_inactivity t) \<longrightarrow>
        ib_display_power_state t = DISPLAY_POWER_INTERNAL_OFF_EXTERNAL_ON) \<and>
      (ib_lit t \<longrightarrow>
        ib_display_power_state t =
          (if ib_current_level t = 0 then DISPLAY_POWER_INTERNAL_OFF_EXTERNAL_ON else DISPLAY_POWER_ALL_ON) \<and>
        (if ib_dimmed_for_inactivity t
         then ib_current_level t \<le> PercentToLevel t (ib_dimmed_brightness_percent t)
         else ib_current_level t = PercentToLevel t (GetUndimmedBrightnessPercent t))) \<and>
      (ib_suspended t \<and> \<not> ib_shutting_down t \<and> \<not> ib_forced_off t \<longrightarrow>
        resume_level (ib_backlight t) = Some (PercentToLevel t (GetUndimmedBrightnessPercent t))))"
proof -
  from panel.legal_run [OF ib_Init_inv [OF assms(1-5)] assms(6)] obtain t where
    run: "run_events ib_step s es = Some t" and inv: "ib_inv t" by blast
  have "ib_current_level t = sb_target (ib_backlight t)" "ib_power_sent t" "ib_started t"
    using inv by (simp_all add: ib_inv_def ib_ok_def ib_device_ok_def)
  moreover have "ib_already_set_initial_state t \<Longrightarrow> ib_overrides t" "ib_already_set_initial_state t \<Longrightarrow> ib_brightness_shown t"
    using inv by (simp_all add: ib_inv_def)
  ultimately show ?thesis using run
    by (intro exI [of _ t]) (auto simp: ib_power_sent_def ib_started_def ib_overrides_def ib_brightness_shown_def)
qed


section \<open>An example\<close>

definition example_panel_device :: sysfs_backlight where
  "example_panel_device = InternalBacklight\<lparr>sb_brightness_path := ''brightness'',
     sb_resume_brightness_path := ''resume_brightness'', sb_max_brightness_level := 10,
     sb_current_brightness_level := 5\<rparr>"

definition example_ib_prefs :: prefs where
  "example_ib_prefs = \<lparr>pref_string = (\<lambda>_. Some ''60''), pref_int64 = (\<lambda>_. None), pref_bool = (\<lambda>_. None)\<rparr>"

definition example_ib_env :: ib_env where
  "example_ib_env = \<lparr>ibe_backlight = example_sb_env,
     ibe_now = 0,
     ibe_libs = \<lparr>al_SplitLines = (\<lambda>s. [s]), al_SplitSpaces = (\<lambda>s. [s]),
       al_StringToDouble = (\<lambda>_. Some 60), al_StringToInt = (\<lambda>_. None)\<rparr>,
     ibe_SplitWords = (\<lambda>s. [s]), ibe_StringToInt64 = (\<lambda>_. None)\<rparr>"

lemma example_panel_Init:
  "\<exists>s. ib_Init example_ib_env example_ib_prefs False (InternalBacklightController example_panel_device) = Some s \<and>
     ib_max_level s = 10 \<and> ib_ambient_light_handler s = None \<and> \<not> ib_got_power_source s \<and>
     \<not> ib_shutting_down s \<and> \<not> ib_forced_off s \<and> \<not> ib_suspended s \<and> \<not> ib_docked s \<and>
     \<not> ib_off_for_inactivity s \<and> \<not> ib_dimmed_for_inactivity s"
  by (simp add: ib_Init_def ib_init_levels_def ib_init_sensor_def ib_init_steps_def GetInitialBrightnessPercent_def
    example_ib_env_def example_ib_prefs_def example_panel_device_def InternalBacklight_def InternalBacklightController_def
    GetMaxBrightnessLevel_def GetCurrentBrightnessLevel_def kMaxBrightnessSteps_def
    kDefaultMinVisibleBrightnessFraction_def lround_def Let_def)

lemma example_panel_device_ok:
  "sb_brightness_path example_panel_device \<noteq> []" "sb_resume_ok example_panel_device"
  "0 < sb_max_brightness_level example_panel_device" "\<not> sb_transition_timer example_panel_device"
  "writes_ok (ibe_backlight example_ib_env)"
  by (simp_all add: example_panel_device_def InternalBacklight_def sb_resume_ok_def example_writes_ok example_ib_env_def)

lemma example_legal [simp]: "ib_legal (example_ib_env, e)"
  by (simp add: ib_legal_def example_panel_device_ok)

text \<open>The conditions that \<^verbatim>\<open>UpdateState()\<close> reads are not changed by it.\<close>

lemma ib_Apply_frame [simp]:
  "ib_shutting_down (snd (ib_ApplyBrightnessPercent env p tr c s)) = ib_shutting_down s"
  "ib_forced_off (snd (ib_ApplyBrightnessPercent env p tr c s)) = ib_forced_off s"
  "ib_suspended (snd (ib_ApplyBrightnessPercent env p tr c s)) = ib_suspended s"
  "ib_docked (snd (ib_ApplyBrightnessPercent env p tr c s)) = ib_docked s"
  "ib_off_for_inactivity (snd (ib_ApplyBrightnessPercent env p tr c s)) = ib_off_for_inactivity s"
  "ib_dimmed_for_inactivity (snd (ib_ApplyBrightnessPercent env p tr c s)) = ib_dimmed_for_inactivity s"
  "ib_got_power_source (snd (ib_ApplyBrightnessPercent env p tr c s)) = ib_got_power_source s"
  "ib_ambient_light_handler (snd (ib_ApplyBrightnessPercent env p tr c s)) = ib_ambient_light_handler s"
  by (simp_all add: ib_ApplyBrightnessPercent_def Let_def split: prod.splits bool.splits)

lemma ib_UpdateState_frame [simp]:
  "ib_shutting_down (ib_UpdateState env s) = ib_shutting_down s"
  "ib_forced_off (ib_UpdateState env s) = ib_forced_off s"
  "ib_suspended (ib_UpdateState env s) = ib_suspended s"
  "ib_docked (ib_UpdateState env s) = ib_docked s"
  "ib_off_for_inactivity (ib_UpdateState env s) = ib_off_for_inactivity s"
  "ib_dimmed_for_inactivity (ib_UpdateState env s) = ib_dimmed_for_inactivity s"
  "ib_got_power_source (ib_UpdateState env s) = ib_got_power_source s"
  "ib_ambient_light_handler (ib_UpdateState env s) = ib_ambient_light_handler s"
  by (simp_all add: ib_UpdateState_def apply_goal_def give_up_on_sensor_def ib_SetDisplayPower_def
    ApplyResumeBrightnessPercent_def Let_def split: option.splits prod.splits)

lemma balance_explicit_frame [simp]:
  "ib_shutting_down (balance_explicit src s) = ib_shutting_down s"
  "ib_forced_off (balance_explicit src s) = ib_forced_off s"
  "ib_suspended (balance_explicit src s) = ib_suspended s"
  "ib_docked (balance_explicit src s) = ib_docked s"
  "ib_off_for_inactivity (balance_explicit src s) = ib_off_for_inactivity s"
  "ib_dimmed_for_inactivity (balance_explicit src s) = ib_dimmed_for_inactivity s"
  "ib_ambient_light_handler (balance_explicit src s) = ib_ambient_light_handler s"
  by (simp_all add: balance_explicit_def)

theorem panel_levels_roundtrip_witness:
  "\<exists>s. ib_Init example_ib_env example_ib_prefs False (InternalBacklightController example_panel_device) = Some s \<and>
     PercentToLevel s (LevelToPercent s 7) = 7 \<and> PercentToLevel s 20 \<le> PercentToLevel s 30"
proof -
  obtain s where s: "ib_Init example_ib_env example_ib_prefs False (InternalBacklightController example_panel_device) = Some s"
    "ib_max_level s = 10" using example_panel_Init by blast
  show ?thesis
    using panel_levels_roundtrip [OF s(1) example_panel_device_ok(1-4), of "[]" s 7 20 30] s by simp
qed

theorem panel_follows_state_witness:
  "\<exists>s t. ib_Init example_ib_env example_ib_prefs False (InternalBacklightController example_panel_device) = Some s \<and>
     run_events ib_step s [(example_ib_env, IbPowerSource AC), (example_ib_env, IbShuttingDown True)] = Some t \<and>
     sb_target (ib_backlight t) = 0 \<and> requested_power (ib_display_power_setter t) = Some DISPLAY_POWER_ALL_OFF"
proof -
  let ?es = "[(example_ib_env, IbPowerSource AC), (example_ib_env, IbShuttingDown True)]"
  obtain s where s: "ib_Init example_ib_env example_ib_prefs False (InternalBacklightController example_panel_device) = Some s"
    "ib_ambient_light_handler s = None" "\<not> ib_got_power_source s" "\<not> ib_shutting_down s"
    using example_panel_Init by blast
  define t where "t = ib_SetShuttingDown example_ib_env True (ib_UpdateState example_ib_env
    ((balance_explicit AC s)\<lparr>ib_power_source := AC, ib_got_power_source := True\<rparr>))"
  have run: "run_events ib_step s ?es = Some t"
    using s(2,3) by (simp add: ib_HandlePowerSourceChange_def t_def Let_def)
  have flags: "ib_ambient_light_handler t = None" "ib_got_power_source t" "ib_shutting_down t"
    using s(2-4) by (simp_all add: t_def ib_SetShuttingDown_def)
  have legal: "list_all ib_legal ?es" by simp
  note follows = panel_follows_state [OF s(1) example_panel_device_ok(1-4) legal, unfolded run option.inject ex_simps simp_thms]
  have "sb_target (ib_backlight t) = 0" "requested_power (ib_display_power_setter t) = Some DISPLAY_POWER_ALL_OFF"
    using follows flags by auto
  with s(1) run show ?thesis by blast
qed


end
