(* ===== verification/Rolling_Average.thy ===== *)
theory Rolling_Average
  imports Powerd_Prelude
begin

text \<open>
  \<^verbatim>\<open>RollingAverage\<close> (\<^verbatim>\<open>src/power_manager/powerd/system/rolling_average.{h,cc}\<close>): the average of
  the most recent samples, with the sum kept up to date. The values are exact rationals.

  The loop of \<^verbatim>\<open>AddSample()\<close> removes samples until there is room for one more; with a window of
  size 0 it never ends. It is a \<^verbatim>\<open>partial_function\<close>, so that not returning is \<open>None\<close>.
\<close>

section \<open>Model\<close>

type_synonym sample = "rat \<times> TimeTicks"

record rolling_average =
  ra_samples :: "sample list"
  ra_running_total :: rat
  ra_window_size :: nat

definition RollingAverage :: "nat \<Rightarrow> rolling_average" where
  "RollingAverage window_size = \<lparr>ra_samples = [], ra_running_total = 0, ra_window_size = window_size\<rparr>"

definition DeleteSample :: "rolling_average \<Rightarrow> rolling_average" where
  "DeleteSample a =
     (case ra_samples a of
        [] \<Rightarrow> a
      | (v, t) # rest \<Rightarrow> a\<lparr>ra_running_total := ra_running_total a - v, ra_samples := rest\<rparr>)"

partial_function (option) make_room :: "rolling_average \<Rightarrow> rolling_average option" where
  "make_room a = (if length (ra_samples a) \<ge> ra_window_size a then make_room (DeleteSample a) else Some a)"

definition AddSample :: "rat \<Rightarrow> TimeTicks \<Rightarrow> rolling_average \<Rightarrow> rolling_average option" where
  "AddSample v t a =
     map_option (\<lambda>b. b\<lparr>ra_running_total := ra_running_total b + v, ra_samples := ra_samples b @ [(v, t)]\<rparr>)
       (make_room a)"

definition GetAverage :: "rolling_average \<Rightarrow> rat" where
  "GetAverage a = (if ra_samples a = [] then 0 else ra_running_total a / of_nat (length (ra_samples a)))"

definition GetTimeDelta :: "rolling_average \<Rightarrow> TimeDelta" where
  "GetTimeDelta a =
     (if length (ra_samples a) \<ge> 2 then snd (last (ra_samples a)) - snd (hd (ra_samples a)) else 0)"

definition GetValueDelta :: "rolling_average \<Rightarrow> rat" where
  "GetValueDelta a =
     (if length (ra_samples a) \<ge> 2 then fst (last (ra_samples a)) - fst (hd (ra_samples a)) else 0)"

definition ra_Clear :: "rolling_average \<Rightarrow> rolling_average" where
  "ra_Clear a = a\<lparr>ra_running_total := 0, ra_samples := []\<rparr>"

section \<open>The running total\<close>

definition ra_inv :: "rolling_average \<Rightarrow> bool" where
  "ra_inv a \<longleftrightarrow> 0 < ra_window_size a \<and> length (ra_samples a) \<le> ra_window_size a \<and>
     ra_running_total a = sum_list (map fst (ra_samples a))"

lemma RollingAverage_inv: "0 < n \<Longrightarrow> ra_inv (RollingAverage n)"
  by (simp add: RollingAverage_def ra_inv_def)

lemma ra_Clear_inv [simp]: "ra_inv a \<Longrightarrow> ra_inv (ra_Clear a)"
  by (simp add: ra_Clear_def ra_inv_def)

lemma make_room_full:
  assumes "ra_inv a"
  shows "make_room a = Some (if length (ra_samples a) = ra_window_size a then DeleteSample a else a)"
proof (cases "length (ra_samples a) = ra_window_size a")
  case True
  then obtain v t rest where "ra_samples a = (v, t) # rest"
    using assms by (cases "ra_samples a") (auto simp: ra_inv_def)
  then have "make_room (DeleteSample a) = Some (DeleteSample a)"
    using True by (subst make_room.simps) (auto simp: DeleteSample_def)
  with True show ?thesis by (subst make_room.simps) simp
next
  case False
  with assms show ?thesis by (subst make_room.simps) (simp add: ra_inv_def)
qed

text \<open>The last \<open>n\<close> elements of a list.\<close>

definition lastn :: "nat \<Rightarrow> 'a list \<Rightarrow> 'a list" where
  "lastn n xs = drop (length xs - n) xs"

lemma AddSample_inv:
  assumes "ra_inv a"
  shows "\<exists>b. AddSample v t a = Some b \<and> ra_inv b \<and> ra_window_size b = ra_window_size a \<and>
    ra_samples b = lastn (ra_window_size a) (ra_samples a @ [(v, t)])"
proof (cases "ra_samples a")
  case Nil
  with assms show ?thesis
    by (auto simp: AddSample_def make_room_full lastn_def ra_inv_def)
next
  case (Cons s rest)
  obtain u w where "s = (u, w)" by (cases s)
  with Cons assms show ?thesis
    by (auto simp: AddSample_def make_room_full lastn_def ra_inv_def DeleteSample_def Suc_diff_le)
qed

text \<open>A sequence of samples, as the callers add them.\<close>

fun add_samples :: "sample list \<Rightarrow> rolling_average \<Rightarrow> rolling_average option" where
  "add_samples [] a = Some a"
| "add_samples ((v, t) # ss) a = (case AddSample v t a of None \<Rightarrow> None | Some b \<Rightarrow> add_samples ss b)"

lemma lastn_lastn_append: "lastn n (lastn n xs @ ys) = lastn n (xs @ ys)"
  by (cases "length xs \<le> n") (simp_all add: lastn_def add.commute)

lemma add_samples_correct:
  "ra_inv a \<Longrightarrow> \<exists>b. add_samples ss a = Some b \<and> ra_inv b \<and>
     ra_samples b = lastn (ra_window_size a) (ra_samples a @ ss)"
proof (induction ss arbitrary: a)
  case Nil
  then show ?case by (simp add: lastn_def ra_inv_def)
next
  case (Cons s ss)
  obtain v t where s: "s = (v, t)" by (cases s)
  obtain b where b: "AddSample v t a = Some b" "ra_inv b" "ra_window_size b = ra_window_size a"
    "ra_samples b = lastn (ra_window_size a) (ra_samples a @ [(v, t)])"
    using AddSample_inv [OF Cons.prems] by blast
  with Cons.IH [OF b(2)] show ?case by (simp add: s lastn_lastn_append)
qed

lemma DeleteSample_window [simp]: "ra_window_size (DeleteSample a) = ra_window_size a"
  by (simp add: DeleteSample_def split: list.splits)

lemma make_room_returns: "make_room a = Some b \<Longrightarrow> 0 < ra_window_size a"
  by (erule make_room.raw_induct [rotated]) (force split: if_splits)

text \<open>
  C38. A rolling average is the average of the most recent samples. With a window of \<open>n > 0\<close>
  every sequence of samples is accepted (the loop that makes room ends), the \<open>n\<close> most recent
  samples are kept, and the average, which the code computes from a total that it updates
  incrementally, is the sum of the values kept divided by their number (0 without samples); the
  two deltas are the differences between the newest and the oldest sample kept. With a window
  of size 0 \<^verbatim>\<open>AddSample()\<close> never returns.
\<close>

theorem rolling_average_correct:
  assumes "ss \<noteq> []"
  shows "(0 < n \<longrightarrow> (\<exists>a. add_samples ss (RollingAverage n) = Some a \<and> ra_samples a = lastn n ss \<and>
      GetAverage a = sum_list (map fst (lastn n ss)) / of_nat (min n (length ss)) \<and>
      GetTimeDelta a = snd (last ss) - snd (hd (lastn n ss)) \<and>
      GetValueDelta a = fst (last ss) - fst (hd (lastn n ss)))) \<and>
    add_samples ss (RollingAverage 0) = None"
proof
  have kept: "length (lastn n ss) = min n (length ss)" by (simp add: lastn_def)
  have newest: "last (lastn n ss) = last ss" if "0 < n" using assms that by (simp add: lastn_def)
  have one: "hd (lastn n ss) = last ss" if "0 < n" "\<not> 2 \<le> min n (length ss)"
  proof -
    have "length (lastn n ss) = 1" using that assms unfolding kept by (cases "length ss") auto
    then obtain x where "lastn n ss = [x]" by (auto simp: length_Suc_conv)
    with newest [OF that(1)] show ?thesis by simp
  qed
  show "0 < n \<longrightarrow> (\<exists>a. add_samples ss (RollingAverage n) = Some a \<and> ra_samples a = lastn n ss \<and>
      GetAverage a = sum_list (map fst (lastn n ss)) / of_nat (min n (length ss)) \<and>
      GetTimeDelta a = snd (last ss) - snd (hd (lastn n ss)) \<and>
      GetValueDelta a = fst (last ss) - fst (hd (lastn n ss)))"
  proof
    assume n: "0 < n"
    from add_samples_correct [OF RollingAverage_inv [OF n], of ss] obtain a where
      a: "add_samples ss (RollingAverage n) = Some a" "ra_inv a" "ra_samples a = lastn n ss"
      by (auto simp: RollingAverage_def)
    have "lastn n ss \<noteq> []" using n assms by (cases ss) (auto simp: lastn_def)
    then show "\<exists>a. add_samples ss (RollingAverage n) = Some a \<and> ra_samples a = lastn n ss \<and>
      GetAverage a = sum_list (map fst (lastn n ss)) / of_nat (min n (length ss)) \<and>
      GetTimeDelta a = snd (last ss) - snd (hd (lastn n ss)) \<and>
      GetValueDelta a = fst (last ss) - fst (hd (lastn n ss))"
      using a n newest [OF n] one [OF n]
      by (intro exI [of _ a]) (auto simp: GetAverage_def GetTimeDelta_def GetValueDelta_def kept ra_inv_def)
  qed
  have "AddSample v t (RollingAverage 0) = None" for v t
    using make_room_returns [of "RollingAverage 0"] by (cases "make_room (RollingAverage 0)")
      (auto simp: AddSample_def RollingAverage_def)
  then show "add_samples ss (RollingAverage 0) = None" using assms by (cases ss) (auto simp: split_beta)
qed

theorem rolling_average_correct_witness:
  "\<exists>a. add_samples [(1, 10), (2, 20), (6, 50)] (RollingAverage 2) = Some a \<and> GetAverage a = 4 \<and>
     GetTimeDelta a = 30 \<and> GetValueDelta a = 4 \<and> add_samples [(1, 10)] (RollingAverage 0) = None"
  using rolling_average_correct [of "[(1, 10), (2, 20), (6, 50)]" 2] rolling_average_correct [of "[(1, 10)]" 0]
  by (auto simp: lastn_def)

end
