(* ===== verification/Power_Supply.thy ===== *)
theory Power_Supply
  imports Backlight_Common Rolling_Average "HOL-Library.Char_ord" "HOL-Library.List_Lexorder"
    "HOL-Library.Monad_Syntax"
begin

text \<open>
  \<^verbatim>\<open>PowerSupply\<close> (\<^verbatim>\<open>src/power_manager/powerd/system/power_supply.{h,cc}\<close>): reads line power and
  battery from sysfs, keeps running averages, estimates times and decides whether the battery
  is too low.

  \<open>ps_env\<close> is what one update sees of the outside: the directories and files of sysfs, the
  parsers of libchrome and the clock (read once per event). Doubles are exact rationals. A
  division by zero, where the code goes on with an infinity or a NaN, a failed \<^verbatim>\<open>CHECK\<close>,
  \<^verbatim>\<open>LOG(FATAL)\<close> and a loop that does not end are \<open>None\<close>. The calls of the observers are the
  trace \<open>ps_notified\<close>, the writes to sysfs the trace \<open>ps_writes\<close>.
\<close>

section \<open>Status\<close>

datatype ExternalPower = EXTERNAL_AC | EXTERNAL_USB | EXTERNAL_DISCONNECTED

datatype BatteryState = BATTERY_FULL | BATTERY_CHARGING | BATTERY_DISCHARGING | BATTERY_NOT_PRESENT

datatype Connection = CONNECTION_NONE | DEDICATED_SOURCE | DUAL_ROLE

datatype PortLocation = PORT_UNKNOWN | PORT_LEFT | PORT_RIGHT | PORT_BACK | PORT_FRONT | PORT_LEFT_FRONT
  | PORT_LEFT_BACK | PORT_RIGHT_FRONT | PORT_RIGHT_BACK | PORT_BACK_LEFT | PORT_BACK_RIGHT

record port =
  port_id :: string
  port_location :: PortLocation
  port_connection :: Connection
  port_manufacturer_id :: string
  port_model_id :: string
  port_max_power :: rat
  port_active_by_default :: bool

record power_status =
  line_power_on :: bool
  line_power_type :: string
  line_power_voltage :: rat
  line_power_max_voltage :: rat
  line_power_current :: rat
  line_power_max_current :: rat
  battery_energy :: rat
  battery_energy_rate :: rat
  battery_voltage :: rat
  battery_current :: rat
  battery_charge :: rat
  battery_charge_full :: rat
  battery_charge_full_design :: rat
  observed_battery_charge_rate :: rat
  nominal_voltage :: rat
  is_calculating_battery_time :: bool
  battery_time_to_empty :: TimeDelta
  battery_time_to_full :: TimeDelta
  battery_time_to_shutdown :: TimeDelta
  battery_percentage :: rat
  display_battery_percentage :: rat
  battery_is_present :: bool
  battery_below_shutdown_threshold :: bool
  external_power :: ExternalPower
  battery_state :: BatteryState
  external_power_source_id :: string
  status_ports :: "port list"
  supports_dual_role_devices :: bool
  line_power_path :: string
  battery_path :: string
  battery_vendor :: string
  battery_model_name :: string
  battery_serial :: string
  battery_technology :: string

definition Port :: port where
  "Port = \<lparr>port_id = [], port_location = PORT_UNKNOWN, port_connection = CONNECTION_NONE,
     port_manufacturer_id = [], port_model_id = [], port_max_power = 0, port_active_by_default = False\<rparr>"

definition PowerStatus :: power_status where
  "PowerStatus = \<lparr>line_power_on = False, line_power_type = [], line_power_voltage = 0,
     line_power_max_voltage = 0, line_power_current = 0, line_power_max_current = 0,
     battery_energy = 0, battery_energy_rate = 0, battery_voltage = 0, battery_current = 0,
     battery_charge = 0, battery_charge_full = 0, battery_charge_full_design = 0,
     observed_battery_charge_rate = 0, nominal_voltage = 0, is_calculating_battery_time = False,
     battery_time_to_empty = 0, battery_time_to_full = 0, battery_time_to_shutdown = 0,
     battery_percentage = -1, display_battery_percentage = -1, battery_is_present = False,
     battery_below_shutdown_threshold = False, external_power = EXTERNAL_DISCONNECTED,
     battery_state = BATTERY_NOT_PRESENT, external_power_source_id = [], status_ports = [],
     supports_dual_role_devices = False, line_power_path = [], battery_path = [],
     battery_vendor = [], battery_model_name = [], battery_serial = [], battery_technology = []\<rparr>"

definition port_eq :: "port \<Rightarrow> port \<Rightarrow> bool" where
  "port_eq a b \<longleftrightarrow> port_id a = port_id b \<and> port_connection a = port_connection b \<and>
     port_manufacturer_id a = port_manufacturer_id b \<and> port_model_id a = port_model_id b \<and>
     port_active_by_default a = port_active_by_default b"

definition PortHasSourceOrDualRole :: "port \<Rightarrow> bool" where
  "PortHasSourceOrDualRole p \<longleftrightarrow> port_connection p = DEDICATED_SOURCE \<or> port_connection p = DUAL_ROLE"

text \<open>The two inner loops walk to the next port with a source.\<close>

fun next_source :: "port list \<Rightarrow> port list" where
  "next_source [] = []"
| "next_source (p # ps) = (if PortHasSourceOrDualRole p then p # ps else next_source ps)"

lemma length_next_source: "length (next_source ps) \<le> length ps"
  by (induction ps) auto

lemma next_source_Cons: "next_source ps = q # qs \<Longrightarrow> length qs < length ps"
  using length_next_source [of ps] by simp

function connected_sources_equal :: "port list \<Rightarrow> port list \<Rightarrow> bool" where
  "connected_sources_equal as bs =
     (case (next_source as, next_source bs) of
        ([], []) \<Rightarrow> True
      | (a # as', b # bs') \<Rightarrow> port_eq a b \<and> connected_sources_equal as' bs'
      | _ \<Rightarrow> False)"
  by auto
termination
  by (relation "measure (\<lambda>(as, bs). length as)") (auto dest: next_source_Cons next_source_Cons [OF sym])

definition ConnectedSourcesAreEqual :: "power_status \<Rightarrow> power_status \<Rightarrow> bool" where
  "ConnectedSourcesAreEqual a b = connected_sources_equal (status_ports a) (status_ports b)"

section \<open>State\<close>

record ps_env =
  pse_directories :: "string \<Rightarrow> string list"
  pse_ReadFileToString :: "string \<Rightarrow> string option"
  pse_PathExists :: "string \<Rightarrow> bool"
  pse_DirectoryExists :: "string \<Rightarrow> bool"
  pse_WriteFileFully :: "string \<Rightarrow> string \<Rightarrow> bool"
  pse_Append :: "string \<Rightarrow> string \<Rightarrow> string"
  pse_BaseName :: "string \<Rightarrow> string"
  pse_TrimTrailing :: "string \<Rightarrow> string"
  pse_StringToInt64 :: "string \<Rightarrow> int option"
  pse_SplitPairs :: "string \<Rightarrow> (string \<times> string) list option"
  pse_now :: TimeTicks

record power_supply =
  ps_power_status :: power_status
  ps_power_status_initialized :: bool
  ps_power_supply_path :: string
  ps_low_battery_shutdown_time :: TimeDelta
  ps_low_battery_shutdown_percent :: rat
  ps_usb_min_ac_watts :: rat
  ps_is_suspended :: bool
  ps_after_startup_delay :: TimeDelta
  ps_after_line_power_connected_delay :: TimeDelta
  ps_after_line_power_disconnected_delay :: TimeDelta
  ps_after_resume_delay :: TimeDelta
  ps_battery_stabilized_timestamp :: TimeTicks
  ps_current_samples_on_line_power :: rolling_average
  ps_current_samples_on_battery_power :: rolling_average
  ps_charge_samples :: rolling_average
  ps_full_factor :: rat
  ps_poll_delay :: TimeDelta
  ps_poll_timer :: OneShotTimer
  ps_notify_observers_task :: bool
  ps_port_names :: "(string \<times> PortLocation) list"
  ps_notified :: "power_status list"
  ps_writes :: "(string \<times> string) list"

datatype ps_update_policy = UNCONDITIONALLY | ONLY_IF_STATE_CHANGED

datatype NotifyPolicy = SYNCHRONOUSLY | ASYNCHRONOUSLY

definition kDefaultPollMs :: int where
  "kDefaultPollMs = 30000"

definition kDefaultBatteryStabilizedDelayMs :: int where
  "kDefaultBatteryStabilizedDelayMs = 5000"

definition kBatteryStabilizedSlackMs :: int where
  "kBatteryStabilizedSlackMs = 50"

definition kLowBatteryShutdownSafetyPercent :: rat where
  "kLowBatteryShutdownSafetyPercent = 5"

text \<open>The averages are created by \<^verbatim>\<open>Init()\<close>; before that the pointers are null.\<close>

definition PowerSupply :: power_supply where
  "PowerSupply = \<lparr>ps_power_status = PowerStatus, ps_power_status_initialized = False,
     ps_power_supply_path = [], ps_low_battery_shutdown_time = 0, ps_low_battery_shutdown_percent = 0,
     ps_usb_min_ac_watts = 0, ps_is_suspended = False, ps_after_startup_delay = 0,
     ps_after_line_power_connected_delay = 0, ps_after_line_power_disconnected_delay = 0,
     ps_after_resume_delay = 0, ps_battery_stabilized_timestamp = 0,
     ps_current_samples_on_line_power = RollingAverage 0,
     ps_current_samples_on_battery_power = RollingAverage 0, ps_charge_samples = RollingAverage 0,
     ps_full_factor = 1, ps_poll_delay = 0, ps_poll_timer = None, ps_notify_observers_task = False,
     ps_port_names = [], ps_notified = [], ps_writes = []\<rparr>"

section \<open>Files\<close>

definition ReadAndTrimString :: "ps_env \<Rightarrow> string \<Rightarrow> string \<Rightarrow> string option" where
  "ReadAndTrimString env directory filename =
     map_option (pse_TrimTrailing env) (pse_ReadFileToString env (pse_Append env directory filename))"

text \<open>The value of a string that starts out empty and is passed to \<^verbatim>\<open>ReadAndTrimString()\<close>.\<close>

definition read_or_empty :: "ps_env \<Rightarrow> string \<Rightarrow> string \<Rightarrow> string" where
  "read_or_empty env directory filename = get_or (ReadAndTrimString env directory filename) []"

definition ReadInt64 :: "ps_env \<Rightarrow> string \<Rightarrow> string \<Rightarrow> int option" where
  "ReadInt64 env directory filename =
     Option.bind (ReadAndTrimString env directory filename) (pse_StringToInt64 env)"

definition ReadScaledDouble :: "ps_env \<Rightarrow> string \<Rightarrow> string \<Rightarrow> rat" where
  "ReadScaledDouble env directory filename =
     (case ReadInt64 env directory filename of None \<Rightarrow> 0 | Some v \<Rightarrow> of_int v / 1000000)"

definition has_file :: "ps_env \<Rightarrow> string \<Rightarrow> string \<Rightarrow> bool" where
  "has_file env directory filename = pse_PathExists env (pse_Append env directory filename)"

definition IsLowPowerUsbChargerType :: "string \<Rightarrow> bool" where
  "IsLowPowerUsbChargerType type \<longleftrightarrow>
     type = ''USB'' \<or> type = ''USB_DCP'' \<or> type = ''USB_CDP'' \<or> type = ''USB_ACA''"

definition IsDualRoleType :: "string \<Rightarrow> bool" where
  "IsDualRoleType type \<longleftrightarrow> type = ''USB_PD_DRP''"

definition IsExternalPeripheral :: "ps_env \<Rightarrow> string \<Rightarrow> bool" where
  "IsExternalPeripheral env path \<longleftrightarrow> ReadAndTrimString env path ''scope'' = Some ''Device''"

definition IsBatteryPresent :: "ps_env \<Rightarrow> string \<Rightarrow> bool" where
  "IsBatteryPresent env path =
     (case ReadInt64 env path ''present'' of None \<Rightarrow> False | Some present \<Rightarrow> present \<noteq> 0)"

definition GetPortLocationFromString :: "string \<Rightarrow> PortLocation" where
  "GetPortLocationFromString name =
     (if name = ''LEFT'' then PORT_LEFT
      else if name = ''RIGHT'' then PORT_RIGHT
      else if name = ''BACK'' then PORT_BACK
      else if name = ''FRONT'' then PORT_FRONT
      else if name = ''LEFT_FRONT'' then PORT_LEFT_FRONT
      else if name = ''LEFT_BACK'' then PORT_LEFT_BACK
      else if name = ''RIGHT_FRONT'' then PORT_RIGHT_FRONT
      else if name = ''RIGHT_BACK'' then PORT_RIGHT_BACK
      else if name = ''BACK_LEFT'' then PORT_BACK_LEFT
      else if name = ''BACK_RIGHT'' then PORT_BACK_RIGHT
      else PORT_UNKNOWN)"

section \<open>Line power\<close>

text \<open>
  The port that a line power directory describes, and whether it goes on to be considered as
  the active source.
\<close>

definition read_port :: "ps_env \<Rightarrow> string \<Rightarrow> power_supply \<Rightarrow> port" where
  "read_port env path s =
     (let dual_role_port = read_or_empty env path ''status'' \<noteq> [];
          type = read_or_empty env path ''type'';
          dual_role_connected = IsDualRoleType type;
          online = get_or (ReadInt64 env path ''online'') 0;
          port = Port\<lparr>port_id := pse_BaseName env path,
                      port_location := get_or (map_of (ps_port_names s) (pse_BaseName env path)) PORT_UNKNOWN\<rparr>
      in if type = ''Unknown'' \<or> (online = 0 \<and> \<not> dual_role_connected) then port
         else port\<lparr>port_connection := (if dual_role_connected then DUAL_ROLE else DEDICATED_SOURCE),
                   port_active_by_default := \<not> dual_role_port \<or> \<not> dual_role_connected,
                   port_manufacturer_id := read_or_empty env path ''manufacturer'',
                   port_model_id := read_or_empty env path ''model_name'',
                   port_max_power := ReadScaledDouble env path ''voltage_max_design'' *
                     ReadScaledDouble env path ''current_max''\<rparr>)"

definition ReadLinePowerDirectory ::
  "ps_env \<Rightarrow> power_supply \<Rightarrow> string \<Rightarrow> power_status \<Rightarrow> power_status" where
  "ReadLinePowerDirectory env s path status0 =
     (let port = read_port env path s;
          line_status = read_or_empty env path ''status'';
          type = read_or_empty env path ''type'';
          dual_role_port = line_status \<noteq> [];
          status = status0\<lparr>status_ports := status_ports status0 @ [port],
            supports_dual_role_devices := supports_dual_role_devices status0 \<or> dual_role_port\<rparr>
      in if port_connection port = CONNECTION_NONE then status
         else if dual_role_port \<and> line_status \<noteq> ''Charging'' then status
         else if line_power_path status \<noteq> [] then status
         else status\<lparr>line_power_on := True, line_power_path := path, line_power_type := type,
                line_power_voltage := ReadScaledDouble env path ''voltage_now'',
                line_power_max_voltage := ReadScaledDouble env path ''voltage_max_design'',
                line_power_current := ReadScaledDouble env path ''current_now'',
                line_power_max_current := ReadScaledDouble env path ''current_max'',
                external_power :=
                  (if \<not> dual_role_port \<and> IsLowPowerUsbChargerType type then EXTERNAL_USB
                   else if dual_role_port \<and> port_max_power port > 0 \<and>
                           port_max_power port < ps_usb_min_ac_watts s
                   then EXTERNAL_USB else EXTERNAL_AC),
                external_power_source_id := port_id port\<rparr>)"

section \<open>Battery\<close>

definition nominal_voltage_read :: "ps_env \<Rightarrow> string \<Rightarrow> rat" where
  "nominal_voltage_read env path =
     (if has_file env path ''voltage_min_design'' then ReadScaledDouble env path ''voltage_min_design''
      else if has_file env path ''voltage_max_design'' then ReadScaledDouble env path ''voltage_max_design''
      else ReadScaledDouble env path ''voltage_now'')"

text \<open>\<open>None\<close>: neither the nominal nor the instantaneous voltage is usable.\<close>

definition nominal_voltage_used :: "ps_env \<Rightarrow> string \<Rightarrow> rat option" where
  "nominal_voltage_used env path =
     (let voltage = ReadScaledDouble env path ''voltage_now''; nominal = nominal_voltage_read env path in
      if nominal \<le> 0 then (if voltage \<le> 0 then None else Some voltage) else Some nominal)"

text \<open>Charge when full, designed charge when full, charge and energy; \<open>None\<close>: no such files.\<close>

definition read_charges :: "ps_env \<Rightarrow> string \<Rightarrow> rat \<Rightarrow> (rat \<times> rat \<times> rat \<times> rat) option" where
  "read_charges env path nominal =
     (let energy = (if has_file env path ''energy_now'' then ReadScaledDouble env path ''energy_now'' else 0) in
      if has_file env path ''charge_full''
      then let charge = ReadScaledDouble env path ''charge_now'' in
           Some (ReadScaledDouble env path ''charge_full'', ReadScaledDouble env path ''charge_full_design'',
             charge, if energy \<le> 0 then charge * nominal else energy)
      else if has_file env path ''energy_full''
      then Some (ReadScaledDouble env path ''energy_full'' / nominal,
             ReadScaledDouble env path ''energy_full_design'' / nominal, energy / nominal, energy)
      else None)"

text \<open>The current; \<open>None\<close> is a division by an instantaneous voltage of zero.\<close>

definition read_current :: "ps_env \<Rightarrow> string \<Rightarrow> rat option" where
  "read_current env path =
     (let voltage = ReadScaledDouble env path ''voltage_now'' in
      if has_file env path ''power_now''
      then (if voltage = 0 then None else Some (\<bar>ReadScaledDouble env path ''power_now''\<bar> / voltage))
      else Some \<bar>ReadScaledDouble env path ''current_now''\<bar>)"

definition battery_state_for :: "power_supply \<Rightarrow> bool \<Rightarrow> string \<Rightarrow> rat \<Rightarrow> rat \<Rightarrow> rat \<Rightarrow> BatteryState" where
  "battery_state_for s on_line_power status_value charge charge_full current =
     (if on_line_power
      then (if charge \<ge> charge_full * ps_full_factor s then BATTERY_FULL
            else if current > 0 \<and> (status_value = ''Charging'' \<or> status_value = ''Full'')
            then BATTERY_CHARGING else BATTERY_DISCHARGING)
      else BATTERY_DISCHARGING)"

text \<open>The fields that an accepted reading fills in.\<close>

definition battery_readings ::
  "ps_env \<Rightarrow> power_supply \<Rightarrow> string \<Rightarrow> rat \<Rightarrow> rat \<times> rat \<times> rat \<times> rat \<Rightarrow> rat \<Rightarrow> power_status \<Rightarrow> power_status" where
  "battery_readings env s path nominal = (\<lambda>(charge_full, charge_full_design, charge, energy) current status.
     let percentage = ClampPercent (100 * charge / charge_full) in
     status\<lparr>
       battery_vendor := read_or_empty env path
         (if has_file env path ''manufacturer'' then ''manufacturer'' else ''vendor''),
       battery_model_name := read_or_empty env path ''model_name'',
       battery_serial := read_or_empty env path ''serial_number'',
       battery_technology := read_or_empty env path ''technology'',
       battery_voltage := ReadScaledDouble env path ''voltage_now'',
       nominal_voltage := nominal,
       battery_charge_full := charge_full, battery_charge_full_design := charge_full_design,
       battery_charge := charge, battery_energy := energy,
       battery_current := current,
       battery_energy_rate := current * ReadScaledDouble env path ''voltage_now'',
       battery_percentage := percentage,
       display_battery_percentage := ClampPercent (100 * (percentage - ps_low_battery_shutdown_percent s) /
         (100 * ps_full_factor s - ps_low_battery_shutdown_percent s)),
       battery_state := battery_state_for s (line_power_on status)
         (read_or_empty env path ''status'') charge charge_full current\<rparr>)"

text \<open>
  The result is whether the reading is accepted, and the new status, which the caller drops
  if it is not.
\<close>

definition ReadBatteryDirectory ::
  "ps_env \<Rightarrow> power_supply \<Rightarrow> string \<Rightarrow> power_status \<Rightarrow> (bool \<times> power_status) option" where
  "ReadBatteryDirectory env s path status0 =
     (let status = status0\<lparr>battery_path := path, battery_is_present := IsBatteryPresent env path\<rparr> in
      if \<not> IsBatteryPresent env path then Some (True, status)
      else case nominal_voltage_used env path of
        None \<Rightarrow> Some (False, status)
      | Some nominal \<Rightarrow>
      (case read_charges env path nominal of
        None \<Rightarrow> Some (False, status)
      | Some (charge_full, charge_full_design, charge, energy) \<Rightarrow>
          if charge = 0 \<and> nominal_voltage_read env path = 0 then Some (False, status)
          else if charge_full \<le> 0 then Some (False, status)
          else if 100 * ps_full_factor s - ps_low_battery_shutdown_percent s = 0 then None
          else map_option (\<lambda>current. (True, battery_readings env s path nominal
                 (charge_full, charge_full_design, charge, energy) current status)) (read_current env path)))"

section \<open>Estimates\<close>

definition signed_current_average :: "power_supply \<Rightarrow> power_status \<Rightarrow> rat" where
  "signed_current_average s status =
     (if line_power_on status then GetAverage (ps_current_samples_on_line_power s)
      else GetAverage (ps_current_samples_on_battery_power s))"

text \<open>\<^verbatim>\<open>roundl()\<close> of a number of seconds; \<open>None\<close> is a division by zero.\<close>

definition seconds_for :: "rat \<Rightarrow> rat \<Rightarrow> TimeDelta option" where
  "seconds_for amount rate = (if rate = 0 then None else Some (FromSeconds (lround (3600 * amount / rate))))"

text \<open>The times to full, to empty and to shutdown, while the battery is stable.\<close>

definition battery_times :: "power_supply \<Rightarrow> power_status \<Rightarrow> (TimeDelta \<times> TimeDelta \<times> TimeDelta) option" where
  "battery_times s status =
     (let signed_current = signed_current_average s status in
      case battery_state status of
        BATTERY_CHARGING \<Rightarrow>
          if signed_current \<le> kEpsilon then Some (FromSeconds (-1), 0, 0)
          else do {
            time_to_full \<leftarrow> seconds_for
              (max 0 (battery_charge_full status * ps_full_factor s - battery_charge status)) signed_current;
            Some (time_to_full, 0, 0)
          }
      | BATTERY_DISCHARGING \<Rightarrow>
          if signed_current \<ge> - kEpsilon then Some (0, FromSeconds (-1), FromSeconds (-1))
          else do {
            let rate = - signed_current * battery_voltage status;
            let shutdown_charge = battery_charge_full status * ps_low_battery_shutdown_percent s / 100;
            let available_charge = max 0 (battery_charge status - shutdown_charge);
            time_to_empty \<leftarrow> seconds_for (battery_charge status * nominal_voltage status) rate;
            time_to_shutdown \<leftarrow> seconds_for (available_charge * nominal_voltage status) rate;
            Some (0, time_to_empty, max 0 (time_to_shutdown - ps_low_battery_shutdown_time s))
          }
      | _ \<Rightarrow> Some (0, 0, 0))"

definition UpdateBatteryTimeEstimates ::
  "ps_env \<Rightarrow> power_supply \<Rightarrow> power_status \<Rightarrow> (bool \<times> power_status) option" where
  "UpdateBatteryTimeEstimates env s status =
     (if pse_now env < ps_battery_stabilized_timestamp s
      then Some (False, status\<lparr>battery_time_to_full := 0, battery_time_to_empty := 0, battery_time_to_shutdown := 0\<rparr>)
      else map_option (\<lambda>(full, empty, shutdown). (True, status\<lparr>battery_time_to_full := full,
             battery_time_to_empty := empty, battery_time_to_shutdown := shutdown\<rparr>)) (battery_times s status))"

definition UpdateObservedBatteryChargeRate :: "power_supply \<Rightarrow> power_status \<Rightarrow> power_status" where
  "UpdateObservedBatteryChargeRate s status =
     (let time_delta = GetTimeDelta (ps_charge_samples s) in
      status\<lparr>observed_battery_charge_rate :=
        (if InMilliseconds time_delta < kDefaultPollMs then 0
         else GetValueDelta (ps_charge_samples s) / (of_int time_delta / 1000000 / 3600))\<rparr>)"

definition below_threshold :: "power_supply \<Rightarrow> power_status \<Rightarrow> bool" where
  "below_threshold s status \<longleftrightarrow>
     (battery_time_to_empty status > 0 \<and> battery_time_to_empty status \<le> ps_low_battery_shutdown_time s \<and>
      battery_percentage status \<le> kLowBatteryShutdownSafetyPercent) \<or>
     battery_percentage status \<le> ps_low_battery_shutdown_percent s"

definition IsBatteryBelowShutdownThreshold :: "power_supply \<Rightarrow> power_status \<Rightarrow> bool" where
  "IsBatteryBelowShutdownThreshold s status =
     (if ps_low_battery_shutdown_time s = 0 \<and> ps_low_battery_shutdown_percent s \<le> kEpsilon then False
      else if battery_percentage status \<le> kEpsilon then False
      else if line_power_on status
      then below_threshold s status \<and> observed_battery_charge_rate status < 0
      else below_threshold s status)"

section \<open>Updates\<close>

definition DeferBatterySampling :: "ps_env \<Rightarrow> TimeDelta \<Rightarrow> power_supply \<Rightarrow> power_supply" where
  "DeferBatterySampling env stabilized_delay s =
     s\<lparr>ps_battery_stabilized_timestamp :=
         max (ps_battery_stabilized_timestamp s) (pse_now env + stabilized_delay)\<rparr>"

definition SchedulePoll :: "ps_env \<Rightarrow> power_supply \<Rightarrow> power_supply" where
  "SchedulePoll env s =
     s\<lparr>ps_poll_timer := Some
         (if ps_battery_stabilized_timestamp s > pse_now env
          then min (ps_poll_delay s) (ps_battery_stabilized_timestamp s - pse_now env +
                 FromMilliseconds kBatteryStabilizedSlackMs)
          else ps_poll_delay s)\<rparr>"

definition ps_NotifyObservers :: "power_supply \<Rightarrow> power_supply" where
  "ps_NotifyObservers s = s\<lparr>ps_notified := ps_notified s @ [ps_power_status s]\<rparr>"

text \<open>
  One directory of sysfs. The accumulator is the status, the path of the battery (empty if
  none was seen) and whether a power source was seen.
\<close>

definition read_directory ::
  "ps_env \<Rightarrow> power_supply \<Rightarrow> string \<Rightarrow> power_status \<times> string \<Rightarrow> power_status \<times> string" where
  "read_directory env s path = (\<lambda>(status, battery).
     if IsExternalPeripheral env path then (status, battery)
     else case ReadAndTrimString env path ''type'' of
            None \<Rightarrow> (status, battery)
          | Some type \<Rightarrow>
              if type = ''Battery'' then (status, if battery = [] then path else battery)
              else (ReadLinePowerDirectory env s path status, battery))"

definition assume_line_power :: "ps_env \<Rightarrow> string \<Rightarrow> power_status \<Rightarrow> power_status" where
  "assume_line_power env battery status =
     (if \<not> line_power_on status \<and> (battery = [] \<or> \<not> IsBatteryPresent env battery)
      then status\<lparr>line_power_on := True, line_power_type := ''Mains'', external_power := EXTERNAL_AC\<rparr>
      else status)"

definition read_sources :: "ps_env \<Rightarrow> power_supply \<Rightarrow> power_status \<times> string" where
  "read_sources env s =
     (let (status, battery) = fold (read_directory env s) (pse_directories env (ps_power_supply_path s))
            (PowerStatus, []);
          status1 = assume_line_power env battery status
      in (status1\<lparr>status_ports := sort_key port_id (status_ports status1)\<rparr>, battery))"

definition state_unchanged :: "power_supply \<Rightarrow> power_status \<Rightarrow> bool" where
  "state_unchanged s status \<longleftrightarrow> ps_power_status_initialized s \<and>
     external_power status = external_power (ps_power_status s) \<and>
     battery_state status = battery_state (ps_power_status s) \<and>
     ConnectedSourcesAreEqual status (ps_power_status s)"

definition note_line_power_change :: "ps_env \<Rightarrow> power_status \<Rightarrow> power_supply \<Rightarrow> power_supply" where
  "note_line_power_change env status s =
     (if ps_power_status_initialized s \<and> line_power_on status \<noteq> line_power_on (ps_power_status s)
      then let s1 = DeferBatterySampling env
                 (if line_power_on status then ps_after_line_power_connected_delay s
                  else ps_after_line_power_disconnected_delay s) s;
               s2 = s1\<lparr>ps_charge_samples := ra_Clear (ps_charge_samples s1)\<rparr>
           in if line_power_on status
              then s2\<lparr>ps_current_samples_on_line_power := ra_Clear (ps_current_samples_on_line_power s2)\<rparr>
              else s2
      else s)"

definition record_current :: "ps_env \<Rightarrow> power_status \<Rightarrow> power_supply \<Rightarrow> power_supply option" where
  "record_current env status s =
     (if battery_current status \<le> 0 then Some s
      else let signed_current = (if battery_state status = BATTERY_DISCHARGING then - battery_current status
                                 else battery_current status)
           in if line_power_on status
              then map_option (\<lambda>a. s\<lparr>ps_current_samples_on_line_power := a\<rparr>)
                     (AddSample signed_current (pse_now env) (ps_current_samples_on_line_power s))
              else map_option (\<lambda>a. s\<lparr>ps_current_samples_on_battery_power := a\<rparr>)
                     (AddSample signed_current (pse_now env) (ps_current_samples_on_battery_power s)))"

definition record_samples :: "ps_env \<Rightarrow> power_status \<Rightarrow> power_supply \<Rightarrow> power_supply option" where
  "record_samples env status s =
     (if pse_now env < ps_battery_stabilized_timestamp s then Some s
      else do {
        charge \<leftarrow> AddSample (battery_charge status) (pse_now env) (ps_charge_samples s);
        record_current env status (s\<lparr>ps_charge_samples := charge\<rparr>)
      })"

definition update_battery ::
  "ps_env \<Rightarrow> power_status \<Rightarrow> power_supply \<Rightarrow> (power_status \<times> power_supply) option" where
  "update_battery env status s =
     (if \<not> battery_is_present status then Some (status, s)
      else do {
        s1 \<leftarrow> record_samples env status (note_line_power_change env status s);
        (estimated, status1) \<leftarrow> UpdateBatteryTimeEstimates env s1 (UpdateObservedBatteryChargeRate s1 status);
        let status2 = status1\<lparr>is_calculating_battery_time := \<not> estimated\<rparr>;
        Some (status2\<lparr>battery_below_shutdown_threshold := IsBatteryBelowShutdownThreshold s1 status2\<rparr>, s1)
      })"

definition UpdatePowerStatus :: "ps_env \<Rightarrow> ps_update_policy \<Rightarrow> power_supply \<Rightarrow> (bool \<times> power_supply) option" where
  "UpdatePowerStatus env policy s0 =
     (let (status0, battery) = read_sources env s0;
          s = (if ps_power_status_initialized s0 then s0 else s0\<lparr>ps_power_status := status0\<rparr>)
      in do {
        (ok, status) \<leftarrow> (if battery = [] then Some (True, status0)
                          else ReadBatteryDirectory env s battery status0);
        if \<not> ok \<or> policy = ONLY_IF_STATE_CHANGED \<and> state_unchanged s status then Some (False, s)
        else do {
          (status1, s1) \<leftarrow> update_battery env status s;
          Some (True, s1\<lparr>ps_power_status := status1, ps_power_status_initialized := True\<rparr>)
        }
      })"

definition PerformUpdate ::
  "ps_env \<Rightarrow> ps_update_policy \<Rightarrow> NotifyPolicy \<Rightarrow> power_supply \<Rightarrow> (bool \<times> power_supply) option" where
  "PerformUpdate env update_policy notify_policy s0 =
     do {
       (success, s1) \<leftarrow> UpdatePowerStatus env update_policy s0;
       let s = (if ps_is_suspended s1 then s1 else SchedulePoll env s1);
       Some (success, if \<not> success then s
                      else if notify_policy = SYNCHRONOUSLY then ps_NotifyObservers s
                      else s\<lparr>ps_notify_observers_task := True\<rparr>)
     }"

section \<open>Setup and events\<close>

definition GetMsPref :: "prefs \<Rightarrow> string \<Rightarrow> int \<Rightarrow> TimeDelta" where
  "GetMsPref prefs pref_name default_duration_ms =
     FromMilliseconds (get_or (pref_int64 prefs pref_name) default_duration_ms)"

text \<open>\<^verbatim>\<open>int64_t\<close> to \<^verbatim>\<open>size_t\<close>.\<close>

definition window_of :: "int \<Rightarrow> nat" where
  "window_of samples = nat (samples mod 2 ^ 64)"

fun parse_ports :: "(string \<times> string) list \<Rightarrow> (string \<times> PortLocation) list \<Rightarrow> (string \<times> PortLocation) list option"
  where
  "parse_ports [] m = Some m"
| "parse_ports ((name, where_string) # pairs) m =
     (let location = GetPortLocationFromString where_string in
      if location = PORT_UNKNOWN \<or> map_count name m then None
      else parse_ports pairs (map_insert name location m))"

text \<open>\<open>GetDouble name\<close> is the value of a double preference.\<close>

definition ps_thresholds :: "prefs \<Rightarrow> (string \<Rightarrow> rat option) \<Rightarrow> power_supply \<Rightarrow> power_supply" where
  "ps_thresholds prefs GetDouble s =
     (let s1 = s\<lparr>ps_full_factor := min (max kEpsilon (get_or (GetDouble ''power_supply_full_factor'') (ps_full_factor s))) 1,
                 ps_usb_min_ac_watts := get_or (GetDouble ''usb_min_ac_watts'') (ps_usb_min_ac_watts s),
                 ps_low_battery_shutdown_time := (case pref_int64 prefs ''low_battery_shutdown_time_s'' of
                     None \<Rightarrow> ps_low_battery_shutdown_time s | Some t \<Rightarrow> FromSeconds t)\<rparr>
      in case GetDouble ''low_battery_shutdown_percent'' of
           None \<Rightarrow> s1
         | Some percent \<Rightarrow> s1\<lparr>ps_low_battery_shutdown_percent := percent, ps_low_battery_shutdown_time := 0\<rparr>)"

definition ps_Init ::
  "ps_env \<Rightarrow> string \<Rightarrow> prefs \<Rightarrow> (string \<Rightarrow> rat option) \<Rightarrow> power_supply \<Rightarrow> power_supply option" where
  "ps_Init env power_supply_path prefs GetDouble s0 =
     (let s = ps_thresholds prefs GetDouble (s0\<lparr>ps_power_supply_path := power_supply_path,
            ps_poll_delay := GetMsPref prefs ''battery_poll_interval_ms'' kDefaultPollMs,
            ps_after_startup_delay := GetMsPref prefs ''battery_stabilized_after_startup_ms''
              kDefaultBatteryStabilizedDelayMs,
            ps_after_line_power_connected_delay := GetMsPref prefs
              ''battery_stabilized_after_line_power_connected_ms'' kDefaultBatteryStabilizedDelayMs,
            ps_after_line_power_disconnected_delay := GetMsPref prefs
              ''battery_stabilized_after_line_power_disconnected_ms'' kDefaultBatteryStabilizedDelayMs,
            ps_after_resume_delay := GetMsPref prefs ''battery_stabilized_after_resume_ms''
              kDefaultBatteryStabilizedDelayMs\<rparr>)
      in do {
        current_samples \<leftarrow> pref_int64 prefs ''max_current_samples'';
        charge_samples \<leftarrow> pref_int64 prefs ''max_charge_samples'';
        ports \<leftarrow> (case pref_string prefs ''charging_ports'' of
             None \<Rightarrow> Some (ps_port_names s)
           | Some ports_string \<Rightarrow>
               Option.bind (pse_SplitPairs env (pse_TrimTrailing env ports_string))
                 (\<lambda>pairs. parse_ports pairs (ps_port_names s)));
        Some (SchedulePoll env (DeferBatterySampling env (ps_after_startup_delay s)
          (s\<lparr>ps_current_samples_on_line_power := RollingAverage (window_of current_samples),
             ps_current_samples_on_battery_power := RollingAverage (window_of current_samples),
             ps_charge_samples := RollingAverage (window_of charge_samples),
             ps_port_names := ports\<rparr>)))
      })"

definition ps_RefreshImmediately :: "ps_env \<Rightarrow> power_supply \<Rightarrow> (bool \<times> power_supply) option" where
  "ps_RefreshImmediately env s = PerformUpdate env UNCONDITIONALLY ASYNCHRONOUSLY s"

definition ps_SetSuspended :: "ps_env \<Rightarrow> bool \<Rightarrow> power_supply \<Rightarrow> power_supply option" where
  "ps_SetSuspended env suspended s0 =
     (if ps_is_suspended s0 = suspended then Some s0
      else let s = s0\<lparr>ps_is_suspended := suspended\<rparr> in
      if suspended then Some (s\<lparr>ps_poll_timer := None\<rparr>)
      else let s1 = DeferBatterySampling env (ps_after_resume_delay s) s;
               s2 = s1\<lparr>ps_charge_samples := ra_Clear (ps_charge_samples s1),
                       ps_current_samples_on_line_power := ra_Clear (ps_current_samples_on_line_power s1)\<rparr>
           in map_option snd (PerformUpdate env UNCONDITIONALLY ASYNCHRONOUSLY s2))"

definition GetPathForId :: "ps_env \<Rightarrow> string \<Rightarrow> power_supply \<Rightarrow> string" where
  "GetPathForId env source_id s =
     (let path = pse_Append env (ps_power_supply_path s) source_id in
      if source_id = [] \<or> source_id = ''.'' \<or> source_id = ''..'' \<or> CHR ''/'' \<in> set source_id then []
      else if \<not> pse_DirectoryExists env path then [] else path)"

definition ps_SetPowerSource :: "ps_env \<Rightarrow> string \<Rightarrow> power_supply \<Rightarrow> bool \<times> power_supply" where
  "ps_SetPowerSource env source_id s =
     (let device_path = GetPathForId env
            (if source_id = [] then external_power_source_id (ps_power_status s) else source_id) s;
          limit_path = pse_Append env device_path ''charge_control_limit_max'';
          v = (if source_id = [] then ''-1'' else ''0'')
      in if device_path = [] then (False, s)
         else if \<not> pse_WriteFileFully env limit_path v then (False, s)
         else (True, s\<lparr>ps_writes := ps_writes s @ [(limit_path, v)]\<rparr>))"

definition ps_OnUdevEvent :: "ps_env \<Rightarrow> power_supply \<Rightarrow> power_supply option" where
  "ps_OnUdevEvent env s =
     (if ps_is_suspended s then Some s
      else map_option snd (PerformUpdate env ONLY_IF_STATE_CHANGED SYNCHRONOUSLY s))"

definition ps_HandlePollTimeout :: "ps_env \<Rightarrow> power_supply \<Rightarrow> power_supply option" where
  "ps_HandlePollTimeout env s = map_option snd (PerformUpdate env UNCONDITIONALLY SYNCHRONOUSLY s)"

text \<open>The timer and the posted task as the message loop runs them.\<close>

definition ps_poll :: "ps_env \<Rightarrow> power_supply \<Rightarrow> power_supply option" where
  "ps_poll env s =
     (if IsRunning (ps_poll_timer s) then ps_HandlePollTimeout env (s\<lparr>ps_poll_timer := None\<rparr>) else Some s)"

definition ps_run_task :: "power_supply \<Rightarrow> power_supply" where
  "ps_run_task s =
     (if ps_notify_observers_task s then ps_NotifyObservers (s\<lparr>ps_notify_observers_task := False\<rparr>) else s)"

section \<open>What is sent to Chrome\<close>

record power_source_proto =
  src_id :: string
  src_port :: PortLocation
  src_manufacturer_id :: string
  src_model_id :: string
  src_max_power :: rat
  src_active_by_default :: bool

record power_supply_proto =
  pr_external_power :: ExternalPower
  pr_battery_state :: BatteryState
  pr_battery_percent :: rat
  pr_supports_dual_role_devices :: bool
  pr_battery_time_to_empty_sec :: int
  pr_battery_time_to_full_sec :: int
  pr_is_calculating_battery_time :: bool
  pr_battery_discharge_rate :: rat
  pr_available_external_power_source :: "power_source_proto list"
  pr_external_power_source_id :: "string option"

definition InSeconds :: "TimeDelta \<Rightarrow> int" where
  "InSeconds d = sgn d * (\<bar>d\<bar> div 1000000)"

definition CopyPowerStatusToProtocolBuffer :: "power_status \<Rightarrow> power_supply_proto" where
  "CopyPowerStatusToProtocolBuffer status =
     \<lparr>pr_external_power = external_power status, pr_battery_state = battery_state status,
      pr_battery_percent = display_battery_percentage status,
      pr_supports_dual_role_devices = supports_dual_role_devices status,
      pr_battery_time_to_empty_sec = InSeconds (battery_time_to_shutdown status),
      pr_battery_time_to_full_sec = InSeconds (battery_time_to_full status),
      pr_is_calculating_battery_time = is_calculating_battery_time status,
      pr_battery_discharge_rate =
        (if battery_state status = BATTERY_FULL \<or> battery_state status = BATTERY_CHARGING
         then - battery_energy_rate status else battery_energy_rate status),
      pr_available_external_power_source = map (\<lambda>p. \<lparr>src_id = port_id p, src_port = port_location p,
         src_manufacturer_id = port_manufacturer_id p, src_model_id = port_model_id p,
         src_max_power = port_max_power p, src_active_by_default = port_active_by_default p\<rparr>)
        (filter PortHasSourceOrDualRole (status_ports status)),
      pr_external_power_source_id =
        (if external_power_source_id status = [] then None else Some (external_power_source_id status))\<rparr>"

end
