(* ===== verification/Power_Supply_Proofs.thy ===== *)
theory Power_Supply_Proofs
  imports Power_Supply
begin

text \<open>
  Correctness of the power supply model: the comparison of connected sources, the consistency
  of every status that is published, the polling timer, and what has to be the case before the
  battery is reported to be so low that the system shuts down.
\<close>

section \<open>Connected sources\<close>

lemma next_source_filter:
  "filter PortHasSourceOrDualRole ps =
     (case next_source ps of [] \<Rightarrow> [] | p # qs \<Rightarrow> p # filter PortHasSourceOrDualRole qs)"
  by (induction ps) auto

text \<open>The two iterators compare the ports with a source one by one.\<close>

lemma connected_sources_equal_iff:
  "connected_sources_equal as bs \<longleftrightarrow>
     list_all2 port_eq (filter PortHasSourceOrDualRole as) (filter PortHasSourceOrDualRole bs)"
proof (induction as bs rule: connected_sources_equal.induct)
  case (1 as bs)
  then show ?case
    by (subst next_source_filter [of as], subst next_source_filter [of bs], subst connected_sources_equal.simps)
      (auto split: list.splits)
qed

declare connected_sources_equal.simps [simp del]

section \<open>Line power sources\<close>

definition sources_ok :: "power_status \<Rightarrow> bool" where
  "sources_ok st \<longleftrightarrow> (line_power_on st \<longleftrightarrow> external_power st \<noteq> EXTERNAL_DISCONNECTED) \<and>
     (external_power_source_id st = [] \<or>
      (\<exists>p \<in> set (status_ports st). port_id p = external_power_source_id st \<and> PortHasSourceOrDualRole p))"

definition no_battery_read :: "power_status \<Rightarrow> bool" where
  "no_battery_read st \<longleftrightarrow> \<not> battery_is_present st \<and> battery_state st = BATTERY_NOT_PRESENT \<and>
     \<not> battery_below_shutdown_threshold st"

lemma read_port_source: "PortHasSourceOrDualRole (read_port env path s) \<longleftrightarrow>
    port_connection (read_port env path s) \<noteq> CONNECTION_NONE"
  by (cases "port_connection (read_port env path s)") (simp_all add: PortHasSourceOrDualRole_def)

lemma ReadLinePowerDirectory_ok:
  assumes "sources_ok st" "no_battery_read st"
  shows "sources_ok (ReadLinePowerDirectory env s path st)" "no_battery_read (ReadLinePowerDirectory env s path st)"
proof -
  define p where "p = read_port env path s"
  have p: "PortHasSourceOrDualRole p \<longleftrightarrow> port_connection p \<noteq> CONNECTION_NONE"
    by (simp add: p_def read_port_source)
  show "sources_ok (ReadLinePowerDirectory env s path st)"
    unfolding ReadLinePowerDirectory_def Let_def p_def [symmetric]
    using assms(1) p by (simp add: sources_ok_def) blast
  show "no_battery_read (ReadLinePowerDirectory env s path st)"
    unfolding ReadLinePowerDirectory_def Let_def p_def [symmetric]
    using assms(2) by (simp add: no_battery_read_def)
qed

lemma read_directory_ok:
  "sources_ok (fst acc) \<and> no_battery_read (fst acc) \<Longrightarrow>
   sources_ok (fst (read_directory env s path acc)) \<and> no_battery_read (fst (read_directory env s path acc))"
  by (auto simp: read_directory_def ReadLinePowerDirectory_ok split: prod.splits option.splits)

lemma fold_read_directory_ok:
  "sources_ok (fst acc) \<and> no_battery_read (fst acc) \<Longrightarrow>
   sources_ok (fst (fold (read_directory env s) paths acc)) \<and>
   no_battery_read (fst (fold (read_directory env s) paths acc))"
  by (induction paths arbitrary: acc) (simp_all add: read_directory_ok)

lemma read_sources_ok:
  assumes "read_sources env s = (st, battery)"
  shows "sources_ok st" "no_battery_read st" "sorted (map port_id (status_ports st))"
    "battery = [] \<or> \<not> IsBatteryPresent env battery \<Longrightarrow> line_power_on st"
proof -
  obtain st0 where st0: "fold (read_directory env s) (pse_directories env (ps_power_supply_path s)) (PowerStatus, [])
      = (st0, battery)"
    and st: "st = (assume_line_power env battery st0)
      \<lparr>status_ports := sort_key port_id (status_ports (assume_line_power env battery st0))\<rparr>"
    using assms by (auto simp: read_sources_def Let_def split: prod.splits)
  have "sources_ok st0" "no_battery_read st0"
    using fold_read_directory_ok [of "(PowerStatus, [])" env s "pse_directories env (ps_power_supply_path s)"] st0
    by (simp_all add: sources_ok_def no_battery_read_def PowerStatus_def)
  then show "sources_ok st" "no_battery_read st" "sorted (map port_id (status_ports st))"
    "battery = [] \<or> \<not> IsBatteryPresent env battery \<Longrightarrow> line_power_on st"
    by (simp_all add: st assume_line_power_def sources_ok_def no_battery_read_def)
qed

section \<open>Battery\<close>

text \<open>
  What the code relies on when it divides by the instantaneous voltage: a battery that reports
  a voltage of zero (or none) reports no positive design voltage either, so that the reading is
  rejected.
\<close>

definition voltages_ok :: "ps_env \<Rightarrow> bool" where
  "voltages_ok env \<longleftrightarrow>
     (\<forall>path. ReadScaledDouble env path ''voltage_now'' = 0 \<longrightarrow> nominal_voltage_read env path \<le> 0)"

definition percent_range :: "power_supply \<Rightarrow> rat" where
  "percent_range s = 100 * ps_full_factor s - ps_low_battery_shutdown_percent s"

text \<open>A status whose battery part is complete.\<close>

definition battery_ok :: "power_status \<Rightarrow> bool" where
  "battery_ok st \<longleftrightarrow>
     (if battery_is_present st
      then 0 \<le> battery_percentage st \<and> battery_percentage st \<le> 100 \<and>
           0 \<le> display_battery_percentage st \<and> display_battery_percentage st \<le> 100 \<and>
           0 < battery_charge_full st \<and> battery_voltage st \<noteq> 0 \<and>
           0 < nominal_voltage st \<and> battery_state st \<noteq> BATTERY_NOT_PRESENT
      else battery_state st = BATTERY_NOT_PRESENT \<and> \<not> battery_below_shutdown_threshold st) \<and>
     (battery_state st = BATTERY_FULL \<or> battery_state st = BATTERY_CHARGING \<longrightarrow> line_power_on st)"

text \<open>Two states of a status that agree on the line power part.\<close>

definition same_sources :: "power_status \<Rightarrow> power_status \<Rightarrow> bool" where
  "same_sources st st' \<longleftrightarrow> line_power_on st' = line_power_on st \<and> external_power st' = external_power st \<and>
     external_power_source_id st' = external_power_source_id st \<and> status_ports st' = status_ports st"

lemma same_sources_ok: "same_sources st st' \<Longrightarrow> sources_ok st \<Longrightarrow> sources_ok st'"
  by (simp add: same_sources_def sources_ok_def)

lemma nominal_voltage_used_pos: "nominal_voltage_used env path = Some v \<Longrightarrow> 0 < v"
  by (auto simp: nominal_voltage_used_def Let_def split: if_splits)

lemma used_voltage_nonzero:
  assumes "voltages_ok env" "nominal_voltage_used env path = Some v"
  shows "ReadScaledDouble env path ''voltage_now'' \<noteq> 0"
  using assms by (auto simp: voltages_ok_def nominal_voltage_used_def Let_def split: if_splits)

lemma read_current_Some:
  "ReadScaledDouble env path ''voltage_now'' \<noteq> 0 \<Longrightarrow> \<exists>c. read_current env path = Some c"
  by (simp add: read_current_def Let_def)

lemma battery_state_for_ok:
  "battery_state_for s on v charge full cur \<noteq> BATTERY_NOT_PRESENT"
  "\<not> on \<Longrightarrow> battery_state_for s on v charge full cur = BATTERY_DISCHARGING"
  by (auto simp: battery_state_for_def split: if_splits)

lemma battery_readings_ok:
  assumes "battery_is_present st" "ReadScaledDouble env path ''voltage_now'' \<noteq> 0" "0 < nominal" "0 < full"
  shows "same_sources st (battery_readings env s path nominal (full, design, charge, energy) c st)"
    "battery_ok (battery_readings env s path nominal (full, design, charge, energy) c st)"
    "battery_is_present (battery_readings env s path nominal (full, design, charge, energy) c st)"
  using assms by (cases "line_power_on st";
    simp add: battery_readings_def Let_def same_sources_def battery_ok_def battery_state_for_ok)+

lemma ReadBatteryDirectory_ok:
  assumes "voltages_ok env" "percent_range s \<noteq> 0" "no_battery_read st"
  shows "\<exists>ok st'. ReadBatteryDirectory env s path st = Some (ok, st') \<and>
    (ok \<longrightarrow> same_sources st st' \<and> battery_ok st' \<and> battery_is_present st' = IsBatteryPresent env path)"
proof (cases "IsBatteryPresent env path")
  case False
  with assms(3) show ?thesis
    by (auto simp: ReadBatteryDirectory_def same_sources_def battery_ok_def no_battery_read_def)
next
  case present: True
  show ?thesis
  proof (cases "nominal_voltage_used env path")
    case None
    with present show ?thesis by (auto simp: ReadBatteryDirectory_def)
  next
    case nominal: (Some nominal)
    note v = used_voltage_nonzero [OF assms(1) nominal]
    obtain c where c: "read_current env path = Some c" using read_current_Some [OF v] by blast
    show ?thesis
    proof (cases "read_charges env path nominal")
      case None
      with present nominal show ?thesis by (auto simp: ReadBatteryDirectory_def)
    next
      case (Some r)
      obtain full design charge energy where r: "r = (full, design, charge, energy)" by (cases r)
      show ?thesis
      proof (cases "charge = 0 \<and> nominal_voltage_read env path = 0 \<or> full \<le> 0")
        case True
        with present nominal Some r show ?thesis by (auto simp: ReadBatteryDirectory_def Let_def)
      next
        case False
        define st0 where "st0 = st\<lparr>battery_path := path, battery_is_present := True\<rparr>"
        have "ReadBatteryDirectory env s path st =
            Some (True, battery_readings env s path nominal (full, design, charge, energy) c st0)"
          using False present nominal Some r c assms(2)
          by (auto simp: ReadBatteryDirectory_def percent_range_def st0_def)
        moreover have "same_sources st st0" "battery_is_present st0" by (simp_all add: st0_def same_sources_def)
        moreover note battery_readings_ok [OF this(2) v nominal_voltage_used_pos [OF nominal], of full]
        ultimately show ?thesis using False present unfolding same_sources_def by auto
      qed
    qed
  qed
qed

section \<open>Estimates\<close>

lemma seconds_for_mono:
  assumes "0 \<le> a" "a \<le> b" "0 < r"
  shows "\<exists>x y. seconds_for a r = Some x \<and> seconds_for b r = Some y \<and> 0 \<le> x \<and> x \<le> y"
proof -
  have "(0::int) \<le> lround (3600 * a / r)" "lround (3600 * a / r) \<le> lround (3600 * b / r)"
    using assms lround_mono [of 0 "3600 * a / r"] lround_of_int [of 0, where 'a = rat]
    by (auto intro!: lround_mono divide_right_mono)
  with assms show ?thesis by (auto simp: seconds_for_def FromSeconds_def)
qed

lemma kEpsilon_pos: "0 < (kEpsilon :: rat)"
  by (simp add: kEpsilon_def)

lemma discharging_times:
  assumes "cur < - kEpsilon" "v \<noteq> 0"
  obtains x y where "seconds_for (charge * nominal) (- cur * v) = Some x"
    "seconds_for (max 0 (charge - shutdown) * nominal) (- cur * v) = Some y"
    "0 \<le> charge \<Longrightarrow> 0 < v \<Longrightarrow> 0 < nominal \<Longrightarrow> 0 \<le> shutdown \<Longrightarrow> 0 \<le> y \<and> y \<le> x"
proof -
  have cur: "cur < 0" using assms(1) kEpsilon_pos by linarith
  have ne: "- cur * v \<noteq> 0" using cur assms(2) by simp
  have "\<exists>x y. seconds_for (charge * nominal) (- cur * v) = Some x \<and>
      seconds_for (max 0 (charge - shutdown) * nominal) (- cur * v) = Some y \<and>
      (0 \<le> charge \<and> 0 < v \<and> 0 < nominal \<and> 0 \<le> shutdown \<longrightarrow> 0 \<le> y \<and> y \<le> x)"
  proof (cases "0 \<le> charge \<and> 0 < v \<and> 0 < nominal \<and> 0 \<le> shutdown")
    case True
    have "0 \<le> max 0 (charge - shutdown) * nominal" "max 0 (charge - shutdown) * nominal \<le> charge * nominal"
      "0 < - cur * v" using True cur by (auto intro: mult_right_mono mult_neg_pos)
    from seconds_for_mono [OF this] show ?thesis by blast
  next
    case False
    with ne show ?thesis by (auto simp: seconds_for_def)
  qed
  then show ?thesis using that by blast
qed

text \<open>The three estimates of a status, as functions of the readings.\<close>

definition times_ok :: "power_supply \<Rightarrow> power_status \<Rightarrow> TimeDelta \<times> TimeDelta \<times> TimeDelta \<Rightarrow> bool" where
  "times_ok s st = (\<lambda>(full, empty, shutdown).
     (battery_state st \<noteq> BATTERY_DISCHARGING \<longrightarrow> empty = 0 \<and> shutdown = 0) \<and>
     (battery_state st \<noteq> BATTERY_CHARGING \<longrightarrow> full = 0) \<and>
     (full = FromSeconds (-1) \<or> 0 \<le> full) \<and>
     (0 \<le> battery_charge st \<and> 0 < battery_voltage st \<and> 0 < nominal_voltage st \<and> 0 \<le> battery_charge_full st \<and>
      0 \<le> ps_low_battery_shutdown_percent s \<and> 0 \<le> ps_low_battery_shutdown_time s \<longrightarrow>
        empty = FromSeconds (-1) \<and> shutdown = FromSeconds (-1) \<or> 0 \<le> shutdown \<and> shutdown \<le> empty))"

lemma times_ok_0 [simp]: "times_ok s st (0, 0, 0)"
  by (simp add: times_ok_def)

lemma battery_times_ok:
  assumes "battery_voltage st \<noteq> 0"
  shows "\<exists>t. battery_times s st = Some t \<and> times_ok s st t"
proof -
  define cur where "cur = signed_current_average s st"
  define shutdown where "shutdown = battery_charge_full st * ps_low_battery_shutdown_percent s / 100"
  show ?thesis
  proof (cases "battery_state st")
    case BATTERY_CHARGING
    show ?thesis
    proof (cases "cur \<le> kEpsilon")
      case True
      with BATTERY_CHARGING show ?thesis by (simp add: battery_times_def times_ok_def flip: cur_def)
    next
      case False
      then have "0 < cur" using kEpsilon_pos by linarith
      from seconds_for_mono [OF _ order_refl this, of "max 0 (battery_charge_full st * ps_full_factor s - battery_charge st)"]
      obtain t where "seconds_for (max 0 (battery_charge_full st * ps_full_factor s - battery_charge st)) cur = Some t" "0 \<le> t"
        by auto
      with False BATTERY_CHARGING show ?thesis by (simp add: battery_times_def times_ok_def flip: cur_def)
    qed
  next
    case BATTERY_DISCHARGING
    show ?thesis
    proof (cases "cur \<ge> - kEpsilon")
      case True
      with BATTERY_DISCHARGING show ?thesis by (simp add: battery_times_def times_ok_def flip: cur_def)
    next
      case False
      then have "cur < - kEpsilon" by simp
      then obtain e d where ed: "seconds_for (battery_charge st * nominal_voltage st) (- cur * battery_voltage st) = Some e"
        "seconds_for (max 0 (battery_charge st - shutdown) * nominal_voltage st) (- cur * battery_voltage st) = Some d"
        "0 \<le> battery_charge st \<Longrightarrow> 0 < battery_voltage st \<Longrightarrow> 0 < nominal_voltage st \<Longrightarrow> 0 \<le> shutdown \<Longrightarrow> 0 \<le> d \<and> d \<le> e"
        using discharging_times [OF _ assms] by metis
      have "battery_times s st = Some (0, e, max 0 (d - ps_low_battery_shutdown_time s))"
        using False BATTERY_DISCHARGING ed(1,2) by (simp add: battery_times_def Let_def flip: cur_def shutdown_def)
      moreover have "0 \<le> battery_charge_full st \<Longrightarrow> 0 \<le> ps_low_battery_shutdown_percent s \<Longrightarrow> 0 \<le> shutdown"
        by (simp add: shutdown_def)
      ultimately show ?thesis using BATTERY_DISCHARGING ed(3) by (auto simp: times_ok_def)
    qed
  qed (simp_all add: battery_times_def)
qed

section \<open>Updates\<close>

definition samples_ok :: "power_supply \<Rightarrow> bool" where
  "samples_ok s \<longleftrightarrow> ra_inv (ps_current_samples_on_line_power s) \<and>
     ra_inv (ps_current_samples_on_battery_power s) \<and> ra_inv (ps_charge_samples s)"

text \<open>What neither the sampling nor the polling changes.\<close>

definition ps_frame :: "power_supply \<Rightarrow> TimeDelta \<times> rat \<times> rat \<times> TimeDelta \<times> bool \<times> power_status \<times> bool" where
  "ps_frame s = (ps_low_battery_shutdown_time s, ps_low_battery_shutdown_percent s, ps_full_factor s,
     ps_poll_delay s, ps_is_suspended s, ps_power_status s, ps_power_status_initialized s)"

lemma note_line_power_change_ok:
  assumes "samples_ok s"
  shows "samples_ok (note_line_power_change env st s)" "ps_frame (note_line_power_change env st s) = ps_frame s"
    "ps_poll_timer (note_line_power_change env st s) = ps_poll_timer s"
  using assms by (simp_all add: note_line_power_change_def DeferBatterySampling_def samples_ok_def ps_frame_def Let_def)

lemma record_current_ok:
  assumes "samples_ok s"
  shows "\<exists>t. record_current env st s = Some t \<and> samples_ok t \<and> ps_frame t = ps_frame s \<and>
    ps_poll_timer t = ps_poll_timer s \<and> ps_charge_samples t = ps_charge_samples s"
proof -
  define v where "v = (if battery_state st = BATTERY_DISCHARGING then - battery_current st else battery_current st)"
  obtain a b where "AddSample v (pse_now env) (ps_current_samples_on_line_power s) = Some a" "ra_inv a"
    "AddSample v (pse_now env) (ps_current_samples_on_battery_power s) = Some b" "ra_inv b"
    using AddSample_inv assms by (metis samples_ok_def)
  with assms show ?thesis
    by (simp add: record_current_def Let_def samples_ok_def ps_frame_def flip: v_def)
qed

lemma record_samples_ok:
  assumes "samples_ok s"
  shows "\<exists>t. record_samples env st s = Some t \<and> samples_ok t \<and> ps_frame t = ps_frame s \<and>
    ps_poll_timer t = ps_poll_timer s"
proof (cases "pse_now env < ps_battery_stabilized_timestamp s")
  case True
  with assms show ?thesis by (simp add: record_samples_def)
next
  case False
  obtain a where a: "AddSample (battery_charge st) (pse_now env) (ps_charge_samples s) = Some a" "ra_inv a"
    using AddSample_inv assms by (metis samples_ok_def)
  with assms have "samples_ok (s\<lparr>ps_charge_samples := a\<rparr>)" by (simp add: samples_ok_def)
  from record_current_ok [OF this, of env st] a False show ?thesis
    by (auto simp: record_samples_def ps_frame_def)
qed

text \<open>What is known of the estimates and of the threshold flag in a published status.\<close>

definition threshold_ok :: "power_supply \<Rightarrow> power_status \<Rightarrow> bool" where
  "threshold_ok s st \<longleftrightarrow> (battery_below_shutdown_threshold st \<longrightarrow>
     kEpsilon < battery_percentage st \<and>
     (battery_percentage st \<le> ps_low_battery_shutdown_percent s \<or>
      battery_percentage st \<le> kLowBatteryShutdownSafetyPercent \<and> \<not> is_calculating_battery_time st \<and>
      battery_state st = BATTERY_DISCHARGING \<and> 0 < battery_time_to_empty st \<and>
      battery_time_to_empty st \<le> ps_low_battery_shutdown_time s) \<and>
     (line_power_on st \<longrightarrow> observed_battery_charge_rate st < 0))"

definition published_ok :: "power_supply \<Rightarrow> power_status \<Rightarrow> bool" where
  "published_ok s st \<longleftrightarrow> (battery_is_present st \<longrightarrow>
     (is_calculating_battery_time st \<longrightarrow> battery_time_to_full st = 0 \<and> battery_time_to_empty st = 0 \<and>
        battery_time_to_shutdown st = 0) \<and>
     times_ok s st (battery_time_to_full st, battery_time_to_empty st, battery_time_to_shutdown st) \<and>
     threshold_ok s st)"

text \<open>The status after the estimates were made.\<close>

definition with_times ::
  "power_supply \<Rightarrow> power_status \<Rightarrow> bool \<Rightarrow> TimeDelta \<times> TimeDelta \<times> TimeDelta \<Rightarrow> power_status" where
  "with_times s st estimated = (\<lambda>(full, empty, shutdown).
     (UpdateObservedBatteryChargeRate s st)\<lparr>battery_time_to_full := full, battery_time_to_empty := empty,
        battery_time_to_shutdown := shutdown, is_calculating_battery_time := \<not> estimated\<rparr>)"

definition finish_status :: "power_supply \<Rightarrow> power_status \<Rightarrow> power_status" where
  "finish_status s st = st\<lparr>battery_below_shutdown_threshold := IsBatteryBelowShutdownThreshold s st\<rparr>"

lemma battery_times_frame [simp]:
  "battery_times s (st\<lparr>observed_battery_charge_rate := x\<rparr>) = battery_times s st"
proof -
  have "signed_current_average s (st\<lparr>observed_battery_charge_rate := x\<rparr>) = signed_current_average s st"
    by (simp add: signed_current_average_def)
  then show ?thesis by (cases "battery_state st") (simp_all add: battery_times_def Let_def)
qed

lemma observed_rate_frame [simp]:
  "battery_state (UpdateObservedBatteryChargeRate s st) = battery_state st"
  "battery_voltage (UpdateObservedBatteryChargeRate s st) = battery_voltage st"
  "battery_times s (UpdateObservedBatteryChargeRate s st) = battery_times s st"
  by (simp_all add: UpdateObservedBatteryChargeRate_def Let_def)

lemma UpdateBatteryTimeEstimates_eq:
  assumes "battery_voltage st \<noteq> 0"
  shows "\<exists>ok t st1. UpdateBatteryTimeEstimates env s (UpdateObservedBatteryChargeRate s st) = Some (ok, st1) \<and>
    st1\<lparr>is_calculating_battery_time := \<not> ok\<rparr> = with_times s st ok t \<and> times_ok s st t \<and> (\<not> ok \<longrightarrow> t = (0, 0, 0))"
proof (cases "pse_now env < ps_battery_stabilized_timestamp s")
  case True
  then show ?thesis
    by (intro exI [of _ False] exI [of _ "(0, 0, 0)"]) (simp add: UpdateBatteryTimeEstimates_def with_times_def)
next
  case False
  obtain t where t: "battery_times s st = Some t" "times_ok s st t" using battery_times_ok [OF assms] by blast
  then show ?thesis using False
    by (intro exI [of _ True] exI [of _ t]) (simp add: UpdateBatteryTimeEstimates_def with_times_def split: prod.splits)
qed

lemma with_times_ok:
  assumes "battery_is_present st" "battery_ok st" "times_ok s st t" "\<not> ok \<longrightarrow> t = (0, 0, 0)"
  shows "same_sources st (finish_status s (with_times s st ok t))"
    "battery_ok (finish_status s (with_times s st ok t))"
    "battery_is_present (finish_status s (with_times s st ok t))"
    "published_ok s (finish_status s (with_times s st ok t))"
proof -
  obtain f e d where t: "t = (f, e, d)" by (cases t)
  show "same_sources st (finish_status s (with_times s st ok t))"
    "battery_ok (finish_status s (with_times s st ok t))"
    "battery_is_present (finish_status s (with_times s st ok t))"
    using assms(1,2) by (simp_all add: t finish_status_def with_times_def UpdateObservedBatteryChargeRate_def
      same_sources_def battery_ok_def Let_def)
  have "IsBatteryBelowShutdownThreshold s (with_times s st ok t) \<Longrightarrow> threshold_ok s (finish_status s (with_times s st ok t))"
    using assms(3,4) by (auto simp: t threshold_ok_def IsBatteryBelowShutdownThreshold_def below_threshold_def
      finish_status_def with_times_def UpdateObservedBatteryChargeRate_def times_ok_def Let_def split: if_splits)
  then have "threshold_ok s (finish_status s (with_times s st ok t))"
    by (cases "IsBatteryBelowShutdownThreshold s (with_times s st ok t)") (simp_all add: threshold_ok_def finish_status_def)
  then show "published_ok s (finish_status s (with_times s st ok t))"
    using assms(3,4) by (simp add: t published_ok_def finish_status_def with_times_def UpdateObservedBatteryChargeRate_def
      times_ok_def Let_def)
qed

text \<open>A decrease that was observed is one over at least the minimum time.\<close>

lemma observed_rate_eq:
  "observed_battery_charge_rate (UpdateObservedBatteryChargeRate s st) =
     (if InMilliseconds (GetTimeDelta (ps_charge_samples s)) < kDefaultPollMs then 0
      else GetValueDelta (ps_charge_samples s) / (of_int (GetTimeDelta (ps_charge_samples s)) / 1000000 / 3600))"
  by (simp add: UpdateObservedBatteryChargeRate_def Let_def)

lemma negative_rate:
  assumes "observed_battery_charge_rate (UpdateObservedBatteryChargeRate s st) < 0"
  shows "kDefaultPollMs \<le> InMilliseconds (GetTimeDelta (ps_charge_samples s))" "GetValueDelta (ps_charge_samples s) < 0"
proof -
  define d where "d = GetTimeDelta (ps_charge_samples s)"
  have rate: "(if InMilliseconds d < kDefaultPollMs then 0
      else GetValueDelta (ps_charge_samples s) / (of_int d / 1000000 / 3600)) < 0"
    using assms unfolding observed_rate_eq d_def .
  then show long: "kDefaultPollMs \<le> InMilliseconds (GetTimeDelta (ps_charge_samples s))"
    by (simp add: d_def split: if_splits)
  have "0 < d"
  proof (rule ccontr)
    assume "\<not> 0 < d"
    moreover have "0 \<le> \<bar>d\<bar> div 1000" by simp
    ultimately show False using long
      by (cases "d = 0") (simp_all add: InMilliseconds_def kDefaultPollMs_def sgn_if flip: d_def)
  qed
  then show "GetValueDelta (ps_charge_samples s) < 0"
    using rate by (simp add: divide_less_0_iff split: if_splits)
qed

lemma update_battery_ok:
  assumes "samples_ok s" "battery_ok st"
  shows "\<exists>st' t. update_battery env st s = Some (st', t) \<and> samples_ok t \<and> ps_frame t = ps_frame s \<and>
    ps_poll_timer t = ps_poll_timer s \<and> same_sources st st' \<and> battery_ok st' \<and>
    battery_is_present st' = battery_is_present st \<and> published_ok t st' \<and>
    (battery_below_shutdown_threshold st' \<and> line_power_on st' \<longrightarrow>
       kDefaultPollMs \<le> InMilliseconds (GetTimeDelta (ps_charge_samples t)) \<and> GetValueDelta (ps_charge_samples t) < 0)"
proof (cases "battery_is_present st")
  case False
  with assms show ?thesis
    by (auto simp: update_battery_def same_sources_def published_ok_def battery_ok_def)
next
  case present: True
  note change = note_line_power_change_ok [OF assms(1), of env st]
  obtain t where t: "record_samples env st (note_line_power_change env st s) = Some t" "samples_ok t"
    "ps_frame t = ps_frame s" "ps_poll_timer t = ps_poll_timer s"
    using record_samples_ok [OF change(1), of env st] change(2,3) by auto
  have "battery_voltage st \<noteq> 0" using assms(2) present by (simp add: battery_ok_def)
  from UpdateBatteryTimeEstimates_eq [OF this, of env t] obtain ok ts st1 where
    est: "UpdateBatteryTimeEstimates env t (UpdateObservedBatteryChargeRate t st) = Some (ok, st1)"
    "st1\<lparr>is_calculating_battery_time := \<not> ok\<rparr> = with_times t st ok ts" "times_ok t st ts" "\<not> ok \<longrightarrow> ts = (0, 0, 0)"
    by blast
  define st' where "st' = finish_status t (with_times t st ok ts)"
  have "update_battery env st s = Some (st', t)"
    using present t(1) est(1,2) by (simp add: update_battery_def st'_def finish_status_def Let_def)
  moreover have "kDefaultPollMs \<le> InMilliseconds (GetTimeDelta (ps_charge_samples t)) \<and> GetValueDelta (ps_charge_samples t) < 0"
    if "battery_below_shutdown_threshold st'" "line_power_on st'"
  proof -
    have "observed_battery_charge_rate st' < 0"
      using that with_times_ok(3,4) [OF present assms(2) est(3,4)] by (simp add: published_ok_def threshold_ok_def flip: st'_def)
    then have "observed_battery_charge_rate (UpdateObservedBatteryChargeRate t st) < 0"
      by (simp add: st'_def finish_status_def with_times_def split: prod.splits)
    from negative_rate [OF this] show ?thesis by blast
  qed
  ultimately show ?thesis
    using t(2-4) present with_times_ok [OF present assms(2) est(3,4)] by (simp flip: st'_def)
qed

definition status_ok :: "power_supply \<Rightarrow> bool" where
  "status_ok s \<longleftrightarrow> sources_ok (ps_power_status s) \<and> battery_ok (ps_power_status s) \<and>
     published_ok s (ps_power_status s) \<and> sorted (map port_id (status_ports (ps_power_status s))) \<and>
     (ps_power_status_initialized s \<and> \<not> battery_is_present (ps_power_status s) \<longrightarrow> line_power_on (ps_power_status s))"

definition core_ok :: "power_supply \<Rightarrow> bool" where
  "core_ok s \<longleftrightarrow> samples_ok s \<and> percent_range s \<noteq> 0 \<and> status_ok s"

definition timer_ok :: "power_supply \<Rightarrow> bool" where
  "timer_ok s \<longleftrightarrow> (if ps_is_suspended s then ps_poll_timer s = None
     else \<exists>d \<le> ps_poll_delay s. ps_poll_timer s = Some d)"

text \<open>The invariants are functions of the frame and of the samples.\<close>

lemma published_frame:
  "ps_low_battery_shutdown_time t = ps_low_battery_shutdown_time s \<Longrightarrow>
   ps_low_battery_shutdown_percent t = ps_low_battery_shutdown_percent s \<Longrightarrow> published_ok t st = published_ok s st"
  by (simp add: published_ok_def times_ok_def threshold_ok_def)

lemma core_frame:
  assumes "ps_frame t = ps_frame s"
  shows "percent_range t = percent_range s" "status_ok t = status_ok s" "published_ok t st = published_ok s st"
proof -
  show "published_ok t st = published_ok s st" for st
    using assms by (intro published_frame) (simp_all add: ps_frame_def)
  then show "percent_range t = percent_range s" "status_ok t = status_ok s"
    using assms by (simp_all add: ps_frame_def percent_range_def status_ok_def)
qed

lemma UpdatePowerStatus_ok:
  assumes "voltages_ok env" "core_ok s"
  shows "\<exists>ok t. UpdatePowerStatus env policy s = Some (ok, t) \<and> core_ok t \<and>
    ps_is_suspended t = ps_is_suspended s \<and> ps_poll_delay t = ps_poll_delay s \<and> ps_poll_timer t = ps_poll_timer s \<and>
    (ok \<and> battery_below_shutdown_threshold (ps_power_status t) \<and> line_power_on (ps_power_status t) \<longrightarrow>
       kDefaultPollMs \<le> InMilliseconds (GetTimeDelta (ps_charge_samples t)) \<and> GetValueDelta (ps_charge_samples t) < 0)"
proof -
  obtain st0 battery where src: "read_sources env s = (st0, battery)" by fastforce
  note ok0 = read_sources_ok [OF src]
  define s1 where "s1 = (if ps_power_status_initialized s then s else s\<lparr>ps_power_status := st0\<rparr>)"
  have s1: "samples_ok s1" "percent_range s1 \<noteq> 0" "core_ok s1" "ps_is_suspended s1 = ps_is_suspended s"
    "ps_poll_delay s1 = ps_poll_delay s" "ps_poll_timer s1 = ps_poll_timer s"
    using assms(2) ok0 by (simp_all add: s1_def core_ok_def samples_ok_def percent_range_def status_ok_def
      published_ok_def battery_ok_def no_battery_read_def)
  obtain ok st where read: "(if battery = [] then Some (True, st0) else ReadBatteryDirectory env s1 battery st0) = Some (ok, st)"
    and accepted: "ok \<Longrightarrow> same_sources st0 st \<and> battery_ok st \<and> (\<not> battery_is_present st \<longrightarrow> line_power_on st)"
  proof (cases "battery = []")
    case True
    then show ?thesis using that [of True st0] ok0 by (simp add: same_sources_def battery_ok_def no_battery_read_def)
  next
    case False
    from ReadBatteryDirectory_ok [OF assms(1) s1(2) ok0(2), of battery] obtain ok st where
      r: "ReadBatteryDirectory env s1 battery st0 = Some (ok, st)"
      "ok \<longrightarrow> same_sources st0 st \<and> battery_ok st \<and> battery_is_present st = IsBatteryPresent env battery" by blast
    with False ok0(4) show ?thesis by (intro that [of ok st]) (auto simp: same_sources_def)
  qed
  show ?thesis
  proof (cases "\<not> ok \<or> policy = ONLY_IF_STATE_CHANGED \<and> state_unchanged s1 st")
    case True
    then have "UpdatePowerStatus env policy s = Some (False, s1)"
      unfolding UpdatePowerStatus_def src Let_def prod.case s1_def [symmetric] read by auto
    with s1 show ?thesis by auto
  next
    case False
    then have acc: "same_sources st0 st" "battery_ok st" "\<not> battery_is_present st \<longrightarrow> line_power_on st"
      using accepted by auto
    from update_battery_ok [OF s1(1) acc(2), of env] obtain st' t where
      up: "update_battery env st s1 = Some (st', t)" "samples_ok t" "ps_frame t = ps_frame s1"
      "ps_poll_timer t = ps_poll_timer s1" "same_sources st st'" "battery_ok st'"
      "battery_is_present st' = battery_is_present st" "published_ok t st'"
      "battery_below_shutdown_threshold st' \<and> line_power_on st' \<longrightarrow>
       kDefaultPollMs \<le> InMilliseconds (GetTimeDelta (ps_charge_samples t)) \<and> GetValueDelta (ps_charge_samples t) < 0"
      by blast
    define u where "u = t\<lparr>ps_power_status := st', ps_power_status_initialized := True\<rparr>"
    have "UpdatePowerStatus env policy s = Some (True, u)"
      using False up(1) unfolding UpdatePowerStatus_def src Let_def prod.case s1_def [symmetric] read u_def by auto
    moreover have "sources_ok st'" using same_sources_ok acc(1) up(5) ok0(1) by blast
    moreover have "published_ok u st'" using up(8) published_frame [of u t] by (simp add: u_def)
    moreover have "status_ports st' = status_ports st0" "line_power_on st' = line_power_on st"
      using acc(1) up(5) by (simp_all add: same_sources_def)
    moreover have "percent_range u \<noteq> 0" using core_frame(1) [OF up(3)] s1(2) by (simp add: u_def percent_range_def)
    ultimately show ?thesis using up acc(3) ok0(3) s1(4-6)
      by (intro exI [of _ True] exI [of _ u]) (simp add: u_def core_ok_def samples_ok_def status_ok_def ps_frame_def)
  qed
qed

lemma PerformUpdate_ok:
  assumes "voltages_ok env" "core_ok s" "ps_is_suspended s \<Longrightarrow> ps_poll_timer s = None"
  shows "\<exists>ok t. PerformUpdate env up np s = Some (ok, t) \<and> core_ok t \<and> timer_ok t"
proof -
  obtain ok t where t: "UpdatePowerStatus env up s = Some (ok, t)" "core_ok t" "ps_is_suspended t = ps_is_suspended s"
    "ps_poll_delay t = ps_poll_delay s" "ps_poll_timer t = ps_poll_timer s"
    using UpdatePowerStatus_ok [OF assms(1,2), of up] by blast
  define u where "u = (if ps_is_suspended t then t else SchedulePoll env t)"
  have "core_ok u" "timer_ok u"
    using t assms(3) by (simp_all add: u_def core_ok_def samples_ok_def percent_range_def status_ok_def
      published_ok_def times_ok_def threshold_ok_def timer_ok_def SchedulePoll_def)
  moreover have "core_ok (ps_NotifyObservers u) = core_ok u" "timer_ok (ps_NotifyObservers u) = timer_ok u"
    "core_ok (u\<lparr>ps_notify_observers_task := True\<rparr>) = core_ok u" "timer_ok (u\<lparr>ps_notify_observers_task := True\<rparr>) = timer_ok u"
    by (simp_all add: ps_NotifyObservers_def core_ok_def samples_ok_def percent_range_def status_ok_def
      published_ok_def times_ok_def threshold_ok_def timer_ok_def)
  ultimately show ?thesis using t(1) by (simp add: PerformUpdate_def Let_def flip: u_def)
qed

section \<open>The power supply as an event machine\<close>

datatype ps_event = PsPoll | PsUdev | PsSuspended bool | PsRefresh | PsTask | PsSetSource string

fun ps_step :: "power_supply \<Rightarrow> ps_env \<times> ps_event \<Rightarrow> power_supply option" where
  "ps_step s (env, PsPoll) = ps_poll env s"
| "ps_step s (env, PsUdev) = ps_OnUdevEvent env s"
| "ps_step s (env, PsSuspended suspended) = ps_SetSuspended env suspended s"
| "ps_step s (env, PsRefresh) = map_option snd (ps_RefreshImmediately env s)"
| "ps_step s (env, PsTask) = Some (ps_run_task s)"
| "ps_step s (env, PsSetSource source) = Some (snd (ps_SetPowerSource env source s))"

definition ps_legal :: "ps_env \<times> ps_event \<Rightarrow> bool" where
  "ps_legal = (\<lambda>(env, e). voltages_ok env)"

definition ps_inv :: "power_supply \<Rightarrow> bool" where
  "ps_inv s \<longleftrightarrow> core_ok s \<and> timer_ok s"

lemma core_ok_frame [simp]:
  "core_ok (s\<lparr>ps_poll_timer := x1\<rparr>) = core_ok s" "core_ok (s\<lparr>ps_is_suspended := x2\<rparr>) = core_ok s"
  "core_ok (s\<lparr>ps_notify_observers_task := x3\<rparr>) = core_ok s" "core_ok (s\<lparr>ps_notified := x4\<rparr>) = core_ok s"
  "core_ok (s\<lparr>ps_writes := x5\<rparr>) = core_ok s" "core_ok (s\<lparr>ps_battery_stabilized_timestamp := x6\<rparr>) = core_ok s"
  by (simp_all add: core_ok_def samples_ok_def percent_range_def status_ok_def published_ok_def times_ok_def threshold_ok_def)

lemma ps_inv_frame [simp]:
  "ps_inv (s\<lparr>ps_notify_observers_task := x1\<rparr>) = ps_inv s" "ps_inv (s\<lparr>ps_notified := x2\<rparr>) = ps_inv s"
  "ps_inv (s\<lparr>ps_writes := x3\<rparr>) = ps_inv s"
  by (simp_all add: ps_inv_def timer_ok_def)

lemma clear_samples_ok:
  "core_ok s \<Longrightarrow> core_ok (s\<lparr>ps_charge_samples := ra_Clear (ps_charge_samples s),
     ps_current_samples_on_line_power := ra_Clear (ps_current_samples_on_line_power s)\<rparr>)"
  by (simp add: core_ok_def samples_ok_def percent_range_def status_ok_def published_ok_def times_ok_def threshold_ok_def)

lemma ps_update_inv:
  "voltages_ok env \<Longrightarrow> core_ok s \<Longrightarrow> (ps_is_suspended s \<Longrightarrow> ps_poll_timer s = None) \<Longrightarrow>
     \<exists>t. map_option snd (PerformUpdate env up np s) = Some t \<and> ps_inv t"
  using PerformUpdate_ok [of env s up np] by (auto simp: ps_inv_def)

lemma ps_SetSuspended_inv:
  assumes "voltages_ok env" "ps_inv s"
  shows "\<exists>t. ps_SetSuspended env b s = Some t \<and> ps_inv t"
proof (cases "ps_is_suspended s = b \<or> b")
  case True
  with assms(2) show ?thesis by (auto simp: ps_SetSuspended_def ps_inv_def timer_ok_def)
next
  case False
  define s1 where "s1 = DeferBatterySampling env (ps_after_resume_delay s) (s\<lparr>ps_is_suspended := False\<rparr>)"
  have "core_ok s1" using assms(2) by (simp add: s1_def DeferBatterySampling_def ps_inv_def)
  from ps_update_inv [OF assms(1) clear_samples_ok [OF this], of UNCONDITIONALLY ASYNCHRONOUSLY] False
  show ?thesis by (simp add: ps_SetSuspended_def Let_def s1_def DeferBatterySampling_def)
qed

lemma ps_step_inv:
  assumes "voltages_ok env" "ps_inv s"
  shows "\<exists>t. ps_step s (env, e) = Some t \<and> ps_inv t"
proof (cases e)
  case PsPoll
  with assms ps_update_inv [OF assms(1), of "s\<lparr>ps_poll_timer := None\<rparr>" UNCONDITIONALLY SYNCHRONOUSLY] show ?thesis
    by (simp add: ps_poll_def ps_HandlePollTimeout_def ps_inv_def)
next
  case PsUdev
  with assms ps_update_inv [OF assms(1), of s ONLY_IF_STATE_CHANGED SYNCHRONOUSLY] show ?thesis by (auto simp: ps_OnUdevEvent_def ps_inv_def)
next
  case (PsSuspended b)
  with ps_SetSuspended_inv [OF assms] show ?thesis by simp
next
  case PsRefresh
  have "ps_is_suspended s \<Longrightarrow> ps_poll_timer s = None" using assms(2) by (simp add: ps_inv_def timer_ok_def)
  with PsRefresh assms ps_update_inv [OF assms(1), of s UNCONDITIONALLY ASYNCHRONOUSLY] show ?thesis
    by (simp add: ps_RefreshImmediately_def ps_inv_def)
qed (use assms in \<open>simp_all add: ps_run_task_def ps_NotifyObservers_def ps_SetPowerSource_def Let_def\<close>)

interpretation psupply: guarded_machine ps_step ps_inv ps_legal
  by unfold_locales (use ps_step_inv in \<open>fastforce simp: ps_legal_def\<close>)

lemma PowerStatus_ok: "sources_ok PowerStatus" "no_battery_read PowerStatus" "status_ports PowerStatus = []"
  by (simp_all add: PowerStatus_def sources_ok_def no_battery_read_def)

text \<open>
  A usable configuration: room for at least one sample, and a shutdown percentage other than
  the percentage at which the battery counts as full.
\<close>

definition ps_config_ok :: "prefs \<Rightarrow> (string \<Rightarrow> rat option) \<Rightarrow> bool" where
  "ps_config_ok prefs GetDouble \<longleftrightarrow>
     (\<forall>n. pref_int64 prefs ''max_current_samples'' = Some n \<longrightarrow> 0 < window_of n) \<and>
     (\<forall>n. pref_int64 prefs ''max_charge_samples'' = Some n \<longrightarrow> 0 < window_of n) \<and>
     percent_range (ps_thresholds prefs GetDouble PowerSupply) \<noteq> 0"

lemma ps_thresholds_frame:
  "ps_power_status (ps_thresholds prefs GetDouble s) = ps_power_status s"
  "ps_power_status_initialized (ps_thresholds prefs GetDouble s) = ps_power_status_initialized s"
  "ps_is_suspended (ps_thresholds prefs GetDouble s) = ps_is_suspended s"
  "percent_range (ps_thresholds prefs GetDouble (s\<lparr>ps_power_supply_path := x1, ps_poll_delay := x2,
     ps_after_startup_delay := x3, ps_after_line_power_connected_delay := x4,
     ps_after_line_power_disconnected_delay := x5, ps_after_resume_delay := x6\<rparr>)) =
   percent_range (ps_thresholds prefs GetDouble s)"
  by (simp_all add: ps_thresholds_def percent_range_def Let_def split: option.splits)

lemma ps_Init_inv:
  assumes "ps_Init env path prefs GetDouble PowerSupply = Some s" "ps_config_ok prefs GetDouble"
  shows "ps_inv s"
proof -
  define s0 where "s0 = ps_thresholds prefs GetDouble (PowerSupply\<lparr>ps_power_supply_path := path,
    ps_poll_delay := GetMsPref prefs ''battery_poll_interval_ms'' kDefaultPollMs,
    ps_after_startup_delay := GetMsPref prefs ''battery_stabilized_after_startup_ms'' kDefaultBatteryStabilizedDelayMs,
    ps_after_line_power_connected_delay := GetMsPref prefs ''battery_stabilized_after_line_power_connected_ms''
      kDefaultBatteryStabilizedDelayMs,
    ps_after_line_power_disconnected_delay := GetMsPref prefs ''battery_stabilized_after_line_power_disconnected_ms''
      kDefaultBatteryStabilizedDelayMs,
    ps_after_resume_delay := GetMsPref prefs ''battery_stabilized_after_resume_ms'' kDefaultBatteryStabilizedDelayMs\<rparr>)"
  have s0: "ps_power_status s0 = PowerStatus" "\<not> ps_power_status_initialized s0" "\<not> ps_is_suspended s0"
    "percent_range s0 \<noteq> 0"
    using assms(2) by (simp_all add: s0_def ps_thresholds_frame ps_config_ok_def) (simp_all add: PowerSupply_def)
  obtain n m ports where nm: "pref_int64 prefs ''max_current_samples'' = Some n" "pref_int64 prefs ''max_charge_samples'' = Some m"
    and s: "s = SchedulePoll env (DeferBatterySampling env (ps_after_startup_delay s0)
      (s0\<lparr>ps_current_samples_on_line_power := RollingAverage (window_of n),
         ps_current_samples_on_battery_power := RollingAverage (window_of n),
         ps_charge_samples := RollingAverage (window_of m), ps_port_names := ports\<rparr>))"
    using assms(1) unfolding ps_Init_def s0_def [symmetric] Let_def by (auto simp: bind_eq_Some_conv)
  have "0 < window_of n" "0 < window_of m" using assms(2) nm by (simp_all add: ps_config_ok_def)
  then have "samples_ok s" by (simp add: s SchedulePoll_def DeferBatterySampling_def samples_ok_def RollingAverage_inv)
  moreover have "percent_range s = percent_range s0" "ps_power_status s = PowerStatus" "\<not> ps_power_status_initialized s"
    using s0 by (simp_all add: s SchedulePoll_def DeferBatterySampling_def percent_range_def)
  moreover have "timer_ok s" using s0(3) by (simp add: s SchedulePoll_def DeferBatterySampling_def timer_ok_def)
  ultimately show ?thesis using s0(4) PowerStatus_ok
    by (simp add: ps_inv_def core_ok_def status_ok_def battery_ok_def published_ok_def no_battery_read_def)
qed



section \<open>An example\<close>

text \<open>One battery, discharging at 3 percent, with a shutdown percentage of 4.\<close>

definition example_ps_env :: ps_env where
  "example_ps_env = \<lparr>pse_directories = (\<lambda>_. [''BAT0'']),
     pse_ReadFileToString = (\<lambda>file. map_of [(''type'', ''Battery''), (''present'', ''1''), (''status'', ''Discharging''),
        (''voltage_now'', ''8000000''), (''charge_full'', ''2000000''), (''charge_full_design'', ''2000000''),
        (''charge_now'', ''60000''), (''current_now'', ''1000000'')] file),
     pse_PathExists = (\<lambda>file. file = ''charge_full''), pse_DirectoryExists = (\<lambda>_. True),
     pse_WriteFileFully = (\<lambda>_ _. True), pse_Append = (\<lambda>d f. f), pse_BaseName = (\<lambda>p. p),
     pse_TrimTrailing = (\<lambda>v. v),
     pse_StringToInt64 = map_of [(''1'', 1), (''8000000'', 8000000), (''2000000'', 2000000), (''60000'', 60000),
        (''1000000'', 1000000)],
     pse_SplitPairs = (\<lambda>_. None), pse_now = 10000000\<rparr>"

definition example_ps_prefs :: prefs where
  "example_ps_prefs = \<lparr>pref_string = (\<lambda>_. None),
     pref_int64 = (\<lambda>name. if name = ''max_current_samples'' \<or> name = ''max_charge_samples'' then Some 5 else None),
     pref_bool = (\<lambda>_. None)\<rparr>"

definition example_ps_doubles :: "string \<Rightarrow> rat option" where
  "example_ps_doubles name = (if name = ''low_battery_shutdown_percent'' then Some 4 else None)"

definition example_supply :: "power_supply option" where
  "example_supply = ps_Init example_ps_env ''/sys/class/power_supply'' example_ps_prefs example_ps_doubles PowerSupply"

lemma example_config_ok: "ps_config_ok example_ps_prefs example_ps_doubles"
  by (simp add: ps_config_ok_def example_ps_prefs_def example_ps_doubles_def window_of_def percent_range_def
    ps_thresholds_def PowerSupply_def kEpsilon_def Let_def)

lemma example_voltages_ok: "voltages_ok example_ps_env"
  by (simp add: voltages_ok_def ReadScaledDouble_def ReadInt64_def ReadAndTrimString_def example_ps_env_def)

lemma example_supply_Some: "\<exists>s. example_supply = Some s"
  by (simp add: example_supply_def ps_Init_def example_ps_prefs_def Let_def)

lemma example_update:
  "case example_supply of None \<Rightarrow> False | Some s \<Rightarrow>
     (case UpdatePowerStatus example_ps_env UNCONDITIONALLY s of
        None \<Rightarrow> False
      | Some (ok, u) \<Rightarrow> ok \<and> battery_below_shutdown_threshold (ps_power_status u) \<and>
          battery_percentage (ps_power_status u) = 3)"
  by code_simp



end
