(* ===== verification/Daemon.thy ===== *)
theory Daemon
  imports State_Controller Suspender Input_Events Power_Supply
begin

text \<open>
  \<^verbatim>\<open>Daemon\<close> (\<^verbatim>\<open>src/power_manager/powerd/daemon.{h,cc}\<close>): owns the other objects of powerd,
  forwards what one of them reports to the others, answers D-Bus methods, and shuts the system
  down or suspends it.

  The events are the calls that the other components make on their delegate or observer
  (\<open>sc_call\<close>, \<open>su_call\<close>, \<open>ieh_call\<close> of their models), D-Bus methods and signals, and timers.
  The calls that the daemon makes in turn are the trace \<open>d_calls\<close>; where the receiver is
  modelled, a call is the event of the receiver's model (\<open>sc_event\<close>, \<open>su_event\<close>). What the
  callees answer is in \<open>daemon_env\<close>; files may change while \<^verbatim>\<open>DoSuspend()\<close> waits, so that
  it is given one environment per poll. D-Bus arguments arrive read, \<open>None\<close> if that failed;
  constants and names defined outside this repository are constructors or fields of the
  environment. The objects that only write to the log are left out.
\<close>

section \<open>State\<close>

datatype ShutdownMode = POWER_OFF | REBOOT

datatype ShutdownReason = USER_REQUEST | STATE_TRANSITION | LOW_BATTERY | SUSPEND_FAILED
  | DARK_RESUME | SYSTEM_UPDATE | EXIT_DARK_RESUME_FAILED

fun ShutdownReasonToString :: "ShutdownReason \<Rightarrow> string" where
  "ShutdownReasonToString USER_REQUEST = ''user-request''"
| "ShutdownReasonToString STATE_TRANSITION = ''state-transition''"
| "ShutdownReasonToString LOW_BATTERY = ''low-battery''"
| "ShutdownReasonToString SUSPEND_FAILED = ''suspend-failed''"
| "ShutdownReasonToString DARK_RESUME = ''dark-resume''"
| "ShutdownReasonToString SYSTEM_UPDATE = ''system-update''"
| "ShutdownReasonToString EXIT_DARK_RESUME_FAILED = ''exit-dark-resume-failed''"

datatype controller = DISPLAY_CONTROLLER | KEYBOARD_CONTROLLER

datatype bc_call = BcPowerSource PowerSource | BcDisplayMode DisplayMode | BcSession SessionState
  | BcPowerButtonPress | BcVideo bool | BcUserActivity int | BcHover bool | BcTabletMode TabletMode
  | BcPolicy policy | BcChromeStart | BcDimmed bool | BcOff bool | BcSuspended bool
  | BcShuttingDown bool | BcDocked bool | BcForcedOff bool
  | BcIncrease | BcDecrease bool | BcUserBrightness real Transition

datatype metrics_call = MPowerButton ButtonState | MAcknowledgmentDelay TimeDelta | MShutdown ShutdownReason
  | MPrepareForSuspend | MResume int | MCanceledSuspendRequest int
  | MDarkResume "DarkResumeInfo list" TimeDelta | MScreenDimmed bool | MScreenOff bool
  | MSession SessionState | MPowerStatus power_status | MUserActivity

datatype daemon_call =
    ToBacklight controller bc_call
  | ToStateController sc_event
  | ToSuspender su_event
  | ToMetrics metrics_call
  | DevicesLid LidState | DevicesTablet TabletMode | DevicesDisplay DisplayMode
  | AcknowledgePowerButton TimeTicks
  | PowerSupplySuspended bool | PowerSupplySource string
  | AudioSuspended bool | AudioLoadInitialState | AudioUpdateDevices | AudioUpdateNumActiveStreams
  | ExitDarkResume
  | LockSession | StopSession | RetrieveSessionState | GetUpdateEngineStatus | GetTpmStatus
  | RunCommand string | LaunchCommand string
  | SleepFor TimeDelta | CreateEmptyFile string | RemoveFile string
  | EmitBrightnessChanged controller int bool
  | EmitIdleActionImminent TimeDelta | EmitIdleActionDeferred | EmitPowerSupplyPoll power_supply_proto

record daemon_env =
  de_ReadFileToString :: "string \<Rightarrow> string option"
  de_TrimTrailing :: "string \<Rightarrow> string"
  de_StringToUint64 :: "string \<Rightarrow> (64 word) option"
  de_ToDecimal :: "int \<Rightarrow> string"
  de_Append :: "string \<Rightarrow> string \<Rightarrow> string"
  de_DirectoryExists :: "string \<Rightarrow> bool"
  de_PathExists :: "string \<Rightarrow> bool"
  de_WriteEmptyFile :: "string \<Rightarrow> bool"
  de_Run :: "string \<Rightarrow> int"
  de_GetPid :: int
  de_CreateInternalBacklight :: "controller \<Rightarrow> bool"
  de_PublishService :: bool
  de_QueryLidState :: LidState
  de_GetTabletMode :: TabletMode
  de_GetPowerStatus :: power_status
  de_ExitDarkResume :: bool
  de_SetPowerSource :: "string \<Rightarrow> bool"
  de_user_brightness_changed :: bool
  de_GetBrightnessPercent :: "real option"
  de_GetForcedOff :: bool
  de_session_manager_name :: string
  de_cras_name :: string
  de_chrome_name :: string

record daemon =
  d_calls :: "daemon_call list"
  d_display_backlight_controller :: bool
  d_keyboard_backlight_controller :: bool
  d_audio_client :: bool
  d_cryptohomed_dbus_proxy :: bool
  d_shutting_down :: bool
  d_retry_shutdown :: "(ShutdownMode \<times> ShutdownReason) option"
  d_tpm_status_timer :: OneShotTimer
  d_tpm_status_interval :: TimeDelta
  d_suspend_announced_path :: string
  d_session_state :: SessionState
  d_created_suspended_state_file :: bool
  d_log_suspend_with_mosys_eventlog :: bool
  d_suspend_to_idle :: bool
  d_set_wifi_transmit_power_for_tablet_mode :: bool

definition Daemon :: "string \<Rightarrow> daemon" where
  "Daemon suspend_announced_path =
     \<lparr>d_calls = [], d_display_backlight_controller = False, d_keyboard_backlight_controller = False,
      d_audio_client = False, d_cryptohomed_dbus_proxy = False, d_shutting_down = False,
      d_retry_shutdown = None, d_tpm_status_timer = None, d_tpm_status_interval = 0,
      d_suspend_announced_path = suspend_announced_path, d_session_state = SESSION_STOPPED,
      d_created_suspended_state_file = False, d_log_suspend_with_mosys_eventlog = False,
      d_suspend_to_idle = False, d_set_wifi_transmit_power_for_tablet_mode = False\<rparr>"

definition emit :: "daemon_call \<Rightarrow> daemon \<Rightarrow> daemon" where
  "emit c d = d\<lparr>d_calls := d_calls d @ [c]\<rparr>"

text \<open>The display's controller is added before the keyboard's.\<close>

definition all_backlight_controllers :: "daemon \<Rightarrow> controller list" where
  "all_backlight_controllers d =
     (if d_display_backlight_controller d then [DISPLAY_CONTROLLER] else []) @
     (if d_keyboard_backlight_controller d then [KEYBOARD_CONTROLLER] else [])"

definition to_backlights :: "bc_call \<Rightarrow> daemon \<Rightarrow> daemon" where
  "to_backlights c d = fold (\<lambda>controller. emit (ToBacklight controller c)) (all_backlight_controllers d) d"

section \<open>Helpers\<close>

definition kFlashromLockPath :: string where
  "kFlashromLockPath = ''/run/lock/flashrom_powerd.lock''"

definition kBatteryToolLockPath :: string where
  "kBatteryToolLockPath = ''/run/lock/battery_tool_powerd.lock''"

definition kSuspendedStatePath :: string where
  "kSuspendedStatePath = ''/var/lib/power_manager/powerd_suspended''"

definition kFirmwareUpdateTimeout :: TimeDelta where
  "kFirmwareUpdateTimeout = FromMilliseconds 500"

definition kFirmwareUpdatePoll :: TimeDelta where
  "kFirmwareUpdatePoll = FromMilliseconds 100"

definition kSetuidHelperPath :: string where
  "kSetuidHelperPath = ''/usr/bin/powerd_setuid_helper''"

definition PidLockFileExists :: "daemon_env \<Rightarrow> string \<Rightarrow> bool" where
  "PidLockFileExists env path =
     (case de_ReadFileToString env path of
        None \<Rightarrow> False
      | Some pid \<Rightarrow> de_DirectoryExists env (de_Append env ''/proc'' (de_TrimTrailing env pid)))"

definition FirmwareIsBeingUpdated :: "daemon_env \<Rightarrow> bool" where
  "FirmwareIsBeingUpdated env \<longleftrightarrow>
     filter (PidLockFileExists env) [kFlashromLockPath, kBatteryToolLockPath] \<noteq> []"

definition helper_command :: "string \<Rightarrow> string \<Rightarrow> string" where
  "helper_command action additional_args =
     kSetuidHelperPath @ '' --action='' @ action @
     (if additional_args = [] then [] else '' '' @ additional_args)"

definition RunSetuidHelper ::
  "daemon_env \<Rightarrow> string \<Rightarrow> string \<Rightarrow> bool \<Rightarrow> daemon \<Rightarrow> int \<times> daemon" where
  "RunSetuidHelper env action additional_args wait_for_completion d =
     (let command = helper_command action additional_args in
      if wait_for_completion then (de_Run env command, emit (RunCommand command) d)
      else (0, emit (LaunchCommand command) d))"

definition AdjustKeyboardBrightness :: "int \<Rightarrow> daemon \<Rightarrow> daemon" where
  "AdjustKeyboardBrightness direction d =
     (if \<not> d_keyboard_backlight_controller d then d
      else if direction > 0 then emit (ToBacklight KEYBOARD_CONTROLLER BcIncrease) d
      else if direction < 0 then emit (ToBacklight KEYBOARD_CONTROLLER (BcDecrease True)) d
      else d)"

definition SendBrightnessChangedSignal :: "real \<Rightarrow> BrightnessChangeCause \<Rightarrow> controller \<Rightarrow> daemon \<Rightarrow> daemon" where
  "SendBrightnessChangedSignal brightness_percent cause which =
     emit (EmitBrightnessChanged which (lround brightness_percent) (cause = USER_INITIATED))"

definition d_OnBrightnessChange :: "real \<Rightarrow> BrightnessChangeCause \<Rightarrow> controller \<Rightarrow> daemon \<Rightarrow> daemon" where
  "d_OnBrightnessChange brightness_percent cause source d =
     (if source \<in> set (all_backlight_controllers d)
      then SendBrightnessChangedSignal brightness_percent cause source d else d)"

definition UpdateWifiTransmitPowerForTabletMode :: "daemon_env \<Rightarrow> TabletMode \<Rightarrow> daemon \<Rightarrow> daemon" where
  "UpdateWifiTransmitPowerForTabletMode env mode d =
     snd (RunSetuidHelper env ''set_wifi_transmit_power''
       (if mode = TABLET_ON then ''--wifi_transmit_power_tablet'' else ''--nowifi_transmit_power_tablet'')
       False d)"

section \<open>Shutdown and suspend\<close>

text \<open>Told of the shutdown are all controllers, apart from the display's if the battery is low.\<close>

definition told_of_shutdown :: "ShutdownReason \<Rightarrow> daemon \<Rightarrow> controller list" where
  "told_of_shutdown reason d =
     filter (\<lambda>controller. \<not> (reason = LOW_BATTERY \<and> controller = DISPLAY_CONTROLLER))
       (all_backlight_controllers d)"

definition halt_system :: "daemon_env \<Rightarrow> ShutdownMode \<Rightarrow> ShutdownReason \<Rightarrow> daemon \<Rightarrow> daemon" where
  "halt_system env mode reason d = snd (case mode of
     POWER_OFF \<Rightarrow> RunSetuidHelper env ''shut_down''
       (''--shutdown_reason='' @ ShutdownReasonToString reason) False d
   | REBOOT \<Rightarrow> RunSetuidHelper env ''reboot'' [] False d)"

definition d_ShutDown :: "daemon_env \<Rightarrow> ShutdownMode \<Rightarrow> ShutdownReason \<Rightarrow> daemon \<Rightarrow> daemon" where
  "d_ShutDown env mode reason d =
     (if d_shutting_down d then d
      else if FirmwareIsBeingUpdated env
      then (if d_retry_shutdown d = None then d\<lparr>d_retry_shutdown := Some (mode, reason)\<rparr> else d)
      else let d1 = d\<lparr>d_shutting_down := True, d_retry_shutdown := None\<rparr>;
               d2 = emit (ToMetrics (MShutdown reason)) (emit (ToSuspender (SuInput InShutdown)) d1);
               d3 = fold (\<lambda>controller. emit (ToBacklight controller (BcShuttingDown True)))
                      (told_of_shutdown reason d2) d2
           in halt_system env mode reason d3)"

definition d_Suspend :: "(64 word) option \<Rightarrow> daemon \<Rightarrow> daemon" where
  "d_Suspend external_wakeup_count d =
     (if d_shutting_down d then d
      else emit (ToSuspender (SuInput (case external_wakeup_count of
             None \<Rightarrow> InRequestSuspend
           | Some w \<Rightarrow> InRequestSuspendWithExternalWakeupCount w))) d)"

text \<open>
  The wait of \<^verbatim>\<open>DoSuspend()\<close> for a firmware update: \<open>updating n\<close> is what the \<open>n\<close>-th poll sees.
  The result is whether the update has ended, and the number of polls before the last.
\<close>

function wait_for_firmware :: "(nat \<Rightarrow> bool) \<Rightarrow> nat \<Rightarrow> TimeDelta \<Rightarrow> bool \<times> nat" where
  "wait_for_firmware updating n firmware_duration =
     (if \<not> updating n then (True, n)
      else if firmware_duration \<ge> kFirmwareUpdateTimeout then (False, n)
      else wait_for_firmware updating (Suc n) (firmware_duration + kFirmwareUpdatePoll))"
  by auto
termination
  by (relation "measure (\<lambda>(_, _, d). nat (kFirmwareUpdateTimeout - d))")
     (auto simp: kFirmwareUpdateTimeout_def kFirmwareUpdatePoll_def FromMilliseconds_def)

definition touch_suspended_state_file :: "daemon_env \<Rightarrow> daemon \<Rightarrow> daemon" where
  "touch_suspended_state_file env d0 =
     (let d = d0\<lparr>d_created_suspended_state_file := False\<rparr> in
      if de_PathExists env kSuspendedStatePath then d
      else (emit (CreateEmptyFile kSuspendedStatePath) d)
             \<lparr>d_created_suspended_state_file := de_WriteEmptyFile env kSuspendedStatePath\<rparr>)"

definition suspend_args :: "daemon_env \<Rightarrow> (64 word) option \<Rightarrow> TimeDelta \<Rightarrow> daemon \<Rightarrow> string" where
  "suspend_args env wakeup_count duration d =
     (case wakeup_count of None \<Rightarrow> []
      | Some w \<Rightarrow> '' --suspend_wakeup_count_valid --suspend_wakeup_count='' @ de_ToDecimal env (uint w)) @
     (if duration = 0 then [] else '' --suspend_duration='' @ de_ToDecimal env (InSeconds duration)) @
     (if d_suspend_to_idle d then '' --suspend_to_idle'' else [])"

definition suspend_result :: "int \<Rightarrow> SuspendResult" where
  "suspend_result exit_code =
     (if exit_code = 0 then SUCCESS else if exit_code = 1 then FAILURE
      else if exit_code = 2 \<or> exit_code = 3 then CANCELED else FAILURE)"

definition DoSuspend ::
  "(nat \<Rightarrow> daemon_env) \<Rightarrow> (64 word) option \<Rightarrow> TimeDelta \<Rightarrow> daemon \<Rightarrow> SuspendResult \<times> daemon" where
  "DoSuspend envs wakeup_count duration d0 =
     (let (ended, n) = wait_for_firmware (\<lambda>n. FirmwareIsBeingUpdated (envs n)) 0 0;
          env = envs n;
          d1 = d0\<lparr>d_calls := d_calls d0 @ replicate n (SleepFor kFirmwareUpdatePoll)\<rparr>
      in if \<not> ended then (FAILURE, d1)
      else let d2 = touch_suspended_state_file env d1;
          d3 = (if d_log_suspend_with_mosys_eventlog d2
                then snd (RunSetuidHelper env ''mosys_eventlog'' ''--mosys_eventlog_code=0xa7'' True d2) else d2);
          (exit_code, d4) = RunSetuidHelper env ''suspend'' (suspend_args env wakeup_count duration d3) True d3;
          d5 = (if d_log_suspend_with_mosys_eventlog d4
                then snd (RunSetuidHelper env ''mosys_eventlog'' ''--mosys_eventlog_code=0xa8'' False d4) else d4);
          d6 = (if d_created_suspended_state_file d5 then emit (RemoveFile kSuspendedStatePath) d5 else d5)
      in (suspend_result exit_code, d6))"

declare wait_for_firmware.simps [simp del]

section \<open>Calls from the input event handler\<close>

definition d_HandleLidClosed :: "daemon \<Rightarrow> daemon" where
  "d_HandleLidClosed d = emit (ToStateController (EvLidState LID_CLOSED)) (emit (DevicesLid LID_CLOSED) d)"

definition d_HandleLidOpened :: "daemon \<Rightarrow> daemon" where
  "d_HandleLidOpened d =
     emit (DevicesLid LID_OPEN) (emit (ToStateController (EvLidState LID_OPEN))
       (emit (ToSuspender (SuInput InLidOpened)) d))"

definition d_HandlePowerButtonEvent :: "ButtonState \<Rightarrow> daemon \<Rightarrow> daemon" where
  "d_HandlePowerButtonEvent state d =
     (let d1 = emit (ToMetrics (MPowerButton state)) d in
      if state = BUTTON_DOWN then to_backlights BcPowerButtonPress (emit (LaunchCommand ''sync'') d1) else d1)"

definition d_HandleHoverStateChange :: "bool \<Rightarrow> daemon \<Rightarrow> daemon" where
  "d_HandleHoverStateChange hovering = to_backlights (BcHover hovering)"

definition d_HandleTabletModeChange :: "daemon_env \<Rightarrow> TabletMode \<Rightarrow> daemon \<Rightarrow> daemon" where
  "d_HandleTabletModeChange env mode d =
     (let d1 = to_backlights (BcTabletMode mode) (emit (DevicesTablet mode) d) in
      if d_set_wifi_transmit_power_for_tablet_mode d1
      then UpdateWifiTransmitPowerForTabletMode env mode d1 else d1)"

definition ShutDownForPowerButtonWithNoDisplay :: "daemon_env \<Rightarrow> daemon \<Rightarrow> daemon" where
  "ShutDownForPowerButtonWithNoDisplay env d =
     d_ShutDown env POWER_OFF USER_REQUEST (emit (ToMetrics (MPowerButton BUTTON_DOWN)) d)"

text \<open>The input event is the D-Bus signal that the handler itself emits; the daemon has no part in it.\<close>

fun input_call :: "daemon_env \<Rightarrow> ieh_call \<Rightarrow> daemon \<Rightarrow> daemon" where
  "input_call env IehHandleLidClosed d = d_HandleLidClosed d"
| "input_call env IehHandleLidOpened d = d_HandleLidOpened d"
| "input_call env (IehHandlePowerButtonEvent state) d = d_HandlePowerButtonEvent state d"
| "input_call env (IehHandleHoverStateChange hovering) d = d_HandleHoverStateChange hovering d"
| "input_call env (IehHandleTabletModeChange mode) d = d_HandleTabletModeChange env mode d"
| "input_call env IehShutDownForPowerButtonWithNoDisplay d = ShutDownForPowerButtonWithNoDisplay env d"
| "input_call env IehHandleMissingPowerButtonAcknowledgment d = d"
| "input_call env (IehReportPowerButtonAcknowledgmentDelay delay) d = emit (ToMetrics (MAcknowledgmentDelay delay)) d"
| "input_call env (IehEmitInputEvent type timestamp) d = d"

section \<open>Calls from the suspender\<close>

definition GetInitialSuspendId :: "daemon_env \<Rightarrow> int" where
  "GetInitialSuspendId env = (de_GetPid env mod 32768) * 65536 + 1"

definition GetInitialDarkSuspendId :: "daemon_env \<Rightarrow> int" where
  "GetInitialDarkSuspendId env = GetInitialSuspendId env + 32768"

definition IsLidClosedForSuspend :: "daemon_env \<Rightarrow> bool" where
  "IsLidClosedForSuspend env \<longleftrightarrow> de_QueryLidState env = LID_CLOSED"

definition ReadSuspendWakeupCount :: "daemon_env \<Rightarrow> (64 word) option" where
  "ReadSuspendWakeupCount env =
     (case de_ReadFileToString env ''/sys/power/wakeup_count'' of
        None \<Rightarrow> None
      | Some buf \<Rightarrow> de_StringToUint64 env (de_TrimTrailing env buf))"

definition d_SetSuspendAnnounced :: "bool \<Rightarrow> daemon \<Rightarrow> daemon" where
  "d_SetSuspendAnnounced announced d =
     emit ((if announced then CreateEmptyFile else RemoveFile) (d_suspend_announced_path d)) d"

definition d_GetSuspendAnnounced :: "daemon_env \<Rightarrow> daemon \<Rightarrow> bool" where
  "d_GetSuspendAnnounced env d = de_PathExists env (d_suspend_announced_path d)"

definition d_PrepareToSuspend :: "daemon \<Rightarrow> daemon" where
  "d_PrepareToSuspend d =
     (let d1 = emit (PowerSupplySuspended True) (to_backlights (BcSuspended True) d);
          d2 = (if d_audio_client d1 then emit (AudioSuspended True) d1 else d1)
      in emit (ToMetrics MPrepareForSuspend) d2)"

definition d_UndoPrepareToSuspend :: "daemon_env \<Rightarrow> bool \<Rightarrow> int \<Rightarrow> bool \<Rightarrow> daemon \<Rightarrow> daemon" where
  "d_UndoPrepareToSuspend env success num_suspend_attempts canceled_while_in_dark_resume d =
     (let d1 = (if canceled_while_in_dark_resume
                then (if de_ExitDarkResume env then emit ExitDarkResume d
                      else d_ShutDown env POWER_OFF EXIT_DARK_RESUME_FAILED (emit ExitDarkResume d))
                else d);
          d2 = to_backlights (BcSuspended False) (emit (ToStateController EvResume) d1);
          d3 = (if d_audio_client d2 then emit (AudioSuspended False) d2 else d2);
          d4 = emit (PowerSupplySuspended False) d3
      in if success then emit (ToMetrics (MResume num_suspend_attempts)) d4
         else if num_suspend_attempts > 0
         then emit (ToMetrics (MCanceledSuspendRequest num_suspend_attempts)) d4
         else d4)"

definition d_ShutDownForFailedSuspend :: "daemon_env \<Rightarrow> daemon \<Rightarrow> daemon" where
  "d_ShutDownForFailedSuspend env = d_ShutDown env POWER_OFF SUSPEND_FAILED"

definition d_ShutDownForDarkResume :: "daemon_env \<Rightarrow> daemon \<Rightarrow> daemon" where
  "d_ShutDownForDarkResume env = d_ShutDown env POWER_OFF DARK_RESUME"

text \<open>The announcements are D-Bus signals that the suspender emits itself.\<close>

fun suspender_call :: "(nat \<Rightarrow> daemon_env) \<Rightarrow> su_call \<Rightarrow> daemon \<Rightarrow> daemon" where
  "suspender_call envs SuIsLidClosedForSuspend d = d"
| "suspender_call envs SuReadSuspendWakeupCount d = d"
| "suspender_call envs (SuSetSuspendAnnounced announced) d = d_SetSuspendAnnounced announced d"
| "suspender_call envs SuPrepareToSuspend d = d_PrepareToSuspend d"
| "suspender_call envs (SuDoSuspend w valid duration) d =
     snd (DoSuspend envs (if valid then Some w else None) duration d)"
| "suspender_call envs (SuUndoPrepareToSuspend success n dark) d = d_UndoPrepareToSuspend (envs 0) success n dark d"
| "suspender_call envs (SuGenerateDarkResumeMetrics infos duration) d = emit (ToMetrics (MDarkResume infos duration)) d"
| "suspender_call envs SuShutDownForFailedSuspend d = d_ShutDownForFailedSuspend (envs 0) d"
| "suspender_call envs SuShutDownForDarkResume d = d_ShutDownForDarkResume (envs 0) d"
| "suspender_call envs (SuSuspendImminent suspend_id) d = d"
| "suspender_call envs (SuSuspendDone suspend_id duration) d = d"
| "suspender_call envs (SuDarkSuspendImminent suspend_id) d = d"

section \<open>Calls from the state controller\<close>

definition SetBacklightsDimmedForInactivity :: "bool \<Rightarrow> daemon \<Rightarrow> daemon" where
  "SetBacklightsDimmedForInactivity dimmed d = emit (ToMetrics (MScreenDimmed dimmed)) (to_backlights (BcDimmed dimmed) d)"

definition SetBacklightsOffForInactivity :: "bool \<Rightarrow> daemon \<Rightarrow> daemon" where
  "SetBacklightsOffForInactivity off d = emit (ToMetrics (MScreenOff off)) (to_backlights (BcOff off) d)"

definition SetBacklightsDocked :: "bool \<Rightarrow> daemon \<Rightarrow> daemon" where
  "SetBacklightsDocked docked = to_backlights (BcDocked docked)"

fun state_controller_call :: "daemon_env \<Rightarrow> sc_call \<Rightarrow> daemon \<Rightarrow> daemon" where
  "state_controller_call env CallDimScreen d = SetBacklightsDimmedForInactivity True d"
| "state_controller_call env CallUndimScreen d = SetBacklightsDimmedForInactivity False d"
| "state_controller_call env CallTurnScreenOff d = SetBacklightsOffForInactivity True d"
| "state_controller_call env CallTurnScreenOn d = SetBacklightsOffForInactivity False d"
| "state_controller_call env CallLockScreen d = emit LockSession d"
| "state_controller_call env CallSuspend d = d_Suspend None d"
| "state_controller_call env CallStopSession d = emit StopSession d"
| "state_controller_call env CallShutDown d = d_ShutDown env POWER_OFF STATE_TRANSITION d"
| "state_controller_call env (CallUpdatePanelForDockedMode docked) d = SetBacklightsDocked docked d"
| "state_controller_call env (CallEmitIdleActionImminent delay) d = emit (EmitIdleActionImminent delay) d"
| "state_controller_call env CallEmitIdleActionDeferred d = emit EmitIdleActionDeferred d"
| "state_controller_call env CallReportUserActivityMetrics d = emit (ToMetrics MUserActivity) d"

section \<open>Calls from the power supply and the audio client\<close>

definition power_source_of :: "power_status \<Rightarrow> PowerSource" where
  "power_source_of status = (if line_power_on status then AC else BATTERY)"

definition d_OnPowerStatusUpdate :: "daemon_env \<Rightarrow> daemon \<Rightarrow> daemon" where
  "d_OnPowerStatusUpdate env d =
     (let status = de_GetPowerStatus env;
          d1 = to_backlights (BcPowerSource (power_source_of status)) (emit (ToMetrics (MPowerStatus status)) d);
          d2 = emit (ToStateController (EvPowerSource (power_source_of status))) d1;
          d3 = (if battery_is_present status \<and> battery_below_shutdown_threshold status
                then d_ShutDown env POWER_OFF LOW_BATTERY d2 else d2)
      in emit (EmitPowerSupplyPoll (CopyPowerStatusToProtocolBuffer status)) d3)"

definition OnAudioStateChange :: "bool \<Rightarrow> daemon \<Rightarrow> daemon" where
  "OnAudioStateChange active = emit (ToStateController (EvAudioState active))"

section \<open>D-Bus services and signals\<close>

datatype UpdateOperation = OP_DOWNLOADING | OP_VERIFYING | OP_FINALIZING | OP_UPDATED_NEED_REBOOT | OP_OTHER

definition OnSessionStateChange :: "string \<Rightarrow> daemon \<Rightarrow> daemon" where
  "OnSessionStateChange state_str d =
     (let state = (if state_str = ''started'' then SESSION_STARTED else SESSION_STOPPED) in
      if state = d_session_state d then d
      else to_backlights (BcSession state) (emit (ToStateController (EvSessionState state))
             (emit (ToMetrics (MSession state)) (d\<lparr>d_session_state := state\<rparr>))))"

definition OnUpdateOperation :: "UpdateOperation \<Rightarrow> daemon \<Rightarrow> daemon" where
  "OnUpdateOperation operation = emit (ToStateController (EvUpdaterState
     (if operation \<in> {OP_DOWNLOADING, OP_VERIFYING, OP_FINALIZING} then UPDATER_UPDATING
      else if operation = OP_UPDATED_NEED_REBOOT then UPDATER_UPDATED else UPDATER_IDLE)))"

definition RequestTpmStatus :: "daemon \<Rightarrow> daemon" where
  "RequestTpmStatus = emit GetTpmStatus"

definition HandleChromeAvailableOrRestarted :: "bool \<Rightarrow> daemon \<Rightarrow> daemon" where
  "HandleChromeAvailableOrRestarted available d = (if available then to_backlights BcChromeStart d else d)"

text \<open>\<open>response\<close> is the session manager's reply, \<open>None\<close> if there is none or it cannot be read.\<close>

definition HandleSessionManagerAvailableOrRestarted :: "bool \<Rightarrow> string option \<Rightarrow> daemon \<Rightarrow> daemon" where
  "HandleSessionManagerAvailableOrRestarted available response d =
     (if \<not> available then d
      else let d1 = emit RetrieveSessionState d in
           case response of None \<Rightarrow> d1 | Some state \<Rightarrow> OnSessionStateChange state d1)"

definition HandleCrasAvailableOrRestarted :: "bool \<Rightarrow> daemon \<Rightarrow> daemon" where
  "HandleCrasAvailableOrRestarted available d =
     (if available \<and> d_audio_client d then emit AudioLoadInitialState d else d)"

definition HandleUpdateEngineAvailable :: "bool \<Rightarrow> UpdateOperation option \<Rightarrow> daemon \<Rightarrow> daemon" where
  "HandleUpdateEngineAvailable available response d =
     (if \<not> available then d
      else let d1 = emit GetUpdateEngineStatus d in
           case response of None \<Rightarrow> d1 | Some operation \<Rightarrow> OnUpdateOperation operation d1)"

definition HandleCryptohomedAvailable :: "bool \<Rightarrow> daemon \<Rightarrow> daemon" where
  "HandleCryptohomedAvailable available d =
     (if \<not> available \<or> \<not> d_cryptohomed_dbus_proxy d then d
      else let d1 = RequestTpmStatus d in
           if d_tpm_status_interval d1 > 0
           then d1\<lparr>d_tpm_status_timer := Some (d_tpm_status_interval d1)\<rparr> else d1)"

definition d_HandleDBusNameOwnerChanged ::
  "daemon_env \<Rightarrow> (string \<times> string \<times> string) option \<Rightarrow> string option \<Rightarrow> daemon \<Rightarrow> daemon" where
  "d_HandleDBusNameOwnerChanged env signal session_response d =
     (case signal of
        None \<Rightarrow> d
      | Some (name, old_owner, new_owner) \<Rightarrow>
          emit (ToSuspender (SuNameOwnerChanged name old_owner new_owner))
            (if name = de_session_manager_name env \<and> new_owner \<noteq> []
             then HandleSessionManagerAvailableOrRestarted True session_response d
             else if name = de_cras_name env \<and> new_owner \<noteq> [] then HandleCrasAvailableOrRestarted True d
             else if name = de_chrome_name env \<and> new_owner \<noteq> [] then HandleChromeAvailableOrRestarted True d
             else d))"

definition HandleSessionStateChangedSignal :: "string option \<Rightarrow> daemon \<Rightarrow> daemon" where
  "HandleSessionStateChangedSignal state d = (case state of None \<Rightarrow> d | Some s \<Rightarrow> OnSessionStateChange s d)"

definition HandleUpdateEngineStatusUpdateSignal :: "UpdateOperation option \<Rightarrow> daemon \<Rightarrow> daemon" where
  "HandleUpdateEngineStatusUpdateSignal operation d =
     (case operation of None \<Rightarrow> d | Some op \<Rightarrow> OnUpdateOperation op d)"

text \<open>
  The count of dictionary attacks in cryptohomed's reply, \<open>None\<close> if there is no reply or it
  cannot be parsed, has an error code or lacks the nested reply.
\<close>

definition HandleGetTpmStatusResponse :: "int option \<Rightarrow> daemon \<Rightarrow> daemon" where
  "HandleGetTpmStatusResponse response d =
     (case response of None \<Rightarrow> d | Some count \<Rightarrow> emit (ToStateController (EvTpmStatus count)) d)"

section \<open>D-Bus methods\<close>

datatype RequestRestartReason = RESTART_FOR_USER | RESTART_FOR_UPDATE | RESTART_FOR_OTHER

datatype BrightnessTransition = TRANSITION_GRADUAL | TRANSITION_INSTANT | TRANSITION_OTHER

datatype daemon_reply = DReplyEmpty | DReplyNotSupported | DReplyInvalidArgs | DReplyFailed
  | DReplyPercent real | DReplyBool bool | DReplyPowerSupply power_supply_proto
  | DReplySwitchStates TabletMode LidState

definition HandleRequestShutdownMethod :: "daemon_env \<Rightarrow> daemon \<Rightarrow> daemon_reply \<times> daemon" where
  "HandleRequestShutdownMethod env d = (DReplyEmpty, d_ShutDown env POWER_OFF USER_REQUEST d)"

definition HandleRequestRestartMethod ::
  "daemon_env \<Rightarrow> RequestRestartReason option \<Rightarrow> daemon \<Rightarrow> daemon_reply \<times> daemon" where
  "HandleRequestRestartMethod env arg d =
     (DReplyEmpty, d_ShutDown env REBOOT
       (case arg of Some RESTART_FOR_UPDATE \<Rightarrow> SYSTEM_UPDATE | _ \<Rightarrow> USER_REQUEST) d)"

definition HandleRequestSuspendMethod :: "(64 word) option \<Rightarrow> daemon \<Rightarrow> daemon_reply \<times> daemon" where
  "HandleRequestSuspendMethod external_wakeup_count d = (DReplyEmpty, d_Suspend external_wakeup_count d)"

text \<open>A request that changes nothing is announced all the same, so that Chrome can show the level.\<close>

definition announce_if_unchanged :: "daemon_env \<Rightarrow> daemon \<Rightarrow> daemon" where
  "announce_if_unchanged env d =
     (if de_user_brightness_changed env then d
      else case de_GetBrightnessPercent env of
        None \<Rightarrow> d
      | Some percent \<Rightarrow> SendBrightnessChangedSignal percent USER_INITIATED DISPLAY_CONTROLLER d)"

definition HandleDecreaseScreenBrightnessMethod ::
  "daemon_env \<Rightarrow> bool option \<Rightarrow> daemon \<Rightarrow> daemon_reply \<times> daemon" where
  "HandleDecreaseScreenBrightnessMethod env allow_off d =
     (if \<not> d_display_backlight_controller d then (DReplyNotSupported, d)
      else (DReplyEmpty, announce_if_unchanged env
             (emit (ToBacklight DISPLAY_CONTROLLER (BcDecrease (get_or allow_off False))) d)))"

definition HandleIncreaseScreenBrightnessMethod :: "daemon_env \<Rightarrow> daemon \<Rightarrow> daemon_reply \<times> daemon" where
  "HandleIncreaseScreenBrightnessMethod env d =
     (if \<not> d_display_backlight_controller d then (DReplyNotSupported, d)
      else (DReplyEmpty, announce_if_unchanged env (emit (ToBacklight DISPLAY_CONTROLLER BcIncrease) d)))"

definition HandleSetScreenBrightnessMethod ::
  "(real \<times> BrightnessTransition) option \<Rightarrow> daemon \<Rightarrow> daemon_reply \<times> daemon" where
  "HandleSetScreenBrightnessMethod args d =
     (if \<not> d_display_backlight_controller d then (DReplyNotSupported, d)
      else case args of
        None \<Rightarrow> (DReplyInvalidArgs, d)
      | Some (percent, dbus_transition) \<Rightarrow>
          (DReplyEmpty, emit (ToBacklight DISPLAY_CONTROLLER (BcUserBrightness percent
             (if dbus_transition = TRANSITION_INSTANT then INSTANT else FAST))) d))"

definition HandleGetScreenBrightnessMethod :: "daemon_env \<Rightarrow> daemon \<Rightarrow> daemon_reply \<times> daemon" where
  "HandleGetScreenBrightnessMethod env d =
     (if \<not> d_display_backlight_controller d then (DReplyNotSupported, d)
      else case de_GetBrightnessPercent env of
        None \<Rightarrow> (DReplyFailed, d) | Some percent \<Rightarrow> (DReplyPercent percent, d))"

definition HandleDecreaseKeyboardBrightnessMethod :: "daemon \<Rightarrow> daemon_reply \<times> daemon" where
  "HandleDecreaseKeyboardBrightnessMethod d = (DReplyEmpty, AdjustKeyboardBrightness (-1) d)"

definition HandleIncreaseKeyboardBrightnessMethod :: "daemon \<Rightarrow> daemon_reply \<times> daemon" where
  "HandleIncreaseKeyboardBrightnessMethod d = (DReplyEmpty, AdjustKeyboardBrightness 1 d)"

definition HandleGetPowerSupplyPropertiesMethod :: "daemon_env \<Rightarrow> daemon \<Rightarrow> daemon_reply \<times> daemon" where
  "HandleGetPowerSupplyPropertiesMethod env d =
     (DReplyPowerSupply (CopyPowerStatusToProtocolBuffer (de_GetPowerStatus env)), d)"

definition HandleGetSwitchStatesMethod :: "daemon_env \<Rightarrow> daemon \<Rightarrow> daemon_reply \<times> daemon" where
  "HandleGetSwitchStatesMethod env d = (DReplySwitchStates (de_GetTabletMode env) (de_QueryLidState env), d)"

definition HandleVideoActivityMethod :: "bool option \<Rightarrow> daemon \<Rightarrow> daemon_reply \<times> daemon" where
  "HandleVideoActivityMethod fullscreen d =
     (DReplyEmpty, emit (ToStateController EvVideoActivity) (to_backlights (BcVideo (get_or fullscreen False)) d))"

text \<open>\<open>other\<close> is the value of \<^verbatim>\<open>USER_ACTIVITY_OTHER\<close>.\<close>

definition HandleUserActivityMethod :: "int \<Rightarrow> int option \<Rightarrow> daemon \<Rightarrow> daemon_reply \<times> daemon" where
  "HandleUserActivityMethod other type_int d =
     (DReplyEmpty, to_backlights (BcUserActivity (get_or type_int other))
        (emit (ToStateController EvUserActivity) (emit (ToSuspender (SuInput InUserActivity)) d)))"

definition HandleSetIsProjectingMethod :: "bool option \<Rightarrow> daemon \<Rightarrow> daemon_reply \<times> daemon" where
  "HandleSetIsProjectingMethod is_projecting d =
     (case is_projecting of
        None \<Rightarrow> (DReplyInvalidArgs, d)
      | Some projecting \<Rightarrow>
          let mode = (if projecting then DISPLAY_PRESENTATION else DISPLAY_NORMAL) in
          (DReplyEmpty, to_backlights (BcDisplayMode mode)
             (emit (DevicesDisplay mode) (emit (ToStateController (EvDisplayMode mode)) d))))"

definition HandleSetPolicyMethod :: "policy option \<Rightarrow> daemon \<Rightarrow> daemon_reply \<times> daemon" where
  "HandleSetPolicyMethod arg d =
     (case arg of
        None \<Rightarrow> (DReplyInvalidArgs, d)
      | Some policy \<Rightarrow> (DReplyEmpty, to_backlights (BcPolicy policy) (emit (ToStateController (EvPolicy policy)) d)))"

definition HandleSetPowerSourceMethod :: "daemon_env \<Rightarrow> string option \<Rightarrow> daemon \<Rightarrow> daemon_reply \<times> daemon" where
  "HandleSetPowerSourceMethod env arg d =
     (case arg of
        None \<Rightarrow> (DReplyInvalidArgs, d)
      | Some source_id \<Rightarrow>
          (if de_SetPowerSource env source_id then DReplyEmpty else DReplyFailed,
           emit (PowerSupplySource source_id) d))"

definition HandleSetBacklightsForcedOffMethod :: "bool option \<Rightarrow> daemon \<Rightarrow> daemon_reply \<times> daemon" where
  "HandleSetBacklightsForcedOffMethod force_off d =
     (case force_off of
        None \<Rightarrow> (DReplyInvalidArgs, d)
      | Some off \<Rightarrow> (DReplyEmpty, to_backlights (BcForcedOff off) d))"

definition HandleGetBacklightsForcedOffMethod :: "daemon_env \<Rightarrow> daemon \<Rightarrow> daemon_reply \<times> daemon" where
  "HandleGetBacklightsForcedOffMethod env d =
     (DReplyBool (if all_backlight_controllers d = [] then False else de_GetForcedOff env), d)"

definition d_HandlePowerButtonAcknowledgment :: "int option \<Rightarrow> daemon \<Rightarrow> daemon_reply \<times> daemon" where
  "d_HandlePowerButtonAcknowledgment timestamp d =
     (case timestamp of
        None \<Rightarrow> (DReplyInvalidArgs, d)
      | Some t \<Rightarrow> (DReplyEmpty, emit (AcknowledgePowerButton t) d))"

datatype daemon_method = RequestShutdown | RequestRestart "RequestRestartReason option"
  | RequestSuspend "(64 word) option"
  | DecreaseScreenBrightness "bool option" | IncreaseScreenBrightness | GetScreenBrightnessPercent
  | SetScreenBrightnessPercent "(real \<times> BrightnessTransition) option"
  | DecreaseKeyboardBrightness | IncreaseKeyboardBrightness
  | GetPowerSupplyProperties | GetSwitchStates
  | VideoActivityMethod "bool option" | UserActivityMethod int "int option" | SetIsProjecting "bool option"
  | SetPolicy "policy option" | SetPowerSourceMethod "string option"
  | SetBacklightsForcedOff "bool option" | GetBacklightsForcedOff
  | PowerButtonAcknowledgment "int option"

fun call_method :: "daemon_env \<Rightarrow> daemon_method \<Rightarrow> daemon \<Rightarrow> daemon_reply \<times> daemon" where
  "call_method env RequestShutdown d = HandleRequestShutdownMethod env d"
| "call_method env (RequestRestart arg) d = HandleRequestRestartMethod env arg d"
| "call_method env (RequestSuspend arg) d = HandleRequestSuspendMethod arg d"
| "call_method env (DecreaseScreenBrightness arg) d = HandleDecreaseScreenBrightnessMethod env arg d"
| "call_method env IncreaseScreenBrightness d = HandleIncreaseScreenBrightnessMethod env d"
| "call_method env GetScreenBrightnessPercent d = HandleGetScreenBrightnessMethod env d"
| "call_method env (SetScreenBrightnessPercent args) d = HandleSetScreenBrightnessMethod args d"
| "call_method env DecreaseKeyboardBrightness d = HandleDecreaseKeyboardBrightnessMethod d"
| "call_method env IncreaseKeyboardBrightness d = HandleIncreaseKeyboardBrightnessMethod d"
| "call_method env GetPowerSupplyProperties d = HandleGetPowerSupplyPropertiesMethod env d"
| "call_method env GetSwitchStates d = HandleGetSwitchStatesMethod env d"
| "call_method env (VideoActivityMethod arg) d = HandleVideoActivityMethod arg d"
| "call_method env (UserActivityMethod other arg) d = HandleUserActivityMethod other arg d"
| "call_method env (SetIsProjecting arg) d = HandleSetIsProjectingMethod arg d"
| "call_method env (SetPolicy arg) d = HandleSetPolicyMethod arg d"
| "call_method env (SetPowerSourceMethod arg) d = HandleSetPowerSourceMethod env arg d"
| "call_method env (SetBacklightsForcedOff arg) d = HandleSetBacklightsForcedOffMethod arg d"
| "call_method env GetBacklightsForcedOff d = HandleGetBacklightsForcedOffMethod env d"
| "call_method env (PowerButtonAcknowledgment arg) d = d_HandlePowerButtonAcknowledgment arg d"

section \<open>Setup\<close>

definition BoolPrefIsTrue :: "prefs \<Rightarrow> string \<Rightarrow> bool" where
  "BoolPrefIsTrue prefs name \<longleftrightarrow> get_or (pref_bool prefs name) False"

text \<open>Of the setup of D-Bus, the proxy of cryptohomed; \<open>None\<close> is the failed \<^verbatim>\<open>CHECK\<close>.\<close>

definition InitDBus :: "daemon_env \<Rightarrow> prefs \<Rightarrow> daemon \<Rightarrow> daemon option" where
  "InitDBus env prefs d =
     (if de_PublishService env
      then Some (if get_or (pref_int64 prefs ''tpm_counter_suspend_threshold'') 0 > 0
                 then d\<lparr>d_cryptohomed_dbus_proxy := True,
                        d_tpm_status_interval := FromSeconds (get_or (pref_int64 prefs ''tpm_status_interval_sec'') 0)\<rparr>
                 else d)
      else None)"

definition d_Init :: "daemon_env \<Rightarrow> prefs \<Rightarrow> daemon \<Rightarrow> daemon option" where
  "d_Init env prefs d = do {
     d1 \<leftarrow> InitDBus env prefs d;
     let d2 = d1\<lparr>d_display_backlight_controller :=
                  BoolPrefIsTrue prefs ''external_display_only'' \<or> de_CreateInternalBacklight env DISPLAY_CONTROLLER,
                d_keyboard_backlight_controller :=
                  BoolPrefIsTrue prefs ''has_keyboard_backlight'' \<and> de_CreateInternalBacklight env KEYBOARD_CONTROLLER,
                d_set_wifi_transmit_power_for_tablet_mode :=
                  get_or (pref_bool prefs ''set_wifi_transmit_power_for_tablet_mode'')
                    (d_set_wifi_transmit_power_for_tablet_mode d1)\<rparr>;
     let d3 = (if d_set_wifi_transmit_power_for_tablet_mode d2
               then UpdateWifiTransmitPowerForTabletMode env (de_GetTabletMode env) d2 else d2);
     let d4 = d3\<lparr>d_log_suspend_with_mosys_eventlog :=
                   get_or (pref_bool prefs ''mosys_eventlog'') (d_log_suspend_with_mosys_eventlog d3),
                 d_suspend_to_idle := get_or (pref_bool prefs ''suspend_to_idle'') (d_suspend_to_idle d3),
                 d_audio_client := BoolPrefIsTrue prefs ''use_cras''\<rparr>;
     Some (d_OnPowerStatusUpdate env d4)
   }"

section \<open>The event loop\<close>

datatype daemon_event = FromInput ieh_call | FromSuspender su_call | FromStateController sc_call
  | FromPowerSupply | FromAudio bool | FromBacklight real BrightnessChangeCause controller
  | Method daemon_method
  | ChromeAvailable bool | SessionManagerAvailable bool "string option" | CrasAvailable bool
  | UpdateEngineAvailable bool "UpdateOperation option" | CryptohomedAvailable bool
  | NameOwnerChanged "(string \<times> string \<times> string) option" "string option"
  | SessionStateSignal "string option" | UpdateEngineSignal "UpdateOperation option"
  | CrasNodesSignal | CrasStreamsSignal | TpmStatusResponse "int option"
  | RetryShutdownTimer | TpmStatusTimer

text \<open>The signals of CRAS are registered together with the audio client's creation.\<close>

fun daemon_step :: "daemon \<Rightarrow> (nat \<Rightarrow> daemon_env) \<times> daemon_event \<Rightarrow> daemon option" where
  "daemon_step d (envs, FromInput c) = Some (input_call (envs 0) c d)"
| "daemon_step d (envs, FromSuspender c) = Some (suspender_call envs c d)"
| "daemon_step d (envs, FromStateController c) = Some (state_controller_call (envs 0) c d)"
| "daemon_step d (envs, FromPowerSupply) = Some (d_OnPowerStatusUpdate (envs 0) d)"
| "daemon_step d (envs, FromAudio active) = Some (OnAudioStateChange active d)"
| "daemon_step d (envs, FromBacklight percent cause source) = Some (d_OnBrightnessChange percent cause source d)"
| "daemon_step d (envs, Method m) = Some (snd (call_method (envs 0) m d))"
| "daemon_step d (envs, ChromeAvailable available) = Some (HandleChromeAvailableOrRestarted available d)"
| "daemon_step d (envs, SessionManagerAvailable available r) = Some (HandleSessionManagerAvailableOrRestarted available r d)"
| "daemon_step d (envs, CrasAvailable available) = Some (HandleCrasAvailableOrRestarted available d)"
| "daemon_step d (envs, UpdateEngineAvailable available r) = Some (HandleUpdateEngineAvailable available r d)"
| "daemon_step d (envs, CryptohomedAvailable available) = Some (HandleCryptohomedAvailable available d)"
| "daemon_step d (envs, NameOwnerChanged signal r) = Some (d_HandleDBusNameOwnerChanged (envs 0) signal r d)"
| "daemon_step d (envs, SessionStateSignal state) = Some (HandleSessionStateChangedSignal state d)"
| "daemon_step d (envs, UpdateEngineSignal operation) = Some (HandleUpdateEngineStatusUpdateSignal operation d)"
| "daemon_step d (envs, CrasNodesSignal) = Some (if d_audio_client d then emit AudioUpdateDevices d else d)"
| "daemon_step d (envs, CrasStreamsSignal) = Some (if d_audio_client d then emit AudioUpdateNumActiveStreams d else d)"
| "daemon_step d (envs, TpmStatusResponse count) = Some (HandleGetTpmStatusResponse count d)"
| "daemon_step d (envs, RetryShutdownTimer) = Some (case d_retry_shutdown d of
       None \<Rightarrow> d | Some (mode, reason) \<Rightarrow> d_ShutDown (envs 0) mode reason d)"
| "daemon_step d (envs, TpmStatusTimer) = Some (if IsRunning (d_tpm_status_timer d) then RequestTpmStatus d else d)"

end
