(* ===== verification/Daemon_Proofs.thy ===== *)
theory Daemon_Proofs
  imports Daemon
begin

text \<open>
  The daemon of \<open>Daemon\<close> shuts the system down at most once, tells the other components in a
  fixed order, requests no suspend afterwards, and neither shuts down nor suspends while the
  firmware is being updated. Every handler is shown to have one of three shapes (\<open>step_shape\<close>),
  from which the invariant follows.
\<close>

section \<open>Kinds of calls\<close>

definition is_halt :: "string \<Rightarrow> bool" where
  "is_halt command \<longleftrightarrow>
     starts_with (helper_command ''shut_down'' []) command \<or> starts_with (helper_command ''reboot'' []) command"

text \<open>Calls that are no part of a shutdown, and those that do not request a suspend either.\<close>

fun calm :: "daemon_call \<Rightarrow> bool" where
  "calm (ToSuspender (SuInput InShutdown)) = False"
| "calm (ToMetrics (MShutdown _)) = False"
| "calm (ToBacklight _ (BcShuttingDown _)) = False"
| "calm (LaunchCommand command) = (\<not> is_halt command)"
| "calm _ = True"

fun d_quiet :: "daemon_call \<Rightarrow> bool" where
  "d_quiet (ToSuspender (SuInput InRequestSuspend)) = False"
| "d_quiet (ToSuspender (SuInput (InRequestSuspendWithExternalWakeupCount _))) = False"
| "d_quiet c = calm c"

lemma quiet_calm: "d_quiet c \<Longrightarrow> calm c"
  by (cases c rule: d_quiet.cases) auto

lemma list_quiet_calm: "list_all d_quiet cs \<Longrightarrow> list_all calm cs"
  by (auto simp: list_all_iff quiet_calm)

definition halt_command :: "ShutdownMode \<Rightarrow> ShutdownReason \<Rightarrow> string" where
  "halt_command mode reason = (case mode of
     POWER_OFF \<Rightarrow> helper_command ''shut_down'' (''--shutdown_reason='' @ ShutdownReasonToString reason)
   | REBOOT \<Rightarrow> helper_command ''reboot'' [])"

lemma halt_command_halts: "is_halt (halt_command mode reason)"
  by (cases mode) (auto simp: is_halt_def starts_with_def halt_command_def helper_command_def)

lemma other_commands: "\<not> is_halt ''sync''" "\<not> is_halt (helper_command ''mosys_eventlog'' a)"
  "\<not> is_halt (helper_command ''set_wifi_transmit_power'' a)"
  by (simp_all add: is_halt_def starts_with_def helper_command_def kSetuidHelperPath_def)

section \<open>Handlers that leave the shutdown alone\<close>

definition d_quietly :: "daemon \<Rightarrow> daemon \<Rightarrow> bool" where
  "d_quietly d d' \<longleftrightarrow> d_shutting_down d' = d_shutting_down d \<and> d_retry_shutdown d' = d_retry_shutdown d \<and>
     all_backlight_controllers d' = all_backlight_controllers d \<and>
     (\<exists>cs. d_calls d' = d_calls d @ cs \<and> list_all d_quiet cs)"

named_theorems quiet_steps

lemma d_quietly_refl [quiet_steps]: "d_quietly d d"
  by (simp add: d_quietly_def)

lemma d_quietly_emit [quiet_steps]: "d_quietly d d' \<Longrightarrow> d_quiet c \<Longrightarrow> d_quietly d (emit c d')"
  by (auto simp: d_quietly_def emit_def all_backlight_controllers_def)

lemma d_quietly_update [quiet_steps]:
  "d_quietly d d' \<Longrightarrow> d_quietly d (d'\<lparr>d_session_state := x\<rparr>)"
  "d_quietly d d' \<Longrightarrow> d_quietly d (d'\<lparr>d_tpm_status_timer := y\<rparr>)"
  "d_quietly d d' \<Longrightarrow> d_quietly d (d'\<lparr>d_created_suspended_state_file := z\<rparr>)"
  by (auto simp: d_quietly_def all_backlight_controllers_def)

lemma d_quietly_fold: "d_quietly d d' \<Longrightarrow> d_quiet (ToBacklight DISPLAY_CONTROLLER c) \<Longrightarrow>
  d_quiet (ToBacklight KEYBOARD_CONTROLLER c) \<Longrightarrow>
  d_quietly d (fold (\<lambda>controller. emit (ToBacklight controller c)) cs d')"
proof (induction cs arbitrary: d')
  case (Cons a cs)
  have "d_quiet (ToBacklight a c)" using Cons.prems(2,3) by (cases a) auto
  then show ?case using Cons by (simp add: d_quietly_emit)
qed simp

lemma d_quietly_to_backlights [quiet_steps]:
  "d_quietly d d' \<Longrightarrow> d_quiet (ToBacklight DISPLAY_CONTROLLER c) \<Longrightarrow> d_quiet (ToBacklight KEYBOARD_CONTROLLER c) \<Longrightarrow>
   d_quietly d (to_backlights c d')"
  unfolding to_backlights_def by (rule d_quietly_fold)

lemma d_quietly_helper [quiet_steps]:
  "d_quietly d d' \<Longrightarrow> d_quiet (LaunchCommand (helper_command action args)) \<Longrightarrow>
   d_quietly d (snd (RunSetuidHelper env action args wait d'))"
  by (auto simp: RunSetuidHelper_def Let_def intro!: d_quietly_emit)

lemma d_quietly_if [quiet_steps]:
  "(b \<Longrightarrow> d_quietly d x) \<Longrightarrow> (\<not> b \<Longrightarrow> d_quietly d y) \<Longrightarrow> d_quietly d (if b then x else y)"
  by simp

lemma d_quietly_trans: "d_quietly d d1 \<Longrightarrow> d_quietly d1 d2 \<Longrightarrow> d_quietly d d2"
  by (auto simp: d_quietly_def)

lemma d_quietly_DoSuspend [quiet_steps]: "d_quietly d (snd (DoSuspend envs w duration d))"
proof -
  obtain ended n where w: "wait_for_firmware (\<lambda>n. FirmwareIsBeingUpdated (envs n)) 0 0 = (ended, n)"
    by (cases "wait_for_firmware (\<lambda>n. FirmwareIsBeingUpdated (envs n)) 0 0")
  have slept: "d_quietly d (d\<lparr>d_calls := d_calls d @ replicate n (SleepFor kFirmwareUpdatePoll)\<rparr>)"
    by (simp add: d_quietly_def all_backlight_controllers_def list_all_iff)
  show ?thesis
    unfolding DoSuspend_def touch_suspended_state_file_def w
    by (auto simp: Let_def RunSetuidHelper_def intro!: slept quiet_steps other_commands)
qed

lemma d_quietly_OnSessionStateChange [quiet_steps]:
  "d_quietly d d' \<Longrightarrow> d_quietly d (OnSessionStateChange state d')"
  unfolding OnSessionStateChange_def Let_def by (intro quiet_steps) auto

lemma d_quietly_services [quiet_steps]:
  "d_quietly d d' \<Longrightarrow> d_quietly d (HandleSessionManagerAvailableOrRestarted available response d')"
  "d_quietly d d' \<Longrightarrow> d_quietly d (HandleCrasAvailableOrRestarted available d')"
  "d_quietly d d' \<Longrightarrow> d_quietly d (HandleChromeAvailableOrRestarted available d')"
  "d_quietly d d' \<Longrightarrow> d_quietly d (OnUpdateOperation operation d')"
  "d_quietly d d' \<Longrightarrow> d_quietly d (RequestTpmStatus d')"
  by (auto simp: HandleSessionManagerAvailableOrRestarted_def HandleCrasAvailableOrRestarted_def
      HandleChromeAvailableOrRestarted_def OnUpdateOperation_def RequestTpmStatus_def Let_def
      split: option.splits intro!: quiet_steps)

lemma d_quietly_signals:
  "d_quietly d (HandleUpdateEngineAvailable available r d)" "d_quietly d (HandleCryptohomedAvailable available d)"
  "d_quietly d (d_HandleDBusNameOwnerChanged env signal s d)" "d_quietly d (HandleSessionStateChangedSignal state d)"
  "d_quietly d (HandleUpdateEngineStatusUpdateSignal op d)" "d_quietly d (HandleGetTpmStatusResponse count d)"
  "d_quietly d (OnAudioStateChange active d)" "d_quietly d (d_OnBrightnessChange percent cause source d)"
  by (auto simp: HandleUpdateEngineAvailable_def HandleCryptohomedAvailable_def d_HandleDBusNameOwnerChanged_def
      HandleSessionStateChangedSignal_def HandleUpdateEngineStatusUpdateSignal_def HandleGetTpmStatusResponse_def
      OnAudioStateChange_def d_OnBrightnessChange_def SendBrightnessChangedSignal_def Let_def
      split: option.splits intro!: quiet_steps)

section \<open>Shutting down\<close>

text \<open>The calls of a shutdown, in their order.\<close>

definition shutdown_calls :: "controller list \<Rightarrow> ShutdownMode \<Rightarrow> ShutdownReason \<Rightarrow> daemon_call list" where
  "shutdown_calls controllers mode reason =
     [ToSuspender (SuInput InShutdown), ToMetrics (MShutdown reason)] @
     map (\<lambda>controller. ToBacklight controller (BcShuttingDown True))
       (filter (\<lambda>controller. \<not> (reason = LOW_BATTERY \<and> controller = DISPLAY_CONTROLLER)) controllers) @
     [LaunchCommand (halt_command mode reason)]"

lemma fold_emit: "fold (\<lambda>c. emit (f c)) cs d = d\<lparr>d_calls := d_calls d @ map f cs\<rparr>"
  by (induction cs arbitrary: d) (simp_all add: emit_def)

lemma d_ShutDown_now:
  assumes "\<not> d_shutting_down d" "\<not> FirmwareIsBeingUpdated env"
  shows "d_ShutDown env mode reason d = d\<lparr>d_shutting_down := True, d_retry_shutdown := None,
    d_calls := d_calls d @ shutdown_calls (all_backlight_controllers d) mode reason\<rparr>"
  using assms
  by (cases mode) (simp_all add: d_ShutDown_def Let_def fold_emit halt_system_def RunSetuidHelper_def
      told_of_shutdown_def all_backlight_controllers_def emit_def shutdown_calls_def halt_command_def)

lemma d_ShutDown_cases:
  obtains (already) "d_shutting_down d" "d_ShutDown env mode reason d = d"
  | (postponed) "\<not> d_shutting_down d" "FirmwareIsBeingUpdated env" "d_retry_shutdown d \<noteq> None"
      "d_ShutDown env mode reason d = d"
  | (postpone) "\<not> d_shutting_down d" "FirmwareIsBeingUpdated env" "d_retry_shutdown d = None"
      "d_ShutDown env mode reason d = d\<lparr>d_retry_shutdown := Some (mode, reason)\<rparr>"
  | (now) "\<not> d_shutting_down d" "\<not> FirmwareIsBeingUpdated env"
      "d_ShutDown env mode reason d = d\<lparr>d_shutting_down := True, d_retry_shutdown := None,
         d_calls := d_calls d @ shutdown_calls (all_backlight_controllers d) mode reason\<rparr>"
  using d_ShutDown_now [of d env mode reason] by (cases "d_retry_shutdown d") (auto simp: d_ShutDown_def)

definition step_shape :: "daemon_env \<Rightarrow> daemon \<Rightarrow> daemon \<Rightarrow> bool" where
  "step_shape env d d' \<longleftrightarrow> d_quietly d d' \<or> (\<exists>w. d' = d_Suspend w d) \<or>
     (\<exists>mode reason d1. d_quietly d d1 \<and> d_quietly (d_ShutDown env mode reason d1) d')"

lemma shape_quiet: "d_quietly d d' \<Longrightarrow> step_shape env d d'"
  by (simp add: step_shape_def)

lemma shape_suspend: "step_shape env d (d_Suspend w d)"
  by (auto simp: step_shape_def)

lemma shape_shut_down: "d_quietly d d1 \<Longrightarrow> d_quietly (d_ShutDown env mode reason d1) d' \<Longrightarrow> step_shape env d d'"
  by (auto simp: step_shape_def)

lemma input_call_shape: "step_shape env d (input_call env c d)"
proof (cases c)
  case IehShutDownForPowerButtonWithNoDisplay
  have "d_quietly d (emit (ToMetrics (MPowerButton BUTTON_DOWN)) d)" by (intro quiet_steps) simp
  from shape_shut_down [OF this d_quietly_refl] show ?thesis
    by (simp add: IehShutDownForPowerButtonWithNoDisplay ShutDownForPowerButtonWithNoDisplay_def)
qed (auto simp: d_HandleLidClosed_def d_HandleLidOpened_def d_HandlePowerButtonEvent_def other_commands
    d_HandleHoverStateChange_def d_HandleTabletModeChange_def UpdateWifiTransmitPowerForTabletMode_def Let_def
    intro!: shape_quiet quiet_steps)

lemma suspender_call_shape: "step_shape (envs 0) d (suspender_call envs c d)"
proof (cases c)
  case (SuUndoPrepareToSuspend success n dark)
  have rest: "d_quietly x (suspender_call envs (SuUndoPrepareToSuspend success n False) x)" for x
    by (auto simp: d_UndoPrepareToSuspend_def Let_def intro!: quiet_steps)
  consider (no) "\<not> dark" | (ok) "dark" "de_ExitDarkResume (envs 0)" | (fail) "dark" "\<not> de_ExitDarkResume (envs 0)"
    by blast
  then show ?thesis
  proof cases
    case no then show ?thesis using rest [of d] SuUndoPrepareToSuspend by (simp add: shape_quiet)
  next
    case ok
    then have "suspender_call envs c d = suspender_call envs (SuUndoPrepareToSuspend success n False) (emit ExitDarkResume d)"
      by (simp add: SuUndoPrepareToSuspend d_UndoPrepareToSuspend_def)
    moreover have "d_quietly d (emit ExitDarkResume d)" by (intro quiet_steps) simp
    ultimately show ?thesis using d_quietly_trans rest shape_quiet by metis
  next
    case fail
    then have "suspender_call envs c d = suspender_call envs (SuUndoPrepareToSuspend success n False)
        (d_ShutDown (envs 0) POWER_OFF EXIT_DARK_RESUME_FAILED (emit ExitDarkResume d))"
      by (simp add: SuUndoPrepareToSuspend d_UndoPrepareToSuspend_def)
    moreover have "d_quietly d (emit ExitDarkResume d)" by (intro quiet_steps) simp
    ultimately show ?thesis using shape_shut_down rest by metis
  qed
qed (auto simp: d_SetSuspendAnnounced_def d_PrepareToSuspend_def Let_def d_ShutDownForFailedSuspend_def
    d_ShutDownForDarkResume_def
    intro!: shape_shut_down [OF d_quietly_refl d_quietly_refl] shape_quiet quiet_steps split: if_splits)

lemma state_controller_call_shape: "step_shape env d (state_controller_call env c d)"
  by (cases c) (auto simp: SetBacklightsDimmedForInactivity_def SetBacklightsOffForInactivity_def
      SetBacklightsDocked_def
      intro!: shape_suspend shape_shut_down [OF d_quietly_refl d_quietly_refl] shape_quiet quiet_steps)

lemma OnPowerStatusUpdate_shape: "step_shape env d (d_OnPowerStatusUpdate env d)"
proof -
  define status where "status = de_GetPowerStatus env"
  define poll where "poll = EmitPowerSupplyPoll (CopyPowerStatusToProtocolBuffer status)"
  define d2 where "d2 = emit (ToStateController (EvPowerSource (power_source_of status)))
    (to_backlights (BcPowerSource (power_source_of status)) (emit (ToMetrics (MPowerStatus status)) d))"
  have d2: "d_quietly d d2" unfolding d2_def by (intro quiet_steps) simp_all
  have poll: "d_quietly x (emit poll x)" for x unfolding poll_def by (intro quiet_steps) simp
  have "d_OnPowerStatusUpdate env d = emit poll
      (if battery_is_present status \<and> battery_below_shutdown_threshold status
       then d_ShutDown env POWER_OFF LOW_BATTERY d2 else d2)"
    by (simp only: d_OnPowerStatusUpdate_def Let_def status_def poll_def d2_def)
  then show ?thesis using shape_shut_down [OF d2 poll] shape_quiet [OF d_quietly_trans [OF d2 poll]] by simp
qed

lemma call_method_shape: "step_shape env d (snd (call_method env m d))"
proof (cases m)
  case (RequestRestart arg)
  then show ?thesis by (simp add: HandleRequestRestartMethod_def shape_shut_down [OF d_quietly_refl d_quietly_refl])
next
  case RequestShutdown
  then show ?thesis by (simp add: HandleRequestShutdownMethod_def shape_shut_down [OF d_quietly_refl d_quietly_refl])
next
  case (RequestSuspend arg)
  then show ?thesis by (simp add: HandleRequestSuspendMethod_def shape_suspend)
qed (auto simp: HandleDecreaseScreenBrightnessMethod_def HandleIncreaseScreenBrightnessMethod_def
    HandleGetScreenBrightnessMethod_def HandleSetScreenBrightnessMethod_def announce_if_unchanged_def
    HandleDecreaseKeyboardBrightnessMethod_def HandleIncreaseKeyboardBrightnessMethod_def
    HandleGetPowerSupplyPropertiesMethod_def HandleGetSwitchStatesMethod_def HandleVideoActivityMethod_def
    HandleUserActivityMethod_def HandleSetIsProjectingMethod_def HandleSetPolicyMethod_def
    HandleSetPowerSourceMethod_def HandleSetBacklightsForcedOffMethod_def HandleGetBacklightsForcedOffMethod_def
    d_HandlePowerButtonAcknowledgment_def AdjustKeyboardBrightness_def SendBrightnessChangedSignal_def Let_def
    split: option.splits prod.splits intro!: shape_quiet quiet_steps)

lemma daemon_step_total: "\<exists>d'. daemon_step d x = Some d'"
  by (cases "(d, x)" rule: daemon_step.cases) simp_all

lemma daemon_step_shape: "daemon_step d (envs, e) = Some d' \<Longrightarrow> step_shape (envs 0) d d'"
proof -
  have "step_shape (envs 0) d (the (daemon_step d (envs, e)))"
  proof (cases e)
    case RetryShutdownTimer
    then show ?thesis
      by (cases "d_retry_shutdown d") (auto intro!: shape_shut_down [OF d_quietly_refl d_quietly_refl] shape_quiet d_quietly_refl)
  qed (simp_all add: input_call_shape suspender_call_shape state_controller_call_shape OnPowerStatusUpdate_shape
      call_method_shape shape_quiet d_quietly_signals quiet_steps)
  then show "daemon_step d (envs, e) = Some d' \<Longrightarrow> step_shape (envs 0) d d'" by simp
qed

section \<open>The invariant\<close>

text \<open>
  Either no shutdown has begun, and no call belongs to one, or the calls of exactly one shutdown
  have been made, and neither a shutdown nor a request to suspend follows them.
\<close>

definition daemon_inv :: "daemon \<Rightarrow> bool" where
  "daemon_inv d \<longleftrightarrow>
     (if d_shutting_down d
      then d_retry_shutdown d = None \<and> (\<exists>mode reason before after.
        d_calls d = before @ shutdown_calls (all_backlight_controllers d) mode reason @ after \<and>
        list_all calm before \<and> list_all d_quiet after)
      else list_all calm (d_calls d))"

lemma daemon_inv_quietly: "daemon_inv d \<Longrightarrow> d_quietly d d' \<Longrightarrow> daemon_inv d'"
  unfolding daemon_inv_def d_quietly_def by (force dest: list_quiet_calm)

lemma daemon_inv_ShutDown:
  assumes "daemon_inv d"
  shows "daemon_inv (d_ShutDown env mode reason d)"
proof (cases rule: d_ShutDown_cases [of d env mode reason])
  case now
  define cs where "cs = all_backlight_controllers d"
  have cs: "all_backlight_controllers (d\<lparr>d_shutting_down := True, d_retry_shutdown := None, d_calls := xs\<rparr>) = cs" for xs
    by (simp add: cs_def all_backlight_controllers_def)
  show ?thesis using assms now(1)
    by (force simp: now(3) daemon_inv_def cs cs_def [symmetric])
qed (use assms in \<open>simp_all add: daemon_inv_def\<close>)

lemma daemon_inv_Suspend: "daemon_inv d \<Longrightarrow> daemon_inv (d_Suspend w d)"
  by (auto simp: daemon_inv_def d_Suspend_def emit_def split: option.splits)

interpretation powerd: total_event_machine daemon_step daemon_inv
proof
  fix d x d' assume "daemon_inv d" "daemon_step d x = Some d'"
  moreover obtain envs e where "x = (envs, e)" by (cases x)
  ultimately show "daemon_inv d'"
    using daemon_step_shape [of d envs e d'] unfolding step_shape_def
    by (auto intro: daemon_inv_quietly daemon_inv_ShutDown daemon_inv_Suspend)
qed (use daemon_step_total in auto)

lemma d_Init_inv: "d_Init env prefs (Daemon path) = Some d \<Longrightarrow> daemon_inv d"
proof -
  assume init: "d_Init env prefs (Daemon path) = Some d"
  have wifi: "d_shutting_down (UpdateWifiTransmitPowerForTabletMode env mode x) = d_shutting_down x \<and>
      (list_all calm (d_calls x) \<longrightarrow> list_all calm (d_calls (UpdateWifiTransmitPowerForTabletMode env mode x)))" for mode x
    by (auto simp: UpdateWifiTransmitPowerForTabletMode_def RunSetuidHelper_def Let_def emit_def other_commands)
  have fresh: "\<not> d_shutting_down (Daemon path)" "d_calls (Daemon path) = []" by (simp_all add: Daemon_def)
  from init obtain d4 where "d = d_OnPowerStatusUpdate env d4" "\<not> d_shutting_down d4" "list_all calm (d_calls d4)"
    by (auto simp: d_Init_def InitDBus_def bind_eq_Some_conv Let_def wifi fresh split: if_splits)
  moreover from this(2,3) have "daemon_inv d4" by (simp add: daemon_inv_def)
  ultimately show ?thesis
    using OnPowerStatusUpdate_shape [of env d4] unfolding step_shape_def
    by (auto intro: daemon_inv_quietly daemon_inv_ShutDown daemon_inv_Suspend)
qed

section \<open>Requests\<close>

text \<open>The events by which a shutdown or a restart is asked for.\<close>

fun requests_shutdown :: "(nat \<Rightarrow> daemon_env) \<times> daemon_event \<Rightarrow> bool" where
  "requests_shutdown (envs, FromInput IehShutDownForPowerButtonWithNoDisplay) = True"
| "requests_shutdown (envs, FromSuspender SuShutDownForFailedSuspend) = True"
| "requests_shutdown (envs, FromSuspender SuShutDownForDarkResume) = True"
| "requests_shutdown (envs, FromSuspender (SuUndoPrepareToSuspend _ _ dark)) = (dark \<and> \<not> de_ExitDarkResume (envs 0))"
| "requests_shutdown (envs, FromStateController CallShutDown) = True"
| "requests_shutdown (envs, FromPowerSupply) = (battery_is_present (de_GetPowerStatus (envs 0)) \<and>
     battery_below_shutdown_threshold (de_GetPowerStatus (envs 0)))"
| "requests_shutdown (envs, Method RequestShutdown) = True"
| "requests_shutdown (envs, Method (RequestRestart _)) = True"
| "requests_shutdown _ = False"

definition shutdown_pending :: "daemon \<Rightarrow> bool" where
  "shutdown_pending d \<longleftrightarrow> d_shutting_down d \<or> d_retry_shutdown d \<noteq> None"

lemma pending_quietly: "d_quietly d d' \<Longrightarrow> shutdown_pending d' = shutdown_pending d"
  by (auto simp: d_quietly_def shutdown_pending_def)

lemma pending_ShutDown: "shutdown_pending (d_ShutDown env mode reason d)"
  by (cases rule: d_ShutDown_cases [of d env mode reason]) (auto simp: shutdown_pending_def)

lemma pending_Suspend: "shutdown_pending (d_Suspend w d) = shutdown_pending d"
  by (simp add: shutdown_pending_def d_Suspend_def emit_def)

lemma pending_step: "daemon_step d x = Some d' \<Longrightarrow> shutdown_pending d \<Longrightarrow> shutdown_pending d'"
  using daemon_step_shape [of d "fst x" "snd x" d'] unfolding step_shape_def
  by (auto simp: pending_ShutDown pending_Suspend dest: pending_quietly)

lemma pending_run: "run_events daemon_step d es = Some t \<Longrightarrow> shutdown_pending d \<Longrightarrow> shutdown_pending t"
  by (induction es arbitrary: d) (auto split: option.splits dest: pending_step)

lemma pending_emit: "shutdown_pending (emit c d) = shutdown_pending d"
  by (simp add: shutdown_pending_def emit_def)

lemma pending_to_backlights: "shutdown_pending (to_backlights c d) = shutdown_pending d"
  by (simp add: shutdown_pending_def to_backlights_def fold_emit)

lemma request_pending: "daemon_step d x = Some d' \<Longrightarrow> requests_shutdown x \<Longrightarrow> shutdown_pending d'"
  by (cases x rule: requests_shutdown.cases)
     (auto simp: ShutDownForPowerButtonWithNoDisplay_def d_ShutDownForFailedSuspend_def d_ShutDownForDarkResume_def
       HandleRequestShutdownMethod_def HandleRequestRestartMethod_def d_OnPowerStatusUpdate_def
       d_UndoPrepareToSuspend_def Let_def pending_ShutDown pending_emit pending_to_backlights)

lemma requested_run:
  "run_events daemon_step d es = Some t \<Longrightarrow> list_ex requests_shutdown es \<Longrightarrow> shutdown_pending t"
  by (induction es arbitrary: d) (auto split: option.splits dest: request_pending pending_run)

lemma no_shutdown_during_update:
  "daemon_step d (envs, e) = Some d' \<Longrightarrow> FirmwareIsBeingUpdated (envs 0) \<Longrightarrow> d_shutting_down d' = d_shutting_down d"
  using daemon_step_shape [of d envs e d'] unfolding step_shape_def
  by (auto simp: d_quietly_def d_Suspend_def emit_def d_ShutDown_def split: if_splits)

lemma retry_shuts_down:
  assumes "daemon_inv d"
  shows "d_retry_shutdown d \<noteq> None \<and> \<not> FirmwareIsBeingUpdated (envs 0) \<longrightarrow>
    (\<exists>u. daemon_step d (envs, RetryShutdownTimer) = Some u \<and> d_shutting_down u)"
proof (intro impI, elim conjE)
  assume retry: "d_retry_shutdown d \<noteq> None" and idle: "\<not> FirmwareIsBeingUpdated (envs 0)"
  then obtain mode reason where r: "d_retry_shutdown d = Some (mode, reason)" by (cases "d_retry_shutdown d") auto
  from assms retry have "\<not> d_shutting_down d" by (auto simp: daemon_inv_def split: if_splits)
  with idle show "\<exists>u. daemon_step d (envs, RetryShutdownTimer) = Some u \<and> d_shutting_down u"
    by (simp add: r d_ShutDown_now)
qed

section \<open>Waiting for the firmware\<close>

lemma wait_for_firmware_result:
  assumes "wait_for_firmware updating n (int k * kFirmwareUpdatePoll) = (ended, m)" "k \<le> 5"
  shows "n \<le> m \<and> m \<le> n + (5 - k) \<and> (\<forall>i. n \<le> i \<and> i < m \<longrightarrow> updating i) \<and> (ended \<longleftrightarrow> \<not> updating m) \<and>
    (\<not> ended \<longrightarrow> m = n + (5 - k))"
  using assms
proof (induction "5 - k" arbitrary: n k)
  case 0
  then have k: "k = 5" by simp
  have "wait_for_firmware updating n (int k * kFirmwareUpdatePoll) = (\<not> updating n, n)"
    by (subst wait_for_firmware.simps)
       (simp add: k kFirmwareUpdateTimeout_def kFirmwareUpdatePoll_def FromMilliseconds_def)
  with 0 k show ?case by auto
next
  case (Suc j)
  show ?case
  proof (cases "updating n")
    case False
    then have "wait_for_firmware updating n x = (True, n)" for x by (subst wait_for_firmware.simps) simp
    with Suc.prems False show ?thesis by auto
  next
    case True
    have early: "\<not> int k * kFirmwareUpdatePoll \<ge> kFirmwareUpdateTimeout" using Suc.hyps(2)
      by (simp add: kFirmwareUpdateTimeout_def kFirmwareUpdatePoll_def FromMilliseconds_def)
    have "wait_for_firmware updating n (int k * kFirmwareUpdatePoll) =
        wait_for_firmware updating (Suc n) (int (Suc k) * kFirmwareUpdatePoll)"
      using True early by (subst wait_for_firmware.simps) (simp add: algebra_simps)
    then have next_poll: "wait_for_firmware updating (Suc n) (int (Suc k) * kFirmwareUpdatePoll) = (ended, m)"
      using Suc.prems(1) by simp
    have k: "j = 5 - Suc k" "Suc k \<le> 5" using Suc.hyps(2) by linarith+
    note IH = Suc.hyps(1) [OF k(1) next_poll k(2)]
    then have bounds: "Suc n \<le> m" "m \<le> Suc n + (5 - Suc k)" "\<not> ended \<longrightarrow> m = Suc n + (5 - Suc k)" by blast+
    have "updating i" if "n \<le> i" "i < m" for i
    proof (cases "i = n")
      case False
      with that(1) have "Suc n \<le> i" by simp
      with IH that(2) show ?thesis by blast
    qed (use True in simp)
    moreover have "5 - k = Suc (5 - Suc k)" using k(2) by (simp add: Suc_diff_Suc)
    then have "n \<le> m \<and> m \<le> n + (5 - k) \<and> (\<not> ended \<longrightarrow> m = n + (5 - k))" using bounds by simp
    ultimately show ?thesis using IH by blast
  qed
qed

lemma DoSuspend_waits:
  "(\<exists>n \<le> 5. \<not> FirmwareIsBeingUpdated (envs n) \<and> (\<forall>i < n. FirmwareIsBeingUpdated (envs i))) \<or>
   DoSuspend envs w duration d =
     (FAILURE, d\<lparr>d_calls := d_calls d @ replicate 5 (SleepFor kFirmwareUpdatePoll)\<rparr>)"
proof -
  let ?updating = "\<lambda>n. FirmwareIsBeingUpdated (envs n)"
  obtain ended n where w: "wait_for_firmware ?updating 0 0 = (ended, n)" by (cases "wait_for_firmware ?updating 0 0")
  then have "wait_for_firmware ?updating 0 (int 0 * kFirmwareUpdatePoll) = (ended, n)" by simp
  note polled = wait_for_firmware_result [OF this le0]
  then have "n \<le> 0 + (5 - 0)" "\<not> ended \<longrightarrow> n = 0 + (5 - 0)" by blast+
  then have n: "n \<le> 5" "\<not> ended \<longrightarrow> n = 5" by simp_all
  have u: "\<forall>i < n. ?updating i" "ended \<longleftrightarrow> \<not> ?updating n" using polled le0 by blast+
  show ?thesis
  proof (cases ended)
    case True
    with n(1) u show ?thesis by blast
  next
    case False
    with n(2) show ?thesis by (intro disjI2) (simp only: DoSuspend_def w Let_def split if_True not_False_eq_True)
  qed
qed

text \<open>
  C39. The system is shut down once, in order, and never during a firmware update. Take a daemon
  that was set up, with any hardware, and any sequence of events. Once it has begun to shut
  down, its calls contain exactly one shutdown: the suspender is told first, then the metrics,
  then the backlight controllers (without the display's, if the reason is a low battery), and
  last the helper that halts or reboots the system is launched; before, no call belongs to a
  shutdown, and after it neither a second shutdown nor a request to suspend is made. While the
  lock file of a running firmware updater exists, no event begins a shutdown, but no request is
  lost: after an event that asks for one, the shutdown has begun or is pending, and a pending one
  begins as soon as the retry timer fires without a running updater. An attempt to suspend goes
  ahead only after a poll that finds no updater, within five polls of 100 milliseconds, and
  fails otherwise without further action.
\<close>

theorem daemon_shuts_down_once:
  assumes "d_Init env prefs (Daemon path) = Some d" "run_events daemon_step d es = Some t"
  shows "(d_shutting_down t \<longrightarrow> (\<exists>mode reason before after.
      d_calls t = before @ shutdown_calls (all_backlight_controllers t) mode reason @ after \<and>
      list_all calm before \<and> list_all d_quiet after)) \<and>
    (\<not> d_shutting_down t \<longrightarrow> list_all calm (d_calls t)) \<and>
    (daemon_step t (envs, e) = Some u \<and> FirmwareIsBeingUpdated (envs 0) \<longrightarrow> d_shutting_down u = d_shutting_down t) \<and>
    (list_ex requests_shutdown es \<longrightarrow> d_shutting_down t \<or> d_retry_shutdown t \<noteq> None) \<and>
    (d_retry_shutdown t \<noteq> None \<and> \<not> FirmwareIsBeingUpdated (envs 0) \<longrightarrow>
      (\<exists>u. daemon_step t (envs, RetryShutdownTimer) = Some u \<and> d_shutting_down u)) \<and>
    ((\<exists>n \<le> 5. \<not> FirmwareIsBeingUpdated (envs n) \<and> (\<forall>i < n. FirmwareIsBeingUpdated (envs i))) \<or>
      DoSuspend envs w duration t =
        (FAILURE, t\<lparr>d_calls := d_calls t @ replicate 5 (SleepFor kFirmwareUpdatePoll)\<rparr>))"
proof (intro conjI)
  have inv: "daemon_inv t" using powerd.run_inv [OF d_Init_inv [OF assms(1)] assms(2)] .
  then show "d_shutting_down t \<longrightarrow> (\<exists>mode reason before after.
      d_calls t = before @ shutdown_calls (all_backlight_controllers t) mode reason @ after \<and>
      list_all calm before \<and> list_all d_quiet after)"
    and "\<not> d_shutting_down t \<longrightarrow> list_all calm (d_calls t)"
    by (simp_all add: daemon_inv_def)
  show "daemon_step t (envs, e) = Some u \<and> FirmwareIsBeingUpdated (envs 0) \<longrightarrow> d_shutting_down u = d_shutting_down t"
    using no_shutdown_during_update [of t envs e u] by blast
  show "list_ex requests_shutdown es \<longrightarrow> d_shutting_down t \<or> d_retry_shutdown t \<noteq> None"
    using requested_run [OF assms(2)] unfolding shutdown_pending_def by blast
  show "d_retry_shutdown t \<noteq> None \<and> \<not> FirmwareIsBeingUpdated (envs 0) \<longrightarrow>
      (\<exists>u. daemon_step t (envs, RetryShutdownTimer) = Some u \<and> d_shutting_down u)"
    by (rule retry_shuts_down [OF inv])
  show "(\<exists>n \<le> 5. \<not> FirmwareIsBeingUpdated (envs n) \<and> (\<forall>i < n. FirmwareIsBeingUpdated (envs i))) \<or>
      DoSuspend envs w duration t =
        (FAILURE, t\<lparr>d_calls := d_calls t @ replicate 5 (SleepFor kFirmwareUpdatePoll)\<rparr>)"
    by (rule DoSuspend_waits)
qed

text \<open>A machine with a panel and a keyboard backlight; \<open>updating\<close>: flashrom is running.\<close>

definition example_daemon_env :: "bool \<Rightarrow> daemon_env" where
  "example_daemon_env updating =
     \<lparr>de_ReadFileToString = (\<lambda>path. if updating \<and> path = kFlashromLockPath then Some ''123'' else None),
      de_TrimTrailing = (\<lambda>s. s), de_StringToUint64 = (\<lambda>_. None), de_ToDecimal = (\<lambda>_. ''0''),
      de_Append = (\<lambda>d f. d @ ''/'' @ f), de_DirectoryExists = (\<lambda>path. path = ''/proc/123''),
      de_PathExists = (\<lambda>_. False), de_WriteEmptyFile = (\<lambda>_. True), de_Run = (\<lambda>_. 0), de_GetPid = 1000,
      de_CreateInternalBacklight = (\<lambda>_. True), de_PublishService = True, de_QueryLidState = LID_OPEN,
      de_GetTabletMode = TABLET_OFF, de_GetPowerStatus = PowerStatus, de_ExitDarkResume = True,
      de_SetPowerSource = (\<lambda>_. True), de_user_brightness_changed = True, de_GetBrightnessPercent = Some 50,
      de_GetForcedOff = False, de_session_manager_name = ''s'', de_cras_name = ''a'', de_chrome_name = ''c''\<rparr>"

definition example_daemon_prefs :: prefs where
  "example_daemon_prefs = \<lparr>pref_string = (\<lambda>_. None), pref_int64 = (\<lambda>_. None),
     pref_bool = (\<lambda>name. if name = ''has_keyboard_backlight'' then Some True else None)\<rparr>"

definition example_daemon :: daemon where
  "example_daemon = the (d_Init (example_daemon_env False) example_daemon_prefs (Daemon ''/run''))"

lemma example_updating: "FirmwareIsBeingUpdated (example_daemon_env updating) = updating"
  by (simp add: FirmwareIsBeingUpdated_def PidLockFileExists_def example_daemon_env_def kFlashromLockPath_def
      kBatteryToolLockPath_def)

lemma example_Init: "d_Init (example_daemon_env False) example_daemon_prefs (Daemon ''/run'') = Some example_daemon"
  by (simp add: example_daemon_def d_Init_def InitDBus_def example_daemon_env_def example_daemon_prefs_def Let_def)

lemma example_running: "\<not> d_shutting_down example_daemon"
  by (simp add: example_daemon_def d_Init_def InitDBus_def example_daemon_env_def example_daemon_prefs_def
      d_OnPowerStatusUpdate_def PowerStatus_def Daemon_def emit_def to_backlights_def fold_emit Let_def)

text \<open>A shutdown requested while flashrom runs is pending, and begins when the timer fires later.\<close>

theorem daemon_shuts_down_once_witness:
  "\<exists>t u. run_events daemon_step example_daemon [(\<lambda>_. example_daemon_env True, Method RequestShutdown)] = Some t \<and>
     \<not> d_shutting_down t \<and> list_all calm (d_calls t) \<and> d_retry_shutdown t \<noteq> None \<and>
     daemon_step t (\<lambda>_. example_daemon_env False, RetryShutdownTimer) = Some u \<and> d_shutting_down u"
proof -
  let ?es = "[(\<lambda>_ :: nat. example_daemon_env True, Method RequestShutdown)]"
  define t where "t = d_ShutDown (example_daemon_env True) POWER_OFF USER_REQUEST example_daemon"
  have run: "run_events daemon_step example_daemon ?es = Some t"
    by (simp add: t_def HandleRequestShutdownMethod_def)
  have "\<not> d_shutting_down t" using example_running by (simp add: t_def d_ShutDown_def example_updating)
  with daemon_shuts_down_once [OF example_Init run, of "\<lambda>_. example_daemon_env False"] run show ?thesis
    by (auto simp: example_updating)
qed

end
