(* ===== verification/Input_Watcher.thy ===== *)
theory Input_Watcher
  imports Udev_Devices
begin

text \<open>
  \<^verbatim>\<open>EventDevice\<close> and \<^verbatim>\<open>InputWatcher\<close> (\<^verbatim>\<open>src/power_manager/powerd/system/event_device.cc\<close>,
  \<^verbatim>\<open>input_watcher.{h,cc}\<close>): finds the devices with a power button, a lid switch, a tablet mode
  switch or a touchpad that senses hovering hands, reads their events and announces them.

  A pointer to a device is a number; \<open>iw_next_device\<close> is the address of the next device that is
  opened. The calls of the observers are the trace \<open>iw_notified\<close>, the events read from devices,
  with the roles the device then had, the trace \<open>iw_reads\<close>. Types and codes of events have the
  kernel's numbers.
\<close>

unbundle bit_operations_syntax

section \<open>Event devices\<close>

record input_event =
  ev_type :: nat
  ev_code :: nat
  ev_value :: int

abbreviation (input) EV_SYN :: nat where "EV_SYN \<equiv> 0"
abbreviation (input) EV_KEY :: nat where "EV_KEY \<equiv> 1"
abbreviation (input) EV_ABS :: nat where "EV_ABS \<equiv> 3"
abbreviation (input) EV_SW :: nat where "EV_SW \<equiv> 5"
abbreviation (input) SYN_REPORT :: nat where "SYN_REPORT \<equiv> 0"
abbreviation (input) SW_LID :: nat where "SW_LID \<equiv> 0"
abbreviation (input) SW_TABLET_MODE :: nat where "SW_TABLET_MODE \<equiv> 1"
abbreviation (input) KEY_POWER :: nat where "KEY_POWER \<equiv> 116"
abbreviation (input) BTN_LEFT :: nat where "BTN_LEFT \<equiv> 272"
abbreviation (input) BTN_TOOL_FINGER :: nat where "BTN_TOOL_FINGER \<equiv> 325"
abbreviation (input) BTN_TOUCH :: nat where "BTN_TOUCH \<equiv> 330"
abbreviation (input) ABS_DISTANCE :: nat where "ABS_DISTANCE \<equiv> 25"
abbreviation (input) ABS_MT_SLOT :: nat where "ABS_MT_SLOT \<equiv> 47"
abbreviation (input) ABS_MT_TRACKING_ID :: nat where "ABS_MT_TRACKING_ID \<equiv> 57"
abbreviation (input) ABS_MT_DISTANCE :: nat where "ABS_MT_DISTANCE \<equiv> 59"

text \<open>The bits that the kernel reports for a type of event, and for the switches; \<open>None\<close>: the call fails.\<close>

record event_device =
  ed_GetPhysPath :: string
  ed_event_bits :: "nat \<Rightarrow> nat set option"
  ed_switch_bits :: "nat set option"

definition HasEventBit :: "event_device \<Rightarrow> nat \<Rightarrow> nat \<Rightarrow> bool" where
  "HasEventBit device event_type b = (case ed_event_bits device event_type of None \<Rightarrow> False | Some bits \<Rightarrow> b \<in> bits)"

definition GetSwitchBit :: "event_device \<Rightarrow> nat \<Rightarrow> bool" where
  "GetSwitchBit device b = (case ed_switch_bits device of None \<Rightarrow> False | Some bits \<Rightarrow> b \<in> bits)"

definition IsLidSwitch :: "event_device \<Rightarrow> bool" where
  "IsLidSwitch device \<longleftrightarrow> HasEventBit device 0 EV_SW \<and> HasEventBit device EV_SW SW_LID"

definition IsTabletModeSwitch :: "event_device \<Rightarrow> bool" where
  "IsTabletModeSwitch device \<longleftrightarrow> HasEventBit device 0 EV_SW \<and> HasEventBit device EV_SW SW_TABLET_MODE"

definition IsPowerButton :: "event_device \<Rightarrow> bool" where
  "IsPowerButton device \<longleftrightarrow> HasEventBit device 0 EV_KEY \<and> HasEventBit device EV_KEY KEY_POWER"

definition HoverSupported :: "event_device \<Rightarrow> bool" where
  "HoverSupported device \<longleftrightarrow>
     (HasEventBit device 0 EV_ABS \<and> HasEventBit device EV_ABS ABS_MT_DISTANCE) \<or>
     (HasEventBit device 0 EV_ABS \<and> HasEventBit device EV_ABS ABS_DISTANCE \<and>
      HasEventBit device 0 EV_KEY \<and> HasEventBit device EV_KEY BTN_TOUCH \<and>
      HasEventBit device EV_KEY BTN_TOOL_FINGER)"

definition HasLeftButton :: "event_device \<Rightarrow> bool" where
  "HasLeftButton device \<longleftrightarrow> HasEventBit device 0 EV_KEY \<and> HasEventBit device EV_KEY BTN_LEFT"

definition GetInitialLidState :: "event_device \<Rightarrow> LidState" where
  "GetInitialLidState device = (if GetSwitchBit device SW_LID then LID_CLOSED else LID_OPEN)"

definition GetInitialTabletMode :: "event_device \<Rightarrow> TabletMode" where
  "GetInitialTabletMode device = (if GetSwitchBit device SW_TABLET_MODE then TABLET_ON else TABLET_OFF)"

text \<open>
  \<open>read\<close>: the number of bytes that \<^verbatim>\<open>read()\<close> returns and the buffer of 64 events;
  \<open>event_size\<close>: the size of an event.
\<close>

definition ReadEvents :: "nat \<Rightarrow> int \<times> input_event list \<Rightarrow> input_event list option" where
  "ReadEvents event_size = (\<lambda>(read_size, buffer).
     if read_size \<le> 0 then None
     else if nat read_size mod event_size \<noteq> 0 then None
     else Some (take (nat read_size div event_size) buffer))"

section \<open>State\<close>

datatype iw_note = NoteLid LidState | NoteTablet TabletMode | NotePowerButton ButtonState | NoteHover bool

record input_watcher =
  iw_notified :: "iw_note list"
  iw_reads :: "(input_event \<times> 32 word) list"
  iw_next_device :: nat
  iw_power_button_devices :: "nat set"
  iw_lid_device :: "nat option"
  iw_tablet_mode_device :: "nat option"
  iw_hover_device :: "nat option"
  iw_use_lid :: bool
  iw_lid_state :: LidState
  iw_tablet_mode :: TabletMode
  iw_detect_hover :: bool
  iw_hovering :: bool
  iw_current_multitouch_slot :: int
  iw_multitouch_slots_hover_state :: "64 word"
  iw_single_touch_hover_valid :: bool
  iw_single_touch_hover_distance_nonzero :: bool
  iw_queued_events :: "(input_event \<times> 32 word) list"
  iw_send_queued_events_task :: bool
  iw_power_button_to_skip :: string
  iw_event_devices :: "(int \<times> nat) list"

definition InputWatcher :: input_watcher where
  "InputWatcher =
     \<lparr>iw_notified = [], iw_reads = [], iw_next_device = 0, iw_power_button_devices = {}, iw_lid_device = None,
      iw_tablet_mode_device = None, iw_hover_device = None, iw_use_lid = True, iw_lid_state = LID_OPEN,
      iw_tablet_mode = TABLET_UNSUPPORTED, iw_detect_hover = False, iw_hovering = False,
      iw_current_multitouch_slot = 0, iw_multitouch_slots_hover_state = 0,
      iw_single_touch_hover_valid = False, iw_single_touch_hover_distance_nonzero = False,
      iw_queued_events = [], iw_send_queued_events_task = False,
      iw_power_button_to_skip = ''LNXPWRBN'', iw_event_devices = []\<rparr>"

abbreviation (input) DEVICE_POWER_BUTTON :: "32 word" where "DEVICE_POWER_BUTTON \<equiv> 1"
abbreviation (input) DEVICE_LID_SWITCH :: "32 word" where "DEVICE_LID_SWITCH \<equiv> 2"
abbreviation (input) DEVICE_TABLET_MODE_SWITCH :: "32 word" where "DEVICE_TABLET_MODE_SWITCH \<equiv> 4"
abbreviation (input) DEVICE_HOVER :: "32 word" where "DEVICE_HOVER \<equiv> 8"

definition notify_input :: "iw_note \<Rightarrow> input_watcher \<Rightarrow> input_watcher" where
  "notify_input n s = s\<lparr>iw_notified := iw_notified s @ [n]\<rparr>"

section \<open>Events\<close>

definition GetLidStateFromEvent :: "input_event \<Rightarrow> LidState option" where
  "GetLidStateFromEvent event =
     (if ev_type event \<noteq> EV_SW \<or> ev_code event \<noteq> SW_LID then None
      else Some (if ev_value event = 1 then LID_CLOSED else LID_OPEN))"

definition GetTabletModeFromEvent :: "input_event \<Rightarrow> TabletMode option" where
  "GetTabletModeFromEvent event =
     (if ev_type event \<noteq> EV_SW \<or> ev_code event \<noteq> SW_TABLET_MODE then None
      else Some (if ev_value event = 1 then TABLET_ON else TABLET_OFF))"

definition GetPowerButtonStateFromEvent :: "input_event \<Rightarrow> ButtonState option" where
  "GetPowerButtonStateFromEvent event =
     (if ev_type event \<noteq> EV_KEY \<or> ev_code event \<noteq> KEY_POWER then None
      else if ev_value event = 0 then Some BUTTON_UP
      else if ev_value event = 1 then Some BUTTON_DOWN
      else if ev_value event = 2 then Some BUTTON_REPEAT
      else None)"

definition GetDeviceTypes :: "nat \<Rightarrow> input_watcher \<Rightarrow> 32 word" where
  "GetDeviceTypes device s =
     (if device \<in> iw_power_button_devices s then DEVICE_POWER_BUTTON else 0) OR
     (if iw_lid_device s = Some device then DEVICE_LID_SWITCH else 0) OR
     (if iw_tablet_mode_device s = Some device then DEVICE_TABLET_MODE_SWITCH else 0) OR
     (if iw_hover_device s = Some device then DEVICE_HOVER else 0)"

text \<open>The slots are the 64 bits of the hover state.\<close>

definition ProcessHoverEvent :: "input_event \<Rightarrow> input_watcher \<Rightarrow> input_watcher" where
  "ProcessHoverEvent event s =
     (if ev_type event = EV_ABS \<and> ev_code event = ABS_MT_SLOT
      then s\<lparr>iw_current_multitouch_slot :=
               (if ev_value event < 0 \<or> ev_value event \<ge> 64 then - 1 else ev_value event)\<rparr>
      else if ev_type event = EV_ABS \<and> ev_code event = ABS_MT_TRACKING_ID
      then (if iw_current_multitouch_slot s \<ge> 0
            then let slot_bit = push_bit (nat (iw_current_multitouch_slot s)) 1 in
                 s\<lparr>iw_multitouch_slots_hover_state :=
                     (if ev_value event \<ge> 0 then iw_multitouch_slots_hover_state s OR slot_bit
                      else iw_multitouch_slots_hover_state s AND NOT slot_bit)\<rparr>
            else s)
      else if ev_type event = EV_ABS \<and> ev_code event = ABS_DISTANCE
      then s\<lparr>iw_single_touch_hover_distance_nonzero := ev_value event > 0\<rparr>
      else if ev_type event = EV_KEY \<and> ev_code event = BTN_TOOL_FINGER
      then s\<lparr>iw_single_touch_hover_valid := ev_value event = 1\<rparr>
      else if ev_type event = EV_SYN \<and> ev_code event = SYN_REPORT
      then let hovering = iw_multitouch_slots_hover_state s \<noteq> 0 \<or>
                 (iw_single_touch_hover_distance_nonzero s \<and> iw_single_touch_hover_valid s)
           in if hovering \<noteq> iw_hovering s then notify_input (NoteHover hovering) (s\<lparr>iw_hovering := hovering\<rparr>) else s
      else s)"

definition process_lid :: "input_event \<Rightarrow> 32 word \<Rightarrow> input_watcher \<Rightarrow> input_watcher" where
  "process_lid event device_types s =
     (case GetLidStateFromEvent event of
        Some lid_state \<Rightarrow> if device_types AND DEVICE_LID_SWITCH \<noteq> 0 then notify_input (NoteLid lid_state) s else s
      | None \<Rightarrow> s)"

definition process_tablet_mode :: "input_event \<Rightarrow> 32 word \<Rightarrow> input_watcher \<Rightarrow> input_watcher" where
  "process_tablet_mode event device_types s =
     (case GetTabletModeFromEvent event of
        Some tablet_mode \<Rightarrow>
          if device_types AND DEVICE_TABLET_MODE_SWITCH \<noteq> 0
          then notify_input (NoteTablet tablet_mode) (s\<lparr>iw_tablet_mode := tablet_mode\<rparr>) else s
      | None \<Rightarrow> s)"

definition process_power_button :: "input_event \<Rightarrow> 32 word \<Rightarrow> input_watcher \<Rightarrow> input_watcher" where
  "process_power_button event device_types s =
     (case GetPowerButtonStateFromEvent event of
        Some button_state \<Rightarrow>
          if device_types AND DEVICE_POWER_BUTTON \<noteq> 0 then notify_input (NotePowerButton button_state) s else s
      | None \<Rightarrow> s)"

definition ProcessEvent :: "input_event \<Rightarrow> 32 word \<Rightarrow> input_watcher \<Rightarrow> input_watcher" where
  "ProcessEvent event device_types s =
     (let s1 = process_power_button event device_types
                 (process_tablet_mode event device_types (process_lid event device_types s))
      in if device_types AND DEVICE_HOVER \<noteq> 0 then ProcessHoverEvent event s1 else s1)"

definition SendQueuedEvents :: "input_watcher \<Rightarrow> input_watcher" where
  "SendQueuedEvents s =
     (fold (\<lambda>(event, device_types). ProcessEvent event device_types) (iw_queued_events s) s)\<lparr>iw_queued_events := []\<rparr>"

definition note_lid_state :: "input_event \<Rightarrow> input_watcher \<Rightarrow> input_watcher" where
  "note_lid_state event s = s\<lparr>iw_lid_state := get_or (GetLidStateFromEvent event) (iw_lid_state s)\<rparr>"

text \<open>\<open>events\<close>: what \<^verbatim>\<open>ReadEvents()\<close> gives.\<close>

definition OnNewEvents :: "nat \<Rightarrow> input_event list option \<Rightarrow> input_watcher \<Rightarrow> input_watcher" where
  "OnNewEvents device events s0 =
     (let s = SendQueuedEvents s0; device_types = GetDeviceTypes device s in
      case events of
        None \<Rightarrow> s
      | Some es \<Rightarrow>
          fold (\<lambda>event s. ProcessEvent event device_types
                  (if device_types AND DEVICE_LID_SWITCH \<noteq> 0 then note_lid_state event s else s))
            es (s\<lparr>iw_reads := iw_reads s @ map (\<lambda>event. (event, device_types)) es\<rparr>))"

text \<open>
  The loop of \<^verbatim>\<open>QueryLidState()\<close>, which reads until a read fails: \<open>read n\<close> is what the
  \<open>n\<close>-th call of \<^verbatim>\<open>ReadEvents()\<close> gives.
\<close>

definition queue_lid_events :: "32 word \<Rightarrow> input_event list \<Rightarrow> input_watcher \<Rightarrow> input_watcher" where
  "queue_lid_events device_types es s =
     (let lids = List.map_filter GetLidStateFromEvent (rev es) in
      s\<lparr>iw_lid_state := (case lids of [] \<Rightarrow> iw_lid_state s | l # _ \<Rightarrow> l),
        iw_queued_events := iw_queued_events s @ map (\<lambda>event. (event, device_types)) es,
        iw_reads := iw_reads s @ map (\<lambda>event. (event, device_types)) es\<rparr>)"

partial_function (option) read_lid_events ::
  "32 word \<Rightarrow> (nat \<Rightarrow> input_event list option) \<Rightarrow> nat \<Rightarrow> input_watcher \<Rightarrow> input_watcher option" where
  "read_lid_events device_types read n s =
     (case read n of
        None \<Rightarrow> Some s
      | Some es \<Rightarrow> read_lid_events device_types read (Suc n) (queue_lid_events device_types es s))"

definition iw_QueryLidState ::
  "(nat \<Rightarrow> input_event list option) \<Rightarrow> input_watcher \<Rightarrow> (LidState \<times> input_watcher) option" where
  "iw_QueryLidState read s =
     (case iw_lid_device s of
        None \<Rightarrow> Some (LID_NOT_PRESENT, s)
      | Some device \<Rightarrow>
          map_option (\<lambda>t. (iw_lid_state t, if iw_queued_events t = [] then t else t\<lparr>iw_send_queued_events_task := True\<rparr>))
            (read_lid_events (GetDeviceTypes device s) read 0 s))"

definition iw_run_task :: "input_watcher \<Rightarrow> input_watcher" where
  "iw_run_task s =
     (if iw_send_queued_events_task s then SendQueuedEvents (s\<lparr>iw_send_queued_events_task := False\<rparr>) else s)"

section \<open>Devices\<close>

text \<open>\<open>StringToInt\<close> is the parser of libchrome.\<close>

definition GetInputNumber :: "(string \<Rightarrow> int option) \<Rightarrow> string \<Rightarrow> int option" where
  "GetInputNumber StringToInt name =
     (if starts_with ''event'' name then StringToInt (drop (length ''event'') name) else None)"

definition watch_power_button :: "nat \<Rightarrow> event_device \<Rightarrow> bool \<times> input_watcher \<Rightarrow> bool \<times> input_watcher" where
  "watch_power_button ptr device = (\<lambda>(should_watch, s).
     if IsPowerButton device
     then (True, s\<lparr>iw_power_button_devices := insert ptr (iw_power_button_devices s)\<rparr>) else (should_watch, s))"

definition watch_lid :: "nat \<Rightarrow> event_device \<Rightarrow> bool \<times> input_watcher \<Rightarrow> bool \<times> input_watcher" where
  "watch_lid ptr device = (\<lambda>(should_watch, s).
     if iw_use_lid s \<and> IsLidSwitch device \<and> iw_lid_device s = None
     then (True, s\<lparr>iw_lid_device := Some ptr, iw_lid_state := GetInitialLidState device\<rparr>) else (should_watch, s))"

definition watch_tablet_mode :: "nat \<Rightarrow> event_device \<Rightarrow> bool \<times> input_watcher \<Rightarrow> bool \<times> input_watcher" where
  "watch_tablet_mode ptr device = (\<lambda>(should_watch, s).
     if IsTabletModeSwitch device \<and> iw_tablet_mode_device s = None
     then (True, s\<lparr>iw_tablet_mode_device := Some ptr, iw_tablet_mode := GetInitialTabletMode device\<rparr>)
     else (should_watch, s))"

definition watch_hover :: "nat \<Rightarrow> event_device \<Rightarrow> bool \<times> input_watcher \<Rightarrow> bool \<times> input_watcher" where
  "watch_hover ptr device = (\<lambda>(should_watch, s).
     if iw_detect_hover s \<and> HoverSupported device \<and> HasLeftButton device \<and> iw_hover_device s = None
     then (True, s\<lparr>iw_hover_device := Some ptr\<rparr>) else (should_watch, s))"

text \<open>\<open>opened\<close>: what opening the device's file gives.\<close>

definition HandleAddedInput :: "event_device option \<Rightarrow> int \<Rightarrow> input_watcher \<Rightarrow> input_watcher" where
  "HandleAddedInput opened input_num s0 =
     (if map_count input_num (iw_event_devices s0) then s0
      else case opened of
        None \<Rightarrow> s0
      | Some device \<Rightarrow>
          let ptr = iw_next_device s0; s = s0\<lparr>iw_next_device := Suc ptr\<rparr> in
          if starts_with (iw_power_button_to_skip s) (ed_GetPhysPath device) then s
          else let (should_watch, s1) = watch_hover ptr device (watch_tablet_mode ptr device
                      (watch_lid ptr device (watch_power_button ptr device (False, s))))
               in if should_watch
                  then s1\<lparr>iw_event_devices := map_insert input_num ptr (iw_event_devices s1)\<rparr> else s1)"

definition HandleRemovedInput :: "int \<Rightarrow> input_watcher \<Rightarrow> input_watcher" where
  "HandleRemovedInput input_num s =
     (case map_of (iw_event_devices s) input_num of
        None \<Rightarrow> s
      | Some ptr \<Rightarrow>
          s\<lparr>iw_power_button_devices := iw_power_button_devices s - {ptr},
            iw_lid_device := (if iw_lid_device s = Some ptr then None else iw_lid_device s),
            iw_tablet_mode_device := (if iw_tablet_mode_device s = Some ptr then None else iw_tablet_mode_device s),
            iw_hover_device := (if iw_hover_device s = Some ptr then None else iw_hover_device s),
            iw_event_devices := map_erase input_num (iw_event_devices s)\<rparr>)"

definition iw_OnUdevEvent ::
  "(string \<Rightarrow> int option) \<Rightarrow> string \<Rightarrow> UdevAction \<Rightarrow> event_device option \<Rightarrow> input_watcher \<Rightarrow> input_watcher" where
  "iw_OnUdevEvent StringToInt sysname action opened s =
     (case GetInputNumber StringToInt sysname of
        None \<Rightarrow> s
      | Some input_num \<Rightarrow>
          if action = UDEV_ADD then HandleAddedInput opened input_num s
          else if action = UDEV_REMOVE then HandleRemovedInput input_num s
          else s)"

text \<open>
  \<open>inputs\<close>: the files of the directory of input devices, with what opening them gives; \<open>None\<close>:
  there is no such directory. The result is false if the directory is not readable.
\<close>

definition iw_Init ::
  "(string \<Rightarrow> int option) \<Rightarrow> prefs \<Rightarrow> bool \<Rightarrow> (string \<times> event_device option) list option \<Rightarrow> input_watcher \<Rightarrow>
   bool \<times> input_watcher" where
  "iw_Init StringToInt prefs readable inputs s0 =
     (let use_lid = get_or (pref_bool prefs ''use_lid'') (iw_use_lid s0);
          s = s0\<lparr>iw_use_lid := use_lid,
                 iw_lid_state := (if use_lid then iw_lid_state s0 else LID_NOT_PRESENT),
                 iw_power_button_to_skip := (if get_or (pref_bool prefs ''legacy_power_button'') False then ''isa''
                    else iw_power_button_to_skip s0),
                 iw_detect_hover := get_or (pref_bool prefs ''detect_hover'') (iw_detect_hover s0)\<rparr>
      in case inputs of
           None \<Rightarrow> (True, s)
         | Some files \<Rightarrow>
             if \<not> readable then (False, s)
             else (True, fold (\<lambda>(name, opened) s. case GetInputNumber StringToInt name of
                      None \<Rightarrow> s | Some num \<Rightarrow> HandleAddedInput opened num s) files s))"

section \<open>USB devices\<close>

text \<open>\<^verbatim>\<open>std::string::find()\<close>: the first position at which \<open>w\<close> occurs.\<close>

fun find_string :: "string \<Rightarrow> string \<Rightarrow> nat option" where
  "find_string w [] = (if w = [] then Some 0 else None)"
| "find_string w (c # s) = (if starts_with w (c # s) then Some 0 else map_option Suc (find_string w s))"

definition IsAsciiAlpha :: "char \<Rightarrow> bool" where
  "IsAsciiAlpha c \<longleftrightarrow> (of_char c \<ge> (65 :: nat) \<and> of_char c \<le> (90 :: nat)) \<or> (of_char c \<ge> (97 :: nat) \<and> of_char c \<le> (122 :: nat))"

definition is_usb_path :: "string \<Rightarrow> bool" where
  "is_usb_path path_string =
     (if find_string ''bluetooth'' path_string \<noteq> None then False
      else case find_string ''usb'' path_string of
        None \<Rightarrow> False
      | Some position \<Rightarrow>
          (position = 0 \<or> \<not> IsAsciiAlpha (path_string ! (position - 1))) \<and>
          (position + length ''usb'' = length path_string \<or> \<not> IsAsciiAlpha (path_string ! (position + length ''usb''))))"

text \<open>\<open>links\<close>: the targets of the entries \<^verbatim>\<open>input*\<close>, \<open>None\<close> for one that is no symbolic link.\<close>

definition IsUSBInputDeviceConnected :: "string option list \<Rightarrow> bool" where
  "IsUSBInputDeviceConnected links = list_ex (\<lambda>link. case link of None \<Rightarrow> False | Some path \<Rightarrow> is_usb_path path) links"

end
