(* ===== verification/Input_Watcher_Proofs.thy ===== *)
theory Input_Watcher_Proofs
  imports Input_Watcher
begin

text \<open>
  The input watcher of \<open>Input_Watcher\<close> announces every event it reads once and in order, also
  those that it reads early to answer a query for the lid's state. What is to be announced is
  specified by \<open>announce\<close>, in which the touchpad's slots are a set instead of a 64-bit word.
\<close>

unbundle bit_operations_syntax

section \<open>Specification\<close>

record hover_view =
  hv_slot :: "nat option"
  hv_touched :: "nat set"
  hv_valid :: bool
  hv_distance :: bool
  hv_hovering :: bool

definition hover_start :: hover_view where
  "hover_start = \<lparr>hv_slot = Some 0, hv_touched = {}, hv_valid = False, hv_distance = False, hv_hovering = False\<rparr>"

text \<open>Hands hover if a slot is in use, or if the single-touch sensor reports a valid distance.\<close>

definition hover_now :: "hover_view \<Rightarrow> bool" where
  "hover_now h \<longleftrightarrow> hv_touched h \<noteq> {} \<or> (hv_distance h \<and> hv_valid h)"

definition hover_step :: "input_event \<Rightarrow> hover_view \<Rightarrow> iw_note list \<times> hover_view" where
  "hover_step e h =
     (if ev_type e = EV_ABS \<and> ev_code e = ABS_MT_SLOT
      then ([], h\<lparr>hv_slot := if 0 \<le> ev_value e \<and> ev_value e < 64 then Some (nat (ev_value e)) else None\<rparr>)
      else if ev_type e = EV_ABS \<and> ev_code e = ABS_MT_TRACKING_ID
      then ([], case hv_slot h of None \<Rightarrow> h
              | Some n \<Rightarrow> h\<lparr>hv_touched := (if 0 \<le> ev_value e then insert n (hv_touched h) else hv_touched h - {n})\<rparr>)
      else if ev_type e = EV_ABS \<and> ev_code e = ABS_DISTANCE then ([], h\<lparr>hv_distance := ev_value e > 0\<rparr>)
      else if ev_type e = EV_KEY \<and> ev_code e = BTN_TOOL_FINGER then ([], h\<lparr>hv_valid := ev_value e = 1\<rparr>)
      else if ev_type e = EV_SYN \<and> ev_code e = SYN_REPORT
      then (if hover_now h = hv_hovering h then [] else [NoteHover (hover_now h)], h\<lparr>hv_hovering := hover_now h\<rparr>)
      else ([], h))"

definition role_note :: "('a \<Rightarrow> iw_note) \<Rightarrow> 32 word \<Rightarrow> 32 word \<Rightarrow> 'a option \<Rightarrow> iw_note list" where
  "role_note f device_types role x =
     (case x of Some v \<Rightarrow> if device_types AND role \<noteq> 0 then [f v] else [] | None \<Rightarrow> [])"

definition switch_notes :: "input_event \<Rightarrow> 32 word \<Rightarrow> iw_note list" where
  "switch_notes e device_types =
     role_note NoteLid device_types DEVICE_LID_SWITCH (GetLidStateFromEvent e) @
     role_note NoteTablet device_types DEVICE_TABLET_MODE_SWITCH (GetTabletModeFromEvent e) @
     role_note NotePowerButton device_types DEVICE_POWER_BUTTON (GetPowerButtonStateFromEvent e)"

definition announce_one :: "input_event \<times> 32 word \<Rightarrow> iw_note list \<times> hover_view \<Rightarrow> iw_note list \<times> hover_view" where
  "announce_one = (\<lambda>(e, device_types) (ns, h).
     if device_types AND DEVICE_HOVER \<noteq> 0
     then (ns @ switch_notes e device_types @ fst (hover_step e h), snd (hover_step e h))
     else (ns @ switch_notes e device_types, h))"

definition announce :: "(input_event \<times> 32 word) list \<Rightarrow> iw_note list \<times> hover_view" where
  "announce reads = fold announce_one reads ([], hover_start)"

section \<open>Processing an event\<close>

definition view :: "input_watcher \<Rightarrow> hover_view" where
  "view s = \<lparr>hv_slot = (if iw_current_multitouch_slot s < 0 then None else Some (nat (iw_current_multitouch_slot s))),
     hv_touched = {i. bit (iw_multitouch_slots_hover_state s) i}, hv_valid = iw_single_touch_hover_valid s,
     hv_distance = iw_single_touch_hover_distance_nonzero s, hv_hovering = iw_hovering s\<rparr>"

definition slot_ok :: "input_watcher \<Rightarrow> bool" where
  "slot_ok s \<longleftrightarrow> iw_current_multitouch_slot s < 64"

text \<open>The fields that no processing of events changes.\<close>

definition same_devices :: "input_watcher \<Rightarrow> input_watcher \<Rightarrow> bool" where
  "same_devices s t \<longleftrightarrow> iw_reads t = iw_reads s \<and> iw_queued_events t = iw_queued_events s \<and>
     iw_send_queued_events_task t = iw_send_queued_events_task s \<and> iw_next_device t = iw_next_device s \<and>
     iw_power_button_devices t = iw_power_button_devices s \<and> iw_lid_device t = iw_lid_device s \<and>
     iw_tablet_mode_device t = iw_tablet_mode_device s \<and> iw_hover_device t = iw_hover_device s \<and>
     iw_event_devices t = iw_event_devices s"

lemma touched_some: "Ex (bit (w :: 64 word)) \<longleftrightarrow> w \<noteq> 0"
  by (auto intro: bit_word_eqI)

lemma touched_insert:
  "n < 64 \<Longrightarrow> Collect (bit ((w :: 64 word) OR 2 ^ n)) = insert n (Collect (bit w))"
  by (auto simp: bit_simps)

lemma touched_remove:
  "n < 64 \<Longrightarrow> Collect (bit ((w :: 64 word) AND NOT (2 ^ n))) = Collect (bit w) - {n}"
  using bit_imp_le_length [of w] by (auto simp: bit_simps)

lemma ProcessHoverEvent_step:
  assumes "slot_ok s"
  shows "view (ProcessHoverEvent e s) = snd (hover_step e (view s)) \<and>
    iw_notified (ProcessHoverEvent e s) = iw_notified s @ fst (hover_step e (view s)) \<and>
    slot_ok (ProcessHoverEvent e s) \<and> same_devices s (ProcessHoverEvent e s)"
proof -
  have n: "nat (iw_current_multitouch_slot s) < 64" using assms by (simp add: slot_ok_def)
  consider (slot) "ev_type e = EV_ABS" "ev_code e = ABS_MT_SLOT"
    | (tracking) "ev_type e = EV_ABS" "ev_code e = ABS_MT_TRACKING_ID"
    | (distance) "ev_type e = EV_ABS" "ev_code e = ABS_DISTANCE"
    | (finger) "ev_type e = EV_KEY" "ev_code e = BTN_TOOL_FINGER"
    | (syn) "ev_type e = EV_SYN" "ev_code e = SYN_REPORT"
    | (other) "\<not> (ev_type e = EV_ABS \<and> ev_code e = ABS_MT_SLOT)"
        "\<not> (ev_type e = EV_ABS \<and> ev_code e = ABS_MT_TRACKING_ID)" "\<not> (ev_type e = EV_ABS \<and> ev_code e = ABS_DISTANCE)"
        "\<not> (ev_type e = EV_KEY \<and> ev_code e = BTN_TOOL_FINGER)" "\<not> (ev_type e = EV_SYN \<and> ev_code e = SYN_REPORT)"
    by metis
  then show ?thesis
  proof cases
    case slot
    with assms show ?thesis
      by (simp add: ProcessHoverEvent_def hover_step_def view_def slot_ok_def same_devices_def)
  next
    case tracking
    with assms n show ?thesis
      by (simp add: ProcessHoverEvent_def hover_step_def view_def slot_ok_def same_devices_def Let_def
          touched_insert touched_remove)
  next
    case syn
    with assms show ?thesis
      by (simp add: ProcessHoverEvent_def hover_step_def view_def slot_ok_def same_devices_def Let_def
          notify_input_def hover_now_def touched_some)
  next
    case other
    then have "ProcessHoverEvent e s = s" "hover_step e (view s) = ([], view s)"
      unfolding ProcessHoverEvent_def hover_step_def by (simp_all only: if_False simp_thms)
    with assms show ?thesis by (simp add: same_devices_def)
  qed (use assms in \<open>simp_all add: ProcessHoverEvent_def hover_step_def view_def slot_ok_def same_devices_def\<close>)
qed

lemma process_switches:
  "view (process_power_button e d (process_tablet_mode e d (process_lid e d s))) = view s \<and>
   iw_notified (process_power_button e d (process_tablet_mode e d (process_lid e d s))) =
     iw_notified s @ switch_notes e d \<and>
   slot_ok (process_power_button e d (process_tablet_mode e d (process_lid e d s))) = slot_ok s \<and>
   same_devices s (process_power_button e d (process_tablet_mode e d (process_lid e d s)))"
  by (auto simp: process_power_button_def process_tablet_mode_def process_lid_def switch_notes_def role_note_def
      view_def slot_ok_def same_devices_def notify_input_def split: option.splits)

lemma same_devices_trans: "same_devices s t \<Longrightarrow> same_devices t u \<Longrightarrow> same_devices s u"
  by (simp add: same_devices_def)

lemma ProcessEvent_step:
  assumes "slot_ok s"
  shows "(iw_notified (ProcessEvent e d s), view (ProcessEvent e d s)) = announce_one (e, d) (iw_notified s, view s) \<and>
    slot_ok (ProcessEvent e d s) \<and> same_devices s (ProcessEvent e d s)"
proof -
  define s1 where "s1 = process_power_button e d (process_tablet_mode e d (process_lid e d s))"
  have s1: "view s1 = view s" "iw_notified s1 = iw_notified s @ switch_notes e d" "slot_ok s1" "same_devices s s1"
    using process_switches [of e d s] assms by (simp_all add: s1_def)
  have "ProcessEvent e d s = (if d AND DEVICE_HOVER \<noteq> 0 then ProcessHoverEvent e s1 else s1)"
    by (simp add: ProcessEvent_def s1_def Let_def)
  with s1 ProcessHoverEvent_step [OF s1(3), of e] show ?thesis
    by (auto simp: announce_one_def intro: same_devices_trans)
qed

lemma process_all:
  assumes "slot_ok s"
  shows "(let t = fold (\<lambda>(e, d). ProcessEvent e d) xs s in
    (iw_notified t, view t) = fold announce_one xs (iw_notified s, view s) \<and> slot_ok t \<and> same_devices s t)"
  using assms
proof (induction xs arbitrary: s)
  case (Cons x xs)
  obtain e d where x: "x = (e, d)" by (cases x)
  note step = ProcessEvent_step [OF Cons.prems, of e d]
  from Cons.IH [of "ProcessEvent e d s"] step show ?case
    by (auto simp: x Let_def intro: same_devices_trans)
qed (simp add: same_devices_def)

section \<open>Reading ahead\<close>

definition lid_after :: "input_event list \<Rightarrow> LidState \<Rightarrow> LidState" where
  "lid_after es l = (case List.map_filter GetLidStateFromEvent (rev es) of [] \<Rightarrow> l | x # _ \<Rightarrow> x)"

lemma lid_after_append: "lid_after (es @ fs) l = lid_after fs (lid_after es l)"
  by (simp add: lid_after_def map_filter_def split: list.split)

lemma queue_lid_events_eq:
  "queue_lid_events d es s = s\<lparr>iw_lid_state := lid_after es (iw_lid_state s),
     iw_queued_events := iw_queued_events s @ map (\<lambda>e. (e, d)) es, iw_reads := iw_reads s @ map (\<lambda>e. (e, d)) es\<rparr>"
  by (simp add: queue_lid_events_def lid_after_def Let_def)

lemma queue_lid_events_append: "queue_lid_events d fs (queue_lid_events d es s) = queue_lid_events d (es @ fs) s"
  by (simp add: queue_lid_events_eq lid_after_append)

lemma queue_lid_events_Nil: "queue_lid_events d [] s = s"
  by (simp add: queue_lid_events_eq lid_after_def map_filter_def)

definition batches :: "(nat \<Rightarrow> input_event list option) \<Rightarrow> nat \<Rightarrow> nat \<Rightarrow> input_event list" where
  "batches read k m = concat (map (\<lambda>i. the (read i)) [k..<k + m])"

lemma batches_Suc: "batches read k (Suc m) = the (read k) @ batches read (Suc k) m"
  by (simp add: batches_def upt_conv_Cons del: upt_Suc)

lemma read_lid_events_returns:
  assumes "read (k + m) = None" "\<forall>i < m. read (k + i) \<noteq> None"
  shows "read_lid_events d read k s = Some (queue_lid_events d (batches read k m) s)"
  using assms
proof (induction m arbitrary: k s)
  case 0
  then show ?case by (subst read_lid_events.simps) (simp add: batches_def queue_lid_events_Nil)
next
  case (Suc m)
  from Suc.prems(2) obtain es where es: "read k = Some es" by (metis add_0_right option.exhaust zero_less_Suc)
  have "read (Suc k + m) = None" "\<forall>i < m. read (Suc k + i) \<noteq> None" using Suc.prems by auto
  from Suc.IH [OF this, of "queue_lid_events d es s"] show ?case
    using es by (subst read_lid_events.simps) (simp add: queue_lid_events_append batches_Suc)
qed

lemma read_lid_events_total:
  assumes "\<exists>n. read n = None"
  obtains m where "read m = None" "\<forall>i < m. read i \<noteq> None"
    "read_lid_events d read 0 s = Some (queue_lid_events d (batches read 0 m) s)"
proof -
  define m where "m = (LEAST n. read n = None)"
  have m: "read m = None" "\<forall>i < m. read i \<noteq> None"
    using LeastI_ex [OF assms] not_less_Least by (auto simp: m_def)
  with read_lid_events_returns [of read 0 m d s] that show ?thesis by simp
qed

lemma read_lid_events_endless:
  assumes "\<forall>n. read n \<noteq> None"
  shows "read_lid_events d read k s = None"
proof -
  have "read_lid_events d read k s = Some t \<Longrightarrow> \<exists>n. read n = None" for t
    by (erule read_lid_events.raw_induct [rotated]) (force split: option.splits)
  with assms show ?thesis by (metis option.exhaust)
qed

section \<open>The invariant\<close>

text \<open>
  What has been read is what has been announced, followed by what is queued; queued events are
  sent by a pending task. The devices with a role are devices that are being watched.
\<close>

definition roles_ok :: "input_watcher \<Rightarrow> bool" where
  "roles_ok s \<longleftrightarrow> (\<forall>p. p \<in> iw_power_button_devices s \<or> iw_lid_device s = Some p \<or> iw_tablet_mode_device s = Some p \<or>
      iw_hover_device s = Some p \<longrightarrow> p \<in> snd ` set (iw_event_devices s)) \<and>
     (\<forall>p \<in> snd ` set (iw_event_devices s). p < iw_next_device s) \<and>
     distinct (map fst (iw_event_devices s))"

definition in_order :: "input_watcher \<Rightarrow> bool" where
  "in_order s \<longleftrightarrow> slot_ok s \<and>
     (\<exists>sent. iw_reads s = sent @ iw_queued_events s \<and> announce sent = (iw_notified s, view s))"

definition announced_ok :: "input_watcher \<Rightarrow> bool" where
  "announced_ok s \<longleftrightarrow> in_order s \<and> (iw_queued_events s \<noteq> [] \<longrightarrow> iw_send_queued_events_task s)"

definition iw_inv :: "input_watcher \<Rightarrow> bool" where
  "iw_inv s \<longleftrightarrow> announced_ok s \<and> roles_ok s"

lemma announce_append: "announce (xs @ ys) = fold announce_one ys (announce xs)"
  by (simp add: announce_def)

lemma SendQueuedEvents_ok:
  assumes "in_order s"
  shows "announced_ok (SendQueuedEvents s)" "iw_queued_events (SendQueuedEvents s) = []"
    "announce (iw_reads s) = (iw_notified (SendQueuedEvents s), view (SendQueuedEvents s))"
    "iw_reads (SendQueuedEvents s) = iw_reads s"
proof -
  define t where "t = fold (\<lambda>(e, d). ProcessEvent e d) (iw_queued_events s) s"
  have t: "(iw_notified t, view t) = fold announce_one (iw_queued_events s) (iw_notified s, view s)"
    "slot_ok t" "same_devices s t"
    using process_all [of s "iw_queued_events s"] assms by (simp_all add: t_def in_order_def Let_def)
  have sent: "SendQueuedEvents s = t\<lparr>iw_queued_events := []\<rparr>" by (simp add: SendQueuedEvents_def t_def)
  have v: "view (t\<lparr>iw_queued_events := []\<rparr>) = view t" "slot_ok (t\<lparr>iw_queued_events := []\<rparr>) = slot_ok t"
    by (simp_all add: view_def slot_ok_def)
  from assms have "announce (iw_reads s) = (iw_notified t, view t)"
    by (auto simp: in_order_def announce_append t(1))
  with t show "announced_ok (SendQueuedEvents s)" "iw_queued_events (SendQueuedEvents s) = []"
    "announce (iw_reads s) = (iw_notified (SendQueuedEvents s), view (SendQueuedEvents s))"
    "iw_reads (SendQueuedEvents s) = iw_reads s"
    by (simp_all add: sent v announced_ok_def in_order_def same_devices_def)
qed

lemma SendQueuedEvents_roles: "roles_ok (SendQueuedEvents s) = roles_ok s" if "slot_ok s"
  using process_all [OF that, of "iw_queued_events s"]
  by (simp add: SendQueuedEvents_def roles_ok_def same_devices_def Let_def)

lemma SendQueuedEvents_inv: "iw_inv s \<Longrightarrow> iw_inv (SendQueuedEvents s)"
  using SendQueuedEvents_ok(1) SendQueuedEvents_roles by (simp add: iw_inv_def announced_ok_def in_order_def)

lemma note_lid_state_frame:
  "view (note_lid_state e s) = view s" "iw_notified (note_lid_state e s) = iw_notified s"
  "slot_ok (note_lid_state e s) = slot_ok s" "same_devices s (note_lid_state e s)"
  by (simp_all add: note_lid_state_def view_def slot_ok_def same_devices_def)

lemma process_new:
  assumes "slot_ok s"
  shows "(let t = fold (\<lambda>e s. ProcessEvent e d (if b then note_lid_state e s else s)) es s in
    (iw_notified t, view t) = fold announce_one (map (\<lambda>e. (e, d)) es) (iw_notified s, view s) \<and>
    slot_ok t \<and> same_devices s t)"
  using assms
proof (induction es arbitrary: s)
  case (Cons e es)
  define s1 where "s1 = (if b then note_lid_state e s else s)"
  have s1: "view s1 = view s" "iw_notified s1 = iw_notified s" "slot_ok s1" "same_devices s s1"
    using Cons.prems note_lid_state_frame [where e = e and s = s] by (simp_all add: s1_def same_devices_def)
  note step = ProcessEvent_step [OF s1(3), of e d]
  from Cons.IH [of "ProcessEvent e d s1"] step s1 show ?case
    by (auto simp: s1_def [symmetric] Let_def intro: same_devices_trans)
qed (simp add: same_devices_def)

lemma OnNewEvents_inv:
  assumes "iw_inv s0"
  shows "iw_inv (OnNewEvents device events s0)"
proof (cases events)
  case None
  then show ?thesis using SendQueuedEvents_inv [OF assms] by (simp add: OnNewEvents_def Let_def)
next
  case (Some es)
  define s where "s = SendQueuedEvents s0"
  define d where "d = GetDeviceTypes device s"
  define s1 where "s1 = s\<lparr>iw_reads := iw_reads s @ map (\<lambda>e. (e, d)) es\<rparr>"
  define t where "t = fold (\<lambda>e s. ProcessEvent e d (if d AND DEVICE_LID_SWITCH \<noteq> 0 then note_lid_state e s else s)) es s1"
  have t: "OnNewEvents device events s0 = t"
    by (simp add: OnNewEvents_def Let_def Some s_def d_def s1_def t_def)
  have s: "iw_inv s" "iw_queued_events s = []" "announce (iw_reads s) = (iw_notified s, view s)"
    using SendQueuedEvents_inv [OF assms] SendQueuedEvents_ok [of s0] assms by (simp_all add: s_def iw_inv_def announced_ok_def)
  have s1: "view s1 = view s" "slot_ok s1" "iw_notified s1 = iw_notified s" "iw_queued_events s1 = []" "roles_ok s1"
    using s by (simp_all add: s1_def view_def slot_ok_def iw_inv_def announced_ok_def in_order_def roles_ok_def)
  have "(iw_notified t, view t) = fold announce_one (map (\<lambda>e. (e, d)) es) (iw_notified s1, view s1)"
    "slot_ok t" "same_devices s1 t"
    using process_new [OF s1(2), of d "d AND DEVICE_LID_SWITCH \<noteq> 0" es] by (simp_all add: t_def Let_def)
  moreover have "announce (iw_reads s1) = fold announce_one (map (\<lambda>e. (e, d)) es) (iw_notified s1, view s1)"
    by (simp add: s1_def announce_append s(3) view_def)
  ultimately show ?thesis using s1(4,5)
    by (simp add: t iw_inv_def announced_ok_def in_order_def roles_ok_def same_devices_def)
qed

lemma queue_inv:
  assumes "iw_inv s"
  shows "iw_inv ((queue_lid_events d es s)\<lparr>iw_send_queued_events_task := True\<rparr>)"
    "iw_queued_events (queue_lid_events d es s) = [] \<Longrightarrow> iw_inv (queue_lid_events d es s)"
  using assms by (auto simp: queue_lid_events_eq iw_inv_def announced_ok_def in_order_def roles_ok_def view_def slot_ok_def)

lemma QueryLidState_inv:
  assumes "iw_inv s" "\<exists>n. read n = None"
  shows "\<exists>l t. iw_QueryLidState read s = Some (l, t) \<and> iw_inv t"
proof (cases "iw_lid_device s")
  case None
  then show ?thesis using assms by (simp add: iw_QueryLidState_def)
next
  case (Some device)
  from read_lid_events_total [OF assms(2), of "GetDeviceTypes device s" s] obtain m where
    "read_lid_events (GetDeviceTypes device s) read 0 s =
      Some (queue_lid_events (GetDeviceTypes device s) (batches read 0 m) s)" by metis
  then show ?thesis using queue_inv [OF assms(1)] by (simp add: iw_QueryLidState_def Some)
qed

section \<open>Adding and removing devices\<close>

text \<open>While a device is examined, it may already have a role without being in the map.\<close>

definition examining :: "nat \<Rightarrow> input_watcher \<Rightarrow> bool \<times> input_watcher \<Rightarrow> bool" where
  "examining ptr s0 = (\<lambda>(watch, s).
     (\<forall>p. p \<in> iw_power_button_devices s \<or> iw_lid_device s = Some p \<or> iw_tablet_mode_device s = Some p \<or>
        iw_hover_device s = Some p \<longrightarrow> p \<in> snd ` set (iw_event_devices s0) \<or> (watch \<and> p = ptr)) \<and>
     iw_event_devices s = iw_event_devices s0 \<and> iw_next_device s = Suc ptr \<and> announced_ok s)"

lemma announced_ok_cong:
  "slot_ok t = slot_ok s \<Longrightarrow> iw_queued_events t = iw_queued_events s \<Longrightarrow>
   iw_send_queued_events_task t = iw_send_queued_events_task s \<Longrightarrow> iw_reads t = iw_reads s \<Longrightarrow>
   iw_notified t = iw_notified s \<Longrightarrow> view t = view s \<Longrightarrow> announced_ok t = announced_ok s"
  by (simp add: announced_ok_def in_order_def)

lemma announced_ok_updates [simp]:
  "announced_ok (s\<lparr>iw_power_button_devices := a\<rparr>) = announced_ok s"
  "announced_ok (s\<lparr>iw_lid_device := b, iw_lid_state := l\<rparr>) = announced_ok s"
  "announced_ok (s\<lparr>iw_tablet_mode_device := c, iw_tablet_mode := m\<rparr>) = announced_ok s"
  "announced_ok (s\<lparr>iw_hover_device := h\<rparr>) = announced_ok s"
  "announced_ok (s\<lparr>iw_next_device := n\<rparr>) = announced_ok s"
  "announced_ok (s\<lparr>iw_event_devices := e\<rparr>) = announced_ok s"
  by (intro announced_ok_cong; simp add: slot_ok_def view_def)+

lemma watch_examining:
  "examining ptr s0 x \<Longrightarrow> examining ptr s0 (watch_power_button ptr device x)"
  "examining ptr s0 x \<Longrightarrow> examining ptr s0 (watch_lid ptr device x)"
  "examining ptr s0 x \<Longrightarrow> examining ptr s0 (watch_tablet_mode ptr device x)"
  "examining ptr s0 x \<Longrightarrow> examining ptr s0 (watch_hover ptr device x)"
  by (cases x; auto simp: examining_def watch_power_button_def watch_lid_def watch_tablet_mode_def watch_hover_def)+

lemma HandleAddedInput_inv:
  assumes "iw_inv s0"
  shows "iw_inv (HandleAddedInput opened input_num s0)"
proof (cases "map_count input_num (iw_event_devices s0) \<or> opened = None")
  case True
  then show ?thesis using assms by (auto simp: HandleAddedInput_def split: option.splits)
next
  case False
  then obtain device where device: "opened = Some device" and fresh: "\<not> map_count input_num (iw_event_devices s0)" by auto
  define ptr where "ptr = iw_next_device s0"
  define s where "s = s0\<lparr>iw_next_device := Suc ptr\<rparr>"
  have s: "examining ptr s0 (False, s)" "roles_ok s"
    using assms by (auto simp: examining_def s_def ptr_def iw_inv_def roles_ok_def)
  define x where "x = watch_hover ptr device (watch_tablet_mode ptr device
      (watch_lid ptr device (watch_power_button ptr device (False, s))))"
  have x: "examining ptr s0 x" unfolding x_def by (intro watch_examining s)
  obtain watch s1 where x': "x = (watch, s1)" by (cases x)
  have "HandleAddedInput opened input_num s0 = (if starts_with (iw_power_button_to_skip s) (ed_GetPhysPath device)
      then s else case x of (watch, s1) \<Rightarrow> if watch
        then s1\<lparr>iw_event_devices := map_insert input_num ptr (iw_event_devices s1)\<rparr> else s1)"
    by (simp only: HandleAddedInput_def device fresh if_False option.case Let_def x_def s_def ptr_def)
  then have added: "HandleAddedInput opened input_num s0 = s \<or> (\<not> watch \<and> HandleAddedInput opened input_num s0 = s1) \<or>
      (watch \<and> HandleAddedInput opened input_num s0 =
        s1\<lparr>iw_event_devices := map_insert input_num ptr (iw_event_devices s1)\<rparr>)"
    by (simp add: x')
  have new: "distinct (map fst (iw_event_devices s0))" "\<forall>p \<in> snd ` set (iw_event_devices s0). p < ptr"
    using assms by (simp_all add: iw_inv_def roles_ok_def ptr_def)
  have s1: "iw_event_devices s1 = iw_event_devices s0" "iw_next_device s1 = Suc ptr" "announced_ok s1"
    using x unfolding x' examining_def split by blast+
  have roles: "\<And>p. p \<in> iw_power_button_devices s1 \<or> iw_lid_device s1 = Some p \<or> iw_tablet_mode_device s1 = Some p \<or>
        iw_hover_device s1 = Some p \<Longrightarrow> p \<in> snd ` set (iw_event_devices s0) \<or> (watch \<and> p = ptr)"
    using x unfolding x' examining_def split by blast
  have inserted: "set (map_insert input_num ptr (iw_event_devices s0)) = insert (input_num, ptr) (set (iw_event_devices s0))"
    "distinct (map fst (map_insert input_num ptr (iw_event_devices s0)))"
    using fresh new(1) by (simp_all add: map_insert_def set_insort_key distinct_insort_key_fst)
  have "roles_ok s1" if "\<not> watch"
    using roles that new s1(1,2) unfolding roles_ok_def by (metis less_SucI)
  moreover have "roles_ok (s1\<lparr>iw_event_devices := map_insert input_num ptr (iw_event_devices s1)\<rparr>)"
    using roles new(2) inserted unfolding roles_ok_def s1(1) by (simp add: s1(2) less_Suc_eq) blast
  moreover have "announced_ok s" using s(1) by (simp add: examining_def)
  ultimately show ?thesis using added s(2) s1(3) by (auto simp: iw_inv_def)
qed

lemma HandleRemovedInput_inv:
  assumes "iw_inv s"
  shows "iw_inv (HandleRemovedInput input_num s)"
proof (cases "map_of (iw_event_devices s) input_num")
  case None
  then show ?thesis using assms by (simp add: HandleRemovedInput_def)
next
  case (Some ptr)
  define t where "t = HandleRemovedInput input_num s"
  have t: "iw_power_button_devices t = iw_power_button_devices s - {ptr}"
    "iw_lid_device t = (if iw_lid_device s = Some ptr then None else iw_lid_device s)"
    "iw_tablet_mode_device t = (if iw_tablet_mode_device s = Some ptr then None else iw_tablet_mode_device s)"
    "iw_hover_device t = (if iw_hover_device s = Some ptr then None else iw_hover_device s)"
    "iw_event_devices t = map_erase input_num (iw_event_devices s)" "iw_next_device t = iw_next_device s"
    by (simp_all add: t_def HandleRemovedInput_def Some)
  have ann: "announced_ok t = announced_ok s"
    by (rule announced_ok_cong) (simp_all add: t_def HandleRemovedInput_def Some slot_ok_def view_def)
  have kept: "p \<in> snd ` set (iw_event_devices t)" if "p \<in> snd ` set (iw_event_devices s)" "p \<noteq> ptr" for p
  proof -
    from that(1) obtain k where k: "(k, p) \<in> set (iw_event_devices s)" by auto
    have "map_of (iw_event_devices s) k = Some p"
      using k assms by (intro map_of_is_SomeI) (simp_all add: iw_inv_def roles_ok_def)
    with that(2) Some have "k \<noteq> input_num" by auto
    with k show ?thesis by (force simp: t(5) map_erase_def)
  qed
  have roles: "p \<in> snd ` set (iw_event_devices s)" if "p \<in> iw_power_button_devices s \<or> iw_lid_device s = Some p \<or>
      iw_tablet_mode_device s = Some p \<or> iw_hover_device s = Some p" for p
    using assms that unfolding iw_inv_def roles_ok_def by blast
  have "p \<in> snd ` set (iw_event_devices t)" if "p \<in> iw_power_button_devices t \<or> iw_lid_device t = Some p \<or>
      iw_tablet_mode_device t = Some p \<or> iw_hover_device t = Some p" for p
  proof (rule kept)
    show "p \<noteq> ptr" using that unfolding t by (auto split: if_splits)
    show "p \<in> snd ` set (iw_event_devices s)" using that unfolding t by (intro roles) (auto split: if_splits)
  qed
  moreover have "\<forall>p \<in> snd ` set (iw_event_devices t). p < iw_next_device t" "distinct (map fst (iw_event_devices t))"
    using assms unfolding t iw_inv_def roles_ok_def by (auto simp: map_erase_def distinct_map_filter)
  ultimately have "roles_ok t" unfolding roles_ok_def by blast
  with ann show ?thesis using assms by (simp add: t_def iw_inv_def)
qed

section \<open>Runs\<close>

datatype iw_event = IwUdev string UdevAction "event_device option" | IwNewEvents nat "input_event list option"
  | IwQueryLid "nat \<Rightarrow> input_event list option" | IwTask

fun iw_step :: "(string \<Rightarrow> int option) \<Rightarrow> input_watcher \<Rightarrow> iw_event \<Rightarrow> input_watcher option" where
  "iw_step P s (IwUdev sysname action opened) = Some (iw_OnUdevEvent P sysname action opened s)"
| "iw_step P s (IwNewEvents device events) = Some (OnNewEvents device events s)"
| "iw_step P s (IwQueryLid read) = map_option snd (iw_QueryLidState read s)"
| "iw_step P s IwTask = Some (iw_run_task s)"

text \<open>A query ends if some read finds no more events.\<close>

fun iw_legal :: "iw_event \<Rightarrow> bool" where
  "iw_legal (IwQueryLid read) = (\<exists>n. read n = None)"
| "iw_legal _ = True"

lemma iw_run_task_inv: "iw_inv s \<Longrightarrow> iw_inv (iw_run_task s)"
proof -
  assume inv: "iw_inv s"
  define s' where "s' = s\<lparr>iw_send_queued_events_task := False\<rparr>"
  have v: "view s' = view s" "slot_ok s' = slot_ok s" by (simp_all add: s'_def view_def slot_ok_def)
  have "in_order s'" "roles_ok s'"
    using inv unfolding iw_inv_def announced_ok_def in_order_def roles_ok_def v by (simp_all add: s'_def)
  then have "iw_inv (SendQueuedEvents s')"
    using SendQueuedEvents_ok(1) SendQueuedEvents_roles by (simp add: iw_inv_def in_order_def)
  with inv show ?thesis by (simp add: iw_run_task_def s'_def)
qed

interpretation input: guarded_machine "iw_step P" iw_inv iw_legal
proof
  fix s e assume inv: "iw_inv s" and legal: "iw_legal e"
  show "\<exists>t. iw_step P s e = Some t \<and> iw_inv t"
  proof (cases e)
    case (IwUdev sysname action opened)
    have "iw_inv (iw_OnUdevEvent P sysname action opened s)"
      using inv HandleAddedInput_inv [OF inv] HandleRemovedInput_inv [OF inv]
      by (cases "GetInputNumber P sysname") (simp_all add: iw_OnUdevEvent_def)
    with IwUdev show ?thesis by simp
  next
    case (IwQueryLid read)
    with legal have "\<exists>n. read n = None" by simp
    from QueryLidState_inv [OF inv this] obtain l t where "iw_QueryLidState read s = Some (l, t)" "iw_inv t" by blast
    with IwQueryLid show ?thesis by simp
  next
    case (IwNewEvents device events)
    with OnNewEvents_inv [OF inv] show ?thesis by simp
  next
    case IwTask
    with iw_run_task_inv [OF inv] show ?thesis by simp
  qed
qed

lemma InputWatcher_inv: "iw_inv InputWatcher"
  by (simp add: iw_inv_def announced_ok_def in_order_def roles_ok_def slot_ok_def view_def InputWatcher_def
      announce_def hover_start_def)

lemma iw_Init_inv: "iw_Init P prefs readable inputs InputWatcher = (ok, s) \<Longrightarrow> iw_inv s"
proof -
  define s1 where "s1 = InputWatcher\<lparr>iw_use_lid := get_or (pref_bool prefs ''use_lid'') (iw_use_lid InputWatcher),
    iw_lid_state := (if get_or (pref_bool prefs ''use_lid'') (iw_use_lid InputWatcher) then iw_lid_state InputWatcher
      else LID_NOT_PRESENT),
    iw_power_button_to_skip := (if get_or (pref_bool prefs ''legacy_power_button'') False then ''isa''
      else iw_power_button_to_skip InputWatcher),
    iw_detect_hover := get_or (pref_bool prefs ''detect_hover'') (iw_detect_hover InputWatcher)\<rparr>"
  define add where "add = (\<lambda>(name, opened) s. case GetInputNumber P name of
      None \<Rightarrow> s | Some num \<Rightarrow> HandleAddedInput opened num s)"
  have s1: "iw_inv s1"
    using InputWatcher_inv
    by (simp add: s1_def iw_inv_def announced_ok_def in_order_def roles_ok_def slot_ok_def view_def InputWatcher_def)
  have "iw_inv (add x s)" if "iw_inv s" for x s
    using that HandleAddedInput_inv [OF that] by (cases x) (simp add: add_def split: option.split)
  then have files: "iw_inv (fold add files s)" if "iw_inv s" for files s
    using that by (induction files arbitrary: s) simp_all
  assume "iw_Init P prefs readable inputs InputWatcher = (ok, s)"
  moreover have "iw_Init P prefs readable inputs InputWatcher = (case inputs of None \<Rightarrow> (True, s1)
      | Some fs \<Rightarrow> if \<not> readable then (False, s1) else (True, fold add fs s1))"
    by (simp only: iw_Init_def Let_def s1_def add_def)
  ultimately show ?thesis using s1 files [OF s1] by (auto split: option.splits if_splits)
qed

text \<open>The queued events are sent when the pending task runs.\<close>

lemma task_flushes:
  assumes "iw_inv s"
  shows "announce (iw_reads s) = (iw_notified (iw_run_task s), view (iw_run_task s))"
proof (cases "iw_send_queued_events_task s")
  case True
  define s' where "s' = s\<lparr>iw_send_queued_events_task := False\<rparr>"
  have v: "view s' = view s" "slot_ok s' = slot_ok s" "iw_reads s' = iw_reads s"
    by (simp_all add: s'_def view_def slot_ok_def)
  have "in_order s'"
    using assms unfolding iw_inv_def announced_ok_def in_order_def v by (simp add: s'_def)
  from SendQueuedEvents_ok(3) [OF this] show ?thesis using True by (simp add: iw_run_task_def s'_def)
next
  case False
  with assms show ?thesis by (auto simp: iw_run_task_def iw_inv_def announced_ok_def in_order_def)
qed

lemma QueryLidState_result:
  assumes "iw_lid_device s = Some device" "read n = None" "\<forall>i < n. read i \<noteq> None"
  shows "map_option fst (iw_QueryLidState read s) = Some (lid_after (batches read 0 n) (iw_lid_state s))"
  using read_lid_events_returns [of read 0 n "GetDeviceTypes device s" s] assms
  by (simp add: iw_QueryLidState_def queue_lid_events_eq)


text \<open>A lid switch that closes; a query reads the event ahead, and the task announces it.\<close>

definition example_lid_switch :: event_device where
  "example_lid_switch = \<lparr>ed_GetPhysPath = ''PNP0C0D'',
     ed_event_bits = (\<lambda>type. if type = 0 then Some {EV_SW} else if type = EV_SW then Some {SW_LID} else None),
     ed_switch_bits = Some {}\<rparr>"

definition example_input_prefs :: prefs where
  "example_input_prefs = \<lparr>pref_string = (\<lambda>_. None), pref_int64 = (\<lambda>_. None), pref_bool = (\<lambda>_. None)\<rparr>"

definition example_lid_read :: "nat \<Rightarrow> input_event list option" where
  "example_lid_read n = (if n = 0 then Some [\<lparr>ev_type = EV_SW, ev_code = SW_LID, ev_value = 1\<rparr>] else None)"

definition example_watcher :: input_watcher where
  "example_watcher = snd (iw_Init (\<lambda>_. Some 0) example_input_prefs True
     (Some [(''event0'', Some example_lid_switch)]) InputWatcher)"

lemma example_watcher_lid: "iw_lid_device example_watcher = Some 0"
  by (simp add: example_watcher_def iw_Init_def example_input_prefs_def InputWatcher_def GetInputNumber_def
      starts_with_def HandleAddedInput_def example_lid_switch_def watch_hover_def watch_tablet_mode_def watch_lid_def
      watch_power_button_def IsPowerButton_def IsLidSwitch_def IsTabletModeSwitch_def HasEventBit_def Let_def)


end
