(* ===== verification/Spec2Isabelle.thy ===== *)
theory Spec2Isabelle
  imports State_Controller_Safety Suspender_Safety Prefs_Proofs Input_Events Input_Devices_Proofs
    Keyboard_Backlight_Proofs External_Backlight
    Panel_Backlight_Proofs Power_Supply_Proofs Daemon_Proofs Input_Watcher_Proofs
begin

text \<open>
  Verification of powerd, the power manager of Chromium OS (\<^verbatim>\<open>src/power_manager\<close>).

  \<^bold>\<open>The program.\<close> powerd is one process with an event loop. \<^verbatim>\<open>Daemon\<close> owns the other objects and
  connects them. \<^verbatim>\<open>InputWatcher\<close> reads input devices and announces lid, tablet mode, power
  button and hover events to \<^verbatim>\<open>InputEventHandler\<close>, which passes them to the daemon.
  \<^verbatim>\<open>PowerSupply\<close> polls the battery and line power. \<^verbatim>\<open>StateController\<close> decides from user
  activity, lid, power source, policy and preferences when to dim, turn the screen off, lock,
  suspend or shut down. \<^verbatim>\<open>Suspender\<close> runs a suspend request, waiting for other processes with
  \<^verbatim>\<open>SuspendDelayController\<close> and consulting \<^verbatim>\<open>DarkResume\<close>. The backlight controllers (panel,
  keyboard, external displays) follow what the daemon tells them and the ambient light.
  \<^verbatim>\<open>InputDeviceController\<close> inhibits devices and configures wakeups. \<^verbatim>\<open>Prefs\<close> stores preferences.

  \<^bold>\<open>Conventions.\<close> A class is a record, with the members of the class as fields under a prefix; a
  method is a function that takes the record and returns it updated. Calls to delegates and
  observers, D-Bus signals and writes to files are appended to a trace in the record. What other
  code answers (libchrome, the kernel, other processes) is a parameter, mostly a record
  \<open>..._env\<close>. Methods that are empty or only write to the log have no definition. Results of
  type \<open>option\<close>: \<open>None\<close> is a failed \<^verbatim>\<open>CHECK\<close>, a division by zero or a loop that does not end;
  theorems state that it does not occur, or exactly when. Times are \<open>int\<close> microseconds, read
  once per event unless an environment says otherwise; a timer is the optional delay it was
  started with, and its firing an event. Doubles are exact: \<open>rat\<close>, or \<open>real\<close> where the code
  takes powers; bytes, wakeup counts, bit fields of devices and slots are machine words. A
  \<^verbatim>\<open>std::map\<close> is a sorted association list. An event loop is \<open>run_events\<close> over a
  datatype of events.

  \<^bold>\<open>Theories.\<close>
  \<^item> \<open>Powerd_Prelude\<close>: time, preferences as read, ordered maps, \<open>run_events\<close>, and the locales of
    event machines: \<open>event_machine\<close> (an invariant), \<open>total_event_machine\<close> (handlers always
    return), \<open>guarded_machine\<close> (they return for the events that can occur) and
    \<open>refining_machine\<close> (an abstract state follows a specification). The step functions of the
    components interpret them.
  \<^item> \<open>State_Policy\<close>, \<open>State_Controller\<close> (\<^verbatim>\<open>policy/state_controller\<close>); \<open>State_Controller_Proofs\<close>,
    \<open>State_Controller_Settings\<close>, \<open>State_Controller_Safety\<close>: delays are sanitized and scaled
    correctly; the settings are always those derived from the inputs and the calls made follow
    them; idle and lid actions; the TPM and updater overrides; the action timer.
  \<^item> \<open>Suspend_Delays\<close>, \<open>Dark_Resume\<close>, \<open>Suspender\<close> (\<^verbatim>\<open>policy/suspend_delay_controller\<close>,
    \<^verbatim>\<open>system/dark_resume\<close>, \<^verbatim>\<open>policy/suspender\<close>) and their proofs: the protocol of a request,
    also when the delegate calls back; every handler returns; no request is stuck; a bounded
    number of retries; nothing after a shutdown; exact waiting for delays, durations of sleep and
    the decision to shut down.
  \<^item> \<open>Prefs_Store\<close>, \<open>Prefs_Proofs\<close> (\<^verbatim>\<open>common/prefs\<close>, \<^verbatim>\<open>common/fake_prefs\<close>): the store with its
    deferred writes refines a map, and the fake used by tests is equivalent to it.
  \<^item> \<open>Udev_Devices\<close>, \<open>Wakeup_Helpers\<close>, \<open>Input_Devices\<close>, \<open>Input_Devices_Proofs\<close>
    (\<^verbatim>\<open>system/udev\<close>, \<^verbatim>\<open>system/tagged_device\<close>, \<^verbatim>\<open>system/wakeup_controller\<close> and its helpers,
    \<^verbatim>\<open>policy/input_device_controller\<close>): inhibition and wakeup of devices follow the mode.
  \<^item> \<open>Input_Watcher\<close>, \<open>Input_Watcher_Proofs\<close>, \<open>Input_Events\<close> (\<^verbatim>\<open>system/event_device\<close>,
    \<^verbatim>\<open>system/input_watcher\<close>, \<^verbatim>\<open>policy/input_event_handler\<close>): every event read is announced
    once and in order; power button reports and acknowledgments.
  \<^item> \<open>Backlight_Common\<close>, \<open>Sysfs_Backlight\<close> (\<^verbatim>\<open>system/internal_backlight\<close>; the locale
    \<open>backlight_device\<close>), \<open>Ambient_Light\<close> (\<^verbatim>\<open>policy/ambient_light_handler\<close>), \<open>Displays\<close>
    (\<^verbatim>\<open>system/display\<close>): transitions end at their target; hysteresis.
  \<^item> \<open>Panel_Backlight\<close>, \<open>Keyboard_Backlight\<close>, \<open>External_Display\<close>, \<open>External_Backlight\<close> and their
    proofs (\<^verbatim>\<open>policy/internal_backlight_controller\<close>, \<^verbatim>\<open>policy/keyboard_backlight_controller\<close>,
    \<^verbatim>\<open>system/display/external_display\<close>, \<^verbatim>\<open>policy/external_backlight_controller\<close>): conversions of
    levels are inverse; device and displays follow the state of the system; the frames of
    DDC/CI and the delays between them.
  \<^item> \<open>Rolling_Average\<close>, \<open>Power_Supply\<close>, \<open>Power_Supply_Proofs\<close> (\<^verbatim>\<open>system/rolling_average\<close>,
    \<^verbatim>\<open>system/power_supply\<close>): averages are those of the window; every status is consistent; a
    low-battery verdict is justified.
  \<^item> \<open>Daemon\<close>, \<open>Daemon_Proofs\<close> (\<^verbatim>\<open>daemon\<close>): callbacks, D-Bus methods and signals, suspend and
    shutdown. Its events are the calls in the traces of the components above, and its own
    calls are their events. The system is shut down once and never during a firmware update.

  \<^bold>\<open>Loops.\<close> No model has fuel. Loops over data are structural recursion or folds; the wait for a
  firmware update and the comparison of port lists are functions with a termination proof. Loops
  that may run forever are partial functions: the suspender's queue of events (returns for every
  delegate that stops calling back), \<^verbatim>\<open>RollingAverage::AddSample()\<close> (exactly for a nonempty
  window) and \<^verbatim>\<open>InputWatcher::QueryLidState()\<close> (exactly if some read finds no more events).

  \<^bold>\<open>Not modelled.\<close> Rounding of doubles. Metrics, activity loggers and log text, on which no
  decision depends. The audio client, the ambient light sensor, the asynchronous file reader and
  the watcher of peripheral batteries, which only parse input; what they report is an event or
  an answer. The D-Bus and message loop layers. Of the daemon's setup, the creation of objects
  and the registration for signals. \<^verbatim>\<open>main\<close>, the setuid helper, scripts, tools, stubs and tests.
  The components are not composed into one state: each is verified for every sequence of events
  that its callers can send. The other programs of the repository are outside this development.
\<close>

end
